(* ===== verification/Prelude.thy ===== *)
theory Prelude
  imports Main "HOL-Library.Finite_Map" "HOL-Library.Word"
begin

text \<open>
  Prelude of the tekton-tasks-operator development: Go errors and the three ways a Go
  function can end (a value, an error, a panic), the combinators that thread a state
  through a sequence of fallible calls, Go's string maps with their nil value, and the
  functions of Go's \<open>strings\<close> and \<open>strconv\<close> packages that the operator calls.
\<close>

named_theorems outcome_simps \<open>evaluation of the outcome combinators\<close>
named_theorems outcome_elims \<open>inversion of the outcome combinators\<close>

section \<open>Errors\<close>

text \<open>
  The operator distinguishes errors by what \<open>k8s.io/apimachinery/pkg/api/errors\<close> finds in
  them: the reason and code of an API status, found through any number of wrappers
  (\<open>errors.As\<close>). Everything else about an error is its text.
\<close>

datatype error =
    StatusError string nat string \<comment> \<open>reason, HTTP code, message\<close>
  | NoMatchError string           \<comment> \<open>\<open>meta.NoKindMatchError\<close>: the API type does not exist\<close>
  | PlainError string             \<comment> \<open>\<open>errors.New\<close>, \<open>fmt.Errorf\<close>\<close>
  | WrapError string error        \<comment> \<open>\<open>errors.Wrapf\<close>: prefix and cause\<close>

definition known_reasons :: "string list" where
  "known_reasons =
     [''Unauthorized'', ''Forbidden'', ''NotFound'', ''AlreadyExists'', ''Conflict'', ''Gone'',
      ''Invalid'', ''ServerTimeout'', ''Timeout'', ''TooManyRequests'', ''BadRequest'',
      ''MethodNotAllowed'', ''NotAcceptable'', ''RequestEntityTooLarge'',
      ''UnsupportedMediaType'', ''InternalError'', ''Expired'', ''ServiceUnavailable'']"

fun error_message :: "error \<Rightarrow> string" where
  "error_message (StatusError r c m) = m"
| "error_message (NoMatchError m) = m"
| "error_message (PlainError m) = m"
| "error_message (WrapError m e) = m @ '': '' @ error_message e"

fun reason_and_code :: "error \<Rightarrow> string \<times> nat" where
  "reason_and_code (StatusError r c m) = (r, c)"
| "reason_and_code (NoMatchError m) = ('''', 0)"
| "reason_and_code (PlainError m) = ('''', 0)"
| "reason_and_code (WrapError m e) = reason_and_code e"

definition is_not_found :: "error \<Rightarrow> bool" where
  "is_not_found e = (case reason_and_code e of (reason, code) \<Rightarrow>
     reason = ''NotFound'' \<or> (reason \<notin> set known_reasons \<and> code = 404))"

definition is_conflict :: "error \<Rightarrow> bool" where
  "is_conflict e = (case reason_and_code e of (reason, code) \<Rightarrow>
     reason = ''Conflict'' \<or> (reason \<notin> set known_reasons \<and> code = 409))"

text \<open>\<open>meta.IsNoMatchError\<close> looks at the error itself, not through wrappers.\<close>

fun is_no_match :: "error \<Rightarrow> bool" where
  "is_no_match (NoMatchError m) = True"
| "is_no_match (StatusError r c m) = False"
| "is_no_match (PlainError m) = False"
| "is_no_match (WrapError m e) = False"

lemma is_not_found_simps [simp]:
  "is_not_found (StatusError ''NotFound'' c m)"
  "\<not> is_not_found (StatusError ''Conflict'' c m)"
  "\<not> is_not_found (StatusError ''AlreadyExists'' c m)"
  "\<not> is_not_found (StatusError ''Invalid'' c m)"
  "\<not> is_not_found (StatusError ''BadRequest'' c m)"
  "\<not> is_not_found (PlainError m)"
  "\<not> is_not_found (NoMatchError m)"
  "is_not_found (WrapError m e) = is_not_found e"
  by (simp_all add: is_not_found_def known_reasons_def)

lemma is_conflict_simps [simp]:
  "is_conflict (StatusError ''Conflict'' c m)"
  "\<not> is_conflict (StatusError ''NotFound'' c m)"
  "\<not> is_conflict (StatusError ''AlreadyExists'' c m)"
  "\<not> is_conflict (StatusError ''Invalid'' c m)"
  "\<not> is_conflict (StatusError ''BadRequest'' c m)"
  "\<not> is_conflict (PlainError m)"
  "\<not> is_conflict (NoMatchError m)"
  "is_conflict (WrapError m e) = is_conflict e"
  by (simp_all add: is_conflict_def known_reasons_def)

lemma not_found_not_conflict: "is_not_found e \<Longrightarrow> \<not> is_conflict e"
  by (auto simp: is_not_found_def is_conflict_def known_reasons_def split: prod.splits)

section \<open>Outcomes of Go calls\<close>

datatype 'a outcome = Ok 'a | Err error | Panic string

definition bind_outcome ::
  "'a outcome \<times> 's \<Rightarrow> ('a \<Rightarrow> 's \<Rightarrow> 'b outcome \<times> 's) \<Rightarrow> 'b outcome \<times> 's" where
  "bind_outcome r f = (case r of
       (Ok a, s) \<Rightarrow> f a s
     | (Err e, s) \<Rightarrow> (Err e, s)
     | (Panic p, s) \<Rightarrow> (Panic p, s))"

lemma bind_outcome_simps [simp, outcome_simps]:
  "bind_outcome (Ok a, s) f = f a s"
  "bind_outcome (Err e, s) f = (Err e, s)"
  "bind_outcome (Panic p, s) f = (Panic p, s)"
  by (simp_all add: bind_outcome_def)

lemma bind_outcome_Ok_iff [outcome_elims]:
  "bind_outcome r f = (Ok b, t) \<longleftrightarrow> (\<exists>a s. r = (Ok a, s) \<and> f a s = (Ok b, t))"
  by (auto simp: bind_outcome_def split: prod.splits outcome.splits)

lemma bind_outcome_cong [fundef_cong]:
  "r = r' \<Longrightarrow> (\<And>a s. r' = (Ok a, s) \<Longrightarrow> f a s = g a s) \<Longrightarrow> bind_outcome r f = bind_outcome r' g"
  by (auto simp: bind_outcome_def split: prod.splits outcome.splits)

text \<open>A client call answers with an error or a value; \<open>lift_result\<close> makes it an outcome.\<close>

definition lift_result :: "(error + 'a) \<times> 's \<Rightarrow> 'a outcome \<times> 's" where
  "lift_result r = (case r of (Inl e, s) \<Rightarrow> (Err e, s) | (Inr a, s) \<Rightarrow> (Ok a, s))"

lemma lift_result_simps [simp, outcome_simps]:
  "lift_result (Inl e, s) = (Err e, s)"
  "lift_result (Inr a, s) = (Ok a, s)"
  by (simp_all add: lift_result_def)

text \<open>
  A Go loop that calls a fallible function for each element, collects the results and
  leaves at the first error (or panic).
\<close>

fun collect_outcomes ::
  "('a \<Rightarrow> 's \<Rightarrow> 'b outcome \<times> 's) \<Rightarrow> 'a list \<Rightarrow> 's \<Rightarrow> 'b list outcome \<times> 's" where
  "collect_outcomes f [] s = (Ok [], s)"
| "collect_outcomes f (x # xs) s =
     bind_outcome (f x s) (\<lambda>y s'.
       bind_outcome (collect_outcomes f xs s') (\<lambda>ys s''. (Ok (y # ys), s'')))"

lemma collect_outcomes_length:
  "collect_outcomes f xs s = (Ok ys, t) \<Longrightarrow> length ys = length xs"
  by (induction xs arbitrary: s ys) (auto simp: bind_outcome_Ok_iff)

lemma collect_outcomes_append:
  "collect_outcomes f (xs @ ys) s =
     bind_outcome (collect_outcomes f xs s) (\<lambda>as s'.
       bind_outcome (collect_outcomes f ys s') (\<lambda>bs s''. (Ok (as @ bs), s'')))"
proof (induction xs arbitrary: s)
  case Nil
  show ?case by (auto simp: bind_outcome_def split: prod.splits outcome.splits)
next
  case (Cons x xs)
  show ?case
    by (auto simp: Cons.IH bind_outcome_def split: prod.splits outcome.splits)
qed

text \<open>An invariant of the state that every call keeps is kept by the loop, however it ends.\<close>

lemma collect_outcomes_invariant:
  assumes "\<And>x s r s'. x \<in> set xs \<Longrightarrow> I s \<Longrightarrow> f x s = (r, s') \<Longrightarrow> I s'"
    and "I s" and "collect_outcomes f xs s = (r, t)"
  shows "I t"
  using assms
proof (induction xs arbitrary: s r t)
  case Nil
  then show ?case by simp
next
  case (Cons x xs)
  obtain q u where fx: "f x s = (q, u)" by (cases "f x s")
  with Cons.prems(1)[of x s q u] Cons.prems(2) have u: "I u" by simp
  obtain q' v where rest: "collect_outcomes f xs u = (q', v)" by (cases "collect_outcomes f xs u")
  have v: "I v"
    by (rule Cons.IH [where s = u and r = q']) (use Cons.prems(1) u rest in auto)
  show ?case
    using Cons.prems(3) u v
    by (cases q; cases q') (auto simp: fx rest)
qed

section \<open>Go's \<open>map[string]string\<close>\<close>

text \<open>
  A Go map is nil (\<open>None\<close>) or a finite map. Reading a nil map is reading an empty one;
  writing to it panics, which the callers spell out.
\<close>

type_synonym smap = "(string, string) fmap option"

definition smap_get :: "smap \<Rightarrow> string \<Rightarrow> string option" where
  \<comment> \<open>\<open>v, ok := m[k]\<close>\<close>
  "smap_get m k = (case m of None \<Rightarrow> None | Some f \<Rightarrow> fmlookup f k)"

definition smap_index :: "smap \<Rightarrow> string \<Rightarrow> string" where
  \<comment> \<open>\<open>m[k]\<close>, the empty string for a missing key\<close>
  "smap_index m k = (case smap_get m k of None \<Rightarrow> '''' | Some v \<Rightarrow> v)"

definition smap_delete :: "smap \<Rightarrow> string \<Rightarrow> smap" where
  "smap_delete m k = map_option (fmdrop k) m"

text \<open>
  \<open>equality.Semantic.DeepEqual\<close> takes a nil and an empty map for equal, and the JSON of an
  object (\<open>omitempty\<close>) does not keep an empty map: both are \<open>smap_norm\<close>.
\<close>

definition smap_norm :: "smap \<Rightarrow> smap" where
  "smap_norm m = (case m of None \<Rightarrow> None
                  | Some f \<Rightarrow> (if fmdom f = {||} then None else Some f))"

lemma smap_get_simps [simp]:
  "smap_get None k = None" "smap_get (Some f) k = fmlookup f k"
  by (simp_all add: smap_get_def)

lemma smap_index_simps [simp]:
  "smap_index None k = ''''"
  "smap_index (Some f) k = (case fmlookup f k of None \<Rightarrow> '''' | Some v \<Rightarrow> v)"
  by (simp_all add: smap_index_def)

lemma smap_delete_simps [simp]:
  "smap_delete None k = None" "smap_delete (Some f) k = Some (fmdrop k f)"
  by (simp_all add: smap_delete_def)

lemma fmdom_empty_iff: "fmdom f = {||} \<longleftrightarrow> f = fmempty"
proof
  assume "fmdom f = {||}"
  then show "f = fmempty" by (intro fmap_ext) (simp add: fmdom_notD)
qed simp

lemma smap_norm_simps [simp]:
  "smap_norm None = None"
  "smap_norm (Some fmempty) = None"
  "smap_norm (Some (fmupd k v f)) = Some (fmupd k v f)"
  "f \<noteq> fmempty \<Longrightarrow> smap_norm (Some f) = Some f"
  by (simp_all add: smap_norm_def fmdom_empty_iff)

lemma smap_norm_idem [simp]: "smap_norm (smap_norm m) = smap_norm m"
  by (cases m) (auto simp: smap_norm_def)

lemma smap_get_norm [simp]: "smap_get (smap_norm m) k = smap_get m k"
  by (cases m) (auto simp: smap_norm_def fmdom_empty_iff)

lemma smap_index_norm [simp]: "smap_index (smap_norm m) k = smap_index m k"
  by (simp add: smap_index_def)

lemma smap_norm_eq_iff: "smap_norm m = smap_norm m' \<longleftrightarrow> (\<forall>k. smap_get m k = smap_get m' k)"
proof
  assume "smap_norm m = smap_norm m'"
  then show "\<forall>k. smap_get m k = smap_get m' k" by (metis smap_get_norm)
next
  assume eq: "\<forall>k. smap_get m k = smap_get m' k"
  have none: "smap_norm m'' = None" if "\<forall>k. smap_get m'' k = None" for m''
    using that fmap_ext [of _ fmempty] by (cases m'') (auto simp: smap_norm_def fmdom_empty_iff)
  show "smap_norm m = smap_norm m'"
  proof (cases m)
    case None
    with eq none [of m'] show ?thesis by simp
  next
    case (Some f)
    note f = this
    show ?thesis
    proof (cases m')
      case None
      with eq f none [of m] show ?thesis by simp
    next
      case (Some f')
      with eq f have "f = f'" by (intro fmap_ext) simp
      with f Some show ?thesis by simp
    qed
  qed
qed

text \<open>
  The loop of \<open>updateStringMap\<close> over \<open>expected\<close> writes every entry into \<open>found\<close>; the order
  of the iteration does not matter, because the keys are distinct.
\<close>

lemma fmadd_absorb: "(\<And>k v. fmlookup e k = Some v \<Longrightarrow> fmlookup f k = Some v) \<Longrightarrow> fmadd f e = f"
  by (intro fmap_ext) (force simp: fmlookup_dom_iff)

lemma fmadd_idem_right [simp]: "fmadd (fmadd f e) e = fmadd f e"
  by (rule fmadd_absorb) (auto intro: fmdomI)

section \<open>Go's string functions\<close>

definition has_prefix :: "string \<Rightarrow> string \<Rightarrow> bool" where
  "has_prefix s p = (take (length p) s = p)"

definition has_suffix :: "string \<Rightarrow> string \<Rightarrow> bool" where
  "has_suffix s p = (length p \<le> length s \<and> drop (length s - length p) s = p)"

definition trim_suffix :: "string \<Rightarrow> string \<Rightarrow> string" where
  "trim_suffix s p = (if has_suffix s p then take (length s - length p) s else s)"

lemma has_prefix_append [simp]: "has_prefix (p @ s) p"
  by (simp add: has_prefix_def)

lemma has_suffix_append [simp]: "has_suffix (s @ p) p"
  by (simp add: has_suffix_def)

lemma trim_suffix_append [simp]: "trim_suffix (s @ p) p = s"
  by (simp add: trim_suffix_def)

lemma has_suffix_iff: "has_suffix s p \<longleftrightarrow> (\<exists>q. s = q @ p)"
  by (metis append_take_drop_id has_suffix_append has_suffix_def)

lemma trim_suffix_cases:
  "(has_suffix s p \<and> s = trim_suffix s p @ p) \<or> (\<not> has_suffix s p \<and> trim_suffix s p = s)"
  by (auto simp: has_suffix_iff trim_suffix_def)

text \<open>\<open>strconv.ParseBool\<close>: \<open>None\<close> is its syntax error.\<close>

definition parse_bool :: "string \<Rightarrow> bool option" where
  "parse_bool s =
     (if s \<in> set [''1'', ''t'', ''T'', ''true'', ''TRUE'', ''True''] then Some True
      else if s \<in> set [''0'', ''f'', ''F'', ''false'', ''FALSE'', ''False''] then Some False
      else None)"

text \<open>Decimal numbers: \<open>strconv.FormatUint\<close> (also \<open>%d\<close>) and \<open>strconv.ParseUint(s, 10, 64)\<close>.\<close>

definition digit_char :: "nat \<Rightarrow> char" where
  "digit_char d = char_of (48 + d)"

fun format_uint :: "nat \<Rightarrow> string" where
  "format_uint n = (if n < 10 then [digit_char n]
                    else format_uint (n div 10) @ [digit_char (n mod 10)])"

declare format_uint.simps [simp del]

definition is_digit :: "char \<Rightarrow> bool" where
  "is_digit c = (48 \<le> (of_char c :: nat) \<and> (of_char c :: nat) \<le> 57)"

definition digits_value :: "string \<Rightarrow> nat" where
  "digits_value s = foldl (\<lambda>n c. n * 10 + (of_char c - 48)) 0 s"

definition parse_uint :: "string \<Rightarrow> nat option" where
  "parse_uint s = (if s \<noteq> [] \<and> list_all is_digit s \<and> digits_value s < 2 ^ 64
                   then Some (digits_value s) else None)"

lemma is_digit_digit_char: "d < 10 \<Longrightarrow> is_digit (digit_char d)"
  by (simp add: digit_char_def is_digit_def)

lemma of_char_digit: "d < 10 \<Longrightarrow> (of_char (digit_char d) :: nat) = 48 + d"
  by (simp add: digit_char_def)

lemma format_uint_digits: "list_all is_digit (format_uint n)"
proof (induction n rule: format_uint.induct)
  case (1 n)
  then show ?case
    by (subst format_uint.simps) (auto simp: is_digit_digit_char)
qed

lemma format_uint_nonempty [simp]: "format_uint n \<noteq> []"
  by (subst format_uint.simps) simp

lemma digits_value_format: "digits_value (format_uint n) = n"
proof (induction n rule: format_uint.induct)
  case (1 n)
  then show ?case
    by (subst format_uint.simps) (auto simp: digits_value_def of_char_digit)
qed

lemma parse_format_uint: "n < 2 ^ 64 \<Longrightarrow> parse_uint (format_uint n) = Some n"
  by (simp add: parse_uint_def format_uint_digits digits_value_format)

lemma format_uint_inj: "format_uint m = format_uint n \<Longrightarrow> m = n"
  by (metis digits_value_format)

text \<open>\<open>%q\<close> for the printable strings that name Kubernetes objects.\<close>

definition go_quote :: "string \<Rightarrow> string" where
  "go_quote s = CHR 0x22 # concat (map (\<lambda>c. if c = CHR 0x22 \<or> c = CHR 0x5C then [CHR 0x5C, c] else [c]) s)
                 @ [CHR 0x22]"

end
