(* ===== verification/Environment.thy ===== *)
theory Environment
  imports Prelude
begin

text \<open>
  The operator's environment variables (\<open>pkg/environment/environment.go\<close>,
  \<open>pkg/operands/version.go\<close>): which image and which version the operator uses. The process
  environment is a map from names to values, read by every function here and written by
  none.
\<close>

type_synonym environ = "string \<rightharpoonup> string"

definition TektonTasksVersion :: string where
  "TektonTasksVersion = ''v0.14.0''"

definition getenv :: "environ \<Rightarrow> string \<Rightarrow> string" where
  \<comment> \<open>\<open>os.Getenv\<close>: an unset variable reads as the empty string\<close>
  "getenv env k = (case env k of None \<Rightarrow> '''' | Some v \<Rightarrow> v)"

definition OperatorVersionKey :: string where "OperatorVersionKey = ''OPERATOR_VERSION''"
definition OperatorNamespaceKey :: string where "OperatorNamespaceKey = ''OPERATOR_NAMESPACE''"
definition CleanupVMImageKey :: string where "CleanupVMImageKey = ''CLEANUP_VM_IMG''"
definition CopyTemplateImageKey :: string where "CopyTemplateImageKey = ''COPY_TEMPLATE_IMG''"
definition ModifyDataObjectImageKey :: string where
  "ModifyDataObjectImageKey = ''MODIFY_DATA_OBJECT_IMG''"
definition CreateVMImageKey :: string where "CreateVMImageKey = ''CREATE_VM_IMG''"
definition DiskVirtCustomizeImageKey :: string where
  "DiskVirtCustomizeImageKey = ''DISK_VIRT_CUSTOMIZE_IMG''"
definition DiskVirtSysprepImageKey :: string where
  "DiskVirtSysprepImageKey = ''DISK_VIRT_SYSPREP_IMG''"
definition ModifyVMTemplateImageKey :: string where
  "ModifyVMTemplateImageKey = ''MODIFY_VM_TEMPLATE_IMG''"
definition WaitForVMISTatusImageKey :: string where
  "WaitForVMISTatusImageKey = ''WAIT_FOR_VMI_STATUS_IMG''"
definition VirtioImageKey :: string where "VirtioImageKey = ''VIRTIO_IMG''"
definition GenerateSSHKeysImageKey :: string where
  "GenerateSSHKeysImageKey = ''GENERATE_SSH_KEYS_IMG''"

definition DefaultWaitForVMIStatusIMG :: string where
  "DefaultWaitForVMIStatusIMG =
     ''quay.io/kubevirt/tekton-task-wait-for-vmi-status:'' @ TektonTasksVersion"
definition DeafultModifyVMTemplateIMG :: string where
  "DeafultModifyVMTemplateIMG =
     ''quay.io/kubevirt/tekton-task-modify-vm-template:'' @ TektonTasksVersion"
definition DeafultDiskVirtSysprepIMG :: string where
  "DeafultDiskVirtSysprepIMG =
     ''quay.io/kubevirt/tekton-task-disk-virt-sysprep:'' @ TektonTasksVersion"
definition DeafultDiskVirtCustomizeIMG :: string where
  "DeafultDiskVirtCustomizeIMG =
     ''quay.io/kubevirt/tekton-task-disk-virt-customize:'' @ TektonTasksVersion"
definition DeafultCreateVMIMG :: string where
  "DeafultCreateVMIMG = ''quay.io/kubevirt/tekton-task-create-vm:'' @ TektonTasksVersion"
definition DeafultModifyDataObjectIMG :: string where
  "DeafultModifyDataObjectIMG =
     ''quay.io/kubevirt/tekton-task-modify-data-object:'' @ TektonTasksVersion"
definition DeafultCopyTemplateIMG :: string where
  "DeafultCopyTemplateIMG =
     ''quay.io/kubevirt/tekton-task-copy-template:'' @ TektonTasksVersion"
definition DeafultCleanupVMIMG :: string where
  "DeafultCleanupVMIMG =
     ''quay.io/kubevirt/tekton-task-execute-in-vm:'' @ TektonTasksVersion"
definition GenerateSSHKeysIMG :: string where
  "GenerateSSHKeysIMG =
     ''quay.io/kubevirt/tekton-task-generate-ssh-keys:'' @ TektonTasksVersion"
definition DefaultVirtioIMG :: string where
  "DefaultVirtioIMG = ''quay.io/kubevirt/virtio-container-disk:v0.59.0''"

definition defaultOperatorVersion :: string where "defaultOperatorVersion = ''devel''"

definition EnvOrDefault :: "environ \<Rightarrow> string \<Rightarrow> string \<Rightarrow> string" where
  "EnvOrDefault env envName defVal =
     (let val = getenv env envName in if val = '''' then defVal else val)"

definition GetSSHKeysStatusImage :: "environ \<Rightarrow> string" where
  "GetSSHKeysStatusImage env = EnvOrDefault env GenerateSSHKeysImageKey GenerateSSHKeysIMG"

definition GetWaitForVMIStatusImage :: "environ \<Rightarrow> string" where
  "GetWaitForVMIStatusImage env =
     EnvOrDefault env WaitForVMISTatusImageKey DefaultWaitForVMIStatusIMG"

definition GetModifyVMTemplateImage :: "environ \<Rightarrow> string" where
  "GetModifyVMTemplateImage env =
     EnvOrDefault env ModifyVMTemplateImageKey DeafultModifyVMTemplateIMG"

definition GetDiskVirtSysprepImage :: "environ \<Rightarrow> string" where
  "GetDiskVirtSysprepImage env =
     EnvOrDefault env DiskVirtSysprepImageKey DeafultDiskVirtSysprepIMG"

definition GetDiskVirtCustomizeImage :: "environ \<Rightarrow> string" where
  "GetDiskVirtCustomizeImage env =
     EnvOrDefault env DiskVirtCustomizeImageKey DeafultDiskVirtCustomizeIMG"

definition GetCreateVMImage :: "environ \<Rightarrow> string" where
  "GetCreateVMImage env = EnvOrDefault env CreateVMImageKey DeafultCreateVMIMG"

definition GetModifyDataObjectImage :: "environ \<Rightarrow> string" where
  "GetModifyDataObjectImage env =
     EnvOrDefault env ModifyDataObjectImageKey DeafultModifyDataObjectIMG"

definition GetCopyTemplateImage :: "environ \<Rightarrow> string" where
  "GetCopyTemplateImage env = EnvOrDefault env CopyTemplateImageKey DeafultCopyTemplateIMG"

definition GetCleanupVMImage :: "environ \<Rightarrow> string" where
  "GetCleanupVMImage env = EnvOrDefault env CleanupVMImageKey DeafultCleanupVMIMG"

definition GetVirtioImage :: "environ \<Rightarrow> string" where
  "GetVirtioImage env = EnvOrDefault env VirtioImageKey DefaultVirtioIMG"

definition GetOperatorNamespace :: "environ \<Rightarrow> string" where
  "GetOperatorNamespace env = EnvOrDefault env OperatorNamespaceKey ''kubevirt''"

text \<open>
  Looking a duration up. \<open>time.ParseDuration\<close>, whose fractions are computed in floating point, is a
  parameter; a duration is its number of nanoseconds.
\<close>

definition LookupAsDuration :: "(string \<Rightarrow> error + 64 word) \<Rightarrow> environ \<Rightarrow> string \<Rightarrow> error + 64 word" where
  "LookupAsDuration ParseDuration env varName =
     (case env varName of
        None \<Rightarrow> Inl (PlainError (''Failed to load '' @ varName @ '' from environment''))
      | Some varValue \<Rightarrow>
          (case ParseDuration varValue of
             Inl err \<Rightarrow> Inl (WrapError (''Failed to convert '' @ varName @ '' value to time.Duration'') err)
           | Inr duration \<Rightarrow> Inr duration))"

definition GetOperatorVersion :: "environ \<Rightarrow> string" where
  "GetOperatorVersion env = EnvOrDefault env OperatorVersionKey defaultOperatorVersion"

lemma EnvOrDefault_nonempty: "d \<noteq> '''' \<Longrightarrow> EnvOrDefault env k d \<noteq> ''''"
  by (simp add: EnvOrDefault_def Let_def)

lemma GetOperatorVersion_nonempty [simp]: "GetOperatorVersion env \<noteq> ''''"
  by (simp add: GetOperatorVersion_def EnvOrDefault_nonempty defaultOperatorVersion_def)

text \<open>An empty variable is like an unset one for images and versions, but not for durations.\<close>

lemma EnvOrDefault_empty: "EnvOrDefault (env(k \<mapsto> '''')) k d = EnvOrDefault (env(k := None)) k d"
  by (simp add: EnvOrDefault_def getenv_def)

lemma LookupAsDuration_empty: "LookupAsDuration pd (env(k \<mapsto> '''')) k = map_sum (WrapError (''Failed to convert '' @ k @ '' value to time.Duration'')) id (pd '''')"
  by (simp add: LookupAsDuration_def split: sum.split)

end
