(* ===== verification/Kube_Objects.thy ===== *)
theory Kube_Objects
  imports Environment
begin

text \<open>
  The Kubernetes objects the operator handles, and its own API
  (\<open>api/v1alpha1/tektontasks_types.go\<close>). An object is its type meta, its object meta and the
  part that depends on its Go type; fields that no code of the operator reads are carried
  along unopened, as the text of their serialised form (the \<open>_rest\<close> fields).
\<close>

type_synonym int64 = "64 word"
type_synonym time = int \<comment> \<open>an instant; \<open>0\<close> is Go's zero \<open>time.Time\<close>\<close>

section \<open>Object meta\<close>

record owner_reference =
  or_apiVersion :: string
  or_kind :: string
  or_name :: string
  or_uid :: string
  or_controller :: "bool option"
  or_blockOwnerDeletion :: "bool option"

text \<open>
  A nil and an empty slice are both the empty list: no code of the operator tells them
  apart but \<open>reflect.DeepEqual\<close> of the finalizers of two objects decoded from JSON, which
  never holds an empty non-nil slice (\<open>omitempty\<close>).
\<close>

record object_meta =
  m_name :: string
  m_namespace :: string
  m_uid :: string
  m_resourceVersion :: string
  m_generation :: int64
  m_deletionTimestamp :: "time option"
  m_labels :: smap
  m_annotations :: smap
  m_ownerReferences :: "owner_reference list"
  m_finalizers :: "string list"

definition empty_meta :: object_meta where
  "empty_meta = \<lparr>m_name = '''', m_namespace = '''', m_uid = '''', m_resourceVersion = '''',
     m_generation = 0, m_deletionTimestamp = None, m_labels = None, m_annotations = None,
     m_ownerReferences = [], m_finalizers = []\<rparr>"

text \<open>\<open>GetDeletionTimestamp().IsZero()\<close>: nil or the zero time.\<close>

definition time_is_zero :: "time option \<Rightarrow> bool" where
  "time_is_zero t = (case t of None \<Rightarrow> True | Some x \<Rightarrow> x = 0)"

lemma time_is_zero_simps [simp]: "time_is_zero None" "time_is_zero (Some t) = (t = 0)"
  by (simp_all add: time_is_zero_def)

type_synonym object_key = "string \<times> string" \<comment> \<open>namespace, name\<close>

section \<open>Type-dependent parts\<close>

record step =
  step_name :: string
  step_image :: string
  step_rest :: string

record task_spec =
  ts_steps :: "step list"
  ts_rest :: string

record array_or_string =
  aos_type :: string
  aos_stringVal :: string
  aos_arrayVal :: "string list"

record param_spec =
  ps_name :: string
  ps_default :: "array_or_string option"
  ps_rest :: string

record pipeline_spec =
  pl_params :: "param_spec list"
  pl_rest :: string

record role_ref =
  rr_apiGroup :: string
  rr_kind :: string
  rr_name :: string

record subject =
  sj_kind :: string
  sj_apiGroup :: string
  sj_name :: string
  sj_namespace :: string

record policy_rule =
  pr_verbs :: "string list"
  pr_apiGroups :: "string list"
  pr_resources :: "string list"
  pr_resourceNames :: "string list"
  pr_nonResourceURLs :: "string list"

datatype body =
    TaskBody task_spec
  | ClusterTaskBody task_spec
  | PipelineBody pipeline_spec
  | ServiceAccountBody string
  | RoleBindingBody role_ref "subject list"
  | ClusterRoleBody "policy_rule list" string
  | ConfigMapBody smap string

text \<open>The Go types behind \<open>client.Object\<close>, and their kind and API version in the scheme.\<close>

datatype rtype = Task | ClusterTask | Pipeline | ServiceAccount | RoleBinding | ClusterRole
  | ConfigMap

fun body_rtype :: "body \<Rightarrow> rtype" where
  "body_rtype (TaskBody s) = Task"
| "body_rtype (ClusterTaskBody s) = ClusterTask"
| "body_rtype (PipelineBody s) = Pipeline"
| "body_rtype (ServiceAccountBody s) = ServiceAccount"
| "body_rtype (RoleBindingBody r s) = RoleBinding"
| "body_rtype (ClusterRoleBody r s) = ClusterRole"
| "body_rtype (ConfigMapBody d s) = ConfigMap"

fun rtype_kind :: "rtype \<Rightarrow> string" where
  "rtype_kind Task = ''Task''"
| "rtype_kind ClusterTask = ''ClusterTask''"
| "rtype_kind Pipeline = ''Pipeline''"
| "rtype_kind ServiceAccount = ''ServiceAccount''"
| "rtype_kind RoleBinding = ''RoleBinding''"
| "rtype_kind ClusterRole = ''ClusterRole''"
| "rtype_kind ConfigMap = ''ConfigMap''"

fun rtype_apiVersion :: "rtype \<Rightarrow> string" where
  "rtype_apiVersion Task = ''tekton.dev/v1beta1''"
| "rtype_apiVersion ClusterTask = ''tekton.dev/v1beta1''"
| "rtype_apiVersion Pipeline = ''tekton.dev/v1beta1''"
| "rtype_apiVersion ServiceAccount = ''v1''"
| "rtype_apiVersion RoleBinding = ''rbac.authorization.k8s.io/v1''"
| "rtype_apiVersion ClusterRole = ''rbac.authorization.k8s.io/v1''"
| "rtype_apiVersion ConfigMap = ''v1''"

text \<open>The zero value of each Go type's own part.\<close>

fun empty_body :: "rtype \<Rightarrow> body" where
  "empty_body Task = TaskBody \<lparr>ts_steps = [], ts_rest = ''''\<rparr>"
| "empty_body ClusterTask = ClusterTaskBody \<lparr>ts_steps = [], ts_rest = ''''\<rparr>"
| "empty_body Pipeline = PipelineBody \<lparr>pl_params = [], pl_rest = ''''\<rparr>"
| "empty_body ServiceAccount = ServiceAccountBody ''''"
| "empty_body RoleBinding =
     RoleBindingBody \<lparr>rr_apiGroup = '''', rr_kind = '''', rr_name = ''''\<rparr> []"
| "empty_body ClusterRole = ClusterRoleBody [] ''''"
| "empty_body ConfigMap = ConfigMapBody None ''''"

lemma body_rtype_empty_body [simp]: "body_rtype (empty_body t) = t"
  by (cases t) simp_all

lemma rtype_kind_nonempty [simp]: "rtype_kind t \<noteq> ''''"
  by (cases t) simp_all

lemma rtype_kind_inj [simp]: "rtype_kind t = rtype_kind t' \<longleftrightarrow> t = t'"
  by (cases t; cases t') simp_all

record object =
  o_kind :: string
  o_apiVersion :: string
  o_meta :: object_meta
  o_body :: body

definition o_rtype :: "object \<Rightarrow> rtype" where
  "o_rtype o' = body_rtype (o_body o')"

definition object_key_of :: "object \<Rightarrow> object_key" where
  \<comment> \<open>\<open>client.ObjectKeyFromObject\<close>\<close>
  "object_key_of o' = (m_namespace (o_meta o'), m_name (o_meta o'))"

definition upd_meta :: "(object_meta \<Rightarrow> object_meta) \<Rightarrow> object \<Rightarrow> object" where
  "upd_meta f o' = o'\<lparr>o_meta := f (o_meta o')\<rparr>"

lemma upd_meta_simps [simp]:
  "o_meta (upd_meta f x) = f (o_meta x)"
  "o_kind (upd_meta f x) = o_kind x"
  "o_apiVersion (upd_meta f x) = o_apiVersion x"
  "o_body (upd_meta f x) = o_body x"
  "o_rtype (upd_meta f x) = o_rtype x"
  by (simp_all add: upd_meta_def o_rtype_def)

lemma o_rtype_body_upd [simp]: "o_rtype (x\<lparr>o_body := b\<rparr>) = body_rtype b"
  by (simp add: o_rtype_def)

lemma o_rtype_meta_upd [simp]: "o_rtype (x\<lparr>o_meta := m\<rparr>) = o_rtype x"
  by (simp add: o_rtype_def)

section \<open>Semantic equality and the JSON form\<close>

text \<open>
  \<open>equality.Semantic.DeepEqual\<close> on two objects: structural, but for nil against empty maps
  and for times, which are compared as instants. A JSON round trip (\<open>omitempty\<close>) drops empty
  maps and a zero deletion timestamp.
\<close>

fun body_norm :: "body \<Rightarrow> body" where
  "body_norm (ConfigMapBody d r) = ConfigMapBody (smap_norm d) r"
| "body_norm (TaskBody s) = TaskBody s"
| "body_norm (ClusterTaskBody s) = ClusterTaskBody s"
| "body_norm (PipelineBody s) = PipelineBody s"
| "body_norm (ServiceAccountBody s) = ServiceAccountBody s"
| "body_norm (RoleBindingBody r s) = RoleBindingBody r s"
| "body_norm (ClusterRoleBody r s) = ClusterRoleBody r s"

definition meta_norm :: "object_meta \<Rightarrow> object_meta" where
  "meta_norm m = m\<lparr>m_labels := smap_norm (m_labels m), m_annotations := smap_norm (m_annotations m)\<rparr>"

definition object_norm :: "object \<Rightarrow> object" where
  "object_norm x = x\<lparr>o_meta := meta_norm (o_meta x), o_body := body_norm (o_body x)\<rparr>"

definition semantic_deep_equal :: "object \<Rightarrow> object \<Rightarrow> bool" where
  "semantic_deep_equal a b = (object_norm a = object_norm b)"

definition meta_json :: "object_meta \<Rightarrow> object_meta" where
  "meta_json m = (meta_norm m)\<lparr>m_deletionTimestamp :=
     (if time_is_zero (m_deletionTimestamp m) then None else m_deletionTimestamp m)\<rparr>"

definition object_json :: "object \<Rightarrow> object" where
  "object_json x = x\<lparr>o_meta := meta_json (o_meta x), o_body := body_norm (o_body x)\<rparr>"

lemma body_norm_idem [simp]: "body_norm (body_norm b) = body_norm b"
  by (cases b) simp_all

lemma body_rtype_norm [simp]: "body_rtype (body_norm b) = body_rtype b"
  by (cases b) simp_all

lemma meta_norm_idem [simp]: "meta_norm (meta_norm m) = meta_norm m"
  by (simp add: meta_norm_def)

lemma meta_norm_simps [simp]:
  "m_name (meta_norm m) = m_name m" "m_namespace (meta_norm m) = m_namespace m"
  "m_uid (meta_norm m) = m_uid m" "m_resourceVersion (meta_norm m) = m_resourceVersion m"
  "m_generation (meta_norm m) = m_generation m"
  "m_deletionTimestamp (meta_norm m) = m_deletionTimestamp m"
  "m_labels (meta_norm m) = smap_norm (m_labels m)"
  "m_annotations (meta_norm m) = smap_norm (m_annotations m)"
  "m_ownerReferences (meta_norm m) = m_ownerReferences m"
  "m_finalizers (meta_norm m) = m_finalizers m"
  by (simp_all add: meta_norm_def)

lemma meta_json_simps [simp]:
  "m_name (meta_json m) = m_name m" "m_namespace (meta_json m) = m_namespace m"
  "m_uid (meta_json m) = m_uid m" "m_resourceVersion (meta_json m) = m_resourceVersion m"
  "m_generation (meta_json m) = m_generation m"
  "m_labels (meta_json m) = smap_norm (m_labels m)"
  "m_annotations (meta_json m) = smap_norm (m_annotations m)"
  "m_ownerReferences (meta_json m) = m_ownerReferences m"
  "m_finalizers (meta_json m) = m_finalizers m"
  "time_is_zero (m_deletionTimestamp (meta_json m)) = time_is_zero (m_deletionTimestamp m)"
  by (simp_all add: meta_json_def)

lemma object_norm_simps [simp]:
  "o_kind (object_norm x) = o_kind x" "o_apiVersion (object_norm x) = o_apiVersion x"
  "o_meta (object_norm x) = meta_norm (o_meta x)" "o_body (object_norm x) = body_norm (o_body x)"
  "o_rtype (object_norm x) = o_rtype x" "object_norm (object_norm x) = object_norm x"
  by (simp_all add: object_norm_def o_rtype_def)

lemma object_json_simps [simp]:
  "o_kind (object_json x) = o_kind x" "o_apiVersion (object_json x) = o_apiVersion x"
  "o_meta (object_json x) = meta_json (o_meta x)" "o_body (object_json x) = body_norm (o_body x)"
  "o_rtype (object_json x) = o_rtype x"
  by (simp_all add: object_json_def o_rtype_def)

lemma semantic_deep_equal_refl [simp]: "semantic_deep_equal a a"
  by (simp add: semantic_deep_equal_def)

end
