(* ===== verification/Tekton_Api.thy ===== *)
theory Tekton_Api
  imports Kube_Objects
begin

text \<open>
  The operator's own resource (\<open>api/v1alpha1/tektontasks_types.go\<close>,
  \<open>api/v1alpha1/groupversion_info.go\<close>) and the status it embeds
  (\<open>lifecycleapi.Status\<close>, \<open>conditionsv1.Condition\<close>).
\<close>

definition OperatorPausedAnnotation :: string where
  "OperatorPausedAnnotation = ''kubevirt.io/operator.paused''"

definition GroupVersion_Group :: string where
  "GroupVersion_Group = ''tektontasks.kubevirt.io''"
definition GroupVersion_Version :: string where
  "GroupVersion_Version = ''v1alpha1''"

text \<open>Phases and condition types: the named constants, and any other text a stored object may hold.\<close>

datatype phase = PhaseEmpty | PhaseDeploying | PhaseDeployed | PhaseDeleting | PhaseDeleted
  | PhaseError | PhaseUpgrading | PhaseOther string

datatype condition_type = ConditionAvailable | ConditionProgressing | ConditionDegraded
  | ConditionUpgradeable | ConditionOther string

datatype condition_status = ConditionTrue | ConditionFalse | ConditionUnknown
  | StatusOther string

record condition =
  c_Type :: condition_type
  c_Status :: condition_status
  c_Reason :: string
  c_Message :: string
  c_LastHeartbeatTime :: time
  c_LastTransitionTime :: time

record FeatureGates =
  DeployTektonTaskResources :: bool

record Pipelines =
  Pipelines_Namespace :: string

record Tasks =
  Tasks_Namespace :: string

record TektonTasksSpec =
  Spec_Pipelines :: Pipelines
  Spec_Tasks :: "Tasks option" \<comment> \<open>a pointer in the code; \<open>None\<close> is nil\<close>
  Spec_FeatureGates :: FeatureGates

record TektonTasksStatus =
  Phase :: phase
  Conditions :: "condition list"
  OperatorVersion :: string
  TargetVersion :: string
  ObservedVersion :: string
  Paused :: bool
  ObservedGeneration :: int64

record TektonTasks =
  tt_kind :: string
  tt_apiVersion :: string
  tt_meta :: object_meta
  Spec :: TektonTasksSpec
  Status :: TektonTasksStatus

definition empty_spec :: TektonTasksSpec where
  "empty_spec = \<lparr>Spec_Pipelines = \<lparr>Pipelines_Namespace = ''''\<rparr>, Spec_Tasks = None,
     Spec_FeatureGates = \<lparr>DeployTektonTaskResources = False\<rparr>\<rparr>"

definition empty_status :: TektonTasksStatus where
  "empty_status = \<lparr>Phase = PhaseEmpty, Conditions = [], OperatorVersion = '''',
     TargetVersion = '''', ObservedVersion = '''', Paused = False, ObservedGeneration = 0\<rparr>"

definition tt_key :: "TektonTasks \<Rightarrow> object_key" where
  "tt_key t = (m_namespace (tt_meta t), m_name (tt_meta t))"

definition upd_status :: "(TektonTasksStatus \<Rightarrow> TektonTasksStatus) \<Rightarrow> TektonTasks \<Rightarrow> TektonTasks" where
  "upd_status f t = t\<lparr>Status := f (Status t)\<rparr>"

lemma upd_status_simps [simp]:
  "Status (upd_status f t) = f (Status t)" "Spec (upd_status f t) = Spec t"
  "tt_meta (upd_status f t) = tt_meta t" "tt_kind (upd_status f t) = tt_kind t"
  "tt_apiVersion (upd_status f t) = tt_apiVersion t" "tt_key (upd_status f t) = tt_key t"
  "upd_status f (upd_status g t) = upd_status (\<lambda>s. f (g s)) t"
  by (simp_all add: upd_status_def tt_key_def)

end
