(* ===== verification/Kube_Helpers.thy ===== *)
theory Kube_Helpers
  imports Tekton_Api
begin

text \<open>
  The functions of the vendored Kubernetes libraries whose results the operator's decisions
  rest on, translated from \<open>vendor/\<close>: status conditions
  (\<open>openshift/custom-resource-status\<close>), finalizers and controller references
  (\<open>controller-runtime/pkg/controller/controllerutil\<close>), and the owner annotations of
  \<open>operator-framework/operator-lib\<close>.
\<close>

section \<open>Status conditions\<close>

text \<open>
  \<open>FindStatusCondition\<close> returns a pointer to the first condition of the type: here its index.
  The two reads of the clock in one call of \<open>SetStatusCondition\<close> are one instant \<open>now\<close>; no
  code of the operator reads the timestamps.
\<close>

fun FindStatusCondition :: "condition list \<Rightarrow> condition_type \<Rightarrow> nat option" where
  "FindStatusCondition [] ty = None"
| "FindStatusCondition (c # cs) ty =
     (if c_Type c = ty then Some 0 else map_option Suc (FindStatusCondition cs ty))"

definition SetStatusCondition :: "time \<Rightarrow> condition list \<Rightarrow> condition \<Rightarrow> condition list" where
  "SetStatusCondition now conds newc =
     (case FindStatusCondition conds (c_Type newc) of
        None \<Rightarrow> conds @ [newc\<lparr>c_LastTransitionTime := now, c_LastHeartbeatTime := now\<rparr>]
      | Some i \<Rightarrow>
          (let ex = conds ! i;
               ex = (if c_Status ex \<noteq> c_Status newc
                     then ex\<lparr>c_Status := c_Status newc, c_LastTransitionTime := now\<rparr> else ex)
           in conds[i := ex\<lparr>c_Reason := c_Reason newc, c_Message := c_Message newc,
                            c_LastHeartbeatTime := now\<rparr>]))"

fun IsStatusConditionPresentAndEqual ::
  "condition list \<Rightarrow> condition_type \<Rightarrow> condition_status \<Rightarrow> bool" where
  "IsStatusConditionPresentAndEqual [] ty st = False"
| "IsStatusConditionPresentAndEqual (c # cs) ty st =
     (if c_Type c = ty then c_Status c = st else IsStatusConditionPresentAndEqual cs ty st)"

definition mk_condition :: "condition_type \<Rightarrow> condition_status \<Rightarrow> string \<Rightarrow> string \<Rightarrow> condition" where
  \<comment> \<open>a \<open>conditionsv1.Condition\<close> literal with zero times\<close>
  "mk_condition ty st rs msg = \<lparr>c_Type = ty, c_Status = st, c_Reason = rs, c_Message = msg,
     c_LastHeartbeatTime = 0, c_LastTransitionTime = 0\<rparr>"

lemma mk_condition_simps [simp]:
  "c_Type (mk_condition ty st rs msg) = ty" "c_Status (mk_condition ty st rs msg) = st"
  "c_Reason (mk_condition ty st rs msg) = rs" "c_Message (mk_condition ty st rs msg) = msg"
  by (simp_all add: mk_condition_def)

lemma SetStatusCondition_Nil:
  "SetStatusCondition now [] n = [n\<lparr>c_LastTransitionTime := now, c_LastHeartbeatTime := now\<rparr>]"
  by (simp add: SetStatusCondition_def)

lemma SetStatusCondition_Cons:
  "SetStatusCondition now (c # cs) n =
     (if c_Type c = c_Type n
      then (let ex = (if c_Status c \<noteq> c_Status n
                      then c\<lparr>c_Status := c_Status n, c_LastTransitionTime := now\<rparr> else c)
            in ex\<lparr>c_Reason := c_Reason n, c_Message := c_Message n, c_LastHeartbeatTime := now\<rparr>) # cs
      else c # SetStatusCondition now cs n)"
  by (auto simp: SetStatusCondition_def Let_def split: option.splits)

text \<open>The message a reader of the resource sees for a condition type.\<close>

fun condition_message :: "condition list \<Rightarrow> condition_type \<Rightarrow> string option" where
  "condition_message [] ty = None"
| "condition_message (c # cs) ty = (if c_Type c = ty then Some (c_Message c) else condition_message cs ty)"

text \<open>
  What the operator's status code relies on: writing a condition makes it readable with its
  status and message, and touches no other type. The operator always writes the three
  types Available, Progressing and Degraded together, so the law for three writes is what
  its status functions use.
\<close>

locale status_conditions =
  fixes set_cond :: "'cs \<Rightarrow> 'c \<Rightarrow> 'cs"
    and status_is :: "'cs \<Rightarrow> 'ty \<Rightarrow> 'st \<Rightarrow> bool"
    and message_of :: "'cs \<Rightarrow> 'ty \<Rightarrow> 'msg option"
    and ctype :: "'c \<Rightarrow> 'ty"
    and cstatus :: "'c \<Rightarrow> 'st"
    and cmessage :: "'c \<Rightarrow> 'msg"
  assumes status_set: "status_is (set_cond cs c) ty st \<longleftrightarrow>
      (if ty = ctype c then st = cstatus c else status_is cs ty st)"
    and message_set: "message_of (set_cond cs c) ty =
      (if ty = ctype c then Some (cmessage c) else message_of cs ty)"
begin

lemma three_writes:
  assumes "ctype a \<noteq> ctype b" and "ctype a \<noteq> ctype c" and "ctype b \<noteq> ctype c"
  shows "status_is (set_cond (set_cond (set_cond cs a) b) c) (ctype a) (cstatus a)"
    and "status_is (set_cond (set_cond (set_cond cs a) b) c) (ctype b) (cstatus b)"
    and "status_is (set_cond (set_cond (set_cond cs a) b) c) (ctype c) (cstatus c)"
  using assms by (simp_all add: status_set)

lemma set_conditional:
  \<comment> \<open>writing only when the status differs, as \<open>preUpdateStatus\<close> does, gives the same statuses\<close>
  assumes "\<And>st st'. status_is cs (ctype c) st \<Longrightarrow> status_is cs (ctype c) st' \<Longrightarrow> st = st'"
  shows "status_is (if \<not> status_is cs (ctype c) (cstatus c) then set_cond cs c else cs) ty st \<longleftrightarrow>
     (if ty = ctype c then st = cstatus c else status_is cs ty st)"
  using assms by (auto simp: status_set)

end

lemma SetStatusCondition_status:
  "IsStatusConditionPresentAndEqual (SetStatusCondition now cs c) ty st \<longleftrightarrow>
     (if ty = c_Type c then st = c_Status c else IsStatusConditionPresentAndEqual cs ty st)"
  by (induction cs) (auto simp: SetStatusCondition_Nil SetStatusCondition_Cons Let_def)

lemma SetStatusCondition_message:
  "condition_message (SetStatusCondition now cs c) ty =
     (if ty = c_Type c then Some (c_Message c) else condition_message cs ty)"
  by (induction cs) (auto simp: SetStatusCondition_Nil SetStatusCondition_Cons Let_def)

lemma status_unique:
  "IsStatusConditionPresentAndEqual cs ty st \<Longrightarrow> IsStatusConditionPresentAndEqual cs ty st' \<Longrightarrow> st = st'"
  by (induction cs) (auto split: if_splits)

interpretation cond: status_conditions "SetStatusCondition now" IsStatusConditionPresentAndEqual
  condition_message c_Type c_Status c_Message for now
  by unfold_locales (simp_all add: SetStatusCondition_status SetStatusCondition_message)

text \<open>Writing a condition never makes two conditions of one type.\<close>

lemma SetStatusCondition_types:
  "map c_Type (SetStatusCondition now cs c) =
     (if c_Type c \<in> set (map c_Type cs) then map c_Type cs else map c_Type cs @ [c_Type c])"
  by (induction cs) (auto simp: SetStatusCondition_Nil SetStatusCondition_Cons Let_def)

lemma SetStatusCondition_distinct:
  "distinct (map c_Type cs) \<Longrightarrow> distinct (map c_Type (SetStatusCondition now cs c))"
  unfolding SetStatusCondition_types by auto

section \<open>Finalizers\<close>

definition ContainsFinalizer :: "object_meta \<Rightarrow> string \<Rightarrow> bool" where
  "ContainsFinalizer m f = (f \<in> set (m_finalizers m))"

definition AddFinalizer :: "string \<Rightarrow> object_meta \<Rightarrow> object_meta" where
  "AddFinalizer f m = (if f \<in> set (m_finalizers m) then m
                       else m\<lparr>m_finalizers := m_finalizers m @ [f]\<rparr>)"

fun remove_string :: "string \<Rightarrow> string list \<Rightarrow> string list" where
  "remove_string f [] = []"
| "remove_string f (x # xs) = (if x = f then remove_string f xs else x # remove_string f xs)"

definition RemoveFinalizer :: "string \<Rightarrow> object_meta \<Rightarrow> object_meta" where
  "RemoveFinalizer f m = m\<lparr>m_finalizers := remove_string f (m_finalizers m)\<rparr>"

lemma remove_string_filter: "remove_string f xs = filter (\<lambda>x. x \<noteq> f) xs"
  by (induction xs) auto

lemma finalizers_AddFinalizer [simp]:
  "set (m_finalizers (AddFinalizer f m)) = insert f (set (m_finalizers m))"
  by (auto simp: AddFinalizer_def)

lemma finalizers_RemoveFinalizer [simp]:
  "set (m_finalizers (RemoveFinalizer f m)) = set (m_finalizers m) - {f}"
  by (auto simp: RemoveFinalizer_def remove_string_filter)

section \<open>Group versions\<close>

definition ParseGroupVersion :: "string \<Rightarrow> (string \<times> string) option" where
  "ParseGroupVersion gv =
     (if gv = '''' \<or> gv = ''/'' then Some ('''', '''')
      else (let n = length (filter (\<lambda>c. c = CHR ''/'') gv) in
        if n = 0 then Some ('''', gv)
        else if n = 1 then Some (takeWhile (\<lambda>c. c \<noteq> CHR ''/'') gv, tl (dropWhile (\<lambda>c. c \<noteq> CHR ''/'') gv))
        else None))"

definition GroupKind_String :: "string \<Rightarrow> string \<Rightarrow> string" where
  "GroupKind_String grp kind = (if grp = '''' then kind else kind @ ''.'' @ grp)"

definition api_group :: "string \<Rightarrow> string" where
  \<comment> \<open>the group of \<open>schema.FromAPIVersionAndKind\<close>: empty when the version does not parse\<close>
  "api_group gv = (case ParseGroupVersion gv of None \<Rightarrow> '''' | Some (g, v) \<Rightarrow> g)"

section \<open>Owner annotations (operator-lib)\<close>

definition NamespacedNameAnnotation :: string where
  "NamespacedNameAnnotation = ''operator-sdk/primary-resource''"
definition TypeAnnotation :: string where
  "TypeAnnotation = ''operator-sdk/primary-resource-type''"

lemma owner_annotation_keys_distinct [simp]:
  "NamespacedNameAnnotation \<noteq> TypeAnnotation" "TypeAnnotation \<noteq> NamespacedNameAnnotation"
  by (simp_all add: NamespacedNameAnnotation_def TypeAnnotation_def)

definition owner_namespaced_name :: "TektonTasks \<Rightarrow> string" where
  "owner_namespaced_name owner = m_namespace (tt_meta owner) @ ''/'' @ m_name (tt_meta owner)"

definition owner_type :: "TektonTasks \<Rightarrow> string" where
  "owner_type owner = GroupKind_String (api_group (tt_apiVersion owner)) (tt_kind owner)"

definition SetOwnerAnnotations :: "TektonTasks \<Rightarrow> object \<Rightarrow> error + object" where
  "SetOwnerAnnotations owner obj =
     (if m_name (tt_meta owner) = '''' then
        Inl (PlainError ''*v1alpha1.TektonTasks does not have a name, cannot call SetOwnerAnnotations'')
      else if tt_kind owner = '''' then
        Inl (PlainError (''Owner '' @ m_name (tt_meta owner) @
              '' Kind not found, cannot call SetOwnerAnnotations''))
      else
        (let annotations = (case m_annotations (o_meta obj) of None \<Rightarrow> fmempty | Some a \<Rightarrow> a);
             annotations = fmupd NamespacedNameAnnotation (owner_namespaced_name owner) annotations;
             annotations = fmupd TypeAnnotation (owner_type owner) annotations
         in Inr (upd_meta (\<lambda>m. m\<lparr>m_annotations := Some annotations\<rparr>) obj)))"

section \<open>Controller references\<close>

definition owner_ref_of :: "TektonTasks \<Rightarrow> owner_reference" where
  \<comment> \<open>the scheme knows \<open>TektonTasks\<close> under exactly one group, version and kind\<close>
  "owner_ref_of owner = \<lparr>or_apiVersion = GroupVersion_Group @ ''/'' @ GroupVersion_Version,
     or_kind = ''TektonTasks'', or_name = m_name (tt_meta owner), or_uid = m_uid (tt_meta owner),
     or_controller = Some True, or_blockOwnerDeletion = Some True\<rparr>"

definition validateOwner :: "object_meta \<Rightarrow> object_meta \<Rightarrow> error option" where
  "validateOwner owner obj =
     (if m_namespace owner \<noteq> '''' then
        (if m_namespace obj = '''' then
           Some (PlainError (''cluster-scoped resource must not have a namespace-scoped owner, owner's namespace '' @
                 m_namespace owner))
         else if m_namespace owner \<noteq> m_namespace obj then
           Some (PlainError (''cross-namespace owner references are disallowed, owner's namespace '' @
                 m_namespace owner @ '', obj's namespace '' @ m_namespace obj))
         else None)
      else None)"

definition GetControllerOf :: "object_meta \<Rightarrow> owner_reference option" where
  "GetControllerOf m = find (\<lambda>r. or_controller r = Some True) (m_ownerReferences m)"

definition referSameObject :: "owner_reference \<Rightarrow> owner_reference \<Rightarrow> bool" where
  "referSameObject a b =
     (case ParseGroupVersion (or_apiVersion a) of None \<Rightarrow> False
      | Some (ag, av) \<Rightarrow> (case ParseGroupVersion (or_apiVersion b) of None \<Rightarrow> False
          | Some (bg, bv) \<Rightarrow> ag = bg \<and> or_kind a = or_kind b \<and> or_name a = or_name b))"

fun upsertOwnerRef :: "owner_reference \<Rightarrow> owner_reference list \<Rightarrow> owner_reference list" where
  "upsertOwnerRef ref [] = [ref]"
| "upsertOwnerRef ref (r # rs) = (if referSameObject r ref then ref # rs else r # upsertOwnerRef ref rs)"

definition SetControllerReference :: "TektonTasks \<Rightarrow> object \<Rightarrow> error + object" where
  "SetControllerReference owner controlled =
     (case validateOwner (tt_meta owner) (o_meta controlled) of
        Some e \<Rightarrow> Inl e
      | None \<Rightarrow>
          (let ref = owner_ref_of owner in
           case GetControllerOf (o_meta controlled) of
             Some ex \<Rightarrow>
               (if \<not> referSameObject ex ref then
                  Inl (PlainError (''Object '' @ m_namespace (o_meta controlled) @ ''/'' @
                    m_name (o_meta controlled) @ '' is already owned by another '' @ or_kind ex @
                    '' controller '' @ or_name ex))
                else Inr (upd_meta (\<lambda>m. m\<lparr>m_ownerReferences := upsertOwnerRef ref (m_ownerReferences m)\<rparr>) controlled))
           | None \<Rightarrow> Inr (upd_meta (\<lambda>m. m\<lparr>m_ownerReferences := upsertOwnerRef ref (m_ownerReferences m)\<rparr>) controlled)))"

lemma SetOwnerAnnotations_Inr:
  assumes "SetOwnerAnnotations owner x = Inr y"
  shows "o_body y = o_body x" "o_kind y = o_kind x" "o_apiVersion y = o_apiVersion x"
    "m_name (o_meta y) = m_name (o_meta x)" "m_namespace (o_meta y) = m_namespace (o_meta x)"
    "m_labels (o_meta y) = m_labels (o_meta x)"
    "m_ownerReferences (o_meta y) = m_ownerReferences (o_meta x)"
    "smap_index (m_annotations (o_meta y)) TypeAnnotation = owner_type owner"
    "smap_index (m_annotations (o_meta y)) NamespacedNameAnnotation = owner_namespaced_name owner"
    "o_rtype y = o_rtype x"
  using assms
  by (auto simp: SetOwnerAnnotations_def Let_def split: if_splits option.splits)

lemma SetControllerReference_empty:
  assumes "m_ownerReferences (o_meta x) = []"
  shows "SetControllerReference owner x =
     (case validateOwner (tt_meta owner) (o_meta x) of Some e \<Rightarrow> Inl e
      | None \<Rightarrow> Inr (upd_meta (\<lambda>m. m\<lparr>m_ownerReferences := [owner_ref_of owner]\<rparr>) x))"
  using assms
  by (simp add: SetControllerReference_def GetControllerOf_def upd_meta_def split: option.splits)

end
