(* ===== verification/Version_Cache.thy ===== *)
theory Version_Cache
  imports Kube_Helpers
begin

text \<open>
  The version cache of \<open>pkg/common/cache.go\<close>: which version of each object the operator saw
  last. The update function of a resource is skipped while the cache says the object has
  not changed since the operator last reconciled it.
\<close>

record cacheKey =
  ck_Kind :: string
  ck_Name :: string
  ck_Namespace :: string

record cacheValue =
  cv_uid :: string
  cv_resourceVersion :: string
  cv_generation :: int64

type_synonym version_cache = "(cacheKey, cacheValue) fmap"

definition cacheKeyFromObj :: "object \<Rightarrow> cacheKey" where
  "cacheKeyFromObj obj = \<lparr>ck_Kind = o_kind obj, ck_Name = m_name (o_meta obj),
     ck_Namespace = m_namespace (o_meta obj)\<rparr>"

definition cache_Contains :: "version_cache \<Rightarrow> object \<Rightarrow> bool" where
  "cache_Contains v obj =
     (case fmlookup v (cacheKeyFromObj obj) of
        None \<Rightarrow> False
      | Some cached \<Rightarrow>
          if m_uid (o_meta obj) \<noteq> cv_uid cached then False
          else if m_generation (o_meta obj) = 0 then
            (let objResourceVersion = m_resourceVersion (o_meta obj) in
             objResourceVersion \<noteq> '''' \<and> objResourceVersion = cv_resourceVersion cached)
          else cv_generation cached = m_generation (o_meta obj))"

definition cache_Add :: "version_cache \<Rightarrow> object \<Rightarrow> version_cache" where
  "cache_Add v obj =
     (if o_kind obj = '''' then v
      else fmupd (cacheKeyFromObj obj)
             \<lparr>cv_uid = m_uid (o_meta obj), cv_resourceVersion = m_resourceVersion (o_meta obj),
              cv_generation = m_generation (o_meta obj)\<rparr> v)"

definition cache_RemoveObj :: "version_cache \<Rightarrow> object \<Rightarrow> version_cache" where
  "cache_RemoveObj v obj = fmdrop (cacheKeyFromObj obj) v"

section \<open>What the reconciler relies on\<close>

text \<open>
  When two readings of an object count as the same version: the uid is the same, and so is
  the generation, or, for objects without a generation, the non-empty resource version.
\<close>

definition same_version :: "object \<Rightarrow> object \<Rightarrow> bool" where
  "same_version seen now =
     (m_uid (o_meta now) = m_uid (o_meta seen) \<and>
      (if m_generation (o_meta now) = 0
       then m_resourceVersion (o_meta now) \<noteq> '''' \<and>
            m_resourceVersion (o_meta now) = m_resourceVersion (o_meta seen)
       else m_generation (o_meta now) = m_generation (o_meta seen)))"

definition cacheable :: "object \<Rightarrow> bool" where
  "cacheable obj = (o_kind obj \<noteq> '''')"

datatype 'o cache_op = CacheAdd 'o | CacheRemove 'o

text \<open>
  What a cache is meant to be: a memory of the last object added under each key, until an
  object with that key is removed.
\<close>

fun remember_op :: "('o \<Rightarrow> 'k) \<Rightarrow> ('o \<Rightarrow> bool) \<Rightarrow> ('k \<Rightarrow> 'o option) \<Rightarrow> 'o cache_op \<Rightarrow> ('k \<Rightarrow> 'o option)" where
  "remember_op key storable m (CacheAdd x) = (if storable x then m(key x \<mapsto> x) else m)"
| "remember_op key storable m (CacheRemove x) = m(key x := None)"

fun remembers :: "('o \<Rightarrow> 'o \<Rightarrow> bool) \<Rightarrow> 'o option \<Rightarrow> 'o \<Rightarrow> bool" where
  "remembers same None y = False"
| "remembers same (Some x) y = same x y"

locale object_cache =
  fixes empty_cache :: "'c"
    and contains :: "'c \<Rightarrow> 'o \<Rightarrow> bool"
    and add :: "'c \<Rightarrow> 'o \<Rightarrow> 'c"
    and remove :: "'c \<Rightarrow> 'o \<Rightarrow> 'c"
    and key :: "'o \<Rightarrow> 'k"
    and storable :: "'o \<Rightarrow> bool"
    and same :: "'o \<Rightarrow> 'o \<Rightarrow> bool"
  assumes contains_empty: "\<not> contains empty_cache y"
    and contains_add: "contains (add c x) y \<longleftrightarrow>
      (if storable x \<and> key x = key y then same x y else contains c y)"
    and contains_remove: "contains (remove c x) y \<longleftrightarrow> key x \<noteq> key y \<and> contains c y"
begin

fun apply_op :: "'c \<Rightarrow> 'o cache_op \<Rightarrow> 'c" where
  "apply_op c (CacheAdd x) = add c x"
| "apply_op c (CacheRemove x) = remove c x"

text \<open>
  The simulation: a cache and an abstract map stand for each other when the cache answers with what the
  map remembers; every operation of the cache is then the operation of the map.
\<close>

definition represents :: "'c \<Rightarrow> ('k \<Rightarrow> 'o option) \<Rightarrow> bool" where
  "represents c m \<longleftrightarrow> (\<forall>y. contains c y = remembers same (m (key y)) y)"

lemma represents_empty: "represents empty_cache Map.empty"
  by (simp add: represents_def contains_empty)

lemma represents_step: "represents c m \<Longrightarrow> represents (apply_op c op) (remember_op key storable m op)"
  by (cases op) (auto simp: represents_def contains_add contains_remove)

lemma represents_run: "represents c m \<Longrightarrow> represents (foldl apply_op c ops) (foldl (remember_op key storable) m ops)"
  by (induction ops arbitrary: c m) (simp_all add: represents_step)

lemma contains_run: "contains (foldl apply_op empty_cache ops) y =
    remembers same (foldl (remember_op key storable) Map.empty ops (key y)) y"
  using represents_run [OF represents_empty] by (simp add: represents_def)

lemma removed_until_added: "\<not> contains (remove c x) y" if "key x = key y"
  using that by (simp add: contains_remove)

lemma add_then_contains: "storable x \<Longrightarrow> same x x \<Longrightarrow> contains (add c x) x"
  by (simp add: contains_add)

end

definition recorded_version :: "cacheValue \<Rightarrow> object \<Rightarrow> bool" where
  \<comment> \<open>the entry of the cache is of this version of the object\<close>
  "recorded_version c x = (cv_uid c = m_uid (o_meta x) \<and>
     (if m_generation (o_meta x) = 0
      then m_resourceVersion (o_meta x) \<noteq> '''' \<and> cv_resourceVersion c = m_resourceVersion (o_meta x)
      else cv_generation c = m_generation (o_meta x)))"

lemma cache_Contains_recorded:
  "cache_Contains v x \<longleftrightarrow> (\<exists>c. fmlookup v (cacheKeyFromObj x) = Some c \<and> recorded_version c x)"
proof (cases "fmlookup v (cacheKeyFromObj x)")
  case None
  then show ?thesis by (simp add: cache_Contains_def)
next
  case (Some c)
  have "cache_Contains v x \<longleftrightarrow> recorded_version c x"
    unfolding cache_Contains_def recorded_version_def Some option.case Let_def by metis
  with Some show ?thesis by simp
qed

lemma cache_Contains_cong:
  assumes "cacheKeyFromObj x = cacheKeyFromObj y" and "m_uid (o_meta x) = m_uid (o_meta y)"
    and "m_generation (o_meta x) = m_generation (o_meta y)"
    and "m_resourceVersion (o_meta x) = m_resourceVersion (o_meta y)"
  shows "cache_Contains v x = cache_Contains v y"
  unfolding cache_Contains_def Let_def assms by (rule refl)

lemma cache_Contains_empty: "\<not> cache_Contains fmempty y"
  by (simp add: cache_Contains_def)

lemma cache_Contains_Add:
  "cache_Contains (cache_Add c x) y \<longleftrightarrow>
     (if cacheable x \<and> cacheKeyFromObj x = cacheKeyFromObj y then same_version x y
      else cache_Contains c y)"
  by (auto simp: cache_Contains_def cache_Add_def cacheable_def same_version_def Let_def)

lemma cache_Contains_Remove:
  "cache_Contains (cache_RemoveObj c x) y \<longleftrightarrow> cacheKeyFromObj x \<noteq> cacheKeyFromObj y \<and> cache_Contains c y"
  by (auto simp: cache_Contains_def cache_RemoveObj_def)

interpretation vc: object_cache fmempty cache_Contains cache_Add cache_RemoveObj
  cacheKeyFromObj cacheable same_version
  by unfold_locales
    (simp_all add: cache_Contains_empty cache_Contains_Add cache_Contains_Remove)

lemma same_version_refl_iff:
  "same_version x x \<longleftrightarrow> m_generation (o_meta x) \<noteq> 0 \<or> m_resourceVersion (o_meta x) \<noteq> ''''"
  by (auto simp: same_version_def)

text \<open>
  After the operator has recorded an object, the cache answers for a later reading of
  it exactly when the reading has the recorded uid and, if it has a generation, the
  recorded generation, otherwise the recorded, non-empty resource version; the record of
  one object does not change the answer for an object of another kind, namespace or name.
\<close>

theorem cache_add_answers:
  "cache_Contains (cache_Add c x) y =
     (if o_kind x \<noteq> '''' \<and> o_kind x = o_kind y \<and> object_key_of x = object_key_of y
      then m_uid (o_meta y) = m_uid (o_meta x) \<and>
           (if m_generation (o_meta y) = 0
            then m_resourceVersion (o_meta y) \<noteq> '''' \<and>
                 m_resourceVersion (o_meta y) = m_resourceVersion (o_meta x)
            else m_generation (o_meta y) = m_generation (o_meta x))
      else cache_Contains c y)"
  using vc.contains_add [of c x y]
  by (auto simp: cacheable_def same_version_def cacheKeyFromObj_def object_key_of_def)

text \<open>A run of the cache's operations, from the empty cache the reconciler starts with.\<close>

fun run_cache :: "version_cache \<Rightarrow> object cache_op list \<Rightarrow> version_cache" where
  "run_cache c [] = c"
| "run_cache c (CacheAdd x # ops) = run_cache (cache_Add c x) ops"
| "run_cache c (CacheRemove x # ops) = run_cache (cache_RemoveObj c x) ops"

lemma run_cache_foldl: "run_cache c ops = foldl vc.apply_op c ops"
  by (induction c ops rule: run_cache.induct) simp_all

text \<open>
  C33. The version cache refines an abstract memory from object keys (kind, namespace, name) to the
  last object recorded: after any sequence of additions and removals it contains an object
  exactly when the memory holds, under the object's key, a reading of the same version.
\<close>

theorem cache_refines_memory:
  "cache_Contains (run_cache fmempty ops) y =
     remembers same_version
       (foldl (remember_op cacheKeyFromObj (\<lambda>x. o_kind x \<noteq> '''')) Map.empty ops (cacheKeyFromObj y)) y"
  using vc.contains_run [of ops y] by (simp add: run_cache_foldl cacheable_def [abs_def])

end
