(* ===== verification/App_Labels.thy ===== *)
theory App_Labels
  imports Kube_Helpers
begin

text \<open>
  The application labels of \<open>pkg/common/labels.go\<close>: every object the operator deploys
  carries its operand's name, its component and who manages it, and the part-of and
  version labels of the \<open>TektonTasks\<close> resource.
\<close>

definition AppKubernetesNameLabel :: string where
  "AppKubernetesNameLabel = ''app.kubernetes.io/name''"
definition AppKubernetesPartOfLabel :: string where
  "AppKubernetesPartOfLabel = ''app.kubernetes.io/part-of''"
definition AppKubernetesVersionLabel :: string where
  "AppKubernetesVersionLabel = ''app.kubernetes.io/version''"
definition AppKubernetesManagedByLabel :: string where
  "AppKubernetesManagedByLabel = ''app.kubernetes.io/managed-by''"
definition AppKubernetesComponentLabel :: string where
  "AppKubernetesComponentLabel = ''app.kubernetes.io/component''"

definition AppComponentTektonTasks :: string where
  "AppComponentTektonTasks = ''tektonTasks''"
definition AppComponentTektonPipelines :: string where
  "AppComponentTektonPipelines = ''tektonPipelines''"
definition AppKubernetesManagedByValue :: string where
  "AppKubernetesManagedByValue = ''tekton-tasks-operator''"

lemmas label_defs = AppKubernetesNameLabel_def AppKubernetesPartOfLabel_def
  AppKubernetesVersionLabel_def AppKubernetesManagedByLabel_def AppKubernetesComponentLabel_def

definition getOrCreateLabels :: "object \<Rightarrow> (string, string) fmap" where
  \<comment> \<open>the map the object's labels are from here on\<close>
  "getOrCreateLabels obj = (case m_labels (o_meta obj) of None \<Rightarrow> fmempty | Some l \<Rightarrow> l)"

definition copyLabel :: "(string, string) fmap \<Rightarrow> string \<Rightarrow> (string, string) fmap \<Rightarrow> (string, string) fmap" where
  "copyLabel from k to = fmupd k (case fmlookup from k of None \<Rightarrow> '''' | Some v \<Rightarrow> v) to"

definition addInstanceLabels :: "TektonTasks \<Rightarrow> (string, string) fmap \<Rightarrow> (string, string) fmap" where
  "addInstanceLabels inst to =
     (case m_labels (tt_meta inst) of
        None \<Rightarrow> to
      | Some l \<Rightarrow> copyLabel l AppKubernetesVersionLabel (copyLabel l AppKubernetesPartOfLabel to))"

definition AddAppLabels :: "TektonTasks \<Rightarrow> string \<Rightarrow> string \<Rightarrow> object \<Rightarrow> object" where
  "AddAppLabels inst name component obj =
     (let labels = addInstanceLabels inst (getOrCreateLabels obj);
          labels = fmupd AppKubernetesNameLabel name labels;
          labels = fmupd AppKubernetesComponentLabel component labels;
          labels = fmupd AppKubernetesManagedByLabel AppKubernetesManagedByValue labels
      in upd_meta (\<lambda>m. m\<lparr>m_labels := Some labels\<rparr>) obj)"

definition app_label_keys :: "string set" where
  "app_label_keys = {AppKubernetesNameLabel, AppKubernetesComponentLabel, AppKubernetesManagedByLabel,
     AppKubernetesPartOfLabel, AppKubernetesVersionLabel}"

lemma label_keys_distinct [simp]:
  "AppKubernetesNameLabel \<noteq> AppKubernetesComponentLabel"
  "AppKubernetesNameLabel \<noteq> AppKubernetesManagedByLabel"
  "AppKubernetesNameLabel \<noteq> AppKubernetesPartOfLabel"
  "AppKubernetesNameLabel \<noteq> AppKubernetesVersionLabel"
  "AppKubernetesComponentLabel \<noteq> AppKubernetesNameLabel"
  "AppKubernetesComponentLabel \<noteq> AppKubernetesManagedByLabel"
  "AppKubernetesComponentLabel \<noteq> AppKubernetesPartOfLabel"
  "AppKubernetesComponentLabel \<noteq> AppKubernetesVersionLabel"
  "AppKubernetesManagedByLabel \<noteq> AppKubernetesNameLabel"
  "AppKubernetesManagedByLabel \<noteq> AppKubernetesComponentLabel"
  "AppKubernetesManagedByLabel \<noteq> AppKubernetesPartOfLabel"
  "AppKubernetesManagedByLabel \<noteq> AppKubernetesVersionLabel"
  "AppKubernetesPartOfLabel \<noteq> AppKubernetesVersionLabel"
  "AppKubernetesVersionLabel \<noteq> AppKubernetesPartOfLabel"
  "AppKubernetesVersionLabel \<noteq> AppKubernetesNameLabel"
  "AppKubernetesVersionLabel \<noteq> AppKubernetesComponentLabel"
  "AppKubernetesVersionLabel \<noteq> AppKubernetesManagedByLabel"
  "AppKubernetesPartOfLabel \<noteq> AppKubernetesNameLabel"
  "AppKubernetesPartOfLabel \<noteq> AppKubernetesComponentLabel"
  "AppKubernetesPartOfLabel \<noteq> AppKubernetesManagedByLabel"
  by (simp_all add: label_defs)

lemma AddAppLabels_frame [simp]:
  "o_body (AddAppLabels inst n c x) = o_body x" "o_kind (AddAppLabels inst n c x) = o_kind x"
  "o_apiVersion (AddAppLabels inst n c x) = o_apiVersion x"
  "o_rtype (AddAppLabels inst n c x) = o_rtype x"
  "m_name (o_meta (AddAppLabels inst n c x)) = m_name (o_meta x)"
  "m_namespace (o_meta (AddAppLabels inst n c x)) = m_namespace (o_meta x)"
  "m_annotations (o_meta (AddAppLabels inst n c x)) = m_annotations (o_meta x)"
  "m_ownerReferences (o_meta (AddAppLabels inst n c x)) = m_ownerReferences (o_meta x)"
  "m_labels (o_meta (AddAppLabels inst n c x)) \<noteq> None"
  by (simp_all add: AddAppLabels_def Let_def)

text \<open>What each label of a deployed object is.\<close>

lemma AddAppLabels_lookup:
  "smap_get (m_labels (o_meta (AddAppLabels inst n c x))) k =
     (if k = AppKubernetesManagedByLabel then Some AppKubernetesManagedByValue
      else if k = AppKubernetesComponentLabel then Some c
      else if k = AppKubernetesNameLabel then Some n
      else if m_labels (tt_meta inst) \<noteq> None \<and>
              (k = AppKubernetesPartOfLabel \<or> k = AppKubernetesVersionLabel)
           then Some (smap_index (m_labels (tt_meta inst)) k)
      else smap_get (m_labels (o_meta x)) k)"
  by (cases "m_labels (tt_meta inst)"; cases "m_labels (o_meta x)")
    (auto simp: AddAppLabels_def Let_def addInstanceLabels_def copyLabel_def getOrCreateLabels_def)

lemma AddAppLabels_idem: "AddAppLabels inst n c (AddAppLabels inst n c x) = AddAppLabels inst n c x"
proof -
  define g where "g l = fmupd AppKubernetesManagedByLabel AppKubernetesManagedByValue
    (fmupd AppKubernetesComponentLabel c (fmupd AppKubernetesNameLabel n (addInstanceLabels inst l)))" for l
  have gg: "g (g l) = g l" for l
    by (intro fmap_ext) (simp add: g_def addInstanceLabels_def copyLabel_def split: option.splits)
  have "AddAppLabels inst n c y = upd_meta (\<lambda>m. m\<lparr>m_labels := Some (g (getOrCreateLabels y))\<rparr>) y" for y
    by (simp add: AddAppLabels_def Let_def g_def)
  then show ?thesis by (simp add: getOrCreateLabels_def gg upd_meta_def)
qed

text \<open>
  Labelling sets the name, component and managed-by labels, copies the part-of and
  version labels of the \<open>TektonTasks\<close> resource when it has any labels, and leaves every
  other label of the object, its annotations, owners and own part as they were; doing it
  again changes nothing.
\<close>

theorem AddAppLabels_spec:
  shows "(\<forall>k. smap_get (m_labels (o_meta (AddAppLabels inst n c x))) k =
     (if k = AppKubernetesManagedByLabel then Some AppKubernetesManagedByValue
      else if k = AppKubernetesComponentLabel then Some c
      else if k = AppKubernetesNameLabel then Some n
      else if m_labels (tt_meta inst) \<noteq> None \<and>
              (k = AppKubernetesPartOfLabel \<or> k = AppKubernetesVersionLabel)
           then Some (smap_index (m_labels (tt_meta inst)) k)
      else smap_get (m_labels (o_meta x)) k)) \<and>
    (\<exists>l. AddAppLabels inst n c x = upd_meta (\<lambda>m. m\<lparr>m_labels := l\<rparr>) x) \<and>
    AddAppLabels inst n c (AddAppLabels inst n c x) = AddAppLabels inst n c x"
  by (simp add: AddAppLabels_lookup AddAppLabels_idem) (auto simp: AddAppLabels_def Let_def)

text \<open>
  The part-of and version labels are written even when the \<open>TektonTasks\<close> resource has
  labels but not these two: they become empty strings, overwriting what the object's own
  manifest said.
\<close>

theorem AddAppLabels_missing_instance_label:
  assumes "m_labels (tt_meta inst) = Some l" and "fmlookup l AppKubernetesVersionLabel = None"
  shows "smap_get (m_labels (o_meta (AddAppLabels inst n c x))) AppKubernetesVersionLabel = Some ''''"
  using assms by (simp add: AddAppLabels_lookup)

end
