(* ===== verification/Api_Client.thy ===== *)
theory Api_Client
  imports Version_Cache App_Labels
begin

text \<open>
  The operator's client (\<open>client.Client\<close> of controller-runtime) as a parameter: a record of
  functions on an unknown world \<open>'w\<close>, the API server with everything that happens to it. A
  call answers with an error or a value and a new world, so a client may fail, answer from
  a cache, or let other parties act between two calls. An object that is created or updated
  comes back as the client leaves it in the caller's variable; after a failed call that
  variable is unchanged.
\<close>

record crd =
  crd_name :: string
  crd_deletionTimestamp :: "time option"

record 'w client =
  c_get :: "rtype \<Rightarrow> object_key \<Rightarrow> 'w \<Rightarrow> (error + object) \<times> 'w"
  c_create :: "object \<Rightarrow> 'w \<Rightarrow> (error + object) \<times> 'w"
  c_update :: "object \<Rightarrow> 'w \<Rightarrow> (error + object) \<times> 'w"
  c_delete :: "object \<Rightarrow> 'w \<Rightarrow> (error + unit) \<times> 'w"
  c_list_clustertasks :: "(string \<times> string) list \<Rightarrow> 'w \<Rightarrow> (error + object list) \<times> 'w"
  c_get_tt :: "object_key \<Rightarrow> 'w \<Rightarrow> (error + TektonTasks) \<times> 'w"
  c_update_tt :: "TektonTasks \<Rightarrow> 'w \<Rightarrow> (error + TektonTasks) \<times> 'w"
  c_status_update_tt :: "TektonTasks \<Rightarrow> 'w \<Rightarrow> (error + TektonTasks) \<times> 'w"
  c_list_tt :: "string option \<Rightarrow> 'w \<Rightarrow> (error + TektonTasks list) \<times> 'w"
  c_get_crd :: "object_key \<Rightarrow> 'w \<Rightarrow> (error + crd) \<times> 'w"
  c_list_crds :: "'w \<Rightarrow> (error + crd list) \<times> 'w"
  c_get_clusterversion :: "string \<Rightarrow> 'w \<Rightarrow> (error + unit) \<times> 'w"
  c_list_kind :: "string \<Rightarrow> string \<Rightarrow> 'w \<Rightarrow> (error + object_key list) \<times> 'w"
  c_merge_patch :: "string \<Rightarrow> object_key \<Rightarrow> string \<Rightarrow> 'w \<Rightarrow> (error + unit) \<times> 'w"

text \<open>
  What one reconciliation can read and change besides the objects it holds: the world behind
  the client, the version cache, and the log (\<open>Info\<close> and \<open>Error\<close> messages; those at
  verbosity 1 are below the operator's default level).
\<close>

record 'w sys =
  world :: 'w
  vcache :: version_cache
  logs :: "string list"

definition log_msg :: "string \<Rightarrow> 'w sys \<Rightarrow> 'w sys" where
  "log_msg m s = s\<lparr>logs := logs s @ [m]\<rparr>"

lemma log_msg_simps [simp]:
  "world (log_msg m s) = world s" "vcache (log_msg m s) = vcache s"
  "logs (log_msg m s) = logs s @ [m]"
  by (simp_all add: log_msg_def)

definition call :: "('w \<Rightarrow> (error + 'a) \<times> 'w) \<Rightarrow> 'w sys \<Rightarrow> 'a outcome \<times> 'w sys" where
  "call f s = (case f (world s) of
       (Inl e, w) \<Rightarrow> (Err e, s\<lparr>world := w\<rparr>)
     | (Inr a, w) \<Rightarrow> (Ok a, s\<lparr>world := w\<rparr>))"

lemma call_Inl: "f (world s) = (Inl e, w) \<Longrightarrow> call f s = (Err e, s\<lparr>world := w\<rparr>)"
  by (simp add: call_def)

lemma call_Inr: "f (world s) = (Inr a, w) \<Longrightarrow> call f s = (Ok a, s\<lparr>world := w\<rparr>)"
  by (simp add: call_def)

lemma call_frame: "call f s = (r, t) \<Longrightarrow> vcache t = vcache s \<and> logs t = logs s"
  by (auto simp: call_def split: prod.splits sum.splits)

lemma call_not_Panic: "call f s \<noteq> (Panic p, t)"
  by (auto simp: call_def split: prod.splits sum.splits)

lemma call_Ok_iff: "call f s = (Ok a, t) \<longleftrightarrow> (\<exists>w. f (world s) = (Inr a, w) \<and> t = s\<lparr>world := w\<rparr>)"
  by (auto simp: call_def split: prod.splits sum.splits)

lemma call_Err_iff: "call f s = (Err e, t) \<longleftrightarrow> (\<exists>w. f (world s) = (Inl e, w) \<and> t = s\<lparr>world := w\<rparr>)"
  by (auto simp: call_def split: prod.splits sum.splits)

section \<open>A healthy API server\<close>

text \<open>
  What the operator expects of an API server that answers: the laws of its stored objects.
  \<open>view w t k\<close> is what reading the object of type \<open>t\<close> under the key \<open>k\<close> gives. Creating an
  object under a free name stores it; updating one in the version that is stored replaces
  it; deleting one removes it, or, if it has finalizers, marks it as being deleted. Other
  objects are untouched. Two objects agree (\<open>same_desired\<close>) in everything the operator
  writes; the server chooses versions, uid and generation, and a client may fill in or
  clear the kind of the object it returns.
\<close>

definition same_desired :: "object \<Rightarrow> object \<Rightarrow> bool" where
  "same_desired a b =
     (o_rtype a = o_rtype b \<and> object_key_of a = object_key_of b \<and>
      (o_kind a = o_kind b \<or> o_kind a = '''' \<or> o_kind a = rtype_kind (o_rtype b)) \<and>
      smap_norm (m_labels (o_meta a)) = smap_norm (m_labels (o_meta b)) \<and>
      smap_norm (m_annotations (o_meta a)) = smap_norm (m_annotations (o_meta b)) \<and>
      m_ownerReferences (o_meta a) = m_ownerReferences (o_meta b) \<and>
      m_finalizers (o_meta a) = m_finalizers (o_meta b) \<and>
      time_is_zero (m_deletionTimestamp (o_meta a)) = time_is_zero (m_deletionTimestamp (o_meta b)) \<and>
      body_norm (o_body a) = body_norm (o_body b))"

definition store_upd ::
  "(rtype \<Rightarrow> object_key \<Rightarrow> object option) \<Rightarrow> rtype \<Rightarrow> object_key \<Rightarrow> object option \<Rightarrow>
   rtype \<Rightarrow> object_key \<Rightarrow> object option" where
  "store_upd v t k x t' k' = (if t' = t \<and> k' = k then x else v t' k')"

lemma store_upd_same [simp]: "store_upd v t k x t k = x"
  by (simp add: store_upd_def)

lemma store_upd_other: "(t', k') \<noteq> (t, k) \<Longrightarrow> store_upd v t k x t' k' = v t' k'"
  by (auto simp: store_upd_def)

text \<open>Who holds an object: its owners, its owner annotations, its finalizers.\<close>

definition same_holders :: "object \<Rightarrow> object \<Rightarrow> bool" where
  "same_holders y x \<longleftrightarrow> m_ownerReferences (o_meta y) = m_ownerReferences (o_meta x) \<and>
     m_annotations (o_meta y) = m_annotations (o_meta x) \<and> m_finalizers (o_meta y) = m_finalizers (o_meta x)"

locale api_server =
  fixes cl :: "'w client"
    and view :: "'w \<Rightarrow> rtype \<Rightarrow> object_key \<Rightarrow> object option"
    and healthy :: "'w \<Rightarrow> bool"
  assumes get_some: "healthy w \<Longrightarrow> view w t k = Some x \<Longrightarrow> c_get cl t k w = (Inr x, w)"
    and get_none: "healthy w \<Longrightarrow> view w t k = None \<Longrightarrow>
      \<exists>e. c_get cl t k w = (Inl e, w) \<and> is_not_found e"
    and view_wf: "healthy w \<Longrightarrow> view w t k = Some x \<Longrightarrow>
      o_rtype x = t \<and> object_key_of x = k \<and> o_kind x = rtype_kind t"
    and create_ok: "healthy w \<Longrightarrow> view w (o_rtype x) (object_key_of x) = None \<Longrightarrow>
      m_name (o_meta x) \<noteq> '''' \<Longrightarrow> m_resourceVersion (o_meta x) = '''' \<Longrightarrow>
      \<exists>x' y w'. c_create cl x w = (Inr x', w') \<and> healthy w' \<and> same_desired x' x \<and>
        same_desired y x \<and> view w' = store_upd (view w) (o_rtype x) (object_key_of x) (Some y)"
    and update_ok: "healthy w \<Longrightarrow> view w (o_rtype x) (object_key_of x) = Some old \<Longrightarrow>
      m_resourceVersion (o_meta x) = m_resourceVersion (o_meta old) \<Longrightarrow>
      time_is_zero (m_deletionTimestamp (o_meta x)) \<Longrightarrow>
      \<exists>x' y w'. c_update cl x w = (Inr x', w') \<and> healthy w' \<and> same_desired x' x \<and>
        same_desired y x \<and> view w' = store_upd (view w) (o_rtype x) (object_key_of x) (Some y)"
    and delete_ok: "healthy w \<Longrightarrow> view w (o_rtype x) (object_key_of x) = Some old \<Longrightarrow>
      m_finalizers (o_meta old) = [] \<Longrightarrow>
      \<exists>w'. c_delete cl x w = (Inr (), w') \<and> healthy w' \<and>
        view w' = store_upd (view w) (o_rtype x) (object_key_of x) None"
    and delete_finalized: "healthy w \<Longrightarrow> view w (o_rtype x) (object_key_of x) = Some old \<Longrightarrow>
      m_finalizers (o_meta old) \<noteq> [] \<Longrightarrow>
      \<exists>w' y. c_delete cl x w = (Inr (), w') \<and> healthy w' \<and>
        \<not> time_is_zero (m_deletionTimestamp (o_meta y)) \<and> same_holders y old \<and>
        view w' = store_upd (view w) (o_rtype x) (object_key_of x) (Some y)"
begin

lemma call_get_some:
  "healthy (world s) \<Longrightarrow> view (world s) t k = Some x \<Longrightarrow> call (c_get cl t k) s = (Ok x, s)"
  by (simp add: call_Inr [OF get_some])

lemma call_get_none:
  "healthy (world s) \<Longrightarrow> view (world s) t k = None \<Longrightarrow>
     \<exists>e. call (c_get cl t k) s = (Err e, s) \<and> is_not_found e"
  using get_none [of "world s" t k] by (auto dest: call_Inl)

end

end
