(* ===== verification/Bundle.thy ===== *)
theory Bundle
  imports Api_Client
begin

text \<open>
  The manifests the operator deploys (\<open>pkg/tekton-bundle/tekton-bundle.go\<close>): which file or
  directory is read on which cluster, and how the documents of the files become the objects
  of a bundle. The file system and the YAML library are parameters: \<open>fs_readFile\<close> and
  \<open>fs_readDir\<close> answer for \<open>os.ReadFile\<close> and \<open>os.ReadDir\<close>; \<open>yl_documents\<close> gives the documents
  a decoder yields from a file, and the error, if any, at which it stops.
\<close>

record Bundle =
  Bundle_Tasks :: "object list"
  Bundle_ServiceAccounts :: "object list"
  Bundle_RoleBindings :: "object list"
  Bundle_ClusterRoles :: "object list"
  Bundle_Pipelines :: "object list"
  Bundle_ConfigMaps :: "object list"

definition empty_bundle :: Bundle where
  "empty_bundle = \<lparr>Bundle_Tasks = [], Bundle_ServiceAccounts = [], Bundle_RoleBindings = [],
     Bundle_ClusterRoles = [], Bundle_Pipelines = [], Bundle_ConfigMaps = []\<rparr>"

record 'd yaml_lib =
  yl_documents :: "string \<Rightarrow> 'd list \<times> error option" \<comment> \<open>\<open>None\<close>: the file ended (\<open>io.EOF\<close>)\<close>
  yl_kind :: "'d \<Rightarrow> string option"      \<comment> \<open>\<open>obj["kind"].(string)\<close>\<close>
  yl_marshal :: "'d \<Rightarrow> error + string"
  yl_unmarshal :: "rtype \<Rightarrow> string \<Rightarrow> error + object"

record file_system =
  fs_readFile :: "string \<Rightarrow> error + string"
  fs_readDir :: "string \<Rightarrow> error + (string \<times> bool) list" \<comment> \<open>name, is a directory\<close>

section \<open>Paths\<close>

fun path_components :: "string \<Rightarrow> string list" where
  "path_components [] = [[]]"
| "path_components (c # cs) =
     (if c = CHR ''/'' then [] # path_components cs
      else case path_components cs of [] \<Rightarrow> [[c]] | p # ps \<Rightarrow> (c # p) # ps)"

text \<open>\<open>filepath.Clean\<close> of a rooted path; the operator joins rooted directories and names only.\<close>

fun clean_components :: "string list \<Rightarrow> string list \<Rightarrow> string list" where
  "clean_components acc [] = rev acc"
| "clean_components acc (p # ps) =
     (if p = '''' \<or> p = ''.'' then clean_components acc ps
      else if p = ''..'' then clean_components (tl acc) ps
      else clean_components (p # acc) ps)"

definition join_rooted :: "string \<Rightarrow> string \<Rightarrow> string" where
  \<comment> \<open>\<open>filepath.Join(dir, name)\<close> for a \<open>dir\<close> that starts with a slash\<close>
  "join_rooted dir name =
     (let ps = clean_components [] (path_components (dir @ ''/'' @ name))
      in if ps = [] then ''/'' else concat (map (\<lambda>p. CHR ''/'' # p) ps))"

definition tektonTasksKubernetesBundleDir :: string where
  "tektonTasksKubernetesBundleDir = ''/data/tekton-tasks/kubernetes/''"
definition tektonTasksOKDBundleDir :: string where
  "tektonTasksOKDBundleDir = ''/data/tekton-tasks/okd/''"
definition tektonPipelinesKubernetesBundleDir :: string where
  "tektonPipelinesKubernetesBundleDir = ''/data/tekton-pipelines/kubernetes/''"
definition tektonPipelinesOKDBundleDir :: string where
  "tektonPipelinesOKDBundleDir = ''/data/tekton-pipelines/okd/''"

definition getPipelineBundlePath :: "bool \<Rightarrow> string" where
  "getPipelineBundlePath isOpenshift =
     (if isOpenshift then tektonPipelinesOKDBundleDir else tektonPipelinesKubernetesBundleDir)"

definition getTasksBundlePath :: "bool \<Rightarrow> string" where
  "getTasksBundlePath isOpenshift =
     (if isOpenshift then
        join_rooted tektonTasksOKDBundleDir
          (''kubevirt-tekton-tasks-okd-'' @ TektonTasksVersion @ ''.yaml'')
      else
        join_rooted tektonTasksKubernetesBundleDir
          (''kubevirt-tekton-tasks-kubernetes-'' @ TektonTasksVersion @ ''.yaml''))"

section \<open>Reading\<close>

definition runningOnOpenshift :: "'w client \<Rightarrow> 'w \<Rightarrow> (error + bool) \<times> 'w" where
  "runningOnOpenshift cl w =
     (case c_get_clusterversion cl ''version'' w of
        (Inl e, w) \<Rightarrow> (if is_no_match e \<or> is_not_found e then (Inr False, w) else (Inl e, w))
      | (Inr _, w) \<Rightarrow> (Inr True, w))"

definition readFile :: "file_system \<Rightarrow> string \<Rightarrow> error + string list" where
  "readFile fs fileName = (case fs_readFile fs fileName of Inl e \<Rightarrow> Inl e | Inr f \<Rightarrow> Inr [f])"

text \<open>
  \<open>filesBytes\<close> is made with one empty entry per directory entry, and the files are appended
  after these.
\<close>

fun read_entries :: "file_system \<Rightarrow> string \<Rightarrow> (string \<times> bool) list \<Rightarrow> string list \<Rightarrow> error + string list" where
  "read_entries fs folderPath [] filesBytes = Inr filesBytes"
| "read_entries fs folderPath ((name, isDir) # files) filesBytes =
     (if isDir then read_entries fs folderPath files filesBytes
      else case fs_readFile fs (join_rooted folderPath name) of
             Inl e \<Rightarrow> Inl e
           | Inr f \<Rightarrow> read_entries fs folderPath files (filesBytes @ [f]))"

definition readFolder :: "file_system \<Rightarrow> string \<Rightarrow> error + string list" where
  "readFolder fs folderPath =
     (case fs_readDir fs folderPath of
        Inl e \<Rightarrow> Inl e
      | Inr files \<Rightarrow> read_entries fs folderPath files (replicate (length files) ''''))"

section \<open>Decoding\<close>

definition tasksString :: string where "tasksString = ''Task''"
definition pipelineKindString :: string where "pipelineKindString = ''Pipeline''"
definition serviceAccountKind :: string where "serviceAccountKind = ''ServiceAccount''"
definition roleBindingKind :: string where "roleBindingKind = ''RoleBinding''"
definition clusterRoleKind :: string where "clusterRoleKind = ''ClusterRole''"
definition configMapKind :: string where "configMapKind = ''ConfigMap''"

lemmas kind_defs = tasksString_def pipelineKindString_def serviceAccountKind_def
  roleBindingKind_def clusterRoleKind_def configMapKind_def

definition getObject :: "'d yaml_lib \<Rightarrow> 'd \<Rightarrow> rtype \<Rightarrow> error + object" where
  "getObject lib obj t =
     (case yl_marshal lib obj of Inl e \<Rightarrow> Inl e | Inr o' \<Rightarrow> yl_unmarshal lib t o')"

definition decode_document :: "'d yaml_lib \<Rightarrow> 'd \<Rightarrow> Bundle \<Rightarrow> error + Bundle" where
  \<comment> \<open>the body of the inner loop of \<open>decodeObjectsFromFiles\<close>\<close>
  "decode_document lib obj bundle =
     (case yl_kind lib obj of
        None \<Rightarrow> Inr bundle
      | Some kind \<Rightarrow>
          if kind = '''' then Inr bundle
          else if kind = tasksString then
            (case getObject lib obj Task of Inl e \<Rightarrow> Inl e
             | Inr task \<Rightarrow> Inr (bundle\<lparr>Bundle_Tasks := Bundle_Tasks bundle @ [task]\<rparr>))
          else if kind = pipelineKindString then
            (case getObject lib obj Pipeline of Inl e \<Rightarrow> Inl e
             | Inr p \<Rightarrow> Inr (bundle\<lparr>Bundle_Pipelines := Bundle_Pipelines bundle @ [p]\<rparr>))
          else if kind = serviceAccountKind then
            (case getObject lib obj ServiceAccount of Inl e \<Rightarrow> Inl e
             | Inr sa \<Rightarrow> Inr (bundle\<lparr>Bundle_ServiceAccounts := Bundle_ServiceAccounts bundle @ [sa]\<rparr>))
          else if kind = roleBindingKind then
            (case getObject lib obj RoleBinding of Inl e \<Rightarrow> Inl e
             | Inr rb \<Rightarrow> Inr (bundle\<lparr>Bundle_RoleBindings := Bundle_RoleBindings bundle @ [rb]\<rparr>))
          else if kind = clusterRoleKind then
            (case getObject lib obj ClusterRole of Inl e \<Rightarrow> Inl e
             | Inr cr \<Rightarrow> Inr (bundle\<lparr>Bundle_ClusterRoles := Bundle_ClusterRoles bundle @ [cr]\<rparr>))
          else if kind = configMapKind then
            (case getObject lib obj ConfigMap of Inl e \<Rightarrow> Inl e
             | Inr cm \<Rightarrow> Inr (bundle\<lparr>Bundle_ConfigMaps := Bundle_ConfigMaps bundle @ [cm]\<rparr>))
          else Inr bundle)"

fun decode_file :: "'d yaml_lib \<Rightarrow> 'd list \<times> error option \<Rightarrow> Bundle \<Rightarrow> error + Bundle" where
  "decode_file lib ([], None) bundle = Inr bundle"
| "decode_file lib ([], Some e) bundle = Inl e"
| "decode_file lib (obj # objs, end) bundle =
     (case decode_document lib obj bundle of
        Inl e \<Rightarrow> Inl e
      | Inr bundle \<Rightarrow> decode_file lib (objs, end) bundle)"

fun decode_files :: "'d yaml_lib \<Rightarrow> string list \<Rightarrow> Bundle \<Rightarrow> error + Bundle" where
  "decode_files lib [] bundle = Inr bundle"
| "decode_files lib (file # files) bundle =
     (case decode_file lib (yl_documents lib file) bundle of
        Inl e \<Rightarrow> Inl e
      | Inr bundle \<Rightarrow> decode_files lib files bundle)"

definition decodeObjectsFromFiles :: "'d yaml_lib \<Rightarrow> string list \<Rightarrow> error + Bundle" where
  "decodeObjectsFromFiles lib files = decode_files lib files empty_bundle"

definition ReadTasksBundle ::
  "'d yaml_lib \<Rightarrow> file_system \<Rightarrow> 'w client \<Rightarrow> 'w \<Rightarrow> (error + Bundle) \<times> 'w" where
  "ReadTasksBundle lib fs cl w =
     (case runningOnOpenshift cl w of
        (Inl e, w) \<Rightarrow> (Inl e, w)
      | (Inr isOpenshift, w) \<Rightarrow>
          ((case readFile fs (getTasksBundlePath isOpenshift) of
              Inl e \<Rightarrow> Inl e | Inr files \<Rightarrow> decodeObjectsFromFiles lib files), w))"

definition ReadPipelineBundle ::
  "'d yaml_lib \<Rightarrow> file_system \<Rightarrow> 'w client \<Rightarrow> 'w \<Rightarrow> (error + Bundle) \<times> 'w" where
  "ReadPipelineBundle lib fs cl w =
     (case runningOnOpenshift cl w of
        (Inl e, w) \<Rightarrow> (Inl e, w)
      | (Inr isOpenshift, w) \<Rightarrow>
          ((case readFolder fs (getPipelineBundlePath isOpenshift) of
              Inl e \<Rightarrow> Inl e | Inr files \<Rightarrow> decodeObjectsFromFiles lib files), w))"

section \<open>What a bundle holds\<close>

text \<open>
  The reference reading of the files: each document is an error, an object of one of the six
  types, or nothing (no kind, or a kind the operator does not deploy); a decoder that stops
  with an error adds it at the end of its file.
\<close>

definition kind_type :: "string \<Rightarrow> rtype option" where
  "kind_type kind = find (\<lambda>t. rtype_kind t = kind)
     [Task, Pipeline, ServiceAccount, RoleBinding, ClusterRole, ConfigMap]"

definition document_event :: "'d yaml_lib \<Rightarrow> 'd \<Rightarrow> error + (rtype \<times> object) option" where
  "document_event lib d =
     (case Option.bind (yl_kind lib d) kind_type of
        None \<Rightarrow> Inr None
      | Some t \<Rightarrow> map_sum id (\<lambda>x. Some (t, x)) (getObject lib d t))"

definition file_events :: "'d yaml_lib \<Rightarrow> string \<Rightarrow> (error + (rtype \<times> object) option) list" where
  "file_events lib file =
     (case yl_documents lib file of (ds, stop) \<Rightarrow>
        map (document_event lib) ds @ (case stop of None \<Rightarrow> [] | Some e \<Rightarrow> [Inl e]))"

definition first_error :: "('e + 'a) list \<Rightarrow> 'e option" where
  "first_error evs = map_option projl (find isl evs)"

definition objects_of_type :: "rtype \<Rightarrow> ('e + (rtype \<times> object) option) list \<Rightarrow> object list" where
  "objects_of_type t evs =
     concat (map (\<lambda>ev. case ev of Inr (Some (t', x)) \<Rightarrow> if t' = t then [x] else []
                               | _ \<Rightarrow> []) evs)"

definition add_objects :: "('e + (rtype \<times> object) option) list \<Rightarrow> Bundle \<Rightarrow> Bundle" where
  "add_objects evs b =
     \<lparr>Bundle_Tasks = Bundle_Tasks b @ objects_of_type Task evs,
      Bundle_ServiceAccounts = Bundle_ServiceAccounts b @ objects_of_type ServiceAccount evs,
      Bundle_RoleBindings = Bundle_RoleBindings b @ objects_of_type RoleBinding evs,
      Bundle_ClusterRoles = Bundle_ClusterRoles b @ objects_of_type ClusterRole evs,
      Bundle_Pipelines = Bundle_Pipelines b @ objects_of_type Pipeline evs,
      Bundle_ConfigMaps = Bundle_ConfigMaps b @ objects_of_type ConfigMap evs\<rparr>"

lemma objects_of_type_simps [simp]:
  "objects_of_type t [] = []"
  "objects_of_type t (Inl e # evs) = objects_of_type t evs"
  "objects_of_type t (Inr None # evs) = objects_of_type t evs"
  "objects_of_type t (Inr (Some (t', x)) # evs) =
     (if t' = t then [x] else []) @ objects_of_type t evs"
  "objects_of_type t (evs @ evs') = objects_of_type t evs @ objects_of_type t evs'"
  by (simp_all add: objects_of_type_def)

lemma first_error_simps [simp]:
  "first_error [] = None" "first_error (Inl e # evs) = Some e"
  "first_error (Inr a # evs) = first_error evs"
  by (simp_all add: first_error_def)

lemma first_error_append:
  "first_error (evs @ evs') = (case first_error evs of Some e \<Rightarrow> Some e | None \<Rightarrow> first_error evs')"
  by (induction evs) (auto simp: first_error_def split: sum.splits)

lemma add_objects_append [simp]: "add_objects evs' (add_objects evs b) = add_objects (evs @ evs') b"
  by (simp add: add_objects_def)

lemma add_objects_Nil [simp]: "add_objects [] b = b"
  by (simp add: add_objects_def)

lemma decode_document_event:
  "decode_document lib d b =
     (case document_event lib d of Inl e \<Rightarrow> Inl e | Inr x \<Rightarrow> Inr (add_objects [Inr x :: error + _] b))"
  by (cases "yl_kind lib d")
    (auto simp: decode_document_def document_event_def kind_type_def kind_defs add_objects_def
      split: sum.splits)

lemma decode_file_events:
  "decode_file lib (ds, stop) b =
     (let evs = map (document_event lib) ds @ (case stop of None \<Rightarrow> [] | Some e \<Rightarrow> [Inl e])
      in case first_error evs of Some e \<Rightarrow> Inl e | None \<Rightarrow> Inr (add_objects evs b))"
proof (induction ds arbitrary: b)
  case Nil
  show ?case by (cases stop) simp_all
next
  case (Cons d ds)
  show ?case
  proof (cases "document_event lib d")
    case (Inl e)
    then show ?thesis by (simp add: decode_document_event)
  next
    case (Inr x)
    then show ?thesis
      by (simp add: decode_document_event Cons.IH Let_def split: option.splits)
  qed
qed

lemma decode_files_events:
  "decode_files lib files b =
     (let evs = concat (map (file_events lib) files)
      in case first_error evs of Some e \<Rightarrow> Inl e | None \<Rightarrow> Inr (add_objects evs b))"
proof (induction files arbitrary: b)
  case Nil
  show ?case by simp
next
  case (Cons f fs)
  obtain ds stop where d: "yl_documents lib f = (ds, stop)" by (cases "yl_documents lib f")
  show ?case
    by (simp add: d decode_file_events Cons.IH file_events_def first_error_append Let_def
        split: option.splits)
qed

text \<open>
  C31. Decoding succeeds exactly when no document and no decoder fails, and then each list of
  the bundle holds the objects of its type, in the order of the files and of the documents
  in them, nothing else and nothing missing; otherwise the first error, in that order, is
  returned.
\<close>

theorem decodeObjectsFromFiles_spec:
  "decodeObjectsFromFiles lib files =
     (let evs = concat (map (file_events lib) files)
      in case first_error evs of
           Some e \<Rightarrow> Inl e
         | None \<Rightarrow> Inr \<lparr>Bundle_Tasks = objects_of_type Task evs,
             Bundle_ServiceAccounts = objects_of_type ServiceAccount evs,
             Bundle_RoleBindings = objects_of_type RoleBinding evs,
             Bundle_ClusterRoles = objects_of_type ClusterRole evs,
             Bundle_Pipelines = objects_of_type Pipeline evs,
             Bundle_ConfigMaps = objects_of_type ConfigMap evs\<rparr>)"
  by (simp add: decodeObjectsFromFiles_def decode_files_events add_objects_def empty_bundle_def
      Let_def split: option.splits)

section \<open>Reading a folder\<close>

lemma read_entries_files:
  assumes "\<And>name. (name, False) \<in> set entries \<Longrightarrow> fs_readFile fs (join_rooted dir name) = Inr (content name)"
  shows "read_entries fs dir entries acc =
     Inr (acc @ map (content \<circ> fst) (filter (Not \<circ> snd) entries))"
  using assms by (induction entries arbitrary: acc) (auto split: if_splits)

lemma decode_files_append:
  "decode_files lib (fs @ gs) b =
     (case decode_files lib fs b of Inl e \<Rightarrow> Inl e | Inr b \<Rightarrow> decode_files lib gs b)"
  by (induction fs arbitrary: b) (auto split: sum.splits)

lemma decode_files_empty:
  "yl_documents lib '''' = ([], None) \<Longrightarrow> decode_files lib (replicate n '''') b = Inr b"
  by (induction n) simp_all

text \<open>
  C32. The pipeline bundle is what the regular files of the cluster's directory decode to,
  in the order of the directory: the empty entries that the slice of file contents is made
  with, one for every directory entry, add nothing, because decoding an empty file yields no
  document.
\<close>

theorem ReadPipelineBundle_files:
  assumes "yl_documents lib '''' = ([], None)"
    and "runningOnOpenshift cl w = (Inr isOpenshift, w')"
    and "fs_readDir fs (getPipelineBundlePath isOpenshift) = Inr entries"
    and "\<And>name. (name, False) \<in> set entries \<Longrightarrow>
      fs_readFile fs (join_rooted (getPipelineBundlePath isOpenshift) name) = Inr (content name)"
  shows "ReadPipelineBundle lib fs cl w =
     (decodeObjectsFromFiles lib (map (content \<circ> fst) (filter (Not \<circ> snd) entries)), w')"
proof -
  have "readFolder fs (getPipelineBundlePath isOpenshift) =
      Inr (replicate (length entries) '''' @ map (content \<circ> fst) (filter (Not \<circ> snd) entries))"
    by (simp add: readFolder_def assms(3) read_entries_files [OF assms(4)])
  then show ?thesis
    by (simp add: ReadPipelineBundle_def assms(2) decodeObjectsFromFiles_def decode_files_append
        decode_files_empty [OF assms(1)])
qed

text \<open>A YAML library and a file system to run the readers on: a document is a kind and a name.\<close>

definition sample_lib :: "(string \<times> string) yaml_lib" where
  "sample_lib =
     \<lparr>yl_documents = (\<lambda>f. if f = '''' then ([], None)
                          else if f = ''bad'' then ([(''Pipeline'', ''p'')], Some (PlainError ''yaml''))
                          else ([(''Pipeline'', f), (''Secret'', f)], None)),
      yl_kind = (\<lambda>d. Some (fst d)), yl_marshal = (\<lambda>d. Inr (snd d)),
      yl_unmarshal = (\<lambda>t n. Inr \<lparr>o_kind = rtype_kind t, o_apiVersion = rtype_apiVersion t,
         o_meta = empty_meta\<lparr>m_name := n\<rparr>, o_body = empty_body t\<rparr>)\<rparr>"

definition sample_files :: file_system where
  "sample_files = \<lparr>fs_readFile = (\<lambda>p. Inr (drop (length p - 1) p)),
     fs_readDir = (\<lambda>p. Inr [(''a'', False), (''sub'', True), (''b'', False)])\<rparr>"

theorem ReadPipelineBundle_files_witness:
  "ReadPipelineBundle sample_lib sample_files
     (undefined\<lparr>c_get_clusterversion := \<lambda>n w. (Inr (), w)\<rparr>) (3 :: nat) =
   (decodeObjectsFromFiles sample_lib [''a'', ''b''], 3)"
proof -
  have "fs_readFile sample_files (join_rooted (getPipelineBundlePath True) n) = Inr n"
    if "(n, False) \<in> set [(''a'', False), (''sub'', True), (''b'', False)]" for n
    using that by (auto simp: sample_files_def join_rooted_def getPipelineBundlePath_def
        tektonPipelinesOKDBundleDir_def)
  then show ?thesis
    using ReadPipelineBundle_files [of sample_lib "undefined\<lparr>c_get_clusterversion := \<lambda>n w. (Inr (), w)\<rparr>"
        "3 :: nat" True 3 sample_files "[(''a'', False), (''sub'', True), (''b'', False)]" "\<lambda>n. n"]
    by (simp add: sample_lib_def sample_files_def runningOnOpenshift_def)
qed

end
