(* ===== verification/Resource.thy ===== *)
theory Resource
  imports Api_Client
begin

text \<open>
  The generic reconciler of one resource and its cleanup (\<open>pkg/common/resource.go\<close>). A call
  mutates the resource it is given, so the resource is threaded beside the system state;
  everything else a Go pointer shares is written out where it matters.
\<close>

section \<open>Results and builders\<close>

datatype OperationResult = OperationResultNone | OperationResultCreated
  | OperationResultUpdated | OperationResultDeleted

record ResourceStatus =
  Progressing :: "string option"
  NotAvailable :: "string option"
  Degraded :: "string option"

definition empty_status' :: ResourceStatus where
  "empty_status' = \<lparr>Progressing = None, NotAvailable = None, Degraded = None\<rparr>"

record ReconcileResult =
  rr_Status :: ResourceStatus
  rr_Resource :: object
  rr_OperationResult :: OperationResult

definition IsSuccess :: "ReconcileResult \<Rightarrow> bool" where
  "IsSuccess r = (Progressing (rr_Status r) = None \<and> NotAvailable (rr_Status r) = None \<and>
                  Degraded (rr_Status r) = None)"

record CleanupResult =
  cr_Resource :: object
  cr_Deleted :: bool

definition clusterResources :: "string \<Rightarrow> bool" where
  "clusterResources kind = (kind = ''ClusterTask'' \<or> kind = ''ClusterRole'')"

text \<open>\<open>CollectResourceStatus\<close>: run the functions in order, stop at the first error.\<close>

definition CollectResourceStatus ::
  "('s \<Rightarrow> ReconcileResult outcome \<times> 's) list \<Rightarrow> 's \<Rightarrow> ReconcileResult list outcome \<times> 's" where
  "CollectResourceStatus funcs s = collect_outcomes (\<lambda>f s'. f s') funcs s"

text \<open>
  An update function changes the found object and may, through slices the two share, change
  the expected one: it returns the found object (or panics) and the expected one.
\<close>

type_synonym update_func = "object \<Rightarrow> object \<Rightarrow> object outcome \<times> object"

record reconcileBuilder =
  isClusterResource :: bool
  addLabels :: bool
  operandName :: string
  operandComponent :: string
  updateFunc :: update_func
  statusFunc :: "object \<Rightarrow> ResourceStatus"
  immutableSpec :: bool
  specGetter :: "object \<Rightarrow> body option"
  AlwaysCallUpdateFunc :: bool

definition CreateOrUpdate :: reconcileBuilder where
  "CreateOrUpdate = \<lparr>isClusterResource = False, addLabels = False, operandName = '''',
     operandComponent = '''', updateFunc = (\<lambda>expected found. (Ok found, expected)),
     statusFunc = (\<lambda>_. empty_status'), immutableSpec = False, specGetter = (\<lambda>_. None),
     AlwaysCallUpdateFunc = False\<rparr>"

definition NamespacedResource :: "reconcileBuilder \<Rightarrow> reconcileBuilder" where
  "NamespacedResource b = b\<lparr>isClusterResource := False\<rparr>"
definition ClusterResource :: "reconcileBuilder \<Rightarrow> reconcileBuilder" where
  "ClusterResource b = b\<lparr>isClusterResource := True\<rparr>"
definition WithAppLabels :: "string \<Rightarrow> string \<Rightarrow> reconcileBuilder \<Rightarrow> reconcileBuilder" where
  "WithAppLabels name component b =
     b\<lparr>addLabels := True, operandName := name, operandComponent := component\<rparr>"
definition UpdateFunc :: "update_func \<Rightarrow> reconcileBuilder \<Rightarrow> reconcileBuilder" where
  "UpdateFunc f b = b\<lparr>updateFunc := f\<rparr>"
definition StatusFunc :: "(object \<Rightarrow> ResourceStatus) \<Rightarrow> reconcileBuilder \<Rightarrow> reconcileBuilder" where
  "StatusFunc f b = b\<lparr>statusFunc := f\<rparr>"
definition ImmutableSpec :: "(object \<Rightarrow> body option) \<Rightarrow> reconcileBuilder \<Rightarrow> reconcileBuilder" where
  "ImmutableSpec g b = b\<lparr>immutableSpec := True, specGetter := g\<rparr>"
definition Options :: "bool \<Rightarrow> reconcileBuilder \<Rightarrow> reconcileBuilder" where
  "Options always b = b\<lparr>AlwaysCallUpdateFunc := always\<rparr>"

lemmas builder_defs = CreateOrUpdate_def NamespacedResource_def ClusterResource_def
  WithAppLabels_def UpdateFunc_def StatusFunc_def ImmutableSpec_def Options_def

section \<open>Reconciling\<close>

definition newEmptyResource :: "object \<Rightarrow> object" where
  "newEmptyResource resource =
     \<lparr>o_kind = '''', o_apiVersion = '''', o_meta = empty_meta, o_body = empty_body (o_rtype resource)\<rparr>"

definition updateStringMap :: "smap \<Rightarrow> smap \<Rightarrow> smap" where
  \<comment> \<open>called with a non-nil \<open>found\<close>: the entries of \<open>expected\<close> are written into it\<close>
  "updateStringMap expected found =
     (case expected of None \<Rightarrow> found | Some e \<Rightarrow> map_option (\<lambda>f. fmadd f e) found)"

definition updateAnnotations :: "object \<Rightarrow> object \<Rightarrow> object" where
  "updateAnnotations expected found =
     upd_meta (\<lambda>m. m\<lparr>m_annotations :=
       (if m_annotations m = None then m_annotations (o_meta expected)
        else updateStringMap (m_annotations (o_meta expected)) (m_annotations m))\<rparr>) found"

definition updateLabels :: "object \<Rightarrow> object \<Rightarrow> object" where
  "updateLabels expected found =
     upd_meta (\<lambda>m. m\<lparr>m_labels :=
       (if m_labels m = None then m_labels (o_meta expected)
        else updateStringMap (m_labels (o_meta expected)) (m_labels m))\<rparr>) found"

definition setOwner :: "TektonTasks \<Rightarrow> object \<Rightarrow> bool \<Rightarrow> error + object" where
  "setOwner inst resource isClusterRes =
     (if isClusterRes then
        SetOwnerAnnotations inst (upd_meta (\<lambda>m. m\<lparr>m_ownerReferences := []\<rparr>) resource)
      else
        SetControllerReference inst
          (upd_meta (\<lambda>m. m\<lparr>m_annotations :=
             smap_delete (smap_delete (m_annotations m) NamespacedNameAnnotation) TypeAnnotation\<rparr>) resource))"

text \<open>The closure \<open>mutateFn\<close> of \<open>Reconcile\<close>, and \<open>mutate\<close>, which checks the key after it.\<close>

definition mutateFn :: "reconcileBuilder \<Rightarrow> version_cache \<Rightarrow> object \<Rightarrow> object \<Rightarrow> object outcome \<times> object" where
  "mutateFn b vc resource found =
     (if \<not> time_is_zero (m_deletionTimestamp (o_meta found)) then (Ok found, resource)
      else
        (let found = upd_meta (\<lambda>m. m\<lparr>m_ownerReferences := m_ownerReferences (o_meta resource)\<rparr>) found;
             found = updateLabels resource found;
             found = updateAnnotations resource found
         in if AlwaysCallUpdateFunc b \<or> \<not> cache_Contains vc found
            then updateFunc b resource found
            else (Ok found, resource)))"

definition mutate ::
  "reconcileBuilder \<Rightarrow> version_cache \<Rightarrow> object_key \<Rightarrow> object \<Rightarrow> object \<Rightarrow> object outcome \<times> object" where
  "mutate b vc key resource obj =
     bind_outcome (mutateFn b vc resource obj) (\<lambda>obj resource.
       if clusterResources (o_kind obj) then (Ok obj, resource)
       else if key \<noteq> object_key_of obj then
         (Err (PlainError ''MutateFn cannot mutate object name and/or object namespace''), resource)
       else (Ok obj, resource))"

text \<open>State-passing forms: the resource beside the system state.\<close>

definition on_resource ::
  "(object \<Rightarrow> 'a outcome \<times> object) \<Rightarrow> object \<times> 'w sys \<Rightarrow> 'a outcome \<times> (object \<times> 'w sys)" where
  "on_resource f st = (case f (fst st) of (r, resource) \<Rightarrow> (r, (resource, snd st)))"

definition on_sys ::
  "('w sys \<Rightarrow> 'a outcome \<times> 'w sys) \<Rightarrow> object \<times> 'w sys \<Rightarrow> 'a outcome \<times> (object \<times> 'w sys)" where
  "on_sys f st = (case f (snd st) of (r, s) \<Rightarrow> (r, (fst st, s)))"

definition spec_deep_equal :: "body option \<Rightarrow> body option \<Rightarrow> bool" where
  "spec_deep_equal a b = (map_option body_norm a = map_option body_norm b)"

definition createOrUpdateWithImmutableSpec ::
  "'w client \<Rightarrow> reconcileBuilder \<Rightarrow> object \<Rightarrow> object \<times> 'w sys \<Rightarrow>
   (OperationResult \<times> object) outcome \<times> (object \<times> 'w sys)" where
  "createOrUpdateWithImmutableSpec cl b obj st =
     (let key = object_key_of obj in
      case on_sys (call (c_get cl (o_rtype obj) key)) st of
        (Err e, st) \<Rightarrow>
          if \<not> is_not_found e then (Err e, st)
          else bind_outcome (on_resource (\<lambda>r. mutate b (vcache (snd st)) key r obj) st) (\<lambda>obj st.
            bind_outcome (on_sys (call (c_create cl obj)) st) (\<lambda>obj st.
              (Ok (OperationResultCreated, obj), st)))
      | (Panic p, st) \<Rightarrow> (Panic p, st)
      | (Ok existing, st) \<Rightarrow>
          bind_outcome (on_resource (\<lambda>r. mutate b (vcache (snd st)) key r existing) st) (\<lambda>obj st.
            if semantic_deep_equal existing obj then (Ok (OperationResultNone, obj), st)
            else if immutableSpec b \<and> \<not> spec_deep_equal (specGetter b existing) (specGetter b obj)
            then bind_outcome (on_sys (call (c_delete cl obj)) st) (\<lambda>_ st.
                   (Ok (OperationResultDeleted, obj), st))
            else bind_outcome (on_sys (call (c_update cl obj)) st) (\<lambda>obj st.
                   (Ok (OperationResultUpdated, obj), st))))"

definition being_deleted_message :: string where
  "being_deleted_message = ''Resource is being deleted.''"

definition ResourceDeletedResult :: "object \<Rightarrow> OperationResult \<Rightarrow> ReconcileResult" where
  "ResourceDeletedResult resource res =
     \<lparr>rr_Status = \<lparr>Progressing = Some being_deleted_message, NotAvailable = Some being_deleted_message,
                   Degraded = Some being_deleted_message\<rparr>,
      rr_Resource = resource, rr_OperationResult = res\<rparr>"

definition logOperation :: "OperationResult \<Rightarrow> object \<Rightarrow> 'w sys \<Rightarrow> 'w sys" where
  "logOperation result resource s =
     (case result of
        OperationResultCreated \<Rightarrow>
          log_msg (''Created '' @ o_kind resource @ '' resource: '' @ m_name (o_meta resource)) s
      | OperationResultUpdated \<Rightarrow>
          log_msg (''Updated '' @ o_kind resource @ '' resource: '' @ m_name (o_meta resource)) s
      | OperationResultDeleted \<Rightarrow>
          log_msg (''Deleted '' @ o_kind resource @ '' resource: '' @ m_name (o_meta resource)) s
      | OperationResultNone \<Rightarrow> s)"

definition reconcile_prepare :: "TektonTasks \<Rightarrow> reconcileBuilder \<Rightarrow> object \<Rightarrow> object outcome \<times> object" where
  \<comment> \<open>lines 161 to 168 of \<open>Reconcile\<close>: labels and owner\<close>
  "reconcile_prepare inst b resource =
     (let resource = (if addLabels b then AddAppLabels inst (operandName b) (operandComponent b) resource
                      else resource)
      in case setOwner inst resource (isClusterResource b) of
           Inl e \<Rightarrow> (Err e, upd_meta (\<lambda>m. if isClusterResource b then m\<lparr>m_ownerReferences := []\<rparr>
               else m\<lparr>m_annotations := smap_delete (smap_delete (m_annotations m)
                        NamespacedNameAnnotation) TypeAnnotation\<rparr>) resource)
         | Inr resource \<Rightarrow> (Ok resource, resource))"

definition Reconcile ::
  "'w client \<Rightarrow> TektonTasks \<Rightarrow> reconcileBuilder \<Rightarrow> object \<times> 'w sys \<Rightarrow>
   ReconcileResult outcome \<times> (object \<times> 'w sys)" where
  "Reconcile cl inst b st =
     bind_outcome (on_resource (reconcile_prepare inst b) st) (\<lambda>resource st.
       let found = upd_meta (\<lambda>m. m\<lparr>m_name := m_name (o_meta resource),
                                    m_namespace := m_namespace (o_meta resource)\<rparr>)
                     (newEmptyResource resource)
       in case createOrUpdateWithImmutableSpec cl b found st of
            (Err e, (resource, s)) \<Rightarrow>
              (Err e, (resource, log_msg (''Resource create/update failed: '' @ error_message e) s))
          | (Panic p, st) \<Rightarrow> (Panic p, st)
          | (Ok (res, found), (resource, s)) \<Rightarrow>
              if res = OperationResultDeleted \<or> \<not> time_is_zero (m_deletionTimestamp (o_meta found))
              then (Ok (ResourceDeletedResult resource res),
                    (resource, s\<lparr>vcache := cache_RemoveObj (vcache s) found\<rparr>))
              else (let s = s\<lparr>vcache := cache_Add (vcache s) found\<rparr>;
                        s = logOperation res found s
                    in (Ok \<lparr>rr_Status = statusFunc b found, rr_Resource = resource,
                            rr_OperationResult = res\<rparr>, (resource, s))))"

section \<open>Cleaning up\<close>

text \<open>
  \<open>isResourceOwned\<close> mutates the expected object and indexes its first owner reference for
  every owner reference of the found one.
\<close>

definition index_panic :: string where
  "index_panic = ''runtime error: index out of range [0] with length 0''"

definition isResourceOwned :: "TektonTasks \<Rightarrow> object \<Rightarrow> object \<Rightarrow> bool outcome \<times> object" where
  "isResourceOwned inst expectedObj foundObj =
     (let owned =
        (if m_namespace (o_meta expectedObj) = m_namespace (tt_meta inst)
         then SetControllerReference inst (upd_meta (\<lambda>m. m\<lparr>m_ownerReferences := []\<rparr>) expectedObj)
         else Inr expectedObj)
      in case owned of Inl e \<Rightarrow> (Err e, upd_meta (\<lambda>m. m\<lparr>m_ownerReferences := []\<rparr>) expectedObj)
       | Inr expectedObj \<Rightarrow>
         (case SetOwnerAnnotations inst expectedObj of Inl e \<Rightarrow> (Err e, expectedObj)
          | Inr expectedObj \<Rightarrow>
            (if m_ownerReferences (o_meta foundObj) \<noteq> [] \<and> m_ownerReferences (o_meta expectedObj) = []
             then (Panic index_panic, expectedObj)
             else if \<exists>reference \<in> set (m_ownerReferences (o_meta foundObj)).
                       reference = hd (m_ownerReferences (o_meta expectedObj))
             then (Ok True, expectedObj)
             else if m_annotations (o_meta foundObj) \<noteq> None \<and>
                 smap_index (m_annotations (o_meta foundObj)) TypeAnnotation =
                   smap_index (m_annotations (o_meta expectedObj)) TypeAnnotation \<and>
                 smap_index (m_annotations (o_meta foundObj)) NamespacedNameAnnotation =
                   smap_index (m_annotations (o_meta expectedObj)) NamespacedNameAnnotation
             then (Ok True, expectedObj)
             else (Ok False, expectedObj))))"

definition Cleanup :: "'w client \<Rightarrow> TektonTasks \<Rightarrow> object \<Rightarrow> 'w sys \<Rightarrow> CleanupResult outcome \<times> 'w sys" where
  "Cleanup cl inst resource s =
     (case call (c_get cl (o_rtype resource) (object_key_of resource)) s of
        (Err e, s) \<Rightarrow>
          if is_not_found e then (Ok \<lparr>cr_Resource = resource, cr_Deleted = True\<rparr>, s) else (Err e, s)
      | (Panic p, s) \<Rightarrow> (Panic p, s)
      | (Ok found, s) \<Rightarrow>
          (case isResourceOwned inst resource found of
             (Err e, _) \<Rightarrow> (Err e, s)
           | (Panic p, _) \<Rightarrow> (Panic p, s)
           | (Ok isOwned, resource) \<Rightarrow>
               if \<not> isOwned then (Ok \<lparr>cr_Resource = resource, cr_Deleted = True\<rparr>, s)
               else if time_is_zero (m_deletionTimestamp (o_meta found)) then
                 (case call (c_delete cl found) s of
                    (Err e, s) \<Rightarrow>
                      if is_not_found e then (Ok \<lparr>cr_Resource = resource, cr_Deleted = True\<rparr>, s)
                      else (Err e, log_msg (''Error deleting '' @ go_quote (m_name (o_meta resource)) @
                                            '': '' @ error_message e) s)
                  | (Panic p, s) \<Rightarrow> (Panic p, s)
                  | (Ok _, s) \<Rightarrow> (Ok \<lparr>cr_Resource = resource, cr_Deleted = False\<rparr>, s))
               else (Ok \<lparr>cr_Resource = resource, cr_Deleted = False\<rparr>, s)))"

definition DeleteAll ::
  "'w client \<Rightarrow> TektonTasks \<Rightarrow> object list \<Rightarrow> 'w sys \<Rightarrow> CleanupResult list outcome \<times> 'w sys" where
  "DeleteAll cl inst resources s = collect_outcomes (Cleanup cl inst) resources s"

end
