(* ===== verification/Reconcile_Contract.thy ===== *)
theory Reconcile_Contract
  imports Resource
begin

text \<open>
  What the reconciler of one resource guarantees, whatever the resource: the contract its
  update function has to meet (\<open>update_contract\<close>), and, on a healthy API server, that one
  reconciliation brings the stored object to the desired state and the next one finds
  nothing to do (\<open>reconciled_resource\<close>).
\<close>


section \<open>Facts about the parts\<close>

lemma updateLabels_simps [simp]:
  "o_body (updateLabels e f) = o_body f" "o_kind (updateLabels e f) = o_kind f"
  "o_rtype (updateLabels e f) = o_rtype f" "object_key_of (updateLabels e f) = object_key_of f"
  "m_annotations (o_meta (updateLabels e f)) = m_annotations (o_meta f)"
  "m_ownerReferences (o_meta (updateLabels e f)) = m_ownerReferences (o_meta f)"
  "m_finalizers (o_meta (updateLabels e f)) = m_finalizers (o_meta f)"
  "m_resourceVersion (o_meta (updateLabels e f)) = m_resourceVersion (o_meta f)"
  "m_deletionTimestamp (o_meta (updateLabels e f)) = m_deletionTimestamp (o_meta f)"
  "m_name (o_meta (updateLabels e f)) = m_name (o_meta f)"
  by (simp_all add: updateLabels_def object_key_of_def)

lemma updateAnnotations_simps [simp]:
  "o_body (updateAnnotations e f) = o_body f" "o_kind (updateAnnotations e f) = o_kind f"
  "o_rtype (updateAnnotations e f) = o_rtype f" "object_key_of (updateAnnotations e f) = object_key_of f"
  "m_labels (o_meta (updateAnnotations e f)) = m_labels (o_meta f)"
  "m_ownerReferences (o_meta (updateAnnotations e f)) = m_ownerReferences (o_meta f)"
  "m_finalizers (o_meta (updateAnnotations e f)) = m_finalizers (o_meta f)"
  "m_resourceVersion (o_meta (updateAnnotations e f)) = m_resourceVersion (o_meta f)"
  "m_deletionTimestamp (o_meta (updateAnnotations e f)) = m_deletionTimestamp (o_meta f)"
  "m_name (o_meta (updateAnnotations e f)) = m_name (o_meta f)"
  by (simp_all add: updateAnnotations_def object_key_of_def)

lemma smap_get_update:
  "smap_get (if l = None then e else updateStringMap e l) k =
     (case smap_get e k of None \<Rightarrow> smap_get l k | Some v \<Rightarrow> Some v)"
  by (cases e; cases l) (auto simp: updateStringMap_def fmdomI split: option.splits)

lemma updateLabels_get [simp]:
  "smap_get (m_labels (o_meta (updateLabels e f))) k =
     (case smap_get (m_labels (o_meta e)) k of None \<Rightarrow> smap_get (m_labels (o_meta f)) k | Some v \<Rightarrow> Some v)"
  by (simp add: updateLabels_def smap_get_update)

lemma updateAnnotations_get [simp]:
  "smap_get (m_annotations (o_meta (updateAnnotations e f))) k =
     (case smap_get (m_annotations (o_meta e)) k of None \<Rightarrow> smap_get (m_annotations (o_meta f)) k
      | Some v \<Rightarrow> Some v)"
  by (simp add: updateAnnotations_def smap_get_update)

lemma newEmptyResource_simps [simp]:
  "o_kind (newEmptyResource r) = ''''" "o_rtype (newEmptyResource r) = o_rtype r"
  "o_body (newEmptyResource r) = empty_body (o_rtype r)" "o_meta (newEmptyResource r) = empty_meta"
  by (simp_all add: newEmptyResource_def o_rtype_def)

lemma on_resource_eq: "f r = (q, r') \<Longrightarrow> on_resource f (r, s) = (q, (r', s))"
  by (simp add: on_resource_def)

lemma on_sys_eq: "f s = (q, s') \<Longrightarrow> on_sys f (r, s) = (q, (r, s'))"
  by (simp add: on_sys_def)

text \<open>\<open>smap_sub a b\<close>: every entry of \<open>a\<close> is an entry of \<open>b\<close>.\<close>

definition smap_sub :: "smap \<Rightarrow> smap \<Rightarrow> bool" where
  "smap_sub a b = (\<forall>k v. smap_get a k = Some v \<longrightarrow> smap_get b k = Some v)"

lemma smap_sub_norm [simp]: "smap_sub a (smap_norm b) = smap_sub a b"
  by (simp add: smap_sub_def)

lemma smap_sub_refl [simp]: "smap_sub a a"
  by (simp add: smap_sub_def)

lemma smap_sub_cong: "smap_norm b = smap_norm c \<Longrightarrow> smap_sub a b = smap_sub a c"
  by (simp add: smap_sub_def smap_norm_eq_iff)

lemma update_absorbs:
  assumes "smap_sub e l"
  shows "smap_norm (if l = None then e else updateStringMap e l) = smap_norm l"
  unfolding smap_norm_eq_iff smap_get_update
  using assms by (auto simp: smap_sub_def split: option.splits)

section \<open>The owner written by a cluster-resource reconcile\<close>

lemma setOwner_cluster:
  assumes "m_name (tt_meta inst) \<noteq> ''''" and "tt_kind inst \<noteq> ''''"
  shows "\<exists>a. setOwner inst r True = Inr (upd_meta (\<lambda>m. m\<lparr>m_ownerReferences := [], m_annotations := Some a\<rparr>) r)
     \<and> a = fmupd TypeAnnotation (owner_type inst) (fmupd NamespacedNameAnnotation (owner_namespaced_name inst)
            (case m_annotations (o_meta r) of None \<Rightarrow> fmempty | Some a \<Rightarrow> a))"
  using assms by (simp add: setOwner_def SetOwnerAnnotations_def Let_def upd_meta_def)

text \<open>Names that both reconcile and cleanup give an object: the operator's mark of ownership.\<close>

definition owner_marked :: "TektonTasks \<Rightarrow> object \<Rightarrow> bool" where
  "owner_marked inst x \<longleftrightarrow>
     smap_get (m_annotations (o_meta x)) TypeAnnotation = Some (owner_type inst) \<and>
     smap_get (m_annotations (o_meta x)) NamespacedNameAnnotation = Some (owner_namespaced_name inst)"

definition operand_builder :: "reconcileBuilder \<Rightarrow> bool" where
  \<comment> \<open>how both operands configure the reconciler: cluster resource, labels, mutable spec\<close>
  "operand_builder b \<longleftrightarrow> isClusterResource b \<and> addLabels b \<and> \<not> immutableSpec b \<and> \<not> AlwaysCallUpdateFunc b \<and>
     statusFunc b = (\<lambda>_. empty_status')"

lemma prepare_cluster:
  assumes "operand_builder b" "m_name (tt_meta inst) \<noteq> ''''" "tt_kind inst \<noteq> ''''"
  obtains r' where "reconcile_prepare inst b r = (Ok r', r')"
    "o_body r' = o_body r" "o_kind r' = o_kind r" "o_rtype r' = o_rtype r" 
    "object_key_of r' = object_key_of r" "m_ownerReferences (o_meta r') = []"
    "owner_marked inst r'" "m_labels (o_meta r') = m_labels (o_meta (AddAppLabels inst (operandName b) (operandComponent b) r))"
    "m_annotations (o_meta r') \<noteq> None"
    "\<And>c. reconcile_prepare inst b (r'\<lparr>o_body := c\<rparr>) = (Ok (r'\<lparr>o_body := c\<rparr>), r'\<lparr>o_body := c\<rparr>)"
proof -
  define r1 where "r1 = AddAppLabels inst (operandName b) (operandComponent b) r"
  define a where "a = fmupd TypeAnnotation (owner_type inst)
    (fmupd NamespacedNameAnnotation (owner_namespaced_name inst)
       (case m_annotations (o_meta r) of None \<Rightarrow> fmempty | Some a \<Rightarrow> a))"
  define r2 where "r2 = upd_meta (\<lambda>m. m\<lparr>m_ownerReferences := [], m_annotations := Some a\<rparr>) r1"
  have "setOwner inst r1 True = Inr r2"
    using setOwner_cluster [OF assms(2,3), of r1] by (simp add: r2_def a_def r1_def)
  then have p: "reconcile_prepare inst b r = (Ok r2, r2)"
    using assms(1) by (simp add: reconcile_prepare_def r1_def operand_builder_def Let_def)
  have lab: "AddAppLabels inst (operandName b) (operandComponent b) (r2\<lparr>o_body := c\<rparr>) = r2\<lparr>o_body := c\<rparr>" for c
  proof -
    have "getOrCreateLabels (r2\<lparr>o_body := c\<rparr>) = getOrCreateLabels r1"
      by (simp add: getOrCreateLabels_def r2_def upd_meta_def)
    moreover have "AddAppLabels inst (operandName b) (operandComponent b) r1 = r1"
      by (simp add: r1_def AddAppLabels_idem)
    ultimately show ?thesis
      by (cases r1; cases "o_meta r1")
         (auto simp: AddAppLabels_def Let_def r2_def upd_meta_def)
  qed
  have an: "(case m_annotations (o_meta (r2\<lparr>o_body := c\<rparr>)) of None \<Rightarrow> fmempty | Some a \<Rightarrow> a) = a" for c
    by (simp add: r2_def)
  have aa: "fmupd TypeAnnotation (owner_type inst) (fmupd NamespacedNameAnnotation (owner_namespaced_name inst) a) = a"
    by (intro fmap_ext) (simp add: a_def)
  have "setOwner inst (r2\<lparr>o_body := c\<rparr>) True = Inr (r2\<lparr>o_body := c\<rparr>)" for c
    using setOwner_cluster [OF assms(2,3), of "r2\<lparr>o_body := c\<rparr>"] by (simp add: an) (simp add: r2_def upd_meta_def aa)
  then have q: "reconcile_prepare inst b (r2\<lparr>o_body := c\<rparr>) = (Ok (r2\<lparr>o_body := c\<rparr>), r2\<lparr>o_body := c\<rparr>)" for c
    using assms(1) by (simp add: reconcile_prepare_def operand_builder_def Let_def lab)
  show ?thesis
    by (rule that [OF p _ _ _ _ _ _ _ _ q]) (simp_all add: r2_def r1_def object_key_of_def owner_marked_def a_def)
qed

section \<open>The contract of update functions\<close>

definition merge_map :: "smap \<Rightarrow> smap \<Rightarrow> smap" where
  "merge_map e l = (if l = None then e else updateStringMap e l)"

lemma smap_get_merge [simp]:
  "smap_get (merge_map e l) k = (case smap_get e k of None \<Rightarrow> smap_get l k | Some v \<Rightarrow> Some v)"
  by (simp add: merge_map_def smap_get_update)

lemma merge_absorbs: "smap_sub e l \<Longrightarrow> smap_norm (merge_map e l) = smap_norm l"
  by (simp add: merge_map_def update_absorbs)

lemma smap_sub_merge [simp]: "smap_sub e (merge_map e l)"
  by (simp add: smap_sub_def)

definition cache_wf :: "version_cache \<Rightarrow> bool" where
  \<comment> \<open>objects without a kind are never recorded\<close>
  "cache_wf vc \<longleftrightarrow> (\<forall>k v. fmlookup vc k = Some v \<longrightarrow> ck_Kind k \<noteq> '''')"

lemma cache_wf_empty [simp]: "cache_wf fmempty"
  by (simp add: cache_wf_def)

lemma cache_wf_Add [simp]: "cache_wf vc \<Longrightarrow> cache_wf (cache_Add vc x)"
  by (auto simp: cache_wf_def cache_Add_def cacheKeyFromObj_def)

lemma cache_wf_Remove [simp]: "cache_wf vc \<Longrightarrow> cache_wf (cache_RemoveObj vc x)"
  by (auto simp: cache_wf_def cache_RemoveObj_def)

text \<open>The entry of the cache that records the object of a type under a key.\<close>

definition object_cache_key :: "rtype \<Rightarrow> object_key \<Rightarrow> cacheKey" where
  "object_cache_key t k = \<lparr>ck_Kind = rtype_kind t, ck_Name = snd k, ck_Namespace = fst k\<rparr>"

definition cache_differs_at :: "rtype \<Rightarrow> object_key \<Rightarrow> version_cache \<Rightarrow> version_cache \<Rightarrow> bool" where
  "cache_differs_at t k vc vc' \<longleftrightarrow>
     (\<forall>ck. ck \<noteq> object_cache_key t k \<longrightarrow> fmlookup vc' ck = fmlookup vc ck)"

lemma object_cache_key_inj [simp]:
  "object_cache_key t k = object_cache_key t' k' \<longleftrightarrow> t = t' \<and> k = k'"
  by (cases k; cases k') (auto simp: object_cache_key_def)

lemma cacheKey_kind:
  "o_kind x = rtype_kind t \<Longrightarrow> cacheKeyFromObj x = object_cache_key t (object_key_of x)"
  by (simp add: cacheKeyFromObj_def object_cache_key_def object_key_of_def)

lemma cache_Add_differs:
  "o_kind x = '''' \<or> o_kind x = rtype_kind t \<Longrightarrow> object_key_of x = k \<Longrightarrow>
     cache_differs_at t k vc (cache_Add vc x)"
  using cacheKey_kind [of x t] by (auto simp: cache_differs_at_def cache_Add_def)

lemma cache_wf_no_kind: "cache_wf vc \<Longrightarrow> o_kind x = '''' \<Longrightarrow> \<not> cache_Contains vc x"
  by (auto simp: cache_wf_def cache_Contains_def cacheKeyFromObj_def split: option.splits)

text \<open>
  The object the mutate closure builds from the found one: owner references, labels and
  annotations of the resource, and, when the update function is called, what it does.
\<close>

definition desired_obj ::
  "bool \<Rightarrow> (body \<Rightarrow> body \<Rightarrow> body) \<Rightarrow> bool \<Rightarrow> object \<Rightarrow> object \<Rightarrow> object" where
  "desired_obj replaces merged called r f =
     f\<lparr>o_meta := (o_meta f)
         \<lparr>m_ownerReferences := m_ownerReferences (o_meta r),
          m_labels := (if called \<and> replaces then m_labels (o_meta r)
                       else merge_map (m_labels (o_meta r)) (m_labels (o_meta f))),
          m_annotations := (if called \<and> replaces then m_annotations (o_meta r)
                       else merge_map (m_annotations (o_meta r)) (m_annotations (o_meta f)))\<rparr>,
       o_body := (if called then merged (o_body r) (o_body f) else o_body f)\<rparr>"

text \<open>
  A stored object \<open>y\<close> is settled for the resource \<open>r\<close> when another reconciliation has
  nothing to change.
\<close>

definition settled ::
  "bool \<Rightarrow> (body \<Rightarrow> body \<Rightarrow> body) \<Rightarrow> (body \<Rightarrow> body) \<Rightarrow> object \<Rightarrow> object \<Rightarrow> bool" where
  "settled replaces merged kept r y \<longleftrightarrow>
     o_rtype y = o_rtype r \<and> object_key_of y = object_key_of r \<and>
     m_ownerReferences (o_meta y) = m_ownerReferences (o_meta r) \<and>
     smap_sub (m_labels (o_meta r)) (m_labels (o_meta y)) \<and>
     smap_sub (m_annotations (o_meta r)) (m_annotations (o_meta y)) \<and>
     (replaces \<longrightarrow> smap_norm (m_labels (o_meta y)) = smap_norm (m_labels (o_meta r)) \<and>
                   smap_norm (m_annotations (o_meta y)) = smap_norm (m_annotations (o_meta r))) \<and>
     time_is_zero (m_deletionTimestamp (o_meta y)) \<and>
     kept (o_body r) = o_body r \<and>
     body_norm (merged (o_body r) (o_body y)) = body_norm (o_body y)"

locale update_contract =
  fixes upd :: update_func
    and rt :: rtype
    and replaces :: bool
    and merged :: "body \<Rightarrow> body \<Rightarrow> body"
    and kept :: "body \<Rightarrow> body"
  assumes upd_result: "o_rtype e = rt \<Longrightarrow> o_rtype f = rt \<Longrightarrow>
      upd e f = (Ok (f\<lparr>o_meta := (if replaces
                    then (o_meta f)\<lparr>m_labels := m_labels (o_meta e), m_annotations := m_annotations (o_meta e)\<rparr>
                    else o_meta f),
                  o_body := merged (o_body e) (o_body f)\<rparr>),
                 e\<lparr>o_body := kept (o_body e)\<rparr>)"
    and merged_rtype: "body_rtype b = rt \<Longrightarrow> body_rtype c = rt \<Longrightarrow> body_rtype (merged b c) = rt"
    and kept_rtype: "body_rtype b = rt \<Longrightarrow> body_rtype (kept b) = rt"
    and kept_idem: "body_rtype b = rt \<Longrightarrow> kept (kept b) = kept b"
    and merged_stable: "body_rtype b = rt \<Longrightarrow> body_rtype c = rt \<Longrightarrow> body_rtype d = rt \<Longrightarrow>
      body_norm d = body_norm (merged b c) \<Longrightarrow> body_norm (merged (kept b) d) = body_norm (merged b c)"
begin

lemma mutateFn_result:
  assumes "updateFunc b = upd" and "o_rtype r = rt" and "o_rtype f = rt"
    and "time_is_zero (m_deletionTimestamp (o_meta f))"
  shows "\<exists>called. mutateFn b vc r f =
     (Ok (desired_obj replaces merged called r f),
      if called then r\<lparr>o_body := kept (o_body r)\<rparr> else r) \<and>
     (called \<longleftrightarrow> AlwaysCallUpdateFunc b \<or>
        \<not> cache_Contains vc (desired_obj replaces merged False r f))"
proof -
  define f1 where "f1 = updateAnnotations r (updateLabels r
    (upd_meta (\<lambda>m. m\<lparr>m_ownerReferences := m_ownerReferences (o_meta r)\<rparr>) f))"
  have f1: "f1 = desired_obj replaces merged False r f"
    by (simp add: f1_def desired_obj_def updateAnnotations_def updateLabels_def upd_meta_def merge_map_def)
  have "o_rtype f1 = rt" using assms(3) by (simp add: f1_def)
  then have u: "upd r f1 = (Ok (desired_obj replaces merged True r f), r\<lparr>o_body := kept (o_body r)\<rparr>)"
    using upd_result [OF assms(2)] by (simp add: f1 desired_obj_def)
  show ?thesis
    using assms(1,4) u
    by (intro exI [of _ "AlwaysCallUpdateFunc b \<or> \<not> cache_Contains vc f1"])
      (simp add: mutateFn_def f1_def [symmetric] f1 [symmetric])
qed

lemma desired_obj_frame:
  "object_key_of (desired_obj replaces merged called r f) = object_key_of f"
  "o_kind (desired_obj replaces merged called r f) = o_kind f"
  "m_resourceVersion (o_meta (desired_obj replaces merged called r f)) = m_resourceVersion (o_meta f)"
  "m_deletionTimestamp (o_meta (desired_obj replaces merged called r f)) = m_deletionTimestamp (o_meta f)"
  "m_name (o_meta (desired_obj replaces merged called r f)) = m_name (o_meta f)"
  "o_rtype r = rt \<Longrightarrow> o_rtype f = rt \<Longrightarrow> o_rtype (desired_obj replaces merged called r f) = rt"
  using merged_rtype by (simp_all add: desired_obj_def object_key_of_def o_rtype_def)

lemma mutate_result:
  assumes "updateFunc b = upd" and "o_rtype r = rt" and "o_rtype f = rt"
    and "time_is_zero (m_deletionTimestamp (o_meta f))"
  shows "\<exists>called. mutate b vc (object_key_of f) r f =
     (Ok (desired_obj replaces merged called r f),
      if called then r\<lparr>o_body := kept (o_body r)\<rparr> else r) \<and>
     (called \<longleftrightarrow> AlwaysCallUpdateFunc b \<or>
        \<not> cache_Contains vc (desired_obj replaces merged False r f))"
  using mutateFn_result [OF assms, of vc] by (auto simp: mutate_def desired_obj_frame)

text \<open>Nothing changes for a settled object.\<close>

lemma desired_settled:
  assumes "settled replaces merged kept r y"
  shows "semantic_deep_equal y (desired_obj replaces merged called r y)"
    and "r\<lparr>o_body := kept (o_body r)\<rparr> = r"
  using assms
  by (auto simp: settled_def semantic_deep_equal_def object_norm_def meta_norm_def desired_obj_def
      merge_absorbs)

text \<open>What is stored after the closure's object was created or updated is settled.\<close>

lemma stored_settled:
  assumes y: "same_desired y (desired_obj replaces merged True r f)"
    and t: "o_rtype r = rt" "o_rtype f = rt" "object_key_of f = object_key_of r"
    and z: "time_is_zero (m_deletionTimestamp (o_meta f))"
  shows "settled replaces merged kept (r\<lparr>o_body := kept (o_body r)\<rparr>) y"
proof -
  let ?d = "desired_obj replaces merged True r f"
  have b: "body_rtype (o_body r) = rt" "body_rtype (o_body f) = rt"
    using t by (simp_all add: o_rtype_def)
  have y_rt: "o_rtype y = rt" using y desired_obj_frame(6) [OF t(1,2)] by (simp add: same_desired_def)
  have body: "body_norm (o_body y) = body_norm (merged (o_body r) (o_body f))"
    using y by (simp add: same_desired_def desired_obj_def)
  have stable: "body_norm (merged (kept (o_body r)) (o_body y)) = body_norm (o_body y)"
    using merged_stable [OF b _ body] y_rt body by (simp add: o_rtype_def)
  have "smap_norm (m_labels (o_meta y)) = smap_norm (m_labels (o_meta ?d))"
    "smap_norm (m_annotations (o_meta y)) = smap_norm (m_annotations (o_meta ?d))"
    using y by (simp_all add: same_desired_def)
  note n = this
  have "smap_sub (m_labels (o_meta r)) (m_labels (o_meta y))"
    unfolding smap_sub_cong [OF n(1)] by (simp add: desired_obj_def)
  moreover have "smap_sub (m_annotations (o_meta r)) (m_annotations (o_meta y))"
    unfolding smap_sub_cong [OF n(2)] by (simp add: desired_obj_def)
  moreover have "o_rtype y = o_rtype (r\<lparr>o_body := kept (o_body r)\<rparr>)"
    using y_rt kept_rtype [OF b(1)] by simp
  moreover have "object_key_of y = object_key_of r"
    using y t(3) unfolding same_desired_def desired_obj_frame by metis
  moreover have "m_ownerReferences (o_meta y) = m_ownerReferences (o_meta r)"
    using y unfolding same_desired_def desired_obj_def by simp
  moreover have "time_is_zero (m_deletionTimestamp (o_meta y))"
    using y z unfolding same_desired_def desired_obj_frame by metis
  moreover have "replaces \<longrightarrow> smap_norm (m_labels (o_meta y)) = smap_norm (m_labels (o_meta r)) \<and>
                   smap_norm (m_annotations (o_meta y)) = smap_norm (m_annotations (o_meta r))"
    using y by (simp add: same_desired_def desired_obj_def)
  ultimately show ?thesis
    using kept_idem [OF b(1)] stable by (simp add: settled_def object_key_of_def)
qed

end

section \<open>Reconciliation on a healthy API server\<close>

lemma found0_simps:
  "object_key_of (upd_meta (\<lambda>m. m\<lparr>m_name := n, m_namespace := ns\<rparr>) (newEmptyResource r)) = (ns, n)"
  "o_rtype (upd_meta (\<lambda>m. m\<lparr>m_name := n, m_namespace := ns\<rparr>) (newEmptyResource r)) = o_rtype r"
  "o_kind (upd_meta (\<lambda>m. m\<lparr>m_name := n, m_namespace := ns\<rparr>) (newEmptyResource r)) = ''''"
  by (simp_all add: object_key_of_def)

lemma semantic_deep_equalD:
  assumes "semantic_deep_equal a b"
  shows "meta_norm (o_meta a) = meta_norm (o_meta b)" "body_norm (o_body a) = body_norm (o_body b)"
    "o_kind a = o_kind b"
proof -
  from assms have eq: "object_norm a = object_norm b" by (simp add: semantic_deep_equal_def)
  show "meta_norm (o_meta a) = meta_norm (o_meta b)" using arg_cong [where f = o_meta, OF eq] by simp
  show "body_norm (o_body a) = body_norm (o_body b)" using arg_cong [where f = o_body, OF eq] by simp
  show "o_kind a = o_kind b" using arg_cong [where f = o_kind, OF eq] by simp
qed

lemma meta_norm_eqD:
  assumes eq: "meta_norm a = meta_norm b"
  shows "smap_norm (m_labels a) = smap_norm (m_labels b)"
    "smap_norm (m_annotations a) = smap_norm (m_annotations b)"
    "m_ownerReferences a = m_ownerReferences b" "m_finalizers a = m_finalizers b"
    "m_deletionTimestamp a = m_deletionTimestamp b" "m_name a = m_name b" "m_namespace a = m_namespace b"
  using arg_cong [where f = m_labels, OF eq] arg_cong [where f = m_annotations, OF eq]
    arg_cong [where f = m_ownerReferences, OF eq] arg_cong [where f = m_finalizers, OF eq]
    arg_cong [where f = m_deletionTimestamp, OF eq] arg_cong [where f = m_name, OF eq]
    arg_cong [where f = m_namespace, OF eq]
  by simp_all

lemma same_desired_semantic:
  assumes "semantic_deep_equal a b" "o_rtype a = o_rtype b"
  shows "same_desired a b"
  using meta_norm_eqD [OF semantic_deep_equalD(1) [OF assms(1)]] semantic_deep_equalD(2,3) [OF assms(1)] assms(2)
  by (simp add: same_desired_def object_key_of_def)

locale reconciled_resource =
  api_server cl view healthy + update_contract upd rt replaces merged kept
  for cl :: "'w client" and view healthy and upd rt replaces merged kept
begin

lemma create_or_update_absent:
  assumes s: "healthy (world s)" "view (world s) rt (object_key_of r) = None" "cache_wf (vcache s)"
    and b: "updateFunc b = upd" and r: "o_rtype r = rt" "m_name (o_meta r) \<noteq> ''''"
    and f: "o_rtype f = rt" "object_key_of f = object_key_of r" "o_kind f = ''''"
      "m_resourceVersion (o_meta f) = ''''" "time_is_zero (m_deletionTimestamp (o_meta f))"
  shows "\<exists>x y s'. createOrUpdateWithImmutableSpec cl b f (r, s) =
      (Ok (OperationResultCreated, x), (r\<lparr>o_body := kept (o_body r)\<rparr>, s')) \<and>
      s' = s\<lparr>world := world s'\<rparr> \<and> healthy (world s') \<and>
      view (world s') = store_upd (view (world s)) rt (object_key_of r) (Some y) \<and>
      same_desired x (desired_obj replaces merged True r f) \<and>
      same_desired y (desired_obj replaces merged True r f)"
proof -
  let ?d = "desired_obj replaces merged True r f"
  obtain e where e: "call (c_get cl rt (object_key_of r)) s = (Err e, s)" "is_not_found e"
    using call_get_none [OF s(1,2)] by blast
  have "\<not> cache_Contains (vcache s) (desired_obj replaces merged False r f)"
    using cache_wf_no_kind [OF s(3)] f(3) by (simp add: desired_obj_frame)
  with mutate_result [OF b r(1) f(1,5), of "vcache s"] f(2)
  have m: "mutate b (vcache s) (object_key_of r) r f = (Ok ?d, r\<lparr>o_body := kept (o_body r)\<rparr>)"
    by auto
  have dk: "o_rtype ?d = rt" "object_key_of ?d = object_key_of r" "m_resourceVersion (o_meta ?d) = ''''"
    using desired_obj_frame(6) [OF r(1) f(1)] f by (simp_all add: desired_obj_frame)
  have dn: "m_name (o_meta ?d) \<noteq> ''''"
    using dk(2) r(2) by (simp add: object_key_of_def)
  from create_ok [OF s(1), of ?d] dk dn s(2) obtain x y w where
    c: "c_create cl ?d (world s) = (Inr x, w)" "healthy w" "same_desired x ?d" "same_desired y ?d"
      "view w = store_upd (view (world s)) rt (object_key_of r) (Some y)" by auto
  have "on_sys (call (c_get cl rt (object_key_of r))) (r, s) = (Err e, (r, s))"
    by (rule on_sys_eq) (rule e(1))
  moreover have "on_resource (\<lambda>q. mutate b (vcache s) (object_key_of r) q f) (r, s) =
      (Ok ?d, (r\<lparr>o_body := kept (o_body r)\<rparr>, s))"
    by (rule on_resource_eq) (rule m)
  moreover have "on_sys (call (c_create cl ?d)) (q, s) = (Ok x, (q, s\<lparr>world := w\<rparr>))" for q
    by (simp add: on_sys_def call_def c(1))
  ultimately show ?thesis
    using e(2) c(2-) by (intro exI [of _ x] exI [of _ y] exI [of _ "s\<lparr>world := w\<rparr>"])
      (simp add: createOrUpdateWithImmutableSpec_def Let_def f)
qed

lemma create_or_update_present:
  assumes s: "healthy (world s)" "view (world s) rt (object_key_of r) = Some x0"
    and b: "updateFunc b = upd" "\<not> immutableSpec b" and r: "o_rtype r = rt"
    and f: "o_rtype f = rt" "object_key_of f = object_key_of r"
    and x0: "time_is_zero (m_deletionTimestamp (o_meta x0))"
  shows "\<exists>res called x y s'. createOrUpdateWithImmutableSpec cl b f (r, s) =
      (Ok (res, x), (if called then r\<lparr>o_body := kept (o_body r)\<rparr> else r, s')) \<and>
      (called \<longleftrightarrow> AlwaysCallUpdateFunc b \<or>
         \<not> cache_Contains (vcache s) (desired_obj replaces merged False r x0)) \<and>
      s' = s\<lparr>world := world s'\<rparr> \<and> healthy (world s') \<and>
      view (world s') = store_upd (view (world s)) rt (object_key_of r) (Some y) \<and>
      same_desired x (desired_obj replaces merged called r x0) \<and>
      same_desired y (desired_obj replaces merged called r x0) \<and>
      (if semantic_deep_equal x0 (desired_obj replaces merged called r x0)
       then res = OperationResultNone \<and> s' = s \<and> y = x0 \<and>
            x = desired_obj replaces merged called r x0
       else res = OperationResultUpdated)"
proof -
  have x0k: "o_rtype x0 = rt" "object_key_of x0 = object_key_of r"
    using view_wf [OF s] by simp_all
  obtain called where
    m: "mutate b (vcache s) (object_key_of r) r x0 = (Ok (desired_obj replaces merged called r x0),
          if called then r\<lparr>o_body := kept (o_body r)\<rparr> else r)"
    and cd: "called \<longleftrightarrow> AlwaysCallUpdateFunc b \<or>
         \<not> cache_Contains (vcache s) (desired_obj replaces merged False r x0)"
    using mutate_result [OF b(1) r x0k(1) x0, of "vcache s"] x0k(2) by auto
  let ?d = "desired_obj replaces merged called r x0"
  have dk: "o_rtype ?d = rt" "object_key_of ?d = object_key_of r"
    "m_resourceVersion (o_meta ?d) = m_resourceVersion (o_meta x0)"
    "time_is_zero (m_deletionTimestamp (o_meta ?d))"
    using desired_obj_frame(6) [OF r x0k(1)] x0 x0k by (simp_all add: desired_obj_frame)
  have get: "on_sys (call (c_get cl rt (object_key_of r))) (r, s) = (Ok x0, (r, s))"
    by (rule on_sys_eq) (rule call_get_some [OF s])
  have mut: "on_resource (\<lambda>q. mutate b (vcache s) (object_key_of r) q x0) (r, s) =
      (Ok ?d, (if called then r\<lparr>o_body := kept (o_body r)\<rparr> else r, s))"
    by (rule on_resource_eq) (rule m)
  show ?thesis
  proof (cases "semantic_deep_equal x0 ?d")
    case True
    have "same_desired ?d ?d" by (simp add: same_desired_def)
    moreover have "same_desired x0 ?d"
      using True dk x0k by (intro same_desired_semantic) simp_all
    moreover have "view (world s) = store_upd (view (world s)) rt (object_key_of r) (Some x0)"
      using s(2) by (auto simp: store_upd_def fun_eq_iff)
    ultimately show ?thesis
      using True s(1) cd
      by (intro exI [of _ OperationResultNone] exI [of _ called] exI [of _ ?d] exI [of _ x0] exI [of _ s])
        (simp add: createOrUpdateWithImmutableSpec_def Let_def f get mut)
  next
    case False
    from update_ok [OF s(1), of ?d x0] dk s(2) obtain x y w where
      c: "c_update cl ?d (world s) = (Inr x, w)" "healthy w" "same_desired x ?d" "same_desired y ?d"
        "view w = store_upd (view (world s)) rt (object_key_of r) (Some y)" by auto
    have "on_sys (call (c_update cl ?d)) (q, s) = (Ok x, (q, s\<lparr>world := w\<rparr>))" for q
      by (simp add: on_sys_def call_def c(1))
    then show ?thesis
      using False cd c(2-) b(2)
      by (intro exI [of _ OperationResultUpdated] exI [of _ called] exI [of _ x] exI [of _ y]
          exI [of _ "s\<lparr>world := w\<rparr>"])
        (simp add: createOrUpdateWithImmutableSpec_def Let_def f get mut)
  qed
qed


lemma Reconcile_converges:
  assumes s: "healthy (world s)" "cache_wf (vcache s)"
    and b: "operand_builder b" "updateFunc b = upd"
    and inst: "m_name (tt_meta inst) \<noteq> ''''" "tt_kind inst \<noteq> ''''"
    and r: "o_rtype r = rt" "m_name (o_meta r) \<noteq> ''''"
    and found: "\<forall>x. view (world s) rt (object_key_of r) = Some x \<longrightarrow>
        time_is_zero (m_deletionTimestamp (o_meta x)) \<and> \<not> cache_Contains (vcache s) x"
  shows "\<exists>res r' s' y.
      Reconcile cl inst b (r, s) = (Ok res, (r', s')) \<and>
      rr_Resource res = r' \<and> rr_OperationResult res \<noteq> OperationResultDeleted \<and> IsSuccess res \<and>
      healthy (world s') \<and> cache_wf (vcache s') \<and>
      cache_differs_at rt (object_key_of r) (vcache s) (vcache s') \<and>
      view (world s') = store_upd (view (world s)) rt (object_key_of r) (Some y) \<and>
      settled replaces merged kept r' y \<and> owner_marked inst y \<and>
      o_rtype r' = rt \<and> object_key_of r' = object_key_of r \<and>
      reconcile_prepare inst b r' = (Ok r', r') \<and>
      (\<exists>r1. reconcile_prepare inst b r = (Ok r1, r1) \<and> r' = r1\<lparr>o_body := kept (o_body r1)\<rparr>)"
proof -
  obtain r1 where p: "reconcile_prepare inst b r = (Ok r1, r1)"
    and r1: "o_body r1 = o_body r" "o_rtype r1 = o_rtype r" "object_key_of r1 = object_key_of r"
      "owner_marked inst r1"
    and p1: "\<And>c. reconcile_prepare inst b (r1\<lparr>o_body := c\<rparr>) = (Ok (r1\<lparr>o_body := c\<rparr>), r1\<lparr>o_body := c\<rparr>)"
    using prepare_cluster [OF b(1) inst, of r] by metis
  define r' where "r' = r1\<lparr>o_body := kept (o_body r1)\<rparr>"
  define f where "f = upd_meta (\<lambda>m. m\<lparr>m_name := m_name (o_meta r1), m_namespace := m_namespace (o_meta r1)\<rparr>)
    (newEmptyResource r1)"
  have f: "o_rtype f = rt" "object_key_of f = object_key_of r1" "o_kind f = ''''"
      "m_resourceVersion (o_meta f) = ''''" "time_is_zero (m_deletionTimestamp (o_meta f))"
    using r1 r by (simp_all add: f_def object_key_of_def empty_meta_def)
  have r1': "o_rtype r1 = rt" "m_name (o_meta r1) \<noteq> ''''"
    using r1 r by (simp_all add: object_key_of_def)
  have "\<exists>res x y s1 g. createOrUpdateWithImmutableSpec cl b f (r1, s) = (Ok (res, x), (r', s1)) \<and>
      res \<noteq> OperationResultDeleted \<and> healthy (world s1) \<and> vcache s1 = vcache s \<and>
      view (world s1) = store_upd (view (world s)) rt (object_key_of r1) (Some y) \<and>
      same_desired x (desired_obj replaces merged True r1 g) \<and>
      same_desired y (desired_obj replaces merged True r1 g) \<and>
      o_rtype g = rt \<and> object_key_of g = object_key_of r1 \<and> time_is_zero (m_deletionTimestamp (o_meta g)) \<and>
      (o_kind g = '''' \<or> o_kind g = rtype_kind rt)"
  proof (cases "view (world s) rt (object_key_of r1)")
    case None
    from create_or_update_absent [OF s(1) None s(2) b(2) r1' f] obtain x y s1 where
      "createOrUpdateWithImmutableSpec cl b f (r1, s) = (Ok (OperationResultCreated, x), (r', s1))"
      "s1 = s\<lparr>world := world s1\<rparr>" "healthy (world s1)"
      "view (world s1) = store_upd (view (world s)) rt (object_key_of r1) (Some y)"
      "same_desired x (desired_obj replaces merged True r1 f)"
      "same_desired y (desired_obj replaces merged True r1 f)" unfolding r'_def by blast
    moreover from this(2) have "vcache s1 = vcache s" by (metis sys.select_convs(2) sys.surjective sys.update_convs(1))
    ultimately show ?thesis using f by blast
  next
    case (Some x0)
    with found r1(3) have x0: "time_is_zero (m_deletionTimestamp (o_meta x0))"
      "\<not> cache_Contains (vcache s) x0" by auto
    have x0k: "o_rtype x0 = rt" "object_key_of x0 = object_key_of r1" "o_kind x0 = rtype_kind rt"
      using view_wf [OF s(1) Some] by simp_all
    have "\<not> cache_Contains (vcache s) (desired_obj replaces merged False r1 x0)"
      using x0(2) cache_Contains_cong [of "desired_obj replaces merged False r1 x0" x0 "vcache s"]
      by (simp add: cacheKeyFromObj_def desired_obj_def)
    then have nc: "AlwaysCallUpdateFunc b \<or>
        \<not> cache_Contains (vcache s) (desired_obj replaces merged False r1 x0)" by simp
    have "\<not> immutableSpec b" using b(1) by (simp add: operand_builder_def)
    from create_or_update_present [OF s(1) Some b(2) this r1'(1) f(1,2) x0(1)]
    obtain res called x y s1 where
      cu: "createOrUpdateWithImmutableSpec cl b f (r1, s) =
        (Ok (res, x), (if called then r' else r1, s1))"
      and called: "called \<longleftrightarrow> AlwaysCallUpdateFunc b \<or>
         \<not> cache_Contains (vcache s) (desired_obj replaces merged False r1 x0)"
      and s1: "s1 = s\<lparr>world := world s1\<rparr>" "healthy (world s1)"
        "view (world s1) = store_upd (view (world s)) rt (object_key_of r1) (Some y)"
      and xy: "same_desired x (desired_obj replaces merged called r1 x0)"
        "same_desired y (desired_obj replaces merged called r1 x0)"
      and res: "if semantic_deep_equal x0 (desired_obj replaces merged called r1 x0)
       then res = OperationResultNone \<and> s1 = s \<and> y = x0 \<and> x = desired_obj replaces merged called r1 x0
       else res = OperationResultUpdated"
      unfolding r'_def by blast
    have "called" using called nc by blast
    moreover have "res \<noteq> OperationResultDeleted" using res by (auto split: if_splits)
    moreover from s1(1) have "vcache s1 = vcache s"
      by (metis sys.select_convs(2) sys.surjective sys.update_convs(1))
    ultimately show ?thesis using cu s1 xy x0k x0(1) by (intro exI [of _ res] exI [of _ x] exI [of _ y]
        exI [of _ s1] exI [of _ x0]) simp
  qed
  then obtain res x y s1 g where c: "createOrUpdateWithImmutableSpec cl b f (r1, s) = (Ok (res, x), (r', s1))"
      "res \<noteq> OperationResultDeleted" "healthy (world s1)" "vcache s1 = vcache s"
      "view (world s1) = store_upd (view (world s)) rt (object_key_of r1) (Some y)"
      "same_desired x (desired_obj replaces merged True r1 g)"
      "same_desired y (desired_obj replaces merged True r1 g)"
      "o_rtype g = rt" "object_key_of g = object_key_of r1" "time_is_zero (m_deletionTimestamp (o_meta g))"
      "o_kind g = '''' \<or> o_kind g = rtype_kind rt"
    by blast
  have xk: "object_key_of x = object_key_of r" "o_kind x = '''' \<or> o_kind x = rtype_kind rt"
    using c(6,9,11) r1(3) desired_obj_frame(6) [OF r1'(1) c(8)]
    by (auto simp: same_desired_def desired_obj_frame)
  have settled: "settled replaces merged kept r' y"
    unfolding r'_def by (rule stored_settled [OF c(7) r1'(1) c(8,9,10)])
  have xz: "time_is_zero (m_deletionTimestamp (o_meta x))"
    using c(6,10) by (simp add: same_desired_def desired_obj_frame)
  have ky: "object_key_of r' = object_key_of r" "o_rtype r' = rt"
    using r1 r kept_rtype [of "o_body r1"] by (simp_all add: r'_def object_key_of_def o_rtype_def)
  have om: "owner_marked inst y"
    using settled r1(4) by (simp add: settled_def owner_marked_def smap_sub_def r'_def)
  define s' where "s' = logOperation res x (s1\<lparr>vcache := cache_Add (vcache s1) x\<rparr>)"
  have s': "world s' = world s1" "cache_wf (vcache s')"
    using s(2) c(4) by (auto simp: s'_def logOperation_def split: OperationResult.splits)
  have "vcache s' = cache_Add (vcache s) x"
    using c(4) by (simp add: s'_def logOperation_def split: OperationResult.splits)
  then have vd: "cache_differs_at rt (object_key_of r) (vcache s) (vcache s')"
    using cache_Add_differs [OF xk(2) xk(1)] by simp
  have "IsSuccess \<lparr>rr_Status = statusFunc b x, rr_Resource = r', rr_OperationResult = res\<rparr>"
    using b(1) by (simp add: IsSuccess_def operand_builder_def empty_status'_def)
  note vd = vd this
  have "on_resource (reconcile_prepare inst b) (r, s) = (Ok r1, (r1, s))"
    by (simp add: on_resource_def p)
  then have run: "Reconcile cl inst b (r, s) =
      (Ok \<lparr>rr_Status = statusFunc b x, rr_Resource = r', rr_OperationResult = res\<rparr>, (r', s'))"
    using c(2) xz by (simp add: Reconcile_def f_def [symmetric] c(1) Let_def s'_def)
  show ?thesis
    using run c(2,3,5) s' vd settled om ky p p1 [of "kept (o_body r1)"] r1(3)
    by (intro exI [of _ "\<lparr>rr_Status = statusFunc b x, rr_Resource = r', rr_OperationResult = res\<rparr>"]
        exI [of _ r'] exI [of _ s'] exI [of _ y]) (simp add: r'_def)
qed


lemma Reconcile_settled:
  assumes s: "healthy (world s)" "view (world s) rt (object_key_of r) = Some y"
    and b: "operand_builder b" "updateFunc b = upd"
    and r: "o_rtype r = rt" "reconcile_prepare inst b r = (Ok r, r)"
    and y: "settled replaces merged kept r y"
  shows "\<exists>res s'. Reconcile cl inst b (r, s) = (Ok res, (r, s')) \<and>
      rr_OperationResult res = OperationResultNone \<and> rr_Resource res = r \<and> IsSuccess res \<and>
      s' = s\<lparr>vcache := cache_Add (vcache s) y\<rparr>"
proof -
  define f where "f = upd_meta (\<lambda>m. m\<lparr>m_name := m_name (o_meta r), m_namespace := m_namespace (o_meta r)\<rparr>)
    (newEmptyResource r)"
  have f: "o_rtype f = rt" "object_key_of f = object_key_of r"
    using r by (simp_all add: f_def object_key_of_def)
  have yz: "time_is_zero (m_deletionTimestamp (o_meta y))" using y by (simp add: settled_def)
  have imm: "\<not> immutableSpec b" using b(1) by (simp add: operand_builder_def)
  from create_or_update_present [OF s b(2) imm r(1) f yz] obtain res called x y' s1 where
    cu: "createOrUpdateWithImmutableSpec cl b f (r, s) =
        (Ok (res, x), (if called then r\<lparr>o_body := kept (o_body r)\<rparr> else r, s1))"
    and res: "if semantic_deep_equal y (desired_obj replaces merged called r y)
       then res = OperationResultNone \<and> s1 = s \<and> y' = y \<and> x = desired_obj replaces merged called r y
       else res = OperationResultUpdated" by blast
  have c: "createOrUpdateWithImmutableSpec cl b f (r, s) = (Ok (OperationResultNone, x), (r, s))"
    "x = desired_obj replaces merged called r y"
    using cu res desired_settled(1) [OF y, of called] desired_settled(2) [OF y] by simp_all
  have x: "time_is_zero (m_deletionTimestamp (o_meta x))" "cache_Add v x = cache_Add v y" for v
    using yz by (simp_all add: c(2) desired_obj_frame cache_Add_def cacheKeyFromObj_def)
      (simp_all add: desired_obj_def)
  have "on_resource (reconcile_prepare inst b) (r, s) = (Ok r, (r, s))"
    by (simp add: on_resource_def r(2))
  then show ?thesis
    using x b(1)
    by (simp add: Reconcile_def f_def [symmetric] c(1) Let_def logOperation_def IsSuccess_def
        operand_builder_def empty_status'_def)
qed

end


section \<open>For every client\<close>

text \<open>An object that is being deleted is only read.\<close>

lemma create_or_update_deleting:
  assumes get: "call (c_get cl (o_rtype f) (object_key_of f)) s = (Ok x, s1)"
    and x: "\<not> time_is_zero (m_deletionTimestamp (o_meta x))"
      "object_key_of x = object_key_of f"
  shows "createOrUpdateWithImmutableSpec cl b f (r, s) = (Ok (OperationResultNone, x), (r, s1))"
  using x
  by (simp add: createOrUpdateWithImmutableSpec_def Let_def on_sys_def get on_resource_def
      mutate_def mutateFn_def)

lemma Reconcile_deleting:
  assumes p: "reconcile_prepare inst b r = (Ok r1, r1)"
    and get: "call (c_get cl (o_rtype r1) (object_key_of r1)) s = (Ok x, s1)"
    and x: "\<not> time_is_zero (m_deletionTimestamp (o_meta x))" "object_key_of x = object_key_of r1"
  shows "Reconcile cl inst b (r, s) =
     (Ok (ResourceDeletedResult r1 OperationResultNone),
      (r1, s1\<lparr>vcache := cache_RemoveObj (vcache s1) x\<rparr>))"
proof -
  define f where "f = upd_meta (\<lambda>m. m\<lparr>m_name := m_name (o_meta r1), m_namespace := m_namespace (o_meta r1)\<rparr>)
    (newEmptyResource r1)"
  have f: "o_rtype f = o_rtype r1" "object_key_of f = object_key_of r1"
    by (simp_all add: f_def object_key_of_def)
  have "createOrUpdateWithImmutableSpec cl b f (r1, s) = (Ok (OperationResultNone, x), (r1, s1))"
    by (rule create_or_update_deleting) (simp_all add: f get x)
  then show ?thesis
    using x by (simp add: Reconcile_def on_resource_def p f_def [symmetric])
qed

text \<open>A reconcile that fails leaves the version cache as it was.\<close>


lemma create_or_update_frame:
  assumes "createOrUpdateWithImmutableSpec cl b f st = (q, st')"
  shows "vcache (snd st') = vcache (snd st) \<and> logs (snd st') = logs (snd st)"
  using assms
  by (auto simp: createOrUpdateWithImmutableSpec_def bind_outcome_def on_sys_def on_resource_def call_def
      Let_def split: prod.splits outcome.splits sum.splits if_splits)

lemma Reconcile_error_frame:
  assumes "Reconcile cl inst b (r, s) = (Err e, (r', s'))"
  shows "vcache s' = vcache s \<and>
     (logs s' = logs s \<or> logs s' = logs s @ [''Resource create/update failed: '' @ error_message e])"
  using assms create_or_update_frame [of cl b _ _ _]
  by (fastforce simp: Reconcile_def bind_outcome_def on_resource_def Let_def
      split: prod.splits outcome.splits if_splits)

lemma Reconcile_cache_wf:
  assumes "Reconcile cl inst b (r, s) = (q, (r', s'))" and "cache_wf (vcache s)"
  shows "cache_wf (vcache s')"
  using assms create_or_update_frame [of cl b _ _ _]
  by (fastforce simp: Reconcile_def bind_outcome_def on_resource_def Let_def logOperation_def
      split: prod.splits outcome.splits if_splits OperationResult.splits)

text \<open>No reconcile panics when its update function does not.\<close>

lemma bind_outcome_Panic_iff:
  "bind_outcome m f = (Panic p, t) \<longleftrightarrow>
     m = (Panic p, t) \<or> (\<exists>a u. m = (Ok a, u) \<and> f a u = (Panic p, t))"
  by (auto simp: bind_outcome_def split: prod.splits outcome.splits)

lemma on_sys_call_no_panic: "on_sys (call f) st \<noteq> (Panic p, st')"
  by (auto simp: on_sys_def call_not_Panic split: prod.splits)

lemma on_resource_Panic_iff:
  "on_resource f st = (Panic p, st') \<longleftrightarrow> (\<exists>r. f (fst st) = (Panic p, r) \<and> st' = (r, snd st))"
  by (auto simp: on_resource_def split: prod.splits)

lemma mutate_no_panic:
  assumes "\<And>e f p e'. updateFunc b e f \<noteq> (Panic p, e')"
  shows "mutate b vc key r x \<noteq> (Panic p, r')"
  using assms by (auto simp: mutate_def mutateFn_def bind_outcome_Panic_iff Let_def split: if_splits)

lemma create_or_update_no_panic:
  assumes "\<And>e f p e'. updateFunc b e f \<noteq> (Panic p, e')"
  shows "createOrUpdateWithImmutableSpec cl b f st \<noteq> (Panic p, st')"
  using mutate_no_panic [OF assms]
  by (auto simp: createOrUpdateWithImmutableSpec_def Let_def bind_outcome_Panic_iff on_sys_call_no_panic
      on_resource_Panic_iff split: prod.splits outcome.splits if_splits)

lemma Reconcile_no_panic:
  assumes "\<And>e f p e'. updateFunc b e f \<noteq> (Panic p, e')"
  shows "Reconcile cl inst b st \<noteq> (Panic p, st')"
  using create_or_update_no_panic [OF assms, where cl = cl]
  by (auto simp: Reconcile_def bind_outcome_Panic_iff on_resource_Panic_iff reconcile_prepare_def Let_def
      split: prod.splits outcome.splits sum.splits if_splits)

end
