(* ===== verification/Cleanup_Contract.thy ===== *)
theory Cleanup_Contract
  imports Resource Reconcile_Contract
begin

text \<open>
  What cleanup guarantees: which objects the operator takes for its own
  (\<open>isResourceOwned\<close>), that it deletes those and no others, and the one input on which it
  panics.
\<close>


section \<open>Ownership\<close>

lemma GroupKind_String_nonempty: "kind \<noteq> '''' \<Longrightarrow> GroupKind_String g kind \<noteq> ''''"
  by (simp add: GroupKind_String_def)

lemma owner_strings_nonempty:
  "tt_kind inst \<noteq> '''' \<Longrightarrow> owner_type inst \<noteq> ''''" "owner_namespaced_name inst \<noteq> ''''"
  by (simp_all add: owner_type_def GroupKind_String_nonempty owner_namespaced_name_def)

lemma owner_marked_index:
  assumes "tt_kind inst \<noteq> ''''"
  shows "owner_marked inst x \<longleftrightarrow>
     m_annotations (o_meta x) \<noteq> None \<and>
     smap_index (m_annotations (o_meta x)) TypeAnnotation = owner_type inst \<and>
     smap_index (m_annotations (o_meta x)) NamespacedNameAnnotation = owner_namespaced_name inst"
  using owner_strings_nonempty(1) [OF assms] owner_strings_nonempty(2) [of inst]
  by (cases "m_annotations (o_meta x)") (auto simp: owner_marked_def split: option.splits)

text \<open>The object the operator finds is owned by its resource, as \<open>isResourceOwned\<close> decides it.\<close>

definition owned_by :: "TektonTasks \<Rightarrow> object \<Rightarrow> object \<Rightarrow> bool" where
  "owned_by inst r x \<longleftrightarrow>
     (m_namespace (o_meta r) = m_namespace (tt_meta inst) \<and>
        owner_ref_of inst \<in> set (m_ownerReferences (o_meta x))) \<or> owner_marked inst x"

lemma isResourceOwned_result:
  assumes inst: "m_name (tt_meta inst) \<noteq> ''''" "tt_kind inst \<noteq> ''''"
    and r: "m_ownerReferences (o_meta r) = []"
  shows "fst (isResourceOwned inst r x) =
     (if m_namespace (o_meta r) \<noteq> m_namespace (tt_meta inst) \<and> m_ownerReferences (o_meta x) \<noteq> []
      then Panic index_panic else Ok (owned_by inst r x))"
proof (cases "m_namespace (o_meta r) = m_namespace (tt_meta inst)")
  case True
  have "SetControllerReference inst (upd_meta (\<lambda>m. m\<lparr>m_ownerReferences := []\<rparr>) r) =
      Inr (upd_meta (\<lambda>m. m\<lparr>m_ownerReferences := [owner_ref_of inst]\<rparr>) r)"
    using True by (subst SetControllerReference_empty) (simp_all add: validateOwner_def upd_meta_def)
  then show ?thesis
    using True inst
    by (auto simp: isResourceOwned_def SetOwnerAnnotations_def Let_def owned_by_def
        owner_marked_index [OF inst(2)])
next
  case False
  then show ?thesis
    using inst r
    by (auto simp: isResourceOwned_def SetOwnerAnnotations_def Let_def owned_by_def
        owner_marked_index [OF inst(2)])
qed

section \<open>Cleanup of one resource\<close>

lemma Cleanup_not_found:
  "call (c_get cl (o_rtype r) (object_key_of r)) s = (Err e, s1) \<Longrightarrow> is_not_found e \<Longrightarrow>
     Cleanup cl inst r s = (Ok \<lparr>cr_Resource = r, cr_Deleted = True\<rparr>, s1)"
  by (simp add: Cleanup_def)

lemma Cleanup_found:
  assumes inst: "m_name (tt_meta inst) \<noteq> ''''" "tt_kind inst \<noteq> ''''"
    and r: "m_ownerReferences (o_meta r) = []"
    and get: "call (c_get cl (o_rtype r) (object_key_of r)) s = (Ok x, s1)"
  obtains r' where "m_name (o_meta r') = m_name (o_meta r)"
    "Cleanup cl inst r s =
     (if m_namespace (o_meta r) \<noteq> m_namespace (tt_meta inst) \<and> m_ownerReferences (o_meta x) \<noteq> []
      then (Panic index_panic, s1)
      else if \<not> owned_by inst r x then (Ok \<lparr>cr_Resource = r', cr_Deleted = True\<rparr>, s1)
      else if \<not> time_is_zero (m_deletionTimestamp (o_meta x))
      then (Ok \<lparr>cr_Resource = r', cr_Deleted = False\<rparr>, s1)
      else (case call (c_delete cl x) s1 of
          (Err e, s2) \<Rightarrow>
            if is_not_found e then (Ok \<lparr>cr_Resource = r', cr_Deleted = True\<rparr>, s2)
            else (Err e, log_msg (''Error deleting '' @ go_quote (m_name (o_meta r)) @
                                  '': '' @ error_message e) s2)
        | (Panic p, s2) \<Rightarrow> (Panic p, s2)
        | (Ok _, s2) \<Rightarrow> (Ok \<lparr>cr_Resource = r', cr_Deleted = False\<rparr>, s2)))"
proof -
  obtain q r' where o: "isResourceOwned inst r x = (q, r')" by (cases "isResourceOwned inst r x")
  have q: "q = (if m_namespace (o_meta r) \<noteq> m_namespace (tt_meta inst) \<and> m_ownerReferences (o_meta x) \<noteq> []
      then Panic index_panic else Ok (owned_by inst r x))"
    using isResourceOwned_result [OF inst r, of x] o by simp
  have n: "m_name (o_meta r') = m_name (o_meta r)"
    using o by (auto simp: isResourceOwned_def SetOwnerAnnotations_def SetControllerReference_def Let_def
        split: sum.splits if_splits option.splits)
  show ?thesis
    by (rule that [OF n]) (auto simp: Cleanup_def get o q n split: prod.splits outcome.splits)
qed

text \<open>
  An object that cleanup can look at without a panic: its own copy has no owner references, and if it asks for the
  object in another namespace than the resource's, the object has none either.
\<close>

definition sweepable :: "TektonTasks \<Rightarrow> (rtype \<Rightarrow> object_key \<Rightarrow> object option) \<Rightarrow> object \<Rightarrow> bool" where
  "sweepable inst v r \<longleftrightarrow> m_ownerReferences (o_meta r) = [] \<and>
     (case v (o_rtype r) (object_key_of r) of None \<Rightarrow> True
      | Some x \<Rightarrow> m_namespace (o_meta r) = m_namespace (tt_meta inst) \<or> m_ownerReferences (o_meta x) = [])"

definition owned_at :: "TektonTasks \<Rightarrow> (rtype \<Rightarrow> object_key \<Rightarrow> object option) \<Rightarrow> object \<Rightarrow> bool" where
  \<comment> \<open>the cluster holds the object, and it is the resource's own\<close>
  "owned_at inst v r \<longleftrightarrow> (case v (o_rtype r) (object_key_of r) of None \<Rightarrow> False | Some x \<Rightarrow> owned_by inst r x)"

text \<open>
  What a deletion makes of an object: one that is being deleted already is left as it is, one with finalizers is
  from then on being deleted and keeps those who hold it, any other one is gone.
\<close>

definition after_delete :: "object option \<Rightarrow> object option \<Rightarrow> bool" where
  "after_delete old new \<longleftrightarrow> (case old of None \<Rightarrow> new = None
     | Some x \<Rightarrow>
         if \<not> time_is_zero (m_deletionTimestamp (o_meta x)) then new = old
         else if m_finalizers (o_meta x) = [] then new = None
         else (\<exists>y. new = Some y \<and> \<not> time_is_zero (m_deletionTimestamp (o_meta y)) \<and> same_holders y x))"

text \<open>The resource's own objects of a list were deleted, and nothing else was touched.\<close>

definition swept_to ::
  "TektonTasks \<Rightarrow> object list \<Rightarrow> (rtype \<Rightarrow> object_key \<Rightarrow> object option) \<Rightarrow>
   (rtype \<Rightarrow> object_key \<Rightarrow> object option) \<Rightarrow> bool" where
  "swept_to inst rs v v' \<longleftrightarrow> (\<forall>t k.
     if \<exists>r \<in> set rs. o_rtype r = t \<and> object_key_of r = k \<and> owned_at inst v r
     then after_delete (v t k) (v' t k) else v' t k = v t k)"

definition none_owned :: "TektonTasks \<Rightarrow> object list \<Rightarrow> (rtype \<Rightarrow> object_key \<Rightarrow> object option) \<Rightarrow> bool" where
  "none_owned inst rs v \<longleftrightarrow> (\<forall>r \<in> set rs. \<not> owned_at inst v r)"

lemma after_delete_trans: "after_delete a b \<Longrightarrow> after_delete b c \<Longrightarrow> after_delete a c"
  by (auto simp: after_delete_def split: option.splits if_splits)

lemma swept_to_Nil [simp]: "swept_to inst [] v v' \<longleftrightarrow> v' = v"
  by (auto simp: swept_to_def fun_eq_iff)

lemma none_owned_Nil [simp]: "none_owned inst [] v"
  by (simp add: none_owned_def)

lemma swept_to_none: "swept_to inst rs v v' \<Longrightarrow> none_owned inst rs v \<Longrightarrow> v' = v"
  by (intro ext) (auto simp: swept_to_def none_owned_def split: if_splits)

lemma swept_to_append:
  assumes 1: "swept_to inst rs v v1" and 2: "swept_to inst qs v1 v2"
  shows "swept_to inst (rs @ qs) v v2"
  unfolding swept_to_def
proof (intro allI)
  fix t k
  let ?hit = "\<lambda>ps v. \<exists>r \<in> set ps. o_rtype r = t \<and> object_key_of r = k \<and> owned_at inst v r"
  have a: "if ?hit rs v then after_delete (v t k) (v1 t k) else v1 t k = v t k"
    "if ?hit qs v1 then after_delete (v1 t k) (v2 t k) else v2 t k = v1 t k"
    using 1 2 unfolding swept_to_def by blast+
  have same: "?hit qs v1 \<longleftrightarrow> ?hit qs v" if "v1 t k = v t k" using that by (auto simp: owned_at_def)
  have refl: "after_delete (v t k) (v1 t k) \<Longrightarrow> v2 t k = v1 t k \<Longrightarrow> after_delete (v t k) (v2 t k)" by simp
  show "if ?hit (rs @ qs) v then after_delete (v t k) (v2 t k) else v2 t k = v t k"
  proof (cases "?hit rs v")
    case True
    then have "after_delete (v t k) (v2 t k)"
      using a refl after_delete_trans by (cases "?hit qs v1") auto
    then show ?thesis using True by auto
  next
    case False
    then show ?thesis using a same by (cases "?hit qs v1") auto
  qed
qed

lemma none_owned_append:
  assumes "swept_to inst rs v v1"
  shows "none_owned inst (rs @ qs) v \<longleftrightarrow> none_owned inst rs v \<and> none_owned inst qs v1"
  using swept_to_none [OF assms] by (auto simp: none_owned_def)

lemma sweepable_swept:
  assumes "swept_to inst rs v v1" and "sweepable inst v q"
  shows "sweepable inst v1 q"
proof -
  let ?a = "v (o_rtype q) (object_key_of q)" and ?b = "v1 (o_rtype q) (object_key_of q)"
  have "after_delete ?a ?b \<or> ?b = ?a" using assms(1) unfolding swept_to_def by metis
  then show ?thesis
    using assms(2) by (auto simp: sweepable_def after_delete_def same_holders_def split: option.splits if_splits)
qed

text \<open>
  A stored object whose deletion is complete at once: no owner references of others, not being
  deleted, no finalizers.
\<close>

definition cleanable :: "(rtype \<Rightarrow> object_key \<Rightarrow> object option) \<Rightarrow> object \<Rightarrow> bool" where
  "cleanable v r \<longleftrightarrow> m_ownerReferences (o_meta r) = [] \<and>
     (case v (o_rtype r) (object_key_of r) of None \<Rightarrow> True
      | Some x \<Rightarrow> m_ownerReferences (o_meta x) = [] \<and> m_finalizers (o_meta x) = [] \<and>
          time_is_zero (m_deletionTimestamp (o_meta x)))"

definition marked_at ::
  "TektonTasks \<Rightarrow> (rtype \<Rightarrow> object_key \<Rightarrow> object option) \<Rightarrow> rtype \<Rightarrow> object_key \<Rightarrow> bool" where
  "marked_at inst v t k \<longleftrightarrow> (case v t k of None \<Rightarrow> False | Some x \<Rightarrow> owner_marked inst x)"

lemma cleanable_sweepable:
  "cleanable v r \<Longrightarrow> sweepable inst v r"
  "cleanable v r \<Longrightarrow> owned_at inst v r \<longleftrightarrow> marked_at inst v (o_rtype r) (object_key_of r)"
  by (auto simp: cleanable_def sweepable_def owned_at_def marked_at_def owned_by_def split: option.splits)

context api_server
begin

lemma cleanup_one:
  assumes inst: "m_name (tt_meta inst) \<noteq> ''''" "tt_kind inst \<noteq> ''''"
    and s: "healthy (world s)" "sweepable inst (view (world s)) r"
  shows "\<exists>r' s'. Cleanup cl inst r s =
       (Ok \<lparr>cr_Resource = r', cr_Deleted = (\<not> owned_at inst (view (world s)) r)\<rparr>, s') \<and>
     healthy (world s') \<and> swept_to inst [r] (view (world s)) (view (world s'))"
proof (cases "view (world s) (o_rtype r) (object_key_of r)")
  case None
  then show ?thesis
    using call_get_none [OF s(1) None] Cleanup_not_found [of cl r s _ s inst] s(1) by (force simp: owned_at_def swept_to_def)
next
  case (Some x)
  let ?v = "view (world s)" and ?old = "view (world s) (o_rtype r) (object_key_of r)"
  have xk: "o_rtype x = o_rtype r" "object_key_of x = object_key_of r" using view_wf [OF s(1) Some] by simp_all
  have r: "m_ownerReferences (o_meta r) = []"
    "\<not> (m_namespace (o_meta r) \<noteq> m_namespace (tt_meta inst) \<and> m_ownerReferences (o_meta x) \<noteq> [])"
    using s(2) Some by (auto simp: sweepable_def)
  have own: "owned_by inst r x \<longleftrightarrow> owned_at inst ?v r" by (simp add: owned_at_def Some)
  note found = Cleanup_found [OF inst r(1) call_get_some [OF s(1) Some]]
  have upd: "swept_to inst [r] ?v (store_upd ?v (o_rtype r) (object_key_of r) new)" if "owned_at inst ?v r" "after_delete ?old new" for new
    using that by (auto simp: swept_to_def store_upd_def)
  show ?thesis
  proof (cases "owned_by inst r x \<and> time_is_zero (m_deletionTimestamp (o_meta x))")
    case False
    have "swept_to inst [r] ?v ?v" using False own Some by (auto simp: swept_to_def after_delete_def)
    moreover obtain r' where "Cleanup cl inst r s = (Ok \<lparr>cr_Resource = r', cr_Deleted = (\<not> owned_at inst ?v r)\<rparr>, s)"
      by (rule found) (use False r(2) own in \<open>auto split: if_splits\<close>)
    ultimately show ?thesis using s(1) by blast
  next
    case True
    obtain w' new where d: "c_delete cl x (world s) = (Inr (), w')" "healthy w'"
        "view w' = store_upd ?v (o_rtype r) (object_key_of r) new" "after_delete ?old new"
    proof (cases "m_finalizers (o_meta x) = []")
      case True
      then show ?thesis
        using that [of _ None] delete_ok [OF s(1), of x x] xk Some \<open>_ \<and> _\<close> by (auto simp: after_delete_def)
    next
      case False
      then show ?thesis
        using that delete_finalized [OF s(1), of x x] xk Some \<open>_ \<and> _\<close> by (fastforce simp: after_delete_def)
    qed
    have del: "call (c_delete cl x) s = (Ok (), s\<lparr>world := w'\<rparr>)" by (simp add: call_def d(1))
    obtain r' where "Cleanup cl inst r s = (Ok \<lparr>cr_Resource = r', cr_Deleted = False\<rparr>, s\<lparr>world := w'\<rparr>)"
      by (rule found) (use True r(2) del in \<open>auto split: if_splits\<close>)
    then show ?thesis using True own d(2,3) upd [OF _ d(4)] by (intro exI [of _ r'] exI [of _ "s\<lparr>world := w'\<rparr>"]) simp
  qed
qed

lemma cleanup_all:
  assumes inst: "m_name (tt_meta inst) \<noteq> ''''" "tt_kind inst \<noteq> ''''"
    and s: "healthy (world s)" "list_all (sweepable inst (view (world s))) rs"
  shows "\<exists>results s'. DeleteAll cl inst rs s = (Ok results, s') \<and> healthy (world s') \<and>
     swept_to inst rs (view (world s)) (view (world s')) \<and>
     (list_all cr_Deleted results \<longleftrightarrow> none_owned inst rs (view (world s)))"
  using s
proof (induction rs arbitrary: s)
  case Nil
  then show ?case by (simp add: DeleteAll_def)
next
  case (Cons r rs)
  let ?v = "view (world s)"
  obtain r' s1 where c: "Cleanup cl inst r s = (Ok \<lparr>cr_Resource = r', cr_Deleted = (\<not> owned_at inst ?v r)\<rparr>, s1)"
     "healthy (world s1)" "swept_to inst [r] ?v (view (world s1))"
    using cleanup_one [OF inst Cons.prems(1), of r] Cons.prems(2) by auto
  have "list_all (sweepable inst (view (world s1))) rs"
    using Cons.prems(2) sweepable_swept [OF c(3)] by (auto simp: list_all_iff)
  from Cons.IH [OF c(2) this] obtain results s2 where
    ih: "DeleteAll cl inst rs s1 = (Ok results, s2)" "healthy (world s2)"
      "swept_to inst rs (view (world s1)) (view (world s2))"
      "list_all cr_Deleted results \<longleftrightarrow> none_owned inst rs (view (world s1))"
    by blast
  have "swept_to inst (r # rs) ?v (view (world s2))" using swept_to_append [OF c(3) ih(3)] by simp
  moreover have "none_owned inst (r # rs) ?v \<longleftrightarrow> \<not> owned_at inst ?v r \<and> list_all cr_Deleted results"
    using none_owned_append [OF c(3), of rs] ih(4) by (simp add: none_owned_def)
  ultimately show ?case using c(1) ih(1,2) by (simp add: DeleteAll_def)
qed

end

end
