(* ===== verification/Fake_Client.thy ===== *)
theory Fake_Client
  imports Cleanup_Contract "HOL-Library.List_Lexorder" "HOL-Library.Char_ord" "HOL-Library.Product_Lexorder"
begin

text \<open>
  The client the repository's own tests run against: controller-runtime's fake client
  (\<open>vendor/sigs.k8s.io/controller-runtime/pkg/client/fake/client.go\<close>) on client-go's object
  tracker (\<open>vendor/k8s.io/client-go/testing/fixture.go\<close>), translated from their source. It is
  a provider of the \<open>api_server\<close> interface, so every guarantee proved for healthy API servers
  holds for the operator as its tests run it.
\<close>

record fake_cluster =
  fc_objects :: "rtype \<Rightarrow> (object_key, object) fmap"
  fc_tts :: "(object_key, TektonTasks) fmap"
  fc_crds :: "(object_key, crd) fmap"
  fc_clusterversions :: "string list"
  fc_now :: time

section \<open>The versioned tracker\<close>

definition not_found :: "string \<Rightarrow> string \<Rightarrow> error" where
  "not_found res name = StatusError ''NotFound'' 404 (res @ '' '' @ go_quote name @ '' not found'')"

definition invalid_name :: "string \<Rightarrow> error" where
  "invalid_name kind = StatusError ''Invalid'' 422
     (kind @ '' '' @ go_quote '''' @ '' is invalid: metadata.name: Required value: name is required'')"

definition rv_conflict :: "string \<Rightarrow> string \<Rightarrow> error" where
  "rv_conflict res name = StatusError ''Conflict'' 409
     (''Operation cannot be fulfilled on '' @ res @ '' '' @ go_quote name @ '': object was modified'')"

text \<open>
  The operations are the same for every type of object; \<open>gm\<close> reads an object's meta and
  \<open>um\<close> changes it. A call returns the caller's object as it is left, and the store.
\<close>

definition meta_key :: "object_meta \<Rightarrow> object_key" where
  "meta_key m = (m_namespace m, m_name m)"

definition tracker_create ::
  "string \<Rightarrow> ('o \<Rightarrow> object_meta) \<Rightarrow> ((object_meta \<Rightarrow> object_meta) \<Rightarrow> 'o \<Rightarrow> 'o) \<Rightarrow> 'o \<Rightarrow>
   (object_key, 'o) fmap \<Rightarrow> (error + 'o) \<times> (object_key, 'o) fmap" where
  "tracker_create res gm um x st =
     (if m_name (gm x) = '''' then (Inl (invalid_name res), st)
      else if m_resourceVersion (gm x) \<noteq> '''' then
        (Inl (StatusError ''BadRequest'' 400 ''resourceVersion can not be set for Create requests''), st)
      else (let x = um (\<lambda>m. m\<lparr>m_resourceVersion := ''1''\<rparr>) x in
        case fmlookup st (meta_key (gm x)) of
          Some _ \<Rightarrow> (Inl (StatusError ''AlreadyExists'' 409
                      (res @ '' '' @ go_quote (m_name (gm x)) @ '' already exists'')), st)
        | None \<Rightarrow> (Inr x, fmupd (meta_key (gm x)) x st)))"

definition tracker_update ::
  "bool \<Rightarrow> string \<Rightarrow> ('o \<Rightarrow> object_meta) \<Rightarrow> ((object_meta \<Rightarrow> object_meta) \<Rightarrow> 'o \<Rightarrow> 'o) \<Rightarrow> 'o \<Rightarrow>
   (object_key, 'o) fmap \<Rightarrow> (error + 'o) \<times> (object_key, 'o) fmap" where
  "tracker_update uncond res gm um x st =
     (if m_name (gm x) = '''' then (Inl (invalid_name res), st)
      else case fmlookup st (meta_key (gm x)) of
        None \<Rightarrow> (Inl (not_found res (m_name (gm x))), st)
      | Some old \<Rightarrow>
          (let oldRV = m_resourceVersion (gm old);
               x = (if m_resourceVersion (gm x) = '''' \<and> uncond
                    then um (\<lambda>m. m\<lparr>m_resourceVersion := oldRV\<rparr>) x else x)
           in if m_resourceVersion (gm x) \<noteq> oldRV then (Inl (rv_conflict res (m_name (gm x))), st)
              else case parse_uint (if oldRV = '''' then ''0'' else oldRV) of
                None \<Rightarrow> (Inl (PlainError (''can not convert resourceVersion '' @ go_quote oldRV @ '' to int'')), st)
              | Some n \<Rightarrow>
                  (let x = um (\<lambda>m. m\<lparr>m_resourceVersion := format_uint (unat (word_of_nat n + 1 :: 64 word))\<rparr>) x
                   in if \<not> time_is_zero (m_deletionTimestamp (gm x)) \<and> m_finalizers (gm x) = []
                      then (Inr x, fmdrop (meta_key (gm x)) st)
                      else (Inr x, fmupd (meta_key (gm x)) x st))))"

definition tracker_delete ::
  "time \<Rightarrow> bool \<Rightarrow> string \<Rightarrow> ('o \<Rightarrow> object_meta) \<Rightarrow> ((object_meta \<Rightarrow> object_meta) \<Rightarrow> 'o \<Rightarrow> 'o) \<Rightarrow> 'o \<Rightarrow>
   (object_key, 'o) fmap \<Rightarrow> (error + unit) \<times> (object_key, 'o) fmap" where
  \<comment> \<open>\<open>deleteObject\<close>\<close>
  "tracker_delete now uncond res gm um x st =
     (case fmlookup st (meta_key (gm x)) of
        None \<Rightarrow> (Inl (not_found res (m_name (gm x))), st)
      | Some old \<Rightarrow>
          if m_finalizers (gm old) \<noteq> [] then
            (case tracker_update uncond res gm um
                    (um (\<lambda>m. m\<lparr>m_deletionTimestamp := Some now\<rparr>) old) st of
               (Inl e, st) \<Rightarrow> (Inl e, st) | (Inr _, st) \<Rightarrow> (Inr (), st))
          else (Inr (), fmdrop (meta_key (gm x)) st))"

section \<open>The fake client\<close>

definition allowsUnconditionalUpdate :: "string \<Rightarrow> string \<Rightarrow> bool" where
  "allowsUnconditionalUpdate grp kind =
     (if grp = ''apps'' then kind \<in> set [''ControllerRevision'', ''DaemonSet'', ''Deployment'', ''ReplicaSet'', ''StatefulSet'']
      else if grp = ''autoscaling'' then kind = ''HorizontalPodAutoscaler''
      else if grp = ''batch'' then kind \<in> set [''CronJob'', ''Job'']
      else if grp = ''certificates'' then kind = ''Certificates''
      else if grp = ''flowcontrol'' then kind \<in> set [''FlowSchema'', ''PriorityLevelConfiguration'']
      else if grp = ''networking'' then kind \<in> set [''Ingress'', ''IngressClass'', ''NetworkPolicy'']
      else if grp = ''policy'' then kind = ''PodSecurityPolicy''
      else if grp = ''rbac'' then kind \<in> set [''ClusterRole'', ''ClusterRoleBinding'', ''Role'', ''RoleBinding'']
      else if grp = ''scheduling'' then kind = ''PriorityClass''
      else if grp = ''settings'' then kind = ''PodPreset''
      else if grp = ''storage'' then kind = ''StorageClass''
      else if grp = '''' then kind \<in> set [''ConfigMap'', ''Endpoint'', ''Event'', ''LimitRange'', ''Namespace'',
        ''Node'', ''PersistentVolume'', ''PersistentVolumeClaim'', ''Pod'', ''PodTemplate'',
        ''ReplicationController'', ''ResourceQuota'', ''Secret'', ''Service'', ''ServiceAccount'', ''EndpointSlice'']
      else False)"

definition object_uncond :: "object \<Rightarrow> bool" where
  \<comment> \<open>the object's own group and kind, or those of its Go type when it has none\<close>
  "object_uncond x =
     (if o_kind x = '''' \<and> o_apiVersion x = ''''
      then allowsUnconditionalUpdate (api_group (rtype_apiVersion (o_rtype x))) (rtype_kind (o_rtype x))
      else allowsUnconditionalUpdate (api_group (o_apiVersion x)) (o_kind x))"

definition fake_read :: "rtype \<Rightarrow> object \<Rightarrow> object" where
  "fake_read t x = object_json (x\<lparr>o_kind := rtype_kind t, o_apiVersion := rtype_apiVersion t\<rparr>)"

definition with_objects :: "rtype \<Rightarrow> 'r \<times> (object_key, object) fmap \<Rightarrow> fake_cluster \<Rightarrow> 'r \<times> fake_cluster" where
  "with_objects t r w = (fst r, w\<lparr>fc_objects := (fc_objects w)(t := snd r)\<rparr>)"

definition fake_get :: "rtype \<Rightarrow> object_key \<Rightarrow> fake_cluster \<Rightarrow> (error + object) \<times> fake_cluster" where
  "fake_get t k w = ((case fmlookup (fc_objects w t) k of
       None \<Rightarrow> Inl (not_found (rtype_kind t) (snd k))
     | Some x \<Rightarrow> Inr (fake_read t x)), w)"

definition fake_create :: "object \<Rightarrow> fake_cluster \<Rightarrow> (error + object) \<times> fake_cluster" where
  "fake_create x w = with_objects (o_rtype x)
     (tracker_create (rtype_kind (o_rtype x)) o_meta upd_meta x (fc_objects w (o_rtype x))) w"

definition fake_update :: "object \<Rightarrow> fake_cluster \<Rightarrow> (error + object) \<times> fake_cluster" where
  "fake_update x w = with_objects (o_rtype x)
     (tracker_update (object_uncond x) (rtype_kind (o_rtype x)) o_meta upd_meta x (fc_objects w (o_rtype x))) w"

definition fake_delete :: "object \<Rightarrow> fake_cluster \<Rightarrow> (error + unit) \<times> fake_cluster" where
  "fake_delete x w = with_objects (o_rtype x)
     (tracker_delete (fc_now w) (object_uncond x) (rtype_kind (o_rtype x)) o_meta upd_meta x
        (fc_objects w (o_rtype x))) w"

definition matches_labels :: "(string \<times> string) list \<Rightarrow> object \<Rightarrow> bool" where
  "matches_labels sel x = list_all (\<lambda>(k, v). smap_get (m_labels (o_meta x)) k = Some v) sel"

definition fake_list_clustertasks ::
  "(string \<times> string) list \<Rightarrow> fake_cluster \<Rightarrow> (error + object list) \<times> fake_cluster" where
  "fake_list_clustertasks sel w =
     (Inr (filter (matches_labels sel)
        (map (\<lambda>(k, x). object_json x) (sorted_list_of_fmap (fc_objects w ClusterTask)))), w)"

definition tt_upd_meta :: "(object_meta \<Rightarrow> object_meta) \<Rightarrow> TektonTasks \<Rightarrow> TektonTasks" where
  "tt_upd_meta f t = t\<lparr>tt_meta := f (tt_meta t)\<rparr>"

definition fake_read_tt :: "TektonTasks \<Rightarrow> TektonTasks" where
  "fake_read_tt t = t\<lparr>tt_kind := ''TektonTasks'',
     tt_apiVersion := GroupVersion_Group @ ''/'' @ GroupVersion_Version, tt_meta := meta_json (tt_meta t)\<rparr>"

definition fake_get_tt :: "object_key \<Rightarrow> fake_cluster \<Rightarrow> (error + TektonTasks) \<times> fake_cluster" where
  "fake_get_tt k w = ((case fmlookup (fc_tts w) k of
       None \<Rightarrow> Inl (not_found ''tektontasks'' (snd k)) | Some t \<Rightarrow> Inr (fake_read_tt t)), w)"

definition fake_update_tt :: "TektonTasks \<Rightarrow> fake_cluster \<Rightarrow> (error + TektonTasks) \<times> fake_cluster" where
  "fake_update_tt t w =
     (let r = tracker_update False ''tektontasks'' tt_meta tt_upd_meta t (fc_tts w)
      in (fst r, w\<lparr>fc_tts := snd r\<rparr>))"

definition fake_list_tt :: "string option \<Rightarrow> fake_cluster \<Rightarrow> (error + TektonTasks list) \<times> fake_cluster" where
  "fake_list_tt ns w =
     (Inr (map (\<lambda>(k, t). t\<lparr>tt_meta := meta_json (tt_meta t)\<rparr>)
        (filter (\<lambda>(k, t). case ns of None \<Rightarrow> True | Some n \<Rightarrow> n = '''' \<or> fst k = n)
           (sorted_list_of_fmap (fc_tts w)))), w)"

definition fake_get_crd :: "object_key \<Rightarrow> fake_cluster \<Rightarrow> (error + crd) \<times> fake_cluster" where
  "fake_get_crd k w = ((case fmlookup (fc_crds w) k of
       None \<Rightarrow> Inl (not_found ''customresourcedefinitions'' (snd k)) | Some c \<Rightarrow> Inr c), w)"

definition fake_list_crds :: "fake_cluster \<Rightarrow> (error + crd list) \<times> fake_cluster" where
  "fake_list_crds w = (Inr (map snd (sorted_list_of_fmap (fc_crds w))), w)"

definition fake_get_clusterversion :: "string \<Rightarrow> fake_cluster \<Rightarrow> (error + unit) \<times> fake_cluster" where
  "fake_get_clusterversion n w =
     ((if n \<in> set (fc_clusterversions w) then Inr () else Inl (not_found ''clusterversions'' n)), w)"

definition fake_client :: "fake_cluster client" where
  "fake_client = \<lparr>c_get = fake_get, c_create = fake_create, c_update = fake_update,
     c_delete = fake_delete, c_list_clustertasks = fake_list_clustertasks,
     c_get_tt = fake_get_tt, c_update_tt = fake_update_tt, c_status_update_tt = fake_update_tt,
     c_list_tt = fake_list_tt, c_get_crd = fake_get_crd, c_list_crds = fake_list_crds,
     c_get_clusterversion = fake_get_clusterversion,
     c_list_kind = (\<lambda>kind apiVersion w. (Inr [], w)),
     c_merge_patch = (\<lambda>kind k patch w. (Inl (not_found kind (snd k)), w))\<rparr>"

lemma fake_client_simps [simp]:
  "c_get fake_client = fake_get" "c_create fake_client = fake_create"
  "c_update fake_client = fake_update" "c_delete fake_client = fake_delete"
  "c_list_clustertasks fake_client = fake_list_clustertasks" "c_get_tt fake_client = fake_get_tt"
  "c_update_tt fake_client = fake_update_tt" "c_status_update_tt fake_client = fake_update_tt"
  "c_list_tt fake_client = fake_list_tt" "c_get_crd fake_client = fake_get_crd"
  "c_list_crds fake_client = fake_list_crds"
  "c_get_clusterversion fake_client = fake_get_clusterversion"
  by (simp_all add: fake_client_def)

section \<open>The fake client is a healthy API server\<close>

definition fake_view :: "fake_cluster \<Rightarrow> rtype \<Rightarrow> object_key \<Rightarrow> object option" where
  "fake_view w t k = map_option (fake_read t) (fmlookup (fc_objects w t) k)"

definition stored_ok :: "rtype \<Rightarrow> object_key \<Rightarrow> object \<Rightarrow> bool" where
  "stored_ok t k x \<longleftrightarrow> o_rtype x = t \<and> object_key_of x = k \<and> snd k \<noteq> '''' \<and>
     parse_uint (m_resourceVersion (o_meta x)) \<noteq> None"

definition fake_healthy :: "fake_cluster \<Rightarrow> bool" where
  "fake_healthy w \<longleftrightarrow> fc_now w \<noteq> 0 \<and>
     (\<forall>t k x. fmlookup (fc_objects w t) k = Some x \<longrightarrow> stored_ok t k x)"

lemma meta_key_object [simp]: "meta_key (o_meta x) = object_key_of x"
  by (simp add: meta_key_def object_key_of_def)

lemma meta_key_rv [simp]: "meta_key (m\<lparr>m_resourceVersion := v\<rparr>) = meta_key m"
  by (simp add: meta_key_def)

lemma parse_uint_nonempty: "parse_uint s \<noteq> None \<Longrightarrow> s \<noteq> ''''"
  by (auto simp: parse_uint_def)

lemma next_rv_ok: "parse_uint (format_uint (unat (w :: 64 word))) \<noteq> None"
proof -
  have "unat w < 2 ^ 64" using unsigned_less [where ?'a = nat and w = w] by simp
  then show ?thesis by (simp add: parse_format_uint)
qed

lemma fake_view_upd:
  assumes "o_rtype x = t"
  shows "fake_view (w\<lparr>fc_objects := (fc_objects w)(t := fmupd k x (fc_objects w t))\<rparr>) =
     store_upd (fake_view w) t k (Some (fake_read t x))"
  by (auto simp: fake_view_def store_upd_def fun_eq_iff)

lemma fake_view_drop:
  "fake_view (w\<lparr>fc_objects := (fc_objects w)(t := fmdrop k (fc_objects w t))\<rparr>) =
     store_upd (fake_view w) t k None"
  by (auto simp: fake_view_def store_upd_def fun_eq_iff)

lemma fake_healthy_upd:
  "fake_healthy w \<Longrightarrow> stored_ok t k x \<Longrightarrow>
     fake_healthy (w\<lparr>fc_objects := (fc_objects w)(t := fmupd k x (fc_objects w t))\<rparr>)"
  by (auto simp: fake_healthy_def)

lemma fake_healthy_drop:
  "fake_healthy w \<Longrightarrow> fake_healthy (w\<lparr>fc_objects := (fc_objects w)(t := fmdrop k (fc_objects w t))\<rparr>)"
  by (auto simp: fake_healthy_def split: if_splits)

lemma fake_read_same_desired:
  "same_desired (fake_read (o_rtype x) (upd_meta (\<lambda>m. m\<lparr>m_resourceVersion := v\<rparr>) x)) x"
  by (simp add: fake_read_def same_desired_def object_key_of_def o_rtype_def)

lemma rv_same_desired: "same_desired (upd_meta (\<lambda>m. m\<lparr>m_resourceVersion := v\<rparr>) x) x"
  by (simp add: same_desired_def object_key_of_def)

lemma stored_ok_rv:
  "stored_ok (o_rtype x) (object_key_of x) (upd_meta (\<lambda>m. m\<lparr>m_resourceVersion := v\<rparr>) x) \<longleftrightarrow>
     m_name (o_meta x) \<noteq> '''' \<and> parse_uint v \<noteq> None"
  by (auto simp: stored_ok_def object_key_of_def)

lemma fake_create_ok:
  assumes w: "fake_healthy w" "fake_view w (o_rtype x) (object_key_of x) = None"
    and x: "m_name (o_meta x) \<noteq> ''''" "m_resourceVersion (o_meta x) = ''''"
  shows "\<exists>x' y w'. fake_create x w = (Inr x', w') \<and> fake_healthy w' \<and> same_desired x' x \<and>
     same_desired y x \<and> fake_view w' = store_upd (fake_view w) (o_rtype x) (object_key_of x) (Some y)"
proof -
  let ?x = "upd_meta (\<lambda>m. m\<lparr>m_resourceVersion := ''1''\<rparr>) x"
  let ?w = "w\<lparr>fc_objects := (fc_objects w)(o_rtype x := fmupd (object_key_of x) ?x (fc_objects w (o_rtype x)))\<rparr>"
  have k: "object_key_of ?x = object_key_of x" by (simp add: object_key_of_def)
  have free: "fmlookup (fc_objects w (o_rtype x)) (object_key_of x) = None"
    using w(2) by (simp add: fake_view_def)
  have c: "fake_create x w = (Inr ?x, ?w)"
    using x free by (simp add: fake_create_def with_objects_def tracker_create_def Let_def k)
  have "parse_uint ''1'' \<noteq> None" by (simp add: parse_uint_def is_digit_def digits_value_def)
  then have "fake_healthy ?w"
    by (intro fake_healthy_upd w(1)) (simp add: stored_ok_rv x(1))
  then show ?thesis
    using c rv_same_desired fake_read_same_desired fake_view_upd [of ?x "o_rtype x" w "object_key_of x"]
    by (intro exI [of _ ?x] exI [of _ "fake_read (o_rtype x) ?x"] exI [of _ ?w]) simp
qed

lemma fake_stored:
  assumes "fake_healthy w" and "fmlookup (fc_objects w t) k = Some old"
  shows "o_rtype old = t" "object_key_of old = k" "snd k \<noteq> ''''"
    "\<exists>n. parse_uint (m_resourceVersion (o_meta old)) = Some n \<and> m_resourceVersion (o_meta old) \<noteq> ''''"
proof -
  have *: "stored_ok t k old" using assms unfolding fake_healthy_def by blast
  then show "o_rtype old = t" "object_key_of old = k" "snd k \<noteq> ''''"
    unfolding stored_ok_def by blast+
  from * have "parse_uint (m_resourceVersion (o_meta old)) \<noteq> None"
    unfolding stored_ok_def by blast
  with parse_uint_nonempty [OF this]
  show "\<exists>n. parse_uint (m_resourceVersion (o_meta old)) = Some n \<and> m_resourceVersion (o_meta old) \<noteq> ''''"
    by blast
qed

lemma tracker_update_result:
  assumes "m_name (o_meta x) \<noteq> ''''" "fmlookup st (object_key_of x) = Some old"
    and "parse_uint (m_resourceVersion (o_meta old)) = Some n" "m_resourceVersion (o_meta old) \<noteq> ''''"
    and "m_resourceVersion (o_meta x) = m_resourceVersion (o_meta old)"
    and "\<not> (\<not> time_is_zero (m_deletionTimestamp (o_meta x)) \<and> m_finalizers (o_meta x) = [])"
  shows "tracker_update u res o_meta upd_meta x st =
     (let y = upd_meta (\<lambda>m. m\<lparr>m_resourceVersion := format_uint (unat (word_of_nat n + 1 :: 64 word))\<rparr>) x
      in (Inr y, fmupd (object_key_of x) y st))"
proof -
  have k: "object_key_of (upd_meta (\<lambda>m. m\<lparr>m_resourceVersion := v\<rparr>) x) = object_key_of x" for v
    by (simp add: object_key_of_def)
  show ?thesis
    using assms(1-5) by (simp add: tracker_update_def Let_def k) (use assms(6) in blast)
qed

lemma fake_update_ok:
  assumes w: "fake_healthy w" "fake_view w (o_rtype x) (object_key_of x) = Some old"
    and x: "m_resourceVersion (o_meta x) = m_resourceVersion (o_meta old)"
      "time_is_zero (m_deletionTimestamp (o_meta x))"
  shows "\<exists>x' y w'. fake_update x w = (Inr x', w') \<and> fake_healthy w' \<and> same_desired x' x \<and>
     same_desired y x \<and> fake_view w' = store_upd (fake_view w) (o_rtype x) (object_key_of x) (Some y)"
proof -
  obtain o' where o': "fmlookup (fc_objects w (o_rtype x)) (object_key_of x) = Some o'" "old = fake_read (o_rtype x) o'"
    using w(2) by (auto simp: fake_view_def)
  note st = fake_stored [OF w(1) o'(1)]
  obtain n where n: "parse_uint (m_resourceVersion (o_meta o')) = Some n" "m_resourceVersion (o_meta o') \<noteq> ''''"
    using st(4) by blast
  have rv: "m_resourceVersion (o_meta x) = m_resourceVersion (o_meta o')"
    using x(1) o'(2) by (simp add: fake_read_def)
  have name: "m_name (o_meta x) \<noteq> ''''" using st(3) by (simp add: object_key_of_def)
  let ?v = "format_uint (unat (word_of_nat n + 1 :: 64 word))"
  let ?x = "upd_meta (\<lambda>m. m\<lparr>m_resourceVersion := ?v\<rparr>) x"
  let ?w = "w\<lparr>fc_objects := (fc_objects w)(o_rtype x := fmupd (object_key_of x) ?x (fc_objects w (o_rtype x)))\<rparr>"
  have c: "fake_update x w = (Inr ?x, ?w)"
    using x(2) by (simp add: fake_update_def with_objects_def
        tracker_update_result [OF name o'(1) n rv] Let_def)
  have "fake_healthy ?w"
    by (intro fake_healthy_upd w(1)) (simp add: stored_ok_rv name next_rv_ok)
  then show ?thesis
    using c rv_same_desired fake_read_same_desired fake_view_upd [of ?x "o_rtype x" w "object_key_of x"]
    by (intro exI [of _ ?x] exI [of _ "fake_read (o_rtype x) ?x"] exI [of _ ?w]) simp
qed

lemma fake_delete_ok:
  assumes w: "fake_healthy w" "fake_view w (o_rtype x) (object_key_of x) = Some old"
    and x: "m_finalizers (o_meta old) = []"
  shows "\<exists>w'. fake_delete x w = (Inr (), w') \<and> fake_healthy w' \<and>
     fake_view w' = store_upd (fake_view w) (o_rtype x) (object_key_of x) None"
proof -
  obtain o' where o': "fmlookup (fc_objects w (o_rtype x)) (object_key_of x) = Some o'" "old = fake_read (o_rtype x) o'"
    using w(2) by (auto simp: fake_view_def)
  have "m_finalizers (o_meta o') = []" using x o'(2) by (simp add: fake_read_def)
  with o'(1) show ?thesis
    by (simp add: fake_delete_def with_objects_def tracker_delete_def fake_view_drop
        fake_healthy_drop [OF w(1)])
qed

lemma fake_delete_finalized:
  assumes w: "fake_healthy w" "fake_view w (o_rtype x) (object_key_of x) = Some old"
    and x: "m_finalizers (o_meta old) \<noteq> []"
  shows "\<exists>w' y. fake_delete x w = (Inr (), w') \<and> fake_healthy w' \<and>
     \<not> time_is_zero (m_deletionTimestamp (o_meta y)) \<and> same_holders y old \<and>
     fake_view w' = store_upd (fake_view w) (o_rtype x) (object_key_of x) (Some y)"
proof -
  obtain o' where o': "fmlookup (fc_objects w (o_rtype x)) (object_key_of x) = Some o'" "old = fake_read (o_rtype x) o'"
    using w(2) by (auto simp: fake_view_def)
  note st = fake_stored [OF w(1) o'(1)]
  obtain n where n: "parse_uint (m_resourceVersion (o_meta o')) = Some n" "m_resourceVersion (o_meta o') \<noteq> ''''"
    using st(4) by blast
  let ?d = "upd_meta (\<lambda>m. m\<lparr>m_deletionTimestamp := Some (fc_now w)\<rparr>) o'"
  have f: "m_finalizers (o_meta o') \<noteq> []" using x o'(2) by (simp add: fake_read_def)
  have kd: "object_key_of ?d = object_key_of x" using st(2) by (simp add: object_key_of_def)
  have name: "m_name (o_meta ?d) \<noteq> ''''" using st(2,3) by (auto simp: object_key_of_def)
  let ?v = "format_uint (unat (word_of_nat n + 1 :: 64 word))"
  let ?y = "upd_meta (\<lambda>m. m\<lparr>m_resourceVersion := ?v\<rparr>) ?d"
  let ?w = "w\<lparr>fc_objects := (fc_objects w)(o_rtype x := fmupd (object_key_of x) ?y (fc_objects w (o_rtype x)))\<rparr>"
  have "tracker_update u res o_meta upd_meta ?d (fc_objects w (o_rtype x)) =
      (Inr ?y, fmupd (object_key_of x) ?y (fc_objects w (o_rtype x)))" for u res
    using tracker_update_result [OF name, of "fc_objects w (o_rtype x)" o' n u res] o'(1) n f kd
    by (simp add: Let_def)
  then have c: "fake_delete x w = (Inr (), ?w)"
    using o'(1) f by (simp add: fake_delete_def with_objects_def tracker_delete_def)
  have "stored_ok (o_rtype x) (object_key_of x) ?y"
    using stored_ok_rv [of ?d ?v] st(1) kd name by (simp add: next_rv_ok)
  then have "fake_healthy ?w" by (intro fake_healthy_upd w(1))
  moreover have "\<not> time_is_zero (m_deletionTimestamp (o_meta (fake_read (o_rtype x) ?y)))"
    using w(1) by (simp add: fake_read_def fake_healthy_def)
  moreover have "same_holders (fake_read (o_rtype x) ?y) old"
    by (simp add: o'(2) same_holders_def fake_read_def object_json_def meta_json_def meta_norm_def)
  ultimately show ?thesis
    using c fake_view_upd [of ?y "o_rtype x" w "object_key_of x"] st(1)
    by (intro exI [of _ ?w] exI [of _ "fake_read (o_rtype x) ?y"]) simp
qed

lemma fake_view_wf:
  assumes "fake_healthy w" and "fake_view w t k = Some x"
  shows "o_rtype x = t \<and> object_key_of x = k \<and> o_kind x = rtype_kind t"
proof -
  obtain z where z: "fmlookup (fc_objects w t) k = Some z" "x = fake_read t z"
    using assms(2) by (auto simp: fake_view_def)
  from fake_stored(1,2) [OF assms(1) z(1)] show ?thesis
    by (simp add: z(2) fake_read_def object_key_of_def o_rtype_def)
qed

interpretation fake: api_server fake_client fake_view fake_healthy
proof unfold_locales
  fix w t k x
  show "fake_healthy w \<Longrightarrow> fake_view w t k = Some x \<Longrightarrow> c_get fake_client t k w = (Inr x, w)"
    by (auto simp: fake_view_def fake_get_def)
  show "fake_healthy w \<Longrightarrow> fake_view w t k = None \<Longrightarrow> \<exists>e. c_get fake_client t k w = (Inl e, w) \<and> is_not_found e"
    by (auto simp: fake_view_def fake_get_def not_found_def)
qed (use fake_view_wf fake_create_ok fake_update_ok fake_delete_ok fake_delete_finalized in auto)

end
