(* ===== verification/Operand_Closures.thy ===== *)
theory Operand_Closures
  imports Bundle Fake_Client
begin

text \<open>
  What the two operands share. An operand keeps slices of objects; each reconcile function
  it builds is a closure over a pointer to one element, which the call changes in place.
  Here the closure works on the operand's state beside the system state, through the index
  of the element. What such closures promise is in \<open>Operand_Contract\<close>.
\<close>

type_synonym ('o, 'w) ReconcileFunc = "'o \<times> 'w sys \<Rightarrow> ReconcileResult outcome \<times> ('o \<times> 'w sys)"

definition nil_map_panic :: string where
  "nil_map_panic = ''assignment to entry in nil map''"
definition nil_deref_panic :: string where
  "nil_deref_panic = ''runtime error: invalid memory address or nil pointer dereference''"
definition conversion_panic :: string where
  "conversion_panic = ''interface conversion: client.Object''"

definition at_index ::
  "('o \<Rightarrow> object list) \<Rightarrow> ((object list \<Rightarrow> object list) \<Rightarrow> 'o \<Rightarrow> 'o) \<Rightarrow> nat \<Rightarrow>
   (object \<times> 'w sys \<Rightarrow> ReconcileResult outcome \<times> (object \<times> 'w sys)) \<Rightarrow> ('o, 'w) ReconcileFunc" where
  \<comment> \<open>\<open>x := &xs[i]\<close>, captured by the closure\<close>
  "at_index get upd i f st =
     (case f (get (fst st) ! i, snd st) of
        (r, (x, s)) \<Rightarrow> (r, (upd (\<lambda>xs. xs[i := x]) (fst st), s)))"

definition reconcile_element ::
  "'w client \<Rightarrow> TektonTasks \<Rightarrow> (object \<Rightarrow> unit outcome \<times> object) \<Rightarrow> reconcileBuilder \<Rightarrow>
   object \<times> 'w sys \<Rightarrow> ReconcileResult outcome \<times> (object \<times> 'w sys)" where
  \<comment> \<open>the body of a closure: prepare the element, then run the builder\<close>
  "reconcile_element cl inst prep b st =
     bind_outcome (on_resource prep st) (\<lambda>_ st. Reconcile cl inst b st)"

text \<open>The loop that reports reverted changes, after a reconciliation without errors.\<close>

fun log_reverted :: "string \<Rightarrow> bool \<Rightarrow> ReconcileResult list \<Rightarrow> 'w sys \<Rightarrow> 'w sys" where
  "log_reverted prefix upgradingNow [] s = s"
| "log_reverted prefix upgradingNow (r # rs) s =
     log_reverted prefix upgradingNow rs
       (if \<not> upgradingNow \<and> rr_OperationResult r = OperationResultUpdated
        then log_msg (prefix @ m_name (o_meta (rr_Resource r))) s else s)"

definition isUpgradingNow :: "environ \<Rightarrow> TektonTasks \<Rightarrow> bool" where
  "isUpgradingNow env inst = (ObservedVersion (Status inst) \<noteq> GetOperatorVersion env)"

lemma log_reverted_simps [simp]:
  "world (log_reverted p u rs s) = world s" "vcache (log_reverted p u rs s) = vcache s"
  by (induction rs arbitrary: s) simp_all

lemma log_reverted_logs:
  "logs (log_reverted p u rs s) = logs s @
     (if u then [] else map (\<lambda>r. p @ m_name (o_meta (rr_Resource r)))
        (filter (\<lambda>r. rr_OperationResult r = OperationResultUpdated) rs))"
  by (induction rs arbitrary: s) auto

end
