(* ===== verification/Tekton_Tasks_Operand.thy ===== *)
theory Tekton_Tasks_Operand
  imports Operand_Closures
begin

text \<open>
  The tekton-tasks operand (\<open>pkg/tekton-tasks/tekton-tasks.go\<close>, \<open>constants.go\<close>): it keeps the
  tasks the operator knows an image for, with their service accounts, role bindings and
  cluster roles, deploys them with the images of this release, and cleans them up together
  with the cluster tasks of older releases.
\<close>

section \<open>Names and images\<close>

definition tt_operandName :: string where "tt_operandName = ''tekton-tasks''"
definition tt_operandComponent :: string where "tt_operandComponent = AppComponentTektonTasks"
definition TektonTasksVersionLabel :: string where
  "TektonTasksVersionLabel = ''tekton-tasks.kubevirt.io/version''"

definition cleanVMTaskName :: string where "cleanVMTaskName = ''cleanup-vm''"
definition copyTemplateTaskName :: string where "copyTemplateTaskName = ''copy-template''"
definition modifyDataObjectTaskName :: string where "modifyDataObjectTaskName = ''modify-data-object''"
definition createVMFromTemplateTaskName :: string where
  "createVMFromTemplateTaskName = ''create-vm-from-template''"
definition diskVirtCustomizeTaskName :: string where "diskVirtCustomizeTaskName = ''disk-virt-customize''"
definition diskVirtSysprepTaskName :: string where "diskVirtSysprepTaskName = ''disk-virt-sysprep''"
definition modifyTemplateTaskName :: string where "modifyTemplateTaskName = ''modify-vm-template''"
definition waitForVMITaskName :: string where "waitForVMITaskName = ''wait-for-vmi-status''"
definition createVMFromManifestTaskName :: string where
  "createVMFromManifestTaskName = ''create-vm-from-manifest''"
definition generateSSHKeysTaskName :: string where "generateSSHKeysTaskName = ''generate-ssh-keys''"
definition executeInVMTaskName :: string where "executeInVMTaskName = ''execute-in-vm''"
definition modifyWindowsVMIsoFileName :: string where
  "modifyWindowsVMIsoFileName = ''modify-windows-iso-file''"

lemmas task_name_defs = cleanVMTaskName_def copyTemplateTaskName_def modifyDataObjectTaskName_def
  createVMFromTemplateTaskName_def diskVirtCustomizeTaskName_def diskVirtSysprepTaskName_def
  modifyTemplateTaskName_def waitForVMITaskName_def createVMFromManifestTaskName_def
  generateSSHKeysTaskName_def executeInVMTaskName_def modifyWindowsVMIsoFileName_def

definition tt_requiredCRDs :: "string list" where "tt_requiredCRDs = [''tasks.tekton.dev'']"

text \<open>A map from task names to functions; what the functions return depends on the environment.\<close>

definition AllowedTasks :: "string \<Rightarrow> (environ \<Rightarrow> string) option" where
  "AllowedTasks = map_of
     [(createVMFromManifestTaskName, GetCreateVMImage),
      (cleanVMTaskName, GetCleanupVMImage),
      (copyTemplateTaskName, GetCopyTemplateImage),
      (modifyDataObjectTaskName, GetModifyDataObjectImage),
      (createVMFromTemplateTaskName, GetCreateVMImage),
      (diskVirtCustomizeTaskName, GetDiskVirtCustomizeImage),
      (diskVirtSysprepTaskName, GetDiskVirtSysprepImage),
      (modifyTemplateTaskName, GetModifyVMTemplateImage),
      (waitForVMITaskName, GetWaitForVMIStatusImage),
      (generateSSHKeysTaskName, GetSSHKeysStatusImage),
      (executeInVMTaskName, GetCleanupVMImage),
      (modifyWindowsVMIsoFileName, GetCleanupVMImage)]"

definition call_AllowedTask :: "environ \<Rightarrow> string \<Rightarrow> string outcome" where
  \<comment> \<open>\<open>AllowedTasks[name]()\<close>: a missing entry is a nil function, which panics when called\<close>
  "call_AllowedTask env name =
     (case AllowedTasks name of None \<Rightarrow> Panic nil_deref_panic | Some f \<Rightarrow> Ok (f env))"

section \<open>The operand\<close>

record tektonTasks =
  tt_tasks :: "object list"
  tt_serviceAccounts :: "object list"
  tt_roleBindings :: "object list"
  tt_clusterRoles :: "object list"

definition allowed_name :: "string \<Rightarrow> bool" where
  "allowed_name name = (AllowedTasks name \<noteq> None)"

definition filterUnusedObjects :: "tektonTasks \<Rightarrow> tektonTasks" where
  "filterUnusedObjects t =
     \<lparr>tt_tasks = filter (\<lambda>task. allowed_name (m_name (o_meta task))) (tt_tasks t),
      tt_serviceAccounts =
        filter (\<lambda>sa. allowed_name (trim_suffix (m_name (o_meta sa)) ''-task'')) (tt_serviceAccounts t),
      tt_roleBindings =
        filter (\<lambda>rb. allowed_name (trim_suffix (m_name (o_meta rb)) ''-task'')) (tt_roleBindings t),
      tt_clusterRoles =
        filter (\<lambda>cr. allowed_name (trim_suffix (m_name (o_meta cr)) ''-task'')) (tt_clusterRoles t)\<rparr>"

definition tt_New :: "Bundle \<Rightarrow> tektonTasks" where
  "tt_New bundle = filterUnusedObjects
     \<lparr>tt_tasks = Bundle_Tasks bundle, tt_serviceAccounts = Bundle_ServiceAccounts bundle,
      tt_roleBindings = Bundle_RoleBindings bundle, tt_clusterRoles = Bundle_ClusterRoles bundle\<rparr>"

definition tt_WatchClusterTypes :: "rtype list" where
  "tt_WatchClusterTypes = [ClusterRole, ClusterTask, RoleBinding, ServiceAccount]"
definition tt_WatchTypes :: "rtype list" where
  "tt_WatchTypes = []"

section \<open>Update functions\<close>

fun update_task :: update_func where
  "update_task newRes foundRes =
     (case (o_body newRes, o_body foundRes) of
        (TaskBody spec, TaskBody _) \<Rightarrow> (Ok (foundRes\<lparr>o_body := TaskBody spec\<rparr>), newRes)
      | _ \<Rightarrow> (Panic conversion_panic, newRes))"

fun update_cluster_role :: update_func where
  "update_cluster_role newRes foundRes =
     (case (o_body newRes, o_body foundRes) of
        (ClusterRoleBody rules _, ClusterRoleBody _ rest) \<Rightarrow>
          (Ok (foundRes\<lparr>o_body := ClusterRoleBody rules rest\<rparr>), newRes)
      | _ \<Rightarrow> (Panic conversion_panic, newRes))"

fun update_role_binding :: update_func where
  "update_role_binding newRes foundRes =
     (case (o_body newRes, o_body foundRes) of
        (RoleBindingBody ref subjects, RoleBindingBody _ _) \<Rightarrow>
          (Ok (foundRes\<lparr>o_body := RoleBindingBody ref subjects\<rparr>), newRes)
      | _ \<Rightarrow> (Panic conversion_panic, newRes))"

section \<open>Reconciling\<close>

definition task_namespace :: "TektonTasks \<Rightarrow> string" where
  "task_namespace inst =
     (case Spec_Tasks (Spec inst) of
        Some tasks \<Rightarrow> if Tasks_Namespace tasks \<noteq> '''' then Tasks_Namespace tasks
                      else m_namespace (tt_meta inst)
      | None \<Rightarrow> m_namespace (tt_meta inst))"

definition set_namespace :: "string \<Rightarrow> object \<Rightarrow> object" where
  "set_namespace ns = upd_meta (\<lambda>m. m\<lparr>m_namespace := ns\<rparr>)"

definition iso_step :: "environ \<Rightarrow> step \<Rightarrow> step outcome" where
  \<comment> \<open>the body of the loop over the steps of \<open>modify-windows-iso-file\<close>\<close>
  "iso_step env step =
     (let assign = (\<lambda>name. case call_AllowedTask env name of
            Ok img \<Rightarrow> Ok (step\<lparr>step_image := img\<rparr>) | Err e \<Rightarrow> Err e | Panic p \<Rightarrow> Panic p)
      in if step_name step = ''create-iso-file'' then assign modifyDataObjectTaskName
         else if step_name step = ''convert-iso-file'' \<or> step_name step = ''modify-iso-file''
         then assign diskVirtCustomizeTaskName
         else Ok step)"

fun iso_steps :: "environ \<Rightarrow> step list \<Rightarrow> step list outcome" where
  "iso_steps env [] = Ok []"
| "iso_steps env (step # steps) =
     (case iso_step env step of Ok step' \<Rightarrow>
        (case iso_steps env steps of Ok steps' \<Rightarrow> Ok (step' # steps') | Err e \<Rightarrow> Err e | Panic p \<Rightarrow> Panic p)
      | Err e \<Rightarrow> Err e | Panic p \<Rightarrow> Panic p)"

definition assign_images :: "environ \<Rightarrow> object \<Rightarrow> unit outcome \<times> object" where
  "assign_images env task =
     (case o_body task of
        TaskBody spec \<Rightarrow>
          if m_name (o_meta task) = modifyWindowsVMIsoFileName then
            (case iso_steps env (ts_steps spec) of
               Ok steps \<Rightarrow> (Ok (), task\<lparr>o_body := TaskBody (spec\<lparr>ts_steps := steps\<rparr>)\<rparr>)
             | Err e \<Rightarrow> (Err e, task) | Panic p \<Rightarrow> (Panic p, task))
          else
            (case call_AllowedTask env (m_name (o_meta task)) of
               Ok img \<Rightarrow>
                 (case ts_steps spec of
                    [] \<Rightarrow> (Panic index_panic, task)
                  | step # steps \<Rightarrow>
                      (Ok (), task\<lparr>o_body := TaskBody (spec\<lparr>ts_steps := step\<lparr>step_image := img\<rparr> # steps\<rparr>)\<rparr>))
             | Err e \<Rightarrow> (Err e, task) | Panic p \<Rightarrow> (Panic p, task))
      | _ \<Rightarrow> (Panic conversion_panic, task))"

definition set_version_label :: "object \<Rightarrow> unit outcome \<times> object" where
  "set_version_label task =
     (case m_labels (o_meta task) of
        None \<Rightarrow> (Panic nil_map_panic, task)
      | Some labels \<Rightarrow>
          (Ok (), upd_meta (\<lambda>m. m\<lparr>m_labels := Some (fmupd TektonTasksVersionLabel TektonTasksVersion labels)\<rparr>) task))"

definition prepare_task :: "environ \<Rightarrow> TektonTasks \<Rightarrow> object \<Rightarrow> unit outcome \<times> object" where
  "prepare_task env inst task =
     bind_outcome (assign_images env (set_namespace (task_namespace inst) task))
       (\<lambda>_ task. set_version_label task)"

definition prepare_instance_namespace :: "TektonTasks \<Rightarrow> object \<Rightarrow> unit outcome \<times> object" where
  "prepare_instance_namespace inst x = (Ok (), set_namespace (m_namespace (tt_meta inst)) x)"

definition tt_builder :: "update_func option \<Rightarrow> reconcileBuilder" where
  \<comment> \<open>\<open>CreateOrUpdate(request).ClusterResource(x).WithAppLabels(...)\<close>, with or without \<open>UpdateFunc\<close>\<close>
  "tt_builder f =
     (let b = WithAppLabels tt_operandName tt_operandComponent (ClusterResource CreateOrUpdate)
      in case f of None \<Rightarrow> b | Some f \<Rightarrow> UpdateFunc f b)"

definition reconcileTektonTasksFuncs ::
  "'w client \<Rightarrow> environ \<Rightarrow> TektonTasks \<Rightarrow> object list \<Rightarrow> (tektonTasks, 'w) ReconcileFunc list" where
  "reconcileTektonTasksFuncs cl env inst tasks =
     map (\<lambda>i. at_index tt_tasks tt_tasks_update i
            (reconcile_element cl inst (prepare_task env inst) (tt_builder (Some update_task))))
       [0..<length tasks]"

definition tt_reconcileClusterRoleFuncs ::
  "'w client \<Rightarrow> TektonTasks \<Rightarrow> object list \<Rightarrow> (tektonTasks, 'w) ReconcileFunc list" where
  "tt_reconcileClusterRoleFuncs cl inst crs =
     map (\<lambda>i. at_index tt_clusterRoles tt_clusterRoles_update i
            (reconcile_element cl inst (\<lambda>x. (Ok (), x)) (tt_builder (Some update_cluster_role))))
       [0..<length crs]"

definition tt_reconcileServiceAccountsFuncs ::
  "'w client \<Rightarrow> TektonTasks \<Rightarrow> object list \<Rightarrow> (tektonTasks, 'w) ReconcileFunc list" where
  "tt_reconcileServiceAccountsFuncs cl inst sas =
     map (\<lambda>i. at_index tt_serviceAccounts tt_serviceAccounts_update i
            (reconcile_element cl inst (prepare_instance_namespace inst) (tt_builder None)))
       [0..<length sas]"

definition tt_reconcileRoleBindingFuncs ::
  "'w client \<Rightarrow> TektonTasks \<Rightarrow> object list \<Rightarrow> (tektonTasks, 'w) ReconcileFunc list" where
  "tt_reconcileRoleBindingFuncs cl inst rbs =
     map (\<lambda>i. at_index tt_roleBindings tt_roleBindings_update i
            (reconcile_element cl inst (prepare_instance_namespace inst)
               (tt_builder (Some update_role_binding))))
       [0..<length rbs]"

definition tt_Reconcile ::
  "'w client \<Rightarrow> environ \<Rightarrow> TektonTasks \<Rightarrow> tektonTasks \<times> 'w sys \<Rightarrow>
   ReconcileResult list outcome \<times> (tektonTasks \<times> 'w sys)" where
  "tt_Reconcile cl env inst st =
     (let t = fst st;
          reconcileFunc = reconcileTektonTasksFuncs cl env inst (tt_tasks t)
            @ tt_reconcileClusterRoleFuncs cl inst (tt_clusterRoles t)
            @ tt_reconcileServiceAccountsFuncs cl inst (tt_serviceAccounts t)
            @ tt_reconcileRoleBindingFuncs cl inst (tt_roleBindings t)
      in bind_outcome (CollectResourceStatus reconcileFunc st) (\<lambda>results st.
           (Ok results, (fst st, log_reverted ''Changes reverted in tekton tasks: ''
                                   (isUpgradingNow env inst) results (snd st)))))"

section \<open>Cleaning up\<close>

definition listDeprecatedClusterTasks :: "'w client \<Rightarrow> 'w sys \<Rightarrow> object list outcome \<times> 'w sys" where
  "listDeprecatedClusterTasks cl s =
     call (c_list_clustertasks cl [(AppKubernetesManagedByLabel, AppKubernetesManagedByValue)]) s"

definition tt_Cleanup ::
  "'w client \<Rightarrow> TektonTasks \<Rightarrow> tektonTasks \<Rightarrow> 'w sys \<Rightarrow> CleanupResult list outcome \<times> 'w sys" where
  "tt_Cleanup cl inst t s =
     (let objects = tt_tasks t @ tt_clusterRoles t @ tt_roleBindings t @ tt_serviceAccounts t
      in bind_outcome (listDeprecatedClusterTasks cl s) (\<lambda>clusterTasks s.
           DeleteAll cl inst (objects @ clusterTasks) s))"

end
