(* ===== verification/Tekton_Pipelines_Operand.thy ===== *)
theory Tekton_Pipelines_Operand
  imports Operand_Closures
begin

text \<open>
  The tekton-pipelines operand (\<open>pkg/tekton-pipelines/tekton-pipelines.go\<close>): pipelines,
  config maps, role bindings, service accounts and cluster roles, deployed with the cluster roles
  first and cleaned up with the cluster roles last.
\<close>

definition tp_operandName :: string where "tp_operandName = ''tekton-pipelines''"
definition tp_operandComponent :: string where "tp_operandComponent = AppComponentTektonPipelines"
definition tp_requiredCRDs :: "string list" where "tp_requiredCRDs = [''tasks.tekton.dev'']"

definition namespaceRegex_MatchString :: "string \<Rightarrow> bool" where
  \<comment> \<open>the pattern \<open>^(openshift|kube)-\<close>\<close>
  "namespaceRegex_MatchString s = (has_prefix s ''openshift-'' \<or> has_prefix s ''kube-'')"

record tektonPipelines =
  tp_pipelines :: "object list"
  tp_configMaps :: "object list"
  tp_roleBindings :: "object list"
  tp_serviceAccounts :: "object list"
  tp_clusterRoles :: "object list"

definition tp_New :: "Bundle \<Rightarrow> tektonPipelines" where
  "tp_New bundle =
     \<lparr>tp_pipelines = Bundle_Pipelines bundle, tp_configMaps = Bundle_ConfigMaps bundle,
      tp_roleBindings = Bundle_RoleBindings bundle,
      tp_serviceAccounts = Bundle_ServiceAccounts bundle,
      tp_clusterRoles = Bundle_ClusterRoles bundle\<rparr>"

definition tp_WatchClusterTypes :: "rtype list" where
  "tp_WatchClusterTypes = [Pipeline, ConfigMap, RoleBinding, ServiceAccount, ClusterRole]"
definition tp_WatchTypes :: "rtype list" where
  "tp_WatchTypes = []"

section \<open>Update functions\<close>

definition virtio_default :: "environ \<Rightarrow> array_or_string" where
  "virtio_default env =
     \<lparr>aos_type = ''string'', aos_stringVal = GetVirtioImage env, aos_arrayVal = []\<rparr>"

definition virtio_param :: "environ \<Rightarrow> param_spec \<Rightarrow> param_spec" where
  "virtio_param env param =
     (if has_prefix (ps_name param) ''virtioContainer''
      then param\<lparr>ps_default := Some (virtio_default env)\<rparr> else param)"

definition virtio_spec :: "environ \<Rightarrow> pipeline_spec \<Rightarrow> pipeline_spec" where
  "virtio_spec env spec = spec\<lparr>pl_params := map (virtio_param env) (pl_params spec)\<rparr>"

text \<open>
  The found pipeline's spec becomes the expected one, slices included: the loop that sets the
  defaults in \<open>foundPipeline.Spec.Params\<close> writes into the slice both share, so the expected
  pipeline changes with it.
\<close>

fun update_pipeline :: "environ \<Rightarrow> update_func" where
  "update_pipeline env newRes foundRes =
     (case (o_body newRes, o_body foundRes) of
        (PipelineBody spec, PipelineBody _) \<Rightarrow>
          (Ok (foundRes\<lparr>o_body := PipelineBody (virtio_spec env spec)\<rparr>),
           newRes\<lparr>o_body := PipelineBody (virtio_spec env spec)\<rparr>)
      | _ \<Rightarrow> (Panic conversion_panic, newRes))"

fun update_config_map :: update_func where
  "update_config_map newRes foundRes =
     (case (o_body newRes, o_body foundRes) of
        (ConfigMapBody data _, ConfigMapBody _ rest) \<Rightarrow>
          (Ok (foundRes\<lparr>o_body := ConfigMapBody data rest\<rparr>), newRes)
      | _ \<Rightarrow> (Panic conversion_panic, newRes))"

definition replace_labels_annotations :: "object \<Rightarrow> object \<Rightarrow> object" where
  "replace_labels_annotations newRes foundRes =
     upd_meta (\<lambda>m. m\<lparr>m_labels := m_labels (o_meta newRes),
                     m_annotations := m_annotations (o_meta newRes)\<rparr>) foundRes"

fun update_service_account :: update_func where
  "update_service_account newRes foundRes =
     (case (o_body newRes, o_body foundRes) of
        (ServiceAccountBody _, ServiceAccountBody _) \<Rightarrow>
          (Ok (replace_labels_annotations newRes foundRes), newRes)
      | _ \<Rightarrow> (Panic conversion_panic, newRes))"

fun tp_update_cluster_role :: update_func where
  "tp_update_cluster_role newRes foundRes =
     (case (o_body newRes, o_body foundRes) of
        (ClusterRoleBody rules _, ClusterRoleBody _ rest) \<Rightarrow>
          (Ok ((replace_labels_annotations newRes foundRes)\<lparr>o_body := ClusterRoleBody rules rest\<rparr>), newRes)
      | _ \<Rightarrow> (Panic conversion_panic, newRes))"

fun tp_update_role_binding :: update_func where
  "tp_update_role_binding newRes foundRes =
     (case (o_body newRes, o_body foundRes) of
        (RoleBindingBody ref subjects, RoleBindingBody _ _) \<Rightarrow>
          (Ok (foundRes\<lparr>o_body := RoleBindingBody ref subjects\<rparr>), newRes)
      | _ \<Rightarrow> (Panic conversion_panic, newRes))"

section \<open>Reconciling\<close>

definition prepare_pipelines_namespace :: "TektonTasks \<Rightarrow> object \<Rightarrow> unit outcome \<times> object" where
  "prepare_pipelines_namespace inst x =
     (Ok (), upd_meta (\<lambda>m. m\<lparr>m_namespace := Pipelines_Namespace (Spec_Pipelines (Spec inst))\<rparr>) x)"

definition default_namespace :: "string \<Rightarrow> object \<Rightarrow> object" where
  "default_namespace ns = upd_meta (\<lambda>m. if m_namespace m = '''' then m\<lparr>m_namespace := ns\<rparr> else m)"

definition prepare_service_account :: "TektonTasks \<Rightarrow> object \<Rightarrow> unit outcome \<times> object" where
  "prepare_service_account inst x = (Ok (), default_namespace (m_namespace (tt_meta inst)) x)"

definition prepare_role_binding :: "TektonTasks \<Rightarrow> object \<Rightarrow> unit outcome \<times> object" where
  "prepare_role_binding inst x =
     (let ns = m_namespace (tt_meta inst); x = default_namespace ns x
      in (Ok (), x\<lparr>o_body := (case o_body x of
            RoleBindingBody ref subjects \<Rightarrow>
              RoleBindingBody ref (map (\<lambda>subject. subject\<lparr>sj_namespace := ns\<rparr>) subjects)
          | other \<Rightarrow> other)\<rparr>))"

definition tp_builder :: "update_func \<Rightarrow> reconcileBuilder" where
  "tp_builder f =
     UpdateFunc f (WithAppLabels tp_operandName tp_operandComponent (ClusterResource CreateOrUpdate))"

definition reconcileTektonPipelinesFuncs ::
  "'w client \<Rightarrow> environ \<Rightarrow> TektonTasks \<Rightarrow> object list \<Rightarrow> (tektonPipelines, 'w) ReconcileFunc list" where
  "reconcileTektonPipelinesFuncs cl env inst pipelines =
     map (\<lambda>i. at_index tp_pipelines tp_pipelines_update i
            (reconcile_element cl inst (prepare_pipelines_namespace inst) (tp_builder (update_pipeline env))))
       [0..<length pipelines]"

definition reconcileConfigMapsFuncs ::
  "'w client \<Rightarrow> TektonTasks \<Rightarrow> object list \<Rightarrow> (tektonPipelines, 'w) ReconcileFunc list" where
  "reconcileConfigMapsFuncs cl inst configMaps =
     map (\<lambda>i. at_index tp_configMaps tp_configMaps_update i
            (reconcile_element cl inst (prepare_pipelines_namespace inst) (tp_builder update_config_map)))
       [0..<length configMaps]"

definition skip_service_account :: "TektonTasks \<Rightarrow> object \<Rightarrow> bool" where
  "skip_service_account inst sa =
     (\<not> namespaceRegex_MatchString (Pipelines_Namespace (Spec_Pipelines (Spec inst))) \<and>
      m_name (o_meta sa) = ''pipeline'')"

definition tp_reconcileServiceAccountsFuncs ::
  "'w client \<Rightarrow> TektonTasks \<Rightarrow> object list \<Rightarrow> (tektonPipelines, 'w) ReconcileFunc list" where
  "tp_reconcileServiceAccountsFuncs cl inst sas =
     map (\<lambda>i. at_index tp_serviceAccounts tp_serviceAccounts_update i
            (reconcile_element cl inst (prepare_service_account inst) (tp_builder update_service_account)))
       (filter (\<lambda>i. \<not> skip_service_account inst (sas ! i)) [0..<length sas])"

definition tp_reconcileClusterRolesFuncs ::
  "'w client \<Rightarrow> TektonTasks \<Rightarrow> object list \<Rightarrow> (tektonPipelines, 'w) ReconcileFunc list" where
  "tp_reconcileClusterRolesFuncs cl inst crs =
     map (\<lambda>i. at_index tp_clusterRoles tp_clusterRoles_update i
            (reconcile_element cl inst (\<lambda>x. (Ok (), x)) (tp_builder tp_update_cluster_role)))
       [0..<length crs]"

definition tp_reconcileRoleBindingsFuncs ::
  "'w client \<Rightarrow> TektonTasks \<Rightarrow> object list \<Rightarrow> (tektonPipelines, 'w) ReconcileFunc list" where
  "tp_reconcileRoleBindingsFuncs cl inst rbs =
     map (\<lambda>i. at_index tp_roleBindings tp_roleBindings_update i
            (reconcile_element cl inst (prepare_role_binding inst) (tp_builder tp_update_role_binding)))
       [0..<length rbs]"

definition tp_Reconcile ::
  "'w client \<Rightarrow> environ \<Rightarrow> TektonTasks \<Rightarrow> tektonPipelines \<times> 'w sys \<Rightarrow>
   ReconcileResult list outcome \<times> (tektonPipelines \<times> 'w sys)" where
  "tp_Reconcile cl env inst st =
     (let t = fst st;
          reconcileFunc = tp_reconcileClusterRolesFuncs cl inst (tp_clusterRoles t)
            @ reconcileTektonPipelinesFuncs cl env inst (tp_pipelines t)
            @ reconcileConfigMapsFuncs cl inst (tp_configMaps t)
            @ tp_reconcileRoleBindingsFuncs cl inst (tp_roleBindings t)
            @ tp_reconcileServiceAccountsFuncs cl inst (tp_serviceAccounts t)
      in bind_outcome (CollectResourceStatus reconcileFunc st) (\<lambda>results st.
           (Ok results, (fst st, log_reverted ''Changes reverted in tekton pipeline: ''
                                   (isUpgradingNow env inst) results (snd st)))))"

section \<open>Cleaning up\<close>

definition tp_Cleanup ::
  "'w client \<Rightarrow> TektonTasks \<Rightarrow> tektonPipelines \<Rightarrow> 'w sys \<Rightarrow> CleanupResult list outcome \<times> 'w sys" where
  "tp_Cleanup cl inst t s =
     DeleteAll cl inst (tp_pipelines t @ tp_configMaps t @ tp_roleBindings t @
       tp_serviceAccounts t @ tp_clusterRoles t) s"

end
