(* ===== verification/Operand.thy ===== *)
theory Operand
  imports Tekton_Tasks_Operand Tekton_Pipelines_Operand
begin

text \<open>
  The interface between the controller and what it deploys (\<open>pkg/operands/operands.go\<close>): the
  Go interface value is one of the two operands, and a call dispatches on it.
\<close>

datatype Operand = TasksOperand tektonTasks | PipelinesOperand tektonPipelines

fun operand_Name :: "Operand \<Rightarrow> string" where
  "operand_Name (TasksOperand t) = tt_operandName"
| "operand_Name (PipelinesOperand t) = tp_operandName"

fun operand_WatchTypes :: "Operand \<Rightarrow> rtype list" where
  "operand_WatchTypes (TasksOperand t) = tt_WatchTypes"
| "operand_WatchTypes (PipelinesOperand t) = tp_WatchTypes"

fun operand_WatchClusterTypes :: "Operand \<Rightarrow> rtype list" where
  "operand_WatchClusterTypes (TasksOperand t) = tt_WatchClusterTypes"
| "operand_WatchClusterTypes (PipelinesOperand t) = tp_WatchClusterTypes"

fun operand_RequiredCrds :: "Operand \<Rightarrow> string list" where
  "operand_RequiredCrds (TasksOperand t) = tt_requiredCRDs"
| "operand_RequiredCrds (PipelinesOperand t) = tp_requiredCRDs"

fun operand_Reconcile ::
  "'w client \<Rightarrow> environ \<Rightarrow> TektonTasks \<Rightarrow> Operand \<Rightarrow> 'w sys \<Rightarrow>
   ReconcileResult list outcome \<times> (Operand \<times> 'w sys)" where
  "operand_Reconcile cl env inst (TasksOperand t) s =
     (case tt_Reconcile cl env inst (t, s) of (r, (t, s)) \<Rightarrow> (r, (TasksOperand t, s)))"
| "operand_Reconcile cl env inst (PipelinesOperand t) s =
     (case tp_Reconcile cl env inst (t, s) of (r, (t, s)) \<Rightarrow> (r, (PipelinesOperand t, s)))"

fun operand_Cleanup ::
  "'w client \<Rightarrow> TektonTasks \<Rightarrow> Operand \<Rightarrow> 'w sys \<Rightarrow> CleanupResult list outcome \<times> 'w sys" where
  "operand_Cleanup cl inst (TasksOperand t) s = tt_Cleanup cl inst t s"
| "operand_Cleanup cl inst (PipelinesOperand t) s = tp_Cleanup cl inst t s"

end
