(* ===== verification/Controller.thy ===== *)
theory Controller
  imports Operand
begin

text \<open>
  The controller of the \<open>TektonTasks\<close> resource (\<open>controllers/tektontasks_controller.go\<close>): the
  reconcile function, its status reports, the finalizer and the cleanup, and what triggers
  a reconciliation. One run of a function reads the clock as one instant \<open>now\<close>.
\<close>

definition finalizerName :: string where
  "finalizerName = ''tekton-tasks.kubevirt.io/finalizer''"
definition oldFinalizerName :: string where
  "oldFinalizerName = ''finalize.tekton-tasks.kubevirt.io''"

lemma finalizer_names: "oldFinalizerName \<noteq> finalizerName"
  by (simp add: oldFinalizerName_def finalizerName_def)

text \<open>
  The reconciler's fields. \<open>subresourceCache\<close> is the version cache of \<open>rs_sys\<close>; the gauge
  is the metric \<open>tekton_operator_reconciling_properly\<close>.
\<close>

record 'w tektonTasksReconciler =
  rs_operands :: "Operand list"
  rs_lastTektonTasksSpec :: TektonTasksSpec
  rs_sys :: "'w sys"
  rs_gauge :: nat

definition NewTektonReconciler :: "Operand list \<Rightarrow> 'w \<Rightarrow> 'w tektonTasksReconciler" where
  "NewTektonReconciler ops w =
     \<lparr>rs_operands = ops, rs_lastTektonTasksSpec = empty_spec,
      rs_sys = \<lparr>world = w, vcache = fmempty, logs = []\<rparr>, rs_gauge = 0\<rparr>"

section \<open>Reading the resource\<close>

definition isPaused :: "object_meta \<Rightarrow> bool" where
  "isPaused m =
     (case m_annotations m of
        None \<Rightarrow> False
      | Some annotations \<Rightarrow>
          (case fmlookup annotations OperatorPausedAnnotation of
             None \<Rightarrow> False
           | Some pausedStr \<Rightarrow>
               (case parse_bool pausedStr of None \<Rightarrow> False | Some paused \<Rightarrow> paused)))"

definition isBeingDeleted :: "object_meta \<Rightarrow> bool" where
  "isBeingDeleted m = (\<not> time_is_zero (m_deletionTimestamp m))"

definition isInitialized :: "TektonTasks \<Rightarrow> bool" where
  "isInitialized t = (isBeingDeleted (tt_meta t) \<or> Phase (Status t) \<noteq> PhaseEmpty)"

section \<open>Writing the resource\<close>

type_synonym 'w inst_state = "TektonTasks \<times> 'w sys"

definition write_tt ::
  "(TektonTasks \<Rightarrow> 'w \<Rightarrow> (error + TektonTasks) \<times> 'w) \<Rightarrow> 'w inst_state \<Rightarrow>
   unit outcome \<times> 'w inst_state" where
  \<comment> \<open>an update call on \<open>request.Instance\<close>, which a successful call overwrites\<close>
  "write_tt f st =
     (case f (fst st) (world (snd st)) of
        (Inl e, w) \<Rightarrow> (Err e, (fst st, (snd st)\<lparr>world := w\<rparr>))
      | (Inr t, w) \<Rightarrow> (Ok (), (t, (snd st)\<lparr>world := w\<rparr>)))"

definition on_status :: "(TektonTasksStatus \<Rightarrow> TektonTasksStatus) \<Rightarrow> 'w inst_state \<Rightarrow> 'w inst_state" where
  "on_status f st = (upd_status f (fst st), snd st)"

definition on_meta :: "(object_meta \<Rightarrow> object_meta) \<Rightarrow> 'w inst_state \<Rightarrow> 'w inst_state" where
  "on_meta f st = (tt_upd_meta f (fst st), snd st)"

definition observe_generation :: "'w inst_state \<Rightarrow> 'w inst_state" where
  "observe_generation st =
     on_status (\<lambda>s. s\<lparr>ObservedGeneration := m_generation (tt_meta (fst st))\<rparr>) st"

definition set_phase :: "phase \<Rightarrow> 'w inst_state \<Rightarrow> 'w inst_state" where
  "set_phase p = on_status (\<lambda>s. s\<lparr>Phase := p\<rparr>)"

definition set_condition ::
  "time \<Rightarrow> condition_type \<Rightarrow> condition_status \<Rightarrow> string \<Rightarrow> string \<Rightarrow> TektonTasksStatus \<Rightarrow> TektonTasksStatus" where
  "set_condition now ty st reason msg s =
     s\<lparr>Conditions := SetStatusCondition now (Conditions s) (mk_condition ty st reason msg)\<rparr>"

definition set_three ::
  "time \<Rightarrow> condition_status \<Rightarrow> condition_status \<Rightarrow> condition_status \<Rightarrow> string \<Rightarrow>
   TektonTasksStatus \<Rightarrow> TektonTasksStatus" where
  \<comment> \<open>the three calls that write Available, Progressing and Degraded with one message\<close>
  "set_three now av pr dg msg s =
     set_condition now ConditionDegraded dg ''Degraded'' msg
       (set_condition now ConditionProgressing pr ''Progressing'' msg
          (set_condition now ConditionAvailable av ''Available'' msg s))"

definition updateTektonTasksResource :: "'w client \<Rightarrow> 'w inst_state \<Rightarrow> unit outcome \<times> 'w inst_state" where
  "updateTektonTasksResource cl st =
     bind_outcome (write_tt (c_update_tt cl) st) (\<lambda>_ st.
       write_tt (c_status_update_tt cl) (observe_generation (set_phase PhaseDeploying st)))"

definition initialize :: "'w client \<Rightarrow> 'w inst_state \<Rightarrow> unit outcome \<times> 'w inst_state" where
  "initialize cl st = updateTektonTasksResource cl (on_meta (AddFinalizer finalizerName) st)"

definition updateTektonTasks :: "'w client \<Rightarrow> 'w inst_state \<Rightarrow> (bool \<times> error option) outcome \<times> 'w inst_state" where
  \<comment> \<open>returns whether the resource was updated, and the error\<close>
  "updateTektonTasks cl st =
     (if ContainsFinalizer (tt_meta (fst st)) oldFinalizerName then
        (case updateTektonTasksResource cl
                (on_meta (AddFinalizer finalizerName) (on_meta (RemoveFinalizer oldFinalizerName) st)) of
           (Ok _, st) \<Rightarrow> (Ok (True, None), st)
         | (Err e, st) \<Rightarrow> (Ok (False, Some e), st)
         | (Panic p, st) \<Rightarrow> (Panic p, st))
      else (Ok (False, None), st))"

section \<open>Errors\<close>

definition handleError :: "'w client \<Rightarrow> time \<Rightarrow> error option \<Rightarrow> 'w inst_state \<Rightarrow> bool outcome \<times> 'w inst_state" where
  \<comment> \<open>\<open>Ok requeue\<close> is a \<open>ctrl.Result\<close> without error\<close>
  "handleError cl now errParam st =
     (case errParam of
        None \<Rightarrow> (Ok False, st)
      | Some e \<Rightarrow>
          if is_conflict e then (Ok True, st)
          else
            (let st = set_phase PhaseDeploying st;
                 st = on_status (set_three now ConditionFalse ConditionTrue ConditionTrue
                                   (''Error: '' @ error_message e)) st
             in case write_tt (c_status_update_tt cl) st of
                  (Err e', (t, s)) \<Rightarrow> (Err e, (t, log_msg ''Error updating Tekton tasks status.'' s))
                | (_, st) \<Rightarrow> (Err e, st)))"

definition error_of :: "'a outcome \<Rightarrow> error option" where
  "error_of r = (case r of Err e \<Rightarrow> Some e | _ \<Rightarrow> None)"

section \<open>Status\<close>

definition namespaced_name :: "TektonTasks \<Rightarrow> string" where
  \<comment> \<open>the format \<open>%v/%v\<close> of the log messages\<close>
  "namespaced_name t = m_namespace (tt_meta t) @ ''/'' @ m_name (tt_meta t)"

definition set_if_different ::
  "time \<Rightarrow> condition_type \<Rightarrow> condition_status \<Rightarrow> string \<Rightarrow> string \<Rightarrow> TektonTasksStatus \<Rightarrow> TektonTasksStatus" where
  "set_if_different now ty st reason msg s =
     (if \<not> IsStatusConditionPresentAndEqual (Conditions s) ty st
      then set_condition now ty st reason msg s else s)"

definition reconciling_message :: string where
  "reconciling_message = ''Reconciling Tekton tasks resources''"

definition preUpdateStatus ::
  "'w client \<Rightarrow> environ \<Rightarrow> time \<Rightarrow> 'w inst_state \<Rightarrow> unit outcome \<times> 'w inst_state" where
  "preUpdateStatus cl env now st =
     (let operatorVersion = GetOperatorVersion env;
          st = observe_generation (set_phase PhaseDeploying st);
          st = on_status (\<lambda>s. s\<lparr>OperatorVersion := operatorVersion, TargetVersion := operatorVersion\<rparr>) st;
          st = (if Paused (Status (fst st))
                then (fst st, log_msg (''Unpausing Tekton tasks operator on resource: '' @
                                       namespaced_name (fst st)) (snd st))
                else st);
          st = on_status (\<lambda>s. s\<lparr>Paused := False\<rparr>) st;
          st = on_status (set_if_different now ConditionAvailable ConditionFalse ''Available'' reconciling_message) st;
          st = on_status (set_if_different now ConditionProgressing ConditionTrue ''Progressing'' reconciling_message) st;
          st = on_status (set_if_different now ConditionDegraded ConditionTrue ''Degraded'' reconciling_message) st
      in write_tt (c_status_update_tt cl) st)"

definition prefixResourceTypeAndName :: "string \<Rightarrow> object \<Rightarrow> string" where
  "prefixResourceTypeAndName message resource =
     o_kind resource @ '' '' @ m_namespace (o_meta resource) @ ''/'' @ m_name (o_meta resource) @
     '': '' @ message"

definition status_message ::
  "(ResourceStatus \<Rightarrow> string option) \<Rightarrow> string \<Rightarrow> string \<Rightarrow> ReconcileResult list \<Rightarrow> string" where
  \<comment> \<open>the message of the three-way switch on the results that report something\<close>
  "status_message field none many results =
     (case results of
        [] \<Rightarrow> none
      | [result] \<Rightarrow>
          (case field (rr_Status result) of
             Some m \<Rightarrow> prefixResourceTypeAndName m (rr_Resource result) | None \<Rightarrow> '''')
      | _ \<Rightarrow> format_uint (length results) @ many)"

definition report_results :: "environ \<Rightarrow> time \<Rightarrow> ReconcileResult list \<Rightarrow> 'w inst_state \<Rightarrow> 'w inst_state" where
  \<comment> \<open>everything \<open>updateStatus\<close> does before it writes the status\<close>
  "report_results env now results st =
     (let notAvailable = filter (\<lambda>r. NotAvailable (rr_Status r) \<noteq> None) results;
          progressing = filter (\<lambda>r. Progressing (rr_Status r) \<noteq> None) results;
          degraded = filter (\<lambda>r. Degraded (rr_Status r) \<noteq> None) results;
          st = on_status (set_condition now ConditionAvailable
                 (if notAvailable = [] then ConditionTrue else ConditionFalse) ''Available''
                 (status_message NotAvailable ''Tekton operator is available''
                    '' Tekton tasks resources are not available'' notAvailable)) st;
          st = on_status (set_condition now ConditionProgressing
                 (if progressing = [] then ConditionFalse else ConditionTrue) ''Progressing''
                 (status_message Progressing ''No Tekton tasks resources are progressing''
                    '' Tekton tasks resources are progressing'' progressing)) st;
          st = on_status (set_condition now ConditionDegraded
                 (if degraded = [] then ConditionFalse else ConditionTrue) ''Degraded''
                 (status_message Degraded ''No Tekton tasks resources are degraded''
                    '' Tekton tasks resources are degraded'' degraded)) st;
          st = observe_generation st
      in if notAvailable = [] \<and> progressing = [] \<and> degraded = []
         then on_status (\<lambda>s. s\<lparr>Phase := PhaseDeployed, ObservedVersion := GetOperatorVersion env\<rparr>) st
         else set_phase PhaseDeploying st)"

definition updateStatus ::
  "'w client \<Rightarrow> environ \<Rightarrow> time \<Rightarrow> ReconcileResult list \<Rightarrow> 'w inst_state \<Rightarrow> unit outcome \<times> 'w inst_state" where
  "updateStatus cl env now results st =
     write_tt (c_status_update_tt cl) (report_results env now results st)"

fun set_multiple :: "'w client \<Rightarrow> time \<Rightarrow> TektonTasks list \<Rightarrow> 'w sys \<Rightarrow> unit outcome \<times> 'w sys" where
  "set_multiple cl now [] s = (Ok (), s)"
| "set_multiple cl now (t # ts) s =
     (case write_tt (c_status_update_tt cl)
             (on_status (set_three now ConditionFalse ConditionFalse ConditionTrue
                ''there are multiple CRs deployed'') (t, s)) of
        (Ok _, (_, s)) \<Rightarrow> set_multiple cl now ts s
      | (Err e, (_, s)) \<Rightarrow> (Err e, s)
      | (Panic p, (_, s)) \<Rightarrow> (Panic p, s))"

definition setStatusMultipleCRs :: "'w client \<Rightarrow> time \<Rightarrow> TektonTasks list \<Rightarrow> 'w sys \<Rightarrow> unit outcome \<times> 'w sys" where
  "setStatusMultipleCRs cl now items s =
     set_multiple cl now items (log_msg ''there are multiple CRs deployed'' s)"

section \<open>Operands\<close>

fun reconcileOperands ::
  "'w client \<Rightarrow> environ \<Rightarrow> TektonTasks \<Rightarrow> Operand list \<Rightarrow> 'w sys \<Rightarrow>
   ReconcileResult list outcome \<times> (Operand list \<times> 'w sys)" where
  "reconcileOperands cl env inst [] s = (Ok [], ([], s))"
| "reconcileOperands cl env inst (operand # ops) s =
     (case operand_Reconcile cl env inst operand s of
        (Err e, (operand, s)) \<Rightarrow>
          (Err e, (operand # ops, log_msg (''Operand reconciliation failed: '' @ error_message e) s))
      | (Panic p, (operand, s)) \<Rightarrow> (Panic p, (operand # ops, s))
      | (Ok results, (operand, s)) \<Rightarrow>
          (case reconcileOperands cl env inst ops s of
             (Ok others, (ops, s)) \<Rightarrow> (Ok (results @ others), (operand # ops, s))
           | (Err e, (ops, s)) \<Rightarrow> (Err e, (operand # ops, s))
           | (Panic p, (ops, s)) \<Rightarrow> (Panic p, (operand # ops, s))))"

fun cleanupOperands ::
  "'w client \<Rightarrow> TektonTasks \<Rightarrow> Operand list \<Rightarrow> nat \<Rightarrow> 'w sys \<Rightarrow> nat outcome \<times> 'w sys" where
  \<comment> \<open>the loop of \<open>cleanup\<close>, which counts the resources still to be deleted\<close>
  "cleanupOperands cl inst [] pendingCount s = (Ok pendingCount, s)"
| "cleanupOperands cl inst (operand # ops) pendingCount s =
     bind_outcome (operand_Cleanup cl inst operand s) (\<lambda>results s.
       cleanupOperands cl inst ops
         (pendingCount + length (filter (\<lambda>result. \<not> cr_Deleted result) results)) s)"

definition deleting_message :: string where
  "deleting_message = ''Deleting Tekton tasks resources''"

definition finish_cleanup :: "'w client \<Rightarrow> 'w inst_state \<Rightarrow> unit outcome \<times> 'w inst_state" where
  \<comment> \<open>the end of \<open>cleanup\<close>: the phase Deleted, conflicts and a missing resource ignored\<close>
  "finish_cleanup cl st =
     (case write_tt (c_status_update_tt cl) (observe_generation (set_phase PhaseDeleted st)) of
        (Err e, st) \<Rightarrow> if is_conflict e \<or> is_not_found e then (Ok (), st) else (Err e, st)
      | (r, st) \<Rightarrow> (r, st))"

definition controller_cleanup ::
  "'w client \<Rightarrow> time \<Rightarrow> Operand list \<Rightarrow> 'w inst_state \<Rightarrow> unit outcome \<times> 'w inst_state" where
  "controller_cleanup cl now ops st =
     (if ContainsFinalizer (tt_meta (fst st)) finalizerName \<or>
         ContainsFinalizer (tt_meta (fst st)) oldFinalizerName then
        (let st = observe_generation (set_phase PhaseDeleting st);
             st = on_status (set_three now ConditionFalse ConditionTrue ConditionTrue deleting_message) st
         in bind_outcome (write_tt (c_status_update_tt cl) st) (\<lambda>_ st.
              case cleanupOperands cl (fst st) ops 0 (snd st) of
                (Err e, s) \<Rightarrow> (Err e, (fst st, s))
              | (Panic p, s) \<Rightarrow> (Panic p, (fst st, s))
              | (Ok pendingCount, s) \<Rightarrow>
                  if pendingCount > 0 then (Ok (), (fst st, s))
                  else
                    bind_outcome (write_tt (c_update_tt cl)
                      (on_meta (RemoveFinalizer oldFinalizerName)
                        (on_meta (RemoveFinalizer finalizerName) (fst st, s))))
                      (\<lambda>_ st. finish_cleanup cl st)))
      else finish_cleanup cl st)"

section \<open>The reconcile function\<close>

definition clearCacheIfNeeded :: "TektonTasks \<Rightarrow> 'w tektonTasksReconciler \<Rightarrow> 'w tektonTasksReconciler" where
  "clearCacheIfNeeded tektonObj r =
     (if rs_lastTektonTasksSpec r \<noteq> Spec tektonObj
      then r\<lparr>rs_sys := (rs_sys r)\<lparr>vcache := fmempty\<rparr>, rs_lastTektonTasksSpec := Spec tektonObj\<rparr>
      else r)"

definition clearCache :: "'w tektonTasksReconciler \<Rightarrow> 'w tektonTasksReconciler" where
  "clearCache r = r\<lparr>rs_lastTektonTasksSpec := empty_spec, rs_sys := (rs_sys r)\<lparr>vcache := fmempty\<rparr>\<rparr>"

definition with_inst ::
  "('w inst_state \<Rightarrow> 'a outcome \<times> 'w inst_state) \<Rightarrow> TektonTasks \<Rightarrow> 'w tektonTasksReconciler \<Rightarrow>
   'a outcome \<times> TektonTasks \<times> 'w tektonTasksReconciler" where
  "with_inst f inst r = (case f (inst, rs_sys r) of (q, (inst, s)) \<Rightarrow> (q, inst, r\<lparr>rs_sys := s\<rparr>))"

definition handle_error ::
  "'w client \<Rightarrow> time \<Rightarrow> error option \<Rightarrow> TektonTasks \<Rightarrow> 'w tektonTasksReconciler \<Rightarrow>
   bool outcome \<times> 'w tektonTasksReconciler" where
  "handle_error cl now e inst r =
     (case with_inst (handleError cl now e) inst r of (q, _, r) \<Rightarrow> (q, r))"

definition reconcile_deploy ::
  "'w client \<Rightarrow> environ \<Rightarrow> time \<Rightarrow> TektonTasks \<Rightarrow> 'w tektonTasksReconciler \<Rightarrow>
   bool outcome \<times> 'w tektonTasksReconciler" where
  \<comment> \<open>\<open>Reconcile\<close> from \<open>preUpdateStatus\<close> on\<close>
  "reconcile_deploy cl env now inst r =
     (case with_inst (preUpdateStatus cl env now) inst r of
        (Err e, inst, r) \<Rightarrow> handle_error cl now (Some e) inst r
      | (Panic p, inst, r) \<Rightarrow> (Panic p, r)
      | (Ok _, inst, r) \<Rightarrow>
          (case (if DeployTektonTaskResources (Spec_FeatureGates (Spec inst)) then
                   (case reconcileOperands cl env inst (rs_operands r)
                           (log_msg ''Reconciling operands...'' (rs_sys r)) of
                      (q, (ops, s)) \<Rightarrow> (q, r\<lparr>rs_operands := ops, rs_sys := s\<rparr>))
                 else (Ok [], r)) of
             (Err e, r) \<Rightarrow> handle_error cl now (Some e) inst r
           | (Panic p, r) \<Rightarrow> (Panic p, r)
           | (Ok reconcileResults, r) \<Rightarrow>
               (case with_inst (updateStatus cl env now reconcileResults) inst r of
                  (Err e, inst, r) \<Rightarrow> handle_error cl now (Some e) inst r
                | (Panic p, inst, r) \<Rightarrow> (Panic p, r)
                | (Ok _, inst, r) \<Rightarrow>
                    (Ok False,
                     r\<lparr>rs_sys := log_msg ''CR status updated'' (rs_sys r),
                       rs_gauge := (if Phase (Status inst) = PhaseDeployed then 1 else 0)\<rparr>))))"

definition pause_CR :: "'w client \<Rightarrow> TektonTasks \<Rightarrow> 'w tektonTasksReconciler \<Rightarrow> bool outcome \<times> 'w tektonTasksReconciler" where
  \<comment> \<open>the branch of \<open>Reconcile\<close> for a paused resource\<close>
  "pause_CR cl inst r =
     (if Paused (Status inst) then (Ok False, r)
      else (case with_inst (\<lambda>st. write_tt (c_status_update_tt cl)
                   (observe_generation (on_status (\<lambda>s. s\<lparr>Paused := True\<rparr>) st))) inst
                 (r\<lparr>rs_sys := log_msg (''Pausing Tekton operator on resource: '' @ namespaced_name inst)
                                (rs_sys r)\<rparr>) of
              (Ok _, _, r) \<Rightarrow> (Ok False, r)
            | (Err e, _, r) \<Rightarrow> (Err e, r)
            | (Panic p, _, r) \<Rightarrow> (Panic p, r)))"

definition getCRList :: "'w client \<Rightarrow> 'w sys \<Rightarrow> TektonTasks list outcome \<times> 'w sys" where
  [simp]: "getCRList cl s = call (c_list_tt cl None) s"

definition reconcile_instance ::
  "'w client \<Rightarrow> environ \<Rightarrow> time \<Rightarrow> TektonTasks \<Rightarrow> 'w tektonTasksReconciler \<Rightarrow>
   bool outcome \<times> 'w tektonTasksReconciler" where
  \<comment> \<open>\<open>Reconcile\<close> after the resource was read\<close>
  "reconcile_instance cl env now inst r =
     (let r = clearCacheIfNeeded inst r
      in if \<not> isInitialized inst then
           (case with_inst (initialize cl) inst r of
              (Panic p, _, r) \<Rightarrow> (Panic p, r)
            | (q, inst, r) \<Rightarrow> handle_error cl now (error_of q) inst r)
         else
           (case with_inst (updateTektonTasks cl) inst r of
              (Panic p, _, r) \<Rightarrow> (Panic p, r)
            | (Err e, inst, r) \<Rightarrow> handle_error cl now (Some e) inst r
            | (Ok (updated, err), inst, r) \<Rightarrow>
                if updated \<or> err \<noteq> None then handle_error cl now err inst r
                else if isBeingDeleted (tt_meta inst) then
                  (case with_inst (controller_cleanup cl now (rs_operands r)) inst r of
                     (Ok _, _, r) \<Rightarrow> (Ok False, clearCache r)
                   | (Err e, _, r) \<Rightarrow> (Err e, r)
                   | (Panic p, _, r) \<Rightarrow> (Panic p, r))
                else
                  (case getCRList cl (rs_sys r) of
                     (Err e, s) \<Rightarrow> (Err e, r\<lparr>rs_sys := s\<rparr>)
                   | (Panic p, s) \<Rightarrow> (Panic p, r\<lparr>rs_sys := s\<rparr>)
                   | (Ok items, s) \<Rightarrow>
                       if length items > 1 then
                         (case setStatusMultipleCRs cl now items s of
                            (Ok _, s) \<Rightarrow> (Ok False, r\<lparr>rs_sys := s\<rparr>)
                          | (Err e, s) \<Rightarrow> (Err e, r\<lparr>rs_sys := s\<rparr>)
                          | (Panic p, s) \<Rightarrow> (Panic p, r\<lparr>rs_sys := s\<rparr>))
                       else if isPaused (tt_meta inst) then pause_CR cl inst (r\<lparr>rs_sys := s\<rparr>)
                       else reconcile_deploy cl env now inst (r\<lparr>rs_sys := s\<rparr>))))"

definition reconcile_request ::
  "'w client \<Rightarrow> environ \<Rightarrow> time \<Rightarrow> object_key \<Rightarrow> 'w tektonTasksReconciler \<Rightarrow>
   bool outcome \<times> 'w tektonTasksReconciler" where
  "reconcile_request cl env now req r =
     (case call (c_get_tt cl req) (rs_sys r) of
        (Err e, s) \<Rightarrow> (if is_not_found e then (Ok False, r\<lparr>rs_sys := s\<rparr>) else (Err e, r\<lparr>rs_sys := s\<rparr>))
      | (Panic p, s) \<Rightarrow> (Panic p, r\<lparr>rs_sys := s\<rparr>)
      | (Ok inst, s) \<Rightarrow> reconcile_instance cl env now inst (r\<lparr>rs_sys := s\<rparr>))"

definition controller_Reconcile ::
  "'w client \<Rightarrow> environ \<Rightarrow> time \<Rightarrow> object_key \<Rightarrow> 'w tektonTasksReconciler \<Rightarrow>
   bool outcome \<times> 'w tektonTasksReconciler" where
  \<comment> \<open>with the deferred function, which clears the gauge when an error is returned\<close>
  "controller_Reconcile cl env now req r =
     (case reconcile_request cl env now req r of
        (Err e, r) \<Rightarrow> (Err e, r\<lparr>rs_gauge := 0\<rparr>)
      | (q, r) \<Rightarrow> (q, r))"

section \<open>Pausing other resources\<close>

definition newline :: string where "newline = [CHR 0x0A]"

definition pause_patch :: string where
  "pause_patch = ''{'' @ newline @
     ''  \"metadata\":{'' @ newline @
     ''    \"annotations\":{\"kubevirt.io/operator.paused\": \"true\"}'' @ newline @
     ''  }'' @ newline @ ''}''"

fun pause_items :: "'w client \<Rightarrow> string \<Rightarrow> object_key list \<Rightarrow> 'w sys \<Rightarrow> 'w sys" where
  "pause_items cl kind [] s = s"
| "pause_items cl kind (item # items) s =
     (case call (c_merge_patch cl kind item pause_patch) s of
        (Err e, s) \<Rightarrow> pause_items cl kind items
          (log_msg (''Error pausing '' @ snd item @ '' from namespace '' @ fst item @ '': '' @ error_message e) s)
      | (_, s) \<Rightarrow> pause_items cl kind items s)"

fun pauseCRs :: "'w client \<Rightarrow> string list \<Rightarrow> 'w sys \<Rightarrow> unit outcome \<times> 'w sys" where
  "pauseCRs cl [] s = (Ok (), s)"
| "pauseCRs cl (kind # kinds) s =
     (case call (c_list_kind cl kind ''tektontasks.kubevirt.io/v1'') s of
        (Err e, s) \<Rightarrow>
          (Err e, log_msg (''Error listing '' @ kind @ '' CRs: '' @ error_message e) s)
      | (Panic p, s) \<Rightarrow> (Panic p, s)
      | (Ok items, s) \<Rightarrow> pauseCRs cl kinds (pause_items cl kind items s))"

section \<open>What triggers a reconciliation\<close>

datatype event = CreateEvent TektonTasks | DeleteEvent TektonTasks | GenericEvent TektonTasks
  | UpdateEvent TektonTasks TektonTasks \<comment> \<open>old and new object\<close>

fun watch_predicate :: "event \<Rightarrow> bool" where
  "watch_predicate (UpdateEvent oldObj newObj) =
     (m_generation (tt_meta newObj) \<noteq> m_generation (tt_meta oldObj) \<or>
      m_deletionTimestamp (tt_meta newObj) \<noteq> m_deletionTimestamp (tt_meta oldObj) \<or>
      m_labels (tt_meta newObj) \<noteq> m_labels (tt_meta oldObj) \<or>
      m_annotations (tt_meta newObj) \<noteq> m_annotations (tt_meta oldObj) \<or>
      m_finalizers (tt_meta newObj) \<noteq> m_finalizers (tt_meta oldObj))"
| "watch_predicate (CreateEvent obj) = True"
| "watch_predicate (DeleteEvent obj) = True"
| "watch_predicate (GenericEvent obj) = True"

text \<open>The watches set up on the operands' types: each type once, in the order of the operands.\<close>

datatype watch_handler = EnqueueRequestForOwner | EnqueueRequestForAnnotation

fun watch_types :: "watch_handler \<Rightarrow> rtype list \<Rightarrow> rtype list \<Rightarrow> (rtype \<times> watch_handler) list" where
  "watch_types handler watchedTypes [] = []"
| "watch_types handler watchedTypes (t # ts) =
     (if t \<in> set watchedTypes then watch_types handler watchedTypes ts
      else (t, handler) # watch_types handler (t # watchedTypes) ts)"

definition watchResources ::
  "watch_handler \<Rightarrow> Operand list \<Rightarrow> (Operand \<Rightarrow> rtype list) \<Rightarrow> (rtype \<times> watch_handler) list" where
  "watchResources handler ops watchTypesFunc = watch_types handler [] (concat (map watchTypesFunc ops))"

definition watchNamespacedResources :: "Operand list \<Rightarrow> (rtype \<times> watch_handler) list" where
  "watchNamespacedResources ops = watchResources EnqueueRequestForOwner ops operand_WatchTypes"

definition watchClusterResources :: "Operand list \<Rightarrow> (rtype \<times> watch_handler) list" where
  "watchClusterResources ops = watchResources EnqueueRequestForAnnotation ops operand_WatchClusterTypes"

definition setupController :: "Operand list \<Rightarrow> (rtype \<times> watch_handler) list" where
  \<comment> \<open>the watches on deployed resources, beside the one on the \<open>TektonTasks\<close> resource itself\<close>
  "setupController ops = watchClusterResources ops @ watchNamespacedResources ops"

end
