(* ===== verification/Setup.thy ===== *)
theory Setup
  imports Controller
begin

text \<open>
  Start-up: reading the bundles, building the operands and deciding whether the controller
  starts now or after the required CRDs appear (\<open>controllers/setup.go\<close>), the controller that
  waits for the CRDs (\<open>controllers/crd_controller.go\<close>), and the wrapper that stops a
  controller from inside (\<open>controllers/finishable/finishable.go\<close>).
\<close>

section \<open>Required CRDs\<close>

fun requiredCrdsExist :: "string list \<Rightarrow> crd list \<Rightarrow> bool" where
  "requiredCrdsExist [] foundCrds = True"
| "requiredCrdsExist (r # rs) foundCrds =
     (if list_ex (\<lambda>c. r = crd_name c) foundCrds then requiredCrdsExist rs foundCrds else False)"

text \<open>What start-up adds to the manager, or the error it returns.\<close>

datatype startup =
    StartupError error
  | StartController "Operand list" "(rtype \<times> watch_handler) list"
  | WaitForCrds "string list" "Operand list"

definition CreateAndSetupReconciler ::
  "'d yaml_lib \<Rightarrow> file_system \<Rightarrow> 'w client \<Rightarrow> 'w \<Rightarrow> startup \<times> 'w" where
  \<comment> \<open>the errors of \<open>setupController\<close> and \<open>mgr.Add\<close> come from the manager alone\<close>
  "CreateAndSetupReconciler lib fs reader w =
     (case ReadTasksBundle lib fs reader w of
        (Inl e, w) \<Rightarrow> (StartupError e, w)
      | (Inr ttTasksBundle, w) \<Rightarrow>
          (case ReadPipelineBundle lib fs reader w of
             (Inl e, w) \<Rightarrow> (StartupError e, w)
           | (Inr ttPipelinesBundle, w) \<Rightarrow>
               (let tektonOperands = [TasksOperand (tt_New ttTasksBundle),
                                      PipelinesOperand (tp_New ttPipelinesBundle)];
                    requiredCrds = concat (map operand_RequiredCrds tektonOperands)
                in case c_list_crds reader w of
                     (Inl e, w) \<Rightarrow> (StartupError e, w)
                   | (Inr crds, w) \<Rightarrow>
                       if requiredCrdsExist requiredCrds crds
                       then (StartController tektonOperands (setupController tektonOperands), w)
                       else (WaitForCrds requiredCrds tektonOperands, w))))"

section \<open>Waiting for CRDs\<close>

text \<open>The reconciler's map from required CRDs to whether they exist.\<close>

type_synonym wait_map = "(string, bool) fmap"

definition CreateCrdController_crds :: "string list \<Rightarrow> wait_map" where
  "CreateCrdController_crds requiredCrds = foldl (\<lambda>m c. fmupd c False m) fmempty requiredCrds"

definition isCrdRequired :: "wait_map \<Rightarrow> string \<Rightarrow> bool" where
  "isCrdRequired crds key = (fmlookup crds key \<noteq> None)"

definition setCrdExists :: "string \<Rightarrow> bool \<Rightarrow> wait_map \<Rightarrow> wait_map" where
  "setCrdExists key val crds = fmupd key val crds"

definition allCrdsExist :: "wait_map \<Rightarrow> bool" where
  "allCrdsExist crds = fBall (fmran crds) (\<lambda>exists. exists)"

definition setConditions :: "'w client \<Rightarrow> environ \<Rightarrow> time \<Rightarrow> 'w \<Rightarrow> (error + unit) \<times> 'w" where
  "setConditions cli env now w =
     (case c_list_tt cli (Some (GetOperatorNamespace env)) w of
        (Inl e, w) \<Rightarrow> (Inl e, w)
      | (Inr items, w) \<Rightarrow>
          (case items of
             [] \<Rightarrow> (Inr (), w)
           | [inst] \<Rightarrow>
               (case updateStatus cli env now [] (inst, \<lparr>world = w, vcache = fmempty, logs = []\<rparr>) of
                  (Err e, (_, s)) \<Rightarrow> (Inl e, world s)
                | (_, (_, s)) \<Rightarrow> (Inr (), world s))
           | _ \<Rightarrow> (Inl (PlainError ''multiple TektonTasks CRs in single namespace''), w)))"

record 'w waitForCrds =
  wf_crds :: wait_map
  wf_world :: 'w

definition waitForCrds_Reconcile ::
  "'w client \<Rightarrow> environ \<Rightarrow> time \<Rightarrow> object_key \<Rightarrow> 'w waitForCrds \<Rightarrow> (error + bool) \<times> 'w waitForCrds" where
  \<comment> \<open>the value is \<open>Finished\<close>\<close>
  "waitForCrds_Reconcile cl env now request wc =
     (case setConditions cl env now (wf_world wc) of
        (Inl e, w) \<Rightarrow> (Inl e, wc\<lparr>wf_world := w\<rparr>)
      | (Inr _, w) \<Rightarrow>
          (case c_get_crd cl request w of
             (Inl e, w) \<Rightarrow>
               if \<not> is_not_found e then (Inl e, wc\<lparr>wf_world := w\<rparr>)
               else (let crds = wf_crds wc; key = snd request;
                         crds = (if isCrdRequired crds key then setCrdExists key False crds else crds)
                     in (Inr (allCrdsExist crds), \<lparr>wf_crds = crds, wf_world = w\<rparr>))
           | (Inr crd, w) \<Rightarrow>
               (let crdExists = time_is_zero (crd_deletionTimestamp crd);
                    crds = wf_crds wc; key = snd request;
                    crds = (if isCrdRequired crds key then setCrdExists key crdExists crds else crds)
                in (Inr (allCrdsExist crds), \<lparr>wf_crds = crds, wf_world = w\<rparr>))))"

section \<open>A controller that can be finished\<close>

text \<open>
  The wrapper calls the cancel function of the controller's context when the reconciler
  reports that it is finished; \<open>fc_stopped\<close> is whether that context was cancelled. The inner
  controller is a library loop that processes requests until then.
\<close>

record 'r finishable =
  fc_reconciler :: 'r
  fc_stopped :: bool

definition wrapper_Reconcile ::
  "('q \<Rightarrow> 'r \<Rightarrow> (error + bool) \<times> 'r) \<Rightarrow> 'q \<Rightarrow> 'r finishable \<Rightarrow> error option \<times> 'r finishable" where
  "wrapper_Reconcile rec request c =
     (case rec request (fc_reconciler c) of
        (Inl e, r) \<Rightarrow> (Some e, c\<lparr>fc_reconciler := r\<rparr>)
      | (Inr finished, r) \<Rightarrow>
          (None, \<lparr>fc_reconciler = r, fc_stopped = (fc_stopped c \<or> finished)\<rparr>))"

end
