(* ===== verification/Client_Frame.thy ===== *)
theory Client_Frame
  imports Operand Cleanup_Contract
begin

text \<open>
  What the operands can reach: their reconciliations and cleanups use the client's calls on
  deployed objects only. So whatever these calls keep of the world, a whole reconciliation or
  cleanup keeps, however it ends. The proofs follow the structure of the code: one rule for
  each way it is put together.
\<close>

named_theorems keeps_intros \<open>rules for what state-passing functions keep\<close>

definition object_calls_keep :: "'w client \<Rightarrow> ('w \<Rightarrow> bool) \<Rightarrow> bool" where
  "object_calls_keep cl I \<longleftrightarrow>
     (\<forall>w t k. I w \<longrightarrow> I (snd (c_get cl t k w))) \<and>
     (\<forall>w x. I w \<longrightarrow> I (snd (c_create cl x w))) \<and>
     (\<forall>w x. I w \<longrightarrow> I (snd (c_update cl x w))) \<and>
     (\<forall>w x. I w \<longrightarrow> I (snd (c_delete cl x w))) \<and>
     (\<forall>w sel. I w \<longrightarrow> I (snd (c_list_clustertasks cl sel w)))"

text \<open>\<open>keeps W I f\<close>: \<open>f\<close> keeps \<open>I\<close> of the part \<open>W\<close> of its state.\<close>

definition keeps :: "('s \<Rightarrow> 'p) \<Rightarrow> ('p \<Rightarrow> bool) \<Rightarrow> ('s \<Rightarrow> 'a \<times> 's) \<Rightarrow> bool" where
  "keeps W I f \<longleftrightarrow> (\<forall>s. I (W s) \<longrightarrow> I (W (snd (f s))))"

lemma keepsD: "keeps W I f \<Longrightarrow> I (W s) \<Longrightarrow> f s = (q, s') \<Longrightarrow> I (W s')"
  unfolding keeps_def by force

abbreviation st_world :: "'x \<times> 'w sys \<Rightarrow> 'w" where
  "st_world st \<equiv> world (snd st)"

lemma keeps_return [keeps_intros]: "keeps W I (\<lambda>s. (q s, s))"
  by (simp add: keeps_def)

lemma keeps_bind [keeps_intros]:
  "keeps W I f \<Longrightarrow> (\<And>a. keeps W I (g a)) \<Longrightarrow> keeps W I (\<lambda>s. bind_outcome (f s) (\<lambda>a. g a))"
  unfolding keeps_def bind_outcome_def by (auto split: prod.splits outcome.splits)

lemma keeps_case [keeps_intros]:
  "keeps W I f \<Longrightarrow> (\<And>a. keeps W I (g a)) \<Longrightarrow> (\<And>e. keeps W I (h e)) \<Longrightarrow> (\<And>p. keeps W I (k p)) \<Longrightarrow>
     keeps W I (\<lambda>s. case f s of (q, s) \<Rightarrow> (case q of Ok a \<Rightarrow> g a s | Err e \<Rightarrow> h e s | Panic p \<Rightarrow> k p s))"
  unfolding keeps_def by (auto split: prod.splits outcome.splits)

lemma keeps_if [keeps_intros]:
  "keeps W I f \<Longrightarrow> keeps W I g \<Longrightarrow> keeps W I (\<lambda>s. if P s then f s else g s)"
  by (simp add: keeps_def)

lemma keeps_on_sys [keeps_intros]: "keeps world I f \<Longrightarrow> keeps st_world I (on_sys f)"
  by (auto simp: keeps_def on_sys_def split: prod.splits)

lemma keeps_on_resource [keeps_intros]: "keeps st_world I (\<lambda>st. on_resource (f st) st)"
  by (auto simp: keeps_def on_resource_def split: prod.splits)

lemma keeps_call: "(\<And>w. I w \<Longrightarrow> I (snd (f w))) \<Longrightarrow> keeps world I (call f)"
  by (auto simp: keeps_def call_def split: prod.splits sum.splits) (metis snd_conv)+

lemma object_calls:
  assumes "object_calls_keep cl I"
  shows "keeps world I (call (c_get cl t k))" "keeps world I (call (c_create cl x))"
    "keeps world I (call (c_update cl x))" "keeps world I (call (c_delete cl x))"
    "keeps world I (call (c_list_clustertasks cl sel))"
  using assms unfolding object_calls_keep_def by (intro keeps_call; blast)+

section \<open>Reconciling\<close>

lemma create_or_update_keeps:
  "object_calls_keep cl I \<Longrightarrow> keeps st_world I (createOrUpdateWithImmutableSpec cl b f)"
  unfolding createOrUpdateWithImmutableSpec_def [abs_def] Let_def
  by (intro keeps_intros object_calls)

lemma logOperation_world [simp]: "world (logOperation r x s) = world s"
  by (simp add: logOperation_def split: OperationResult.splits)

lemma Reconcile_keeps:
  assumes keep: "object_calls_keep cl I"
  shows "keeps st_world I (Reconcile cl inst b)"
  unfolding Reconcile_def [abs_def] Let_def
  by (intro keeps_intros create_or_update_keeps keep) (auto simp: keeps_def split: prod.splits)

lemma reconcile_element_keeps:
  "object_calls_keep cl I \<Longrightarrow> keeps st_world I (reconcile_element cl inst prep b)"
  unfolding reconcile_element_def [abs_def] by (intro keeps_intros Reconcile_keeps)

lemma at_index_keeps:
  assumes "keeps (\<lambda>st. W (snd st)) I f"
  shows "keeps (\<lambda>st. W (snd st)) I (at_index get upd i f)"
  unfolding keeps_def
proof (intro allI impI)
  fix st :: "'c \<times> 'a sys" assume st: "I (W (snd st))"
  obtain q x s where f: "f (get (fst st) ! i, snd st) = (q, (x, s))" by (metis surj_pair)
  have "I (W s)" using keepsD [OF assms _ f] st by simp
  then show "I (W (snd (snd (at_index get upd i f st))))" by (simp add: at_index_def f)
qed

lemma collect_keeps:
  assumes "\<And>x. x \<in> set xs \<Longrightarrow> keeps W I (f x)"
  shows "keeps W I (collect_outcomes f xs)"
  using assms
proof (induction xs)
  case Nil
  show ?case by (simp add: keeps_def)
next
  case (Cons x xs)
  have eq: "collect_outcomes f (x # xs) = (\<lambda>s. bind_outcome (f x s) (\<lambda>y s'.
       bind_outcome (collect_outcomes f xs s') (\<lambda>ys s''. (Ok (y # ys), s''))))"
    by (simp add: fun_eq_iff)
  have "keeps W I (f x)" "keeps W I (collect_outcomes f xs)" using Cons by simp_all
  then show ?case unfolding eq by (intro keeps_intros)
qed

lemma CollectResourceStatus_keeps:
  "(\<And>f. f \<in> set fs \<Longrightarrow> keeps W I f) \<Longrightarrow> keeps W I (CollectResourceStatus fs)"
  unfolding CollectResourceStatus_def [abs_def] by (rule collect_keeps) simp

text \<open>An operand's reconciliation keeps what its closures keep, of any part of the system state.\<close>

lemma tt_Reconcile_parts:
  assumes elem: "\<And>prep b. keeps (\<lambda>st. W (snd st)) I (reconcile_element cl inst prep b)"
    and log: "\<And>p u rs s. W (log_reverted p u rs s) = W s"
  shows "keeps (\<lambda>st. W (snd st)) I (tt_Reconcile cl env inst)"
  unfolding keeps_def
proof (intro allI impI)
  fix st :: "tektonTasks \<times> 'a sys" assume st: "I (W (snd st))"
  let ?t = "fst st"
  let ?fs = "reconcileTektonTasksFuncs cl env inst (tt_tasks ?t)
            @ tt_reconcileClusterRoleFuncs cl inst (tt_clusterRoles ?t)
            @ tt_reconcileServiceAccountsFuncs cl inst (tt_serviceAccounts ?t)
            @ tt_reconcileRoleBindingFuncs cl inst (tt_roleBindings ?t)"
  have "keeps (\<lambda>st. W (snd st)) I (CollectResourceStatus ?fs)"
    by (rule CollectResourceStatus_keeps)
      (auto simp: reconcileTektonTasksFuncs_def tt_reconcileClusterRoleFuncs_def
        tt_reconcileServiceAccountsFuncs_def tt_reconcileRoleBindingFuncs_def
        intro!: at_index_keeps elem)
  then have "I (W (snd (snd (CollectResourceStatus ?fs st))))" using st unfolding keeps_def by blast
  then show "I (W (snd (snd (tt_Reconcile cl env inst st))))"
    by (auto simp: tt_Reconcile_def Let_def bind_outcome_def log split: prod.splits outcome.splits)
qed

lemma tp_Reconcile_parts:
  assumes elem: "\<And>prep b. keeps (\<lambda>st. W (snd st)) I (reconcile_element cl inst prep b)"
    and log: "\<And>p u rs s. W (log_reverted p u rs s) = W s"
  shows "keeps (\<lambda>st. W (snd st)) I (tp_Reconcile cl env inst)"
  unfolding keeps_def
proof (intro allI impI)
  fix st :: "tektonPipelines \<times> 'a sys" assume st: "I (W (snd st))"
  let ?t = "fst st"
  let ?fs = "tp_reconcileClusterRolesFuncs cl inst (tp_clusterRoles ?t)
            @ reconcileTektonPipelinesFuncs cl env inst (tp_pipelines ?t)
            @ reconcileConfigMapsFuncs cl inst (tp_configMaps ?t)
            @ tp_reconcileRoleBindingsFuncs cl inst (tp_roleBindings ?t)
            @ tp_reconcileServiceAccountsFuncs cl inst (tp_serviceAccounts ?t)"
  have "keeps (\<lambda>st. W (snd st)) I (CollectResourceStatus ?fs)"
    by (rule CollectResourceStatus_keeps)
      (auto simp: tp_reconcileClusterRolesFuncs_def reconcileTektonPipelinesFuncs_def
        reconcileConfigMapsFuncs_def tp_reconcileRoleBindingsFuncs_def tp_reconcileServiceAccountsFuncs_def
        intro!: at_index_keeps elem)
  then have "I (W (snd (snd (CollectResourceStatus ?fs st))))" using st unfolding keeps_def by blast
  then show "I (W (snd (snd (tp_Reconcile cl env inst st))))"
    by (auto simp: tp_Reconcile_def Let_def bind_outcome_def log split: prod.splits outcome.splits)
qed

lemma tt_Reconcile_keeps: "object_calls_keep cl I \<Longrightarrow> keeps st_world I (tt_Reconcile cl env inst)"
  by (rule tt_Reconcile_parts) (simp_all add: reconcile_element_keeps)

lemma tp_Reconcile_keeps: "object_calls_keep cl I \<Longrightarrow> keeps st_world I (tp_Reconcile cl env inst)"
  by (rule tp_Reconcile_parts) (simp_all add: reconcile_element_keeps)

text \<open>The version cache: every operand keeps it well-formed, on any API server.\<close>

lemma reconcile_element_cache: "keeps (\<lambda>st. vcache (snd st)) cache_wf (reconcile_element cl inst prep b)"
  unfolding reconcile_element_def [abs_def]
proof (intro keeps_intros)
  show "keeps (\<lambda>st. vcache (snd st)) cache_wf (on_resource prep)"
    by (auto simp: keeps_def on_resource_def split: prod.splits)
  show "keeps (\<lambda>st. vcache (snd st)) cache_wf (Reconcile cl inst b)"
    unfolding keeps_def using Reconcile_cache_wf by (metis prod.collapse)
qed

lemma tt_Reconcile_cache: "keeps (\<lambda>st. vcache (snd st)) cache_wf (tt_Reconcile cl env inst)"
  by (rule tt_Reconcile_parts) (simp_all add: reconcile_element_cache)

lemma tp_Reconcile_cache: "keeps (\<lambda>st. vcache (snd st)) cache_wf (tp_Reconcile cl env inst)"
  by (rule tp_Reconcile_parts) (simp_all add: reconcile_element_cache)

lemma operand_Reconcile_cache:
  assumes "cache_wf (vcache s)" and R: "operand_Reconcile cl env inst operand s = (q, (operand', s'))"
  shows "cache_wf (vcache s')"
proof (cases operand)
  case (TasksOperand t)
  with R keepsD [OF tt_Reconcile_cache, of "(t, s)"] assms(1) show ?thesis
    by (cases "tt_Reconcile cl env inst (t, s)") auto
next
  case (PipelinesOperand t)
  with R keepsD [OF tp_Reconcile_cache, of "(t, s)"] assms(1) show ?thesis
    by (cases "tp_Reconcile cl env inst (t, s)") auto
qed

lemma operand_Reconcile_keeps:
  assumes keep: "object_calls_keep cl I" and I: "I (world s)"
    and R: "operand_Reconcile cl env inst operand s = (q, (operand', s'))"
  shows "I (world s')"
proof (cases operand)
  case (TasksOperand t)
  with R keepsD [OF tt_Reconcile_keeps [OF keep], of "(t, s)"] I show ?thesis
    by (cases "tt_Reconcile cl env inst (t, s)") auto
next
  case (PipelinesOperand t)
  with R keepsD [OF tp_Reconcile_keeps [OF keep], of "(t, s)"] I show ?thesis
    by (cases "tp_Reconcile cl env inst (t, s)") auto
qed

section \<open>Cleaning up\<close>

lemma Cleanup_keeps:
  assumes keep: "object_calls_keep cl I"
  shows "keeps world I (Cleanup cl inst r)"
  unfolding keeps_def
proof (intro allI impI)
  fix s :: "'a sys" assume s: "I (world s)"
  obtain q s1 where g: "call (c_get cl (o_rtype r) (object_key_of r)) s = (q, s1)"
    by (metis surj_pair)
  have s1: "I (world s1)" by (rule keepsD [OF object_calls(1) [OF keep] s g])
  show "I (world (snd (Cleanup cl inst r s)))"
  proof (cases q)
    case (Ok found)
    obtain q2 s2 where d: "call (c_delete cl found) s1 = (q2, s2)" by (metis surj_pair)
    have "I (world s2)" by (rule keepsD [OF object_calls(4) [OF keep] s1 d])
    then show ?thesis
      using Ok g d s1 by (simp add: Cleanup_def split: prod.splits outcome.splits)
  qed (use g s1 in \<open>simp_all add: Cleanup_def\<close>)
qed

lemma DeleteAll_keeps:
  "object_calls_keep cl I \<Longrightarrow> keeps world I (DeleteAll cl inst rs)"
  unfolding DeleteAll_def [abs_def] by (rule collect_keeps) (rule Cleanup_keeps)

lemma operand_Cleanup_keeps:
  assumes keep: "object_calls_keep cl I"
  shows "keeps world I (operand_Cleanup cl inst operand)"
proof (cases operand)
  case (TasksOperand t)
  have "keeps world I (tt_Cleanup cl inst t)"
    unfolding tt_Cleanup_def [abs_def] Let_def listDeprecatedClusterTasks_def
    by (intro keeps_intros object_calls keep DeleteAll_keeps)
  then show ?thesis by (simp add: TasksOperand keeps_def)
next
  case (PipelinesOperand t)
  have "keeps world I (tp_Cleanup cl inst t)"
    unfolding tp_Cleanup_def [abs_def] by (rule DeleteAll_keeps [OF keep])
  then show ?thesis by (simp add: PipelinesOperand keeps_def)
qed

lemma keeps_call_cache: "keeps vcache I (call f)"
  unfolding keeps_def by (metis call_frame prod.collapse)

lemma Cleanup_cache [simp]: "vcache (snd (Cleanup cl inst r s)) = vcache s"
proof -
  obtain q s1 where g: "call (c_get cl (o_rtype r) (object_key_of r)) s = (q, s1)" by (metis surj_pair)
  have s1: "vcache s1 = vcache s" using call_frame [OF g] by simp
  show ?thesis
  proof (cases q)
    case (Ok found)
    obtain q2 s2 where d: "call (c_delete cl found) s1 = (q2, s2)" by (metis surj_pair)
    have "vcache s2 = vcache s" using call_frame [OF d] s1 by simp
    then show ?thesis
      using Ok g d s1 by (simp add: Cleanup_def split: prod.splits outcome.splits)
  qed (use g s1 in \<open>simp_all add: Cleanup_def\<close>)
qed

lemma operand_Cleanup_cache: "keeps vcache I (operand_Cleanup cl inst operand)"
proof (cases operand)
  case (TasksOperand t)
  have "keeps vcache I (tt_Cleanup cl inst t)"
    unfolding tt_Cleanup_def [abs_def] Let_def listDeprecatedClusterTasks_def DeleteAll_def [abs_def]
    by (intro keeps_intros keeps_call_cache collect_keeps) (simp add: keeps_def)
  then show ?thesis by (simp add: TasksOperand keeps_def)
next
  case (PipelinesOperand t)
  have "keeps vcache I (tp_Cleanup cl inst t)"
    unfolding tp_Cleanup_def [abs_def] DeleteAll_def [abs_def] by (intro collect_keeps) (simp add: keeps_def)
  then show ?thesis by (simp add: PipelinesOperand keeps_def)
qed

end
