(* ===== verification/Operand_Contract.thy ===== *)
theory Operand_Contract
  imports Operand_Closures
begin

text \<open>
  The contract of an operand's reconcile functions. A closure \<^emph>\<open>deploys\<close> its element when,
  on a healthy API server, it stores the object it wants and nothing else, and \<^emph>\<open>stays\<close> when
  run again it changes nothing. \<open>operand_closure\<close> gives both for every closure built from a
  preparation and an update function that meets \<open>update_contract\<close>; \<open>operand_slots\<close> runs the
  closures of a whole operand one after the other.
\<close>

section \<open>One closure\<close>

definition fresh_at ::
  "(rtype \<Rightarrow> object_key \<Rightarrow> object option) \<Rightarrow> version_cache \<Rightarrow> rtype \<Rightarrow> object_key \<Rightarrow> bool" where
  \<comment> \<open>a stored object is not being deleted, and the operator has not recorded this version of it\<close>
  "fresh_at v vc t k \<longleftrightarrow>
     (\<forall>x. v t k = Some x \<longrightarrow> time_is_zero (m_deletionTimestamp (o_meta x)) \<and>
        (\<forall>c. fmlookup vc (object_cache_key t k) = Some c \<longrightarrow> \<not> recorded_version c x))"

type_synonym 'w element_func = "object \<times> 'w sys \<Rightarrow> ReconcileResult outcome \<times> (object \<times> 'w sys)"

definition stays ::
  "('w \<Rightarrow> rtype \<Rightarrow> object_key \<Rightarrow> object option) \<Rightarrow> ('w \<Rightarrow> bool) \<Rightarrow> 'w element_func \<Rightarrow>
   rtype \<Rightarrow> object_key \<Rightarrow> object \<Rightarrow> object \<Rightarrow> bool" where
  "stays view healthy f t k r y \<longleftrightarrow>
     (\<forall>s. healthy (world s) \<and> view (world s) t k = Some y \<longrightarrow>
        (\<exists>res s'. f (r, s) = (Ok res, (r, s')) \<and> rr_OperationResult res = OperationResultNone \<and>
           IsSuccess res \<and> world s' = world s \<and> (cache_wf (vcache s) \<longrightarrow> cache_wf (vcache s')) \<and>
           cache_differs_at t k (vcache s) (vcache s')))"

text \<open>
  The element in the closure's hands changes with each run, so the promise to deploy is
  coinductive: after a run the closure promises to deploy again, whatever happened to the
  stored object in between.
\<close>

coinductive deploys ::
  "('w \<Rightarrow> rtype \<Rightarrow> object_key \<Rightarrow> object option) \<Rightarrow> ('w \<Rightarrow> bool) \<Rightarrow> 'w element_func \<Rightarrow>
   rtype \<Rightarrow> object_key \<Rightarrow> (object \<Rightarrow> bool) \<Rightarrow> object \<Rightarrow> bool"
  for view healthy f t k goal where
  deploysI: "(\<forall>s. healthy (world s) \<and> cache_wf (vcache s) \<and> fresh_at (view (world s)) (vcache s) t k \<longrightarrow>
        (\<exists>res r s' y. f (x, s) = (Ok res, (r, s')) \<and> IsSuccess res \<and>
           rr_OperationResult res \<noteq> OperationResultDeleted \<and> healthy (world s') \<and>
           cache_wf (vcache s') \<and> cache_differs_at t k (vcache s) (vcache s') \<and>
           view (world s') = store_upd (view (world s)) t k (Some y) \<and> goal y \<and>
           m_name (o_meta r) = m_name (o_meta x) \<and>
           stays view healthy f t k r y \<and> deploys view healthy f t k goal r)) \<Longrightarrow>
    deploys view healthy f t k goal x"

lemma deploysD:
  assumes "deploys view healthy f t k goal x"
    and "healthy (world s)" "cache_wf (vcache s)" "fresh_at (view (world s)) (vcache s) t k"
  shows "\<exists>res r s' y. f (x, s) = (Ok res, (r, s')) \<and> IsSuccess res \<and>
     rr_OperationResult res \<noteq> OperationResultDeleted \<and> healthy (world s') \<and>
     cache_wf (vcache s') \<and> cache_differs_at t k (vcache s) (vcache s') \<and>
     view (world s') = store_upd (view (world s)) t k (Some y) \<and> goal y \<and>
     m_name (o_meta r) = m_name (o_meta x) \<and>
     stays view healthy f t k r y \<and> deploys view healthy f t k goal r"
  using assms(1) by cases (use assms(2-) in blast)

lemma deploys_mono:
  assumes "deploys v h f t k g x" and "\<And>y. g y \<Longrightarrow> g' y"
  shows "deploys v h f t k g' x"
  using assms(1)
proof (coinduction arbitrary: x)
  case (deploys z)
  show ?case
  proof (intro exI [of _ z] conjI refl allI impI, elim conjE)
    fix s :: "'a sys"
    assume "h (world s)" "cache_wf (vcache s)" "fresh_at (v (world s)) (vcache s) t k"
    from deploysD [OF deploys this]
    show "\<exists>res r s' y. f (z, s) = (Ok res, (r, s')) \<and> IsSuccess res \<and>
        rr_OperationResult res \<noteq> OperationResultDeleted \<and> h (world s') \<and> cache_wf (vcache s') \<and>
        cache_differs_at t k (vcache s) (vcache s') \<and> v (world s') = store_upd (v (world s)) t k (Some y) \<and>
        g' y \<and> m_name (o_meta r) = m_name (o_meta z) \<and> stays v h f t k r y \<and>
        ((\<exists>x. r = x \<and> deploys v h f t k g x) \<or> deploys v h f t k g' r)"
      by (elim ex_forward conjE) (simp add: assms(2))
  qed
qed

text \<open>
  The slot of an element is held when the closure can act on it: the stored object is fresh,
  or it is the one the last run left.
\<close>

definition held ::
  "('w \<Rightarrow> rtype \<Rightarrow> object_key \<Rightarrow> object option) \<Rightarrow> ('w \<Rightarrow> bool) \<Rightarrow> 'w element_func \<Rightarrow>
   rtype \<Rightarrow> object_key \<Rightarrow> (object \<Rightarrow> bool) \<Rightarrow> object \<Rightarrow> (rtype \<Rightarrow> object_key \<Rightarrow> object option) \<Rightarrow>
   version_cache \<Rightarrow> bool" where
  "held view healthy f t k goal x v vc \<longleftrightarrow> fresh_at v vc t k \<or>
     (\<exists>y. v t k = Some y \<and> goal y \<and> stays view healthy f t k x y)"

lemma fresh_at_cong:
  assumes "v' t k = v t k" and "fmlookup vc' (object_cache_key t k) = fmlookup vc (object_cache_key t k)"
  shows "fresh_at v' vc' t k = fresh_at v vc t k"
  using assms by (simp add: fresh_at_def)

lemma held_cong:
  assumes "v' t k = v t k" and "fmlookup vc' (object_cache_key t k) = fmlookup vc (object_cache_key t k)"
  shows "held view healthy f t k goal x v' vc' = held view healthy f t k goal x v vc"
  using assms fresh_at_cong [of v' t k v vc' vc] by (simp add: held_def)

lemma held_step:
  assumes "deploys view healthy f t k goal x" and "healthy (world s)" "cache_wf (vcache s)"
    and "held view healthy f t k goal x (view (world s)) (vcache s)"
  shows "\<exists>res r s' y. f (x, s) = (Ok res, (r, s')) \<and> IsSuccess res \<and>
     rr_OperationResult res \<noteq> OperationResultDeleted \<and> healthy (world s') \<and>
     cache_wf (vcache s') \<and> cache_differs_at t k (vcache s) (vcache s') \<and>
     view (world s') = store_upd (view (world s)) t k (Some y) \<and> goal y \<and>
     m_name (o_meta r) = m_name (o_meta x) \<and>
     stays view healthy f t k r y \<and> deploys view healthy f t k goal r"
proof (cases "fresh_at (view (world s)) (vcache s) t k")
  case True
  then show ?thesis using deploysD [OF assms(1-3)] by blast
next
  case False
  then obtain y where y: "view (world s) t k = Some y" "goal y" "stays view healthy f t k x y"
    using assms(4) by (auto simp: held_def)
  then obtain res s' where run: "f (x, s) = (Ok res, (x, s'))" "rr_OperationResult res = OperationResultNone"
    "IsSuccess res" "world s' = world s" "cache_wf (vcache s')" "cache_differs_at t k (vcache s) (vcache s')"
    using assms(2,3) unfolding stays_def by blast
  have "view (world s') = store_upd (view (world s)) t k (Some y)"
    using y(1) run(4) by (auto simp: store_upd_def fun_eq_iff)
  then show ?thesis using run y assms(1,2) by auto
qed

lemma AddAppLabels_labels_cong:
  "m_labels (o_meta x) = m_labels (o_meta y) \<Longrightarrow>
     m_labels (o_meta (AddAppLabels inst n c x)) = m_labels (o_meta (AddAppLabels inst n c y))"
  by (simp add: AddAppLabels_def Let_def getOrCreateLabels_def)

text \<open>What is stored for an element \<open>x1\<close> (after its preparation).\<close>

definition deployed_as ::
  "bool \<Rightarrow> (body \<Rightarrow> body \<Rightarrow> body) \<Rightarrow> (body \<Rightarrow> body) \<Rightarrow> TektonTasks \<Rightarrow> reconcileBuilder \<Rightarrow> object \<Rightarrow> object \<Rightarrow> bool" where
  "deployed_as replaces merged kept inst b x1 y \<longleftrightarrow>
     o_rtype y = o_rtype x1 \<and> object_key_of y = object_key_of x1 \<and>
     owner_marked inst y \<and> m_ownerReferences (o_meta y) = [] \<and>
     time_is_zero (m_deletionTimestamp (o_meta y)) \<and>
     smap_sub (m_labels (o_meta (AddAppLabels inst (operandName b) (operandComponent b) x1))) (m_labels (o_meta y)) \<and>
     (replaces \<longrightarrow> smap_norm (m_labels (o_meta y)) =
        smap_norm (m_labels (o_meta (AddAppLabels inst (operandName b) (operandComponent b) x1)))) \<and>
     body_norm (merged (kept (o_body x1)) (o_body y)) = body_norm (o_body y)"

locale operand_closure =
  reconciled_resource cl view healthy upd rt replaces merged kept
  for cl :: "'w client" and view healthy and upd rt replaces merged kept +
  fixes inst :: TektonTasks and b :: reconcileBuilder and prep :: "object \<Rightarrow> unit outcome \<times> object"
  assumes builder: "operand_builder b" "updateFunc b = upd"
    and prep_frame: "prep x = (Ok (), x1) \<Longrightarrow> o_rtype x1 = o_rtype x \<and> m_name (o_meta x1) = m_name (o_meta x)"
    and prep_stable: "prep x = (Ok (), x1) \<Longrightarrow> o_rtype x = rt \<Longrightarrow>
      o_body r = kept (o_body x1) \<Longrightarrow> object_key_of r = object_key_of x1 \<Longrightarrow>
      m_labels (o_meta r) = m_labels (o_meta (AddAppLabels inst (operandName b) (operandComponent b) x1)) \<Longrightarrow>
      prep r = (Ok (), r)"
begin

lemma deployed_as_again:
  assumes "o_rtype r = rt" "o_rtype x1 = rt" "object_key_of r = object_key_of x1" "o_body r = kept (o_body x1)"
    and "m_labels (o_meta r) = m_labels (o_meta (AddAppLabels inst (operandName b) (operandComponent b) x1))"
  shows "deployed_as replaces merged kept inst b r = deployed_as replaces merged kept inst b x1"
proof -
  let ?l = "\<lambda>x. AddAppLabels inst (operandName b) (operandComponent b) x"
  have "m_labels (o_meta (?l r)) = m_labels (o_meta (?l (?l x1)))"
    using assms(5) by (rule AddAppLabels_labels_cong)
  then have "m_labels (o_meta (?l r)) = m_labels (o_meta (?l x1))" by (simp add: AddAppLabels_idem)
  moreover have "kept (o_body r) = kept (o_body x1)"
    using assms(2,4) kept_idem [of "o_body x1"] by (simp add: o_rtype_def)
  ultimately show ?thesis
    using assms(1-3) by (simp add: deployed_as_def fun_eq_iff)
qed

lemma closure_step:
  fixes s :: "'w sys"
  assumes inst: "m_name (tt_meta inst) \<noteq> ''''" "tt_kind inst \<noteq> ''''"
    and x: "prep x = (Ok (), x1)" "o_rtype x = rt" "m_name (o_meta x) \<noteq> ''''"
    and s: "healthy (world s)" "cache_wf (vcache s)"
    and fr: "fresh_at (view (world s)) (vcache s) rt (object_key_of x1)"
  shows "\<exists>res r s' y. reconcile_element cl inst prep b (x, s) = (Ok res, (r, s')) \<and>
      IsSuccess res \<and> rr_OperationResult res \<noteq> OperationResultDeleted \<and> healthy (world s') \<and>
      cache_wf (vcache s') \<and> cache_differs_at rt (object_key_of x1) (vcache s) (vcache s') \<and>
      view (world s') = store_upd (view (world s)) rt (object_key_of x1) (Some y) \<and>
      deployed_as replaces merged kept inst b x1 y \<and> m_name (o_meta r) = m_name (o_meta x) \<and>
      stays view healthy (reconcile_element cl inst prep b) rt (object_key_of x1) r y \<and>
      prep r = (Ok (), r) \<and> o_rtype r = rt \<and> object_key_of r = object_key_of x1 \<and>
      deployed_as replaces merged kept inst b r = deployed_as replaces merged kept inst b x1"
proof -
  have x1: "o_rtype x1 = rt" "m_name (o_meta x1) \<noteq> ''''"
    using prep_frame [OF x(1)] x by simp_all
  have found: "\<forall>z. view (world s) rt (object_key_of x1) = Some z \<longrightarrow>
      time_is_zero (m_deletionTimestamp (o_meta z)) \<and> \<not> cache_Contains (vcache s) z"
  proof (intro allI impI)
    fix z assume z: "view (world s) rt (object_key_of x1) = Some z"
    from view_wf [OF s(1) z] have "cacheKeyFromObj z = object_cache_key rt (object_key_of x1)"
      using cacheKey_kind [of z rt] by simp
    then show "time_is_zero (m_deletionTimestamp (o_meta z)) \<and> \<not> cache_Contains (vcache s) z"
      using fr z by (simp add: fresh_at_def cache_Contains_recorded)
  qed
  obtain r1 where p: "reconcile_prepare inst b x1 = (Ok r1, r1)" "o_body r1 = o_body x1"
      "object_key_of r1 = object_key_of x1" "m_ownerReferences (o_meta r1) = []"
      "m_labels (o_meta r1) = m_labels (o_meta (AddAppLabels inst (operandName b) (operandComponent b) x1))"
    by (rule prepare_cluster [OF builder(1) inst, of x1]) (rule that)
  from Reconcile_converges [OF s builder inst x1 found] obtain res r s' y where
    R: "Reconcile cl inst b (x1, s) = (Ok res, (r, s'))" "rr_OperationResult res \<noteq> OperationResultDeleted"
      "IsSuccess res" "healthy (world s')" "cache_wf (vcache s')"
      "cache_differs_at rt (object_key_of x1) (vcache s) (vcache s')"
      "view (world s') = store_upd (view (world s)) rt (object_key_of x1) (Some y)"
      "settled replaces merged kept r y" "owner_marked inst y" "o_rtype r = rt"
      "object_key_of r = object_key_of x1" "reconcile_prepare inst b r = (Ok r, r)"
      "r = r1\<lparr>o_body := kept (o_body r1)\<rparr>"
    using p(1) by auto
  have run: "reconcile_element cl inst prep b (x, s) = (Ok res, (r, s'))"
    using x(1) R(1) by (simp add: reconcile_element_def on_resource_def)
  have r: "o_body r = kept (o_body x1)"
    "m_labels (o_meta r) = m_labels (o_meta (AddAppLabels inst (operandName b) (operandComponent b) x1))"
    by (simp_all add: R(13) p)
  have pr: "prep r = (Ok (), r)"
    by (rule prep_stable [OF x(1,2) r(1) R(11) r(2)])
  have "stays view healthy (reconcile_element cl inst prep b) rt (object_key_of x1) r y"
    unfolding stays_def
  proof (intro allI impI, elim conjE)
    fix u :: "'w sys"
    assume u: "healthy (world u)" "view (world u) rt (object_key_of x1) = Some y"
    from Reconcile_settled [OF u(1) _ builder R(10,12,8)] u(2) R(11) obtain res' u' where
      1: "Reconcile cl inst b (r, u) = (Ok res', (r, u'))" "rr_OperationResult res' = OperationResultNone"
      "IsSuccess res'" "u' = u\<lparr>vcache := cache_Add (vcache u) y\<rparr>" by auto
    have "o_kind y = rtype_kind rt" "object_key_of y = object_key_of x1" using view_wf [OF u] by simp_all
    then have "cache_differs_at rt (object_key_of x1) (vcache u) (vcache u')"
      using cache_Add_differs [of y rt] by (simp add: 1(4))
    then show "\<exists>res s'. reconcile_element cl inst prep b (r, u) = (Ok res, (r, s')) \<and>
        rr_OperationResult res = OperationResultNone \<and> IsSuccess res \<and> world s' = world u \<and>
        (cache_wf (vcache u) \<longrightarrow> cache_wf (vcache s')) \<and>
        cache_differs_at rt (object_key_of x1) (vcache u) (vcache s')"
      using pr 1 by (simp add: reconcile_element_def on_resource_def)
  qed
  moreover have "deployed_as replaces merged kept inst b x1 y"
    using R(8,9) x1 p unfolding deployed_as_def settled_def R(13)
    by (simp add: object_key_of_def) (simp add: o_rtype_def kept_rtype)
  moreover have "m_name (o_meta r) = m_name (o_meta x)"
    using R(11) prep_frame [OF x(1)] by (simp add: object_key_of_def)
  moreover have "deployed_as replaces merged kept inst b r = deployed_as replaces merged kept inst b x1"
    by (rule deployed_as_again [OF R(10) x1(1) R(11) r])
  ultimately show ?thesis using run R pr by blast
qed

lemma closure_deploys:
  assumes inst: "m_name (tt_meta inst) \<noteq> ''''" "tt_kind inst \<noteq> ''''"
    and x: "prep x = (Ok (), x1)" "o_rtype x = rt" "m_name (o_meta x) \<noteq> ''''"
  shows "deploys view healthy (reconcile_element cl inst prep b) rt (object_key_of x1)
           (deployed_as replaces merged kept inst b x1) x"
proof -
  define ready where "ready z \<longleftrightarrow> (\<exists>z1. prep z = (Ok (), z1) \<and> o_rtype z = rt \<and> m_name (o_meta z) \<noteq> '''' \<and>
    object_key_of z1 = object_key_of x1 \<and>
    deployed_as replaces merged kept inst b z1 = deployed_as replaces merged kept inst b x1)" for z
  have "ready x" using x by (auto simp: ready_def)
  then show ?thesis
  proof (coinduction arbitrary: x)
    case (deploys z)
    then obtain z1 where z: "prep z = (Ok (), z1)" "o_rtype z = rt" "m_name (o_meta z) \<noteq> ''''"
      "object_key_of z1 = object_key_of x1"
      "deployed_as replaces merged kept inst b z1 = deployed_as replaces merged kept inst b x1"
      unfolding ready_def by blast
    have again: "ready r" if "prep r = (Ok (), r)" "o_rtype r = rt" "object_key_of r = object_key_of x1"
      "deployed_as replaces merged kept inst b r = deployed_as replaces merged kept inst b x1"
      "m_name (o_meta r) = m_name (o_meta z)" for r
      using that z(3) unfolding ready_def by auto
    show ?case
    proof (intro exI [of _ z] conjI refl allI impI, elim conjE)
      fix s :: "'w sys"
      assume "healthy (world s)" "cache_wf (vcache s)" "fresh_at (view (world s)) (vcache s) rt (object_key_of x1)"
      from closure_step [OF inst z(1-3) this(1,2), unfolded z(4,5), OF this(3)] again
      show "\<exists>res r s' y. reconcile_element cl inst prep b (z, s) = (Ok res, (r, s')) \<and>
          IsSuccess res \<and> rr_OperationResult res \<noteq> OperationResultDeleted \<and> healthy (world s') \<and>
          cache_wf (vcache s') \<and> cache_differs_at rt (object_key_of x1) (vcache s) (vcache s') \<and>
          view (world s') = store_upd (view (world s)) rt (object_key_of x1) (Some y) \<and>
          deployed_as replaces merged kept inst b x1 y \<and> m_name (o_meta r) = m_name (o_meta z) \<and>
          stays view healthy (reconcile_element cl inst prep b) rt (object_key_of x1) r y \<and>
          ((\<exists>x. r = x \<and> ready x) \<or>
           deploys view healthy (reconcile_element cl inst prep b) rt (object_key_of x1)
             (deployed_as replaces merged kept inst b x1) r)"
        by (elim ex_forward) blast
    qed
  qed
qed

end

section \<open>Bodies\<close>

definition merge_cluster_role :: "body \<Rightarrow> body \<Rightarrow> body" where
  "merge_cluster_role e f =
     (case (e, f) of (ClusterRoleBody rules _, ClusterRoleBody _ rest) \<Rightarrow> ClusterRoleBody rules rest
      | _ \<Rightarrow> f)"

lemma body_rtype_cases:
  "body_rtype c = Task \<longleftrightarrow> (\<exists>s. c = TaskBody s)"
  "body_rtype c = Pipeline \<longleftrightarrow> (\<exists>p. c = PipelineBody p)"
  "body_rtype c = ServiceAccount \<longleftrightarrow> (\<exists>r. c = ServiceAccountBody r)"
  "body_rtype c = RoleBinding \<longleftrightarrow> (\<exists>r s. c = RoleBindingBody r s)"
  "body_rtype c = ClusterRole \<longleftrightarrow> (\<exists>r s. c = ClusterRoleBody r s)"
  "body_rtype c = ConfigMap \<longleftrightarrow> (\<exists>d r. c = ConfigMapBody d r)"
  by (cases c; simp)+

lemma body_norm_eq_simps:
  "TaskBody s = body_norm c \<longleftrightarrow> c = TaskBody s"
  "RoleBindingBody r l = body_norm c \<longleftrightarrow> c = RoleBindingBody r l"
  "ClusterRoleBody u v = body_norm c \<longleftrightarrow> c = ClusterRoleBody u v"
  by (cases c; auto)+

section \<open>All closures of an operand\<close>

locale operand_slots =
  fixes elem :: "'j \<Rightarrow> 'o \<Rightarrow> object"
    and put :: "'j \<Rightarrow> object \<Rightarrow> 'o \<Rightarrow> 'o"
    and in_range :: "'o \<Rightarrow> 'j \<Rightarrow> bool"
  assumes elem_put: "in_range o' j \<Longrightarrow> elem j (put j x o') = x"
    and elem_other: "j \<noteq> j' \<Longrightarrow> elem j' (put j x o') = elem j' o'"
    and range_put: "in_range (put j x o') j' = in_range o' j'"
    and put_same: "in_range o' j \<Longrightarrow> put j (elem j o') o' = o'"
begin

definition slot_func :: "('j \<Rightarrow> 'w element_func) \<Rightarrow> 'j \<Rightarrow> ('o, 'w) ReconcileFunc" where
  "slot_func f j st = (case f j (elem j (fst st), snd st) of (r, (x, s)) \<Rightarrow> (r, (put j x (fst st), s)))"

lemma slots_stay:
  assumes "healthy (world s)"
    and "\<forall>j \<in> set js. in_range o' j \<and>
      (\<exists>y. view (world s) (t j) (k j) = Some y \<and> stays view healthy (f j) (t j) (k j) (elem j o') y)"
  shows "\<exists>results s'. CollectResourceStatus (map (slot_func f) js) (o', s) = (Ok results, (o', s')) \<and>
     world s' = world s \<and> list_all (\<lambda>res. IsSuccess res \<and> rr_OperationResult res = OperationResultNone) results"
  using assms
proof (induction js arbitrary: s)
  case Nil
  then show ?case by (simp add: CollectResourceStatus_def)
next
  case (Cons j js)
  from Cons.prems obtain y where j: "in_range o' j" "view (world s) (t j) (k j) = Some y"
    "stays view healthy (f j) (t j) (k j) (elem j o') y" by auto
  from j(2,3) Cons.prems(1) obtain res s1 where f: "f j (elem j o', s) = (Ok res, (elem j o', s1))"
      "rr_OperationResult res = OperationResultNone" "IsSuccess res" "world s1 = world s"
    unfolding stays_def by blast
  have run: "slot_func f j (o', s) = (Ok res, (o', s1))"
    using f(1) j(1) by (simp add: slot_func_def put_same)
  obtain results s2 where "CollectResourceStatus (map (slot_func f) js) (o', s1) = (Ok results, (o', s2))"
     "world s2 = world s1" "list_all (\<lambda>res. IsSuccess res \<and> rr_OperationResult res = OperationResultNone) results"
    using Cons.IH [of s1] Cons.prems f(4) by auto
  then show ?case
    using run f by (simp add: CollectResourceStatus_def)
qed

text \<open>All slots hold what they should, and their closures keep it so.\<close>

definition all_settled where
  "all_settled view healthy f t k goal js o' v \<longleftrightarrow>
     (\<forall>j \<in> set js. in_range o' j \<and> deploys view healthy (f j) (t j) (k j) (goal j) (elem j o') \<and>
        (\<exists>y. v (t j) (k j) = Some y \<and> goal j y \<and> stays view healthy (f j) (t j) (k j) (elem j o') y))"

definition all_held where
  "all_held view healthy f t k goal js o' v vc \<longleftrightarrow>
     (\<forall>j \<in> set js. in_range o' j \<and> deploys view healthy (f j) (t j) (k j) (goal j) (elem j o') \<and>
        held view healthy (f j) (t j) (k j) (goal j) (elem j o') v vc)"

lemma all_held_cong:
  assumes "\<And>j. j \<in> set js \<Longrightarrow> v' (t j) (k j) = v (t j) (k j) \<and> in_range o'' j = in_range o' j \<and> elem j o'' = elem j o' \<and>
      fmlookup vc' (object_cache_key (t j) (k j)) = fmlookup vc (object_cache_key (t j) (k j))"
  shows "all_held view healthy f t k goal js o'' v' vc' = all_held view healthy f t k goal js o' v vc"
proof -
  have "held view healthy (f j) (t j) (k j) (goal j) (elem j o'') v' vc' =
      held view healthy (f j) (t j) (k j) (goal j) (elem j o') v vc" if "j \<in> set js" for j
    using held_cong [of v' "t j" "k j" v vc' vc] assms [OF that] by simp
  then show ?thesis using assms by (simp add: all_held_def)
qed

lemma slots_deploy:
  assumes "healthy (world s)" "cache_wf (vcache s)"
    and "distinct js" "inj_on (\<lambda>j. (t j, k j)) (set js)"
    and "all_held view healthy f t k goal js o' (view (world s)) (vcache s)"
  shows "\<exists>results o'' s'. CollectResourceStatus (map (slot_func f) js) (o', s) = (Ok results, (o'', s')) \<and>
     healthy (world s') \<and> cache_wf (vcache s') \<and> length results = length js \<and>
     list_all (\<lambda>res. IsSuccess res \<and> rr_OperationResult res \<noteq> OperationResultDeleted) results \<and>
     (\<forall>j. in_range o'' j = in_range o' j) \<and>
     (\<forall>j. m_name (o_meta (elem j o'')) = m_name (o_meta (elem j o'))) \<and> (\<forall>j. j \<notin> set js \<longrightarrow> elem j o'' = elem j o') \<and>
     (\<forall>ck. ck \<notin> (\<lambda>j. object_cache_key (t j) (k j)) ` set js \<longrightarrow> fmlookup (vcache s') ck = fmlookup (vcache s) ck) \<and>
     (\<forall>t' k'. (t', k') \<notin> (\<lambda>j. (t j, k j)) ` set js \<longrightarrow> view (world s') t' k' = view (world s) t' k') \<and>
     all_settled view healthy f t k goal js o'' (view (world s'))"
  using assms
proof (induction js arbitrary: s o')
  case Nil
  then show ?case by (simp add: CollectResourceStatus_def all_settled_def)
next
  case (Cons j js)
  let ?key = "\<lambda>j. (t j, k j)"
  have j: "in_range o' j" "deploys view healthy (f j) (t j) (k j) (goal j) (elem j o')"
    "held view healthy (f j) (t j) (k j) (goal j) (elem j o') (view (world s)) (vcache s)"
    using Cons.prems(5) by (simp_all add: all_held_def)
  obtain res r s1 y where f: "f j (elem j o', s) = (Ok res, (r, s1))" "IsSuccess res"
      "rr_OperationResult res \<noteq> OperationResultDeleted" "healthy (world s1)" "cache_wf (vcache s1)"
      "cache_differs_at (t j) (k j) (vcache s) (vcache s1)"
      "view (world s1) = store_upd (view (world s)) (t j) (k j) (Some y)" "goal j y"
      "m_name (o_meta r) = m_name (o_meta (elem j o'))"
      "stays view healthy (f j) (t j) (k j) r y" "deploys view healthy (f j) (t j) (k j) (goal j) r"
    using held_step [OF j(2) Cons.prems(1,2) j(3)] by blast
  let ?o1 = "put j r o'"
  have run: "slot_func f j (o', s) = (Ok res, (?o1, s1))"
    using f(1) by (simp add: slot_func_def)
  have jj: "j \<notin> set js" "\<And>i. i \<in> set js \<Longrightarrow> ?key i \<noteq> ?key j"
    using Cons.prems(3,4) by (auto simp: inj_on_def)
  have same: "view (world s1) (t i) (k i) = view (world s) (t i) (k i) \<and> in_range ?o1 i = in_range o' i \<and> elem i ?o1 = elem i o' \<and>
      fmlookup (vcache s1) (object_cache_key (t i) (k i)) = fmlookup (vcache s) (object_cache_key (t i) (k i))"
    if i: "i \<in> set js" for i
  proof -
    have ij: "j \<noteq> i" "?key i \<noteq> ?key j" using jj i by auto
    then show ?thesis
      using f(6) elem_other [OF ij(1)] store_upd_other [OF ij(2)]
      by (simp add: range_put cache_differs_at_def f(7))
  qed
  have "all_held view healthy f t k goal js o' (view (world s)) (vcache s)"
    using Cons.prems(5) by (simp add: all_held_def)
  then have rest: "all_held view healthy f t k goal js ?o1 (view (world s1)) (vcache s1)"
    using all_held_cong [of js "view (world s1)" t k "view (world s)" ?o1 o' "vcache s1" "vcache s"] same by blast
  have inj: "inj_on ?key (set js)" and dis: "distinct js"
    using Cons.prems(3,4) by (auto simp: inj_on_def)
  from Cons.IH [OF f(4,5) dis inj rest] obtain results o2 s2 where
    ih: "CollectResourceStatus (map (slot_func f) js) (?o1, s1) = (Ok results, (o2, s2))"
      "healthy (world s2)" "cache_wf (vcache s2)" "length results = length js"
      "list_all (\<lambda>res. IsSuccess res \<and> rr_OperationResult res \<noteq> OperationResultDeleted) results"
      "\<forall>i. in_range o2 i = in_range ?o1 i"
      "\<forall>i. m_name (o_meta (elem i o2)) = m_name (o_meta (elem i ?o1))" "\<forall>i. i \<notin> set js \<longrightarrow> elem i o2 = elem i ?o1"
      "\<forall>t' k'. (t', k') \<notin> ?key ` set js \<longrightarrow> view (world s2) t' k' = view (world s1) t' k'"
      "\<forall>ck. ck \<notin> (\<lambda>j. object_cache_key (t j) (k j)) ` set js \<longrightarrow> fmlookup (vcache s2) ck = fmlookup (vcache s1) ck"
      "all_settled view healthy f t k goal js o2 (view (world s2))"
    by blast
  have cache: "fmlookup (vcache s2) ck = fmlookup (vcache s) ck"
    if "ck \<notin> (\<lambda>j. object_cache_key (t j) (k j)) ` set (j # js)" for ck
    using ih(10) f(6) that by (simp add: cache_differs_at_def)
  have "?key j \<notin> ?key ` set js" using jj(2) by force
  then have "view (world s2) (t j) (k j) = view (world s1) (t j) (k j)"
    using ih(9) [rule_format, of "t j" "k j"] by simp
  then have yj: "view (world s2) (t j) (k j) = Some y" by (simp add: f(7))
  have "elem j o2 = r" using ih(8) jj(1) elem_put [OF j(1)] by simp
  then have settled: "all_settled view healthy f t k goal (j # js) o2 (view (world s2))"
    using yj f(8,10,11) ih(6,11) j(1) by (simp add: all_settled_def range_put)
  have frame: "view (world s2) t' k' = view (world s) t' k'" if "(t', k') \<notin> ?key ` set (j # js)" for t' k'
  proof -
    have "(t', k') \<notin> ?key ` set js" "(t', k') \<noteq> ?key j" using that by auto
    then show ?thesis
      using ih(9) [rule_format, of t' k'] store_upd_other [of t' k' "t j" "k j"] by (simp add: f(7))
  qed
  have "elem i o2 = elem i o'" if "i \<notin> set (j # js)" for i
    using ih(8) that elem_other [of j i] by auto
  moreover have "\<forall>i. m_name (o_meta (elem i o2)) = m_name (o_meta (elem i o'))"
    using ih(7) elem_put [OF j(1), of r] elem_other [of j _ r o'] f(9) by metis
  ultimately show ?case
    using run ih(1-6) f(2,3) settled frame cache
    by (intro exI [of _ "res # results"] exI [of _ o2] exI [of _ s2])
      (auto simp: CollectResourceStatus_def range_put)
qed

end

section \<open>A whole operand\<close>

text \<open>
  An operand runs the closures of its slots one after the other and reports. Its promise is about
  the operand \<open>o0\<close> it was created with: whatever its elements have become since, the
  objects at the targets of \<open>o0\<close> are what \<open>o0\<close> wants, or the next run makes them so.
\<close>

locale operand_deployment = operand_slots elem put in_range
  for elem :: "'j \<Rightarrow> 'o \<Rightarrow> object" and put :: "'j \<Rightarrow> object \<Rightarrow> 'o \<Rightarrow> 'o" and in_range :: "'o \<Rightarrow> 'j \<Rightarrow> bool" +
  fixes view :: "'w \<Rightarrow> rtype \<Rightarrow> object_key \<Rightarrow> object option" and healthy :: "'w \<Rightarrow> bool"
    and slots_of :: "'o \<Rightarrow> 'j list" and func :: "'j \<Rightarrow> 'w element_func"
    and target :: "'o \<Rightarrow> 'j \<Rightarrow> rtype \<times> object_key" and wants :: "'o \<Rightarrow> 'j \<Rightarrow> object \<Rightarrow> bool"
    and report :: "ReconcileResult list \<Rightarrow> 'w sys \<Rightarrow> 'w sys"
    and run :: "'o \<times> 'w sys \<Rightarrow> ReconcileResult list outcome \<times> ('o \<times> 'w sys)"
  assumes slots_distinct: "distinct (slots_of o')"
    and slots_in_range: "j \<in> set (slots_of o') \<Longrightarrow> in_range o' j"
    and slots_cong: "\<forall>j. in_range o'' j = in_range o' j \<Longrightarrow>
      \<forall>j. m_name (o_meta (elem j o'')) = m_name (o_meta (elem j o')) \<Longrightarrow> slots_of o'' = slots_of o'"
    and run_slots: "run (o', s) = bind_outcome (CollectResourceStatus (map (slot_func func) (slots_of o')) (o', s))
      (\<lambda>results st. (Ok results, (fst st, report results (snd st))))"
    and report_frame: "world (report results s) = world s" "vcache (report results s) = vcache s"
begin

definition ready_in :: "'o \<Rightarrow> 'o \<Rightarrow> (rtype \<Rightarrow> object_key \<Rightarrow> object option) \<Rightarrow> version_cache \<Rightarrow> bool" where
  "ready_in o0 o' v vc \<longleftrightarrow> slots_of o' = slots_of o0 \<and> inj_on (target o0) (set (slots_of o0)) \<and>
     all_held view healthy func (\<lambda>j. fst (target o0 j)) (\<lambda>j. snd (target o0 j)) (wants o0) (slots_of o0) o' v vc"

definition settled_in :: "'o \<Rightarrow> 'o \<Rightarrow> (rtype \<Rightarrow> object_key \<Rightarrow> object option) \<Rightarrow> bool" where
  "settled_in o0 o' v \<longleftrightarrow> slots_of o' = slots_of o0 \<and> inj_on (target o0) (set (slots_of o0)) \<and>
     all_settled view healthy func (\<lambda>j. fst (target o0 j)) (\<lambda>j. snd (target o0 j)) (wants o0) (slots_of o0) o' v"

lemma ready_start:
  assumes "inj_on (target o') (set (slots_of o'))"
    and "\<And>j. j \<in> set (slots_of o') \<Longrightarrow>
      deploys view healthy (func j) (fst (target o' j)) (snd (target o' j)) (wants o' j) (elem j o') \<and>
      fresh_at v vc (fst (target o' j)) (snd (target o' j))"
  shows "ready_in o' o' v vc"
  using assms slots_in_range by (simp add: ready_in_def all_held_def held_def)

lemma ready_cong:
  assumes "ready_in o0 o' v vc" and "\<And>j. j \<in> set (slots_of o0) \<Longrightarrow>
      v' (fst (target o0 j)) (snd (target o0 j)) = v (fst (target o0 j)) (snd (target o0 j)) \<and>
      fmlookup vc' (object_cache_key (fst (target o0 j)) (snd (target o0 j))) =
        fmlookup vc (object_cache_key (fst (target o0 j)) (snd (target o0 j)))"
  shows "ready_in o0 o' v' vc'"
proof -
  have "all_held view healthy func (\<lambda>j. fst (target o0 j)) (\<lambda>j. snd (target o0 j)) (wants o0) (slots_of o0) o' v' vc' =
     all_held view healthy func (\<lambda>j. fst (target o0 j)) (\<lambda>j. snd (target o0 j)) (wants o0) (slots_of o0) o' v vc"
    using assms(2) by (intro all_held_cong) simp
  with assms(1) show ?thesis by (simp add: ready_in_def)
qed

lemma settled_cong:
  assumes "settled_in o0 o' v" and "\<And>j. j \<in> set (slots_of o0) \<Longrightarrow>
      v' (fst (target o0 j)) (snd (target o0 j)) = v (fst (target o0 j)) (snd (target o0 j))"
  shows "settled_in o0 o' v'"
  using assms by (simp add: settled_in_def all_settled_def)

text \<open>What others did in between: some objects are fresh again, the rest are as they were.\<close>

lemma settled_ready:
  assumes "settled_in o0 o' v" and "\<And>j. j \<in> set (slots_of o0) \<Longrightarrow>
      v' (fst (target o0 j)) (snd (target o0 j)) = v (fst (target o0 j)) (snd (target o0 j)) \<or>
      fresh_at v' vc (fst (target o0 j)) (snd (target o0 j))"
  shows "ready_in o0 o' v' vc"
  unfolding ready_in_def all_held_def
proof (intro conjI ballI)
  fix j assume j: "j \<in> set (slots_of o0)"
  show "held view healthy (func j) (fst (target o0 j)) (snd (target o0 j)) (wants o0 j) (elem j o') v' vc"
    using assms(1) assms(2) [OF j] j unfolding settled_in_def all_settled_def held_def by fastforce
qed (use assms(1) in \<open>auto simp: settled_in_def all_settled_def\<close>)

lemma settled_wants:
  "settled_in o0 o' v \<Longrightarrow> j \<in> set (slots_of o0) \<Longrightarrow>
     \<exists>y. v (fst (target o0 j)) (snd (target o0 j)) = Some y \<and> wants o0 j y"
  by (auto simp: settled_in_def all_settled_def)

lemma settled_stay:
  assumes "settled_in o0 o' v"
  shows "\<forall>j \<in> set (slots_of o'). in_range o' j \<and> (\<exists>y. v (fst (target o0 j)) (snd (target o0 j)) = Some y \<and>
     stays view healthy (func j) (fst (target o0 j)) (snd (target o0 j)) (elem j o') y)"
proof
  fix j assume "j \<in> set (slots_of o')"
  moreover have "slots_of o' = slots_of o0" using assms by (simp add: settled_in_def)
  ultimately have "in_range o' j \<and> (\<exists>y. v (fst (target o0 j)) (snd (target o0 j)) = Some y \<and> wants o0 j y \<and>
     stays view healthy (func j) (fst (target o0 j)) (snd (target o0 j)) (elem j o') y)"
    using assms by (simp add: settled_in_def all_settled_def)
  then show "in_range o' j \<and> (\<exists>y. v (fst (target o0 j)) (snd (target o0 j)) = Some y \<and>
     stays view healthy (func j) (fst (target o0 j)) (snd (target o0 j)) (elem j o') y)" by auto
qed

lemma run_settled:
  assumes "healthy (world s)" and "settled_in o0 o' (view (world s))"
  shows "\<exists>results s'. run (o', s) = (Ok results, (o', s')) \<and> world s' = world s \<and>
     list_all (\<lambda>res. IsSuccess res \<and> rr_OperationResult res = OperationResultNone) results"
proof -
  obtain results s1 where "CollectResourceStatus (map (slot_func func) (slots_of o')) (o', s) = (Ok results, (o', s1))"
    "world s1 = world s" "list_all (\<lambda>res. IsSuccess res \<and> rr_OperationResult res = OperationResultNone) results"
    using slots_stay [of healthy s "slots_of o'" o' view "\<lambda>j. fst (target o0 j)" "\<lambda>j. snd (target o0 j)" func,
        OF assms(1) settled_stay [OF assms(2)]] by blast
  then show ?thesis by (simp add: run_slots report_frame)
qed

lemma run_ready:
  assumes "healthy (world s)" "cache_wf (vcache s)" and "ready_in o0 o' (view (world s)) (vcache s)"
  shows "\<exists>results o'' s'. run (o', s) = (Ok results, (o'', s')) \<and> length results = length (slots_of o0) \<and>
     list_all IsSuccess results \<and> healthy (world s') \<and> cache_wf (vcache s') \<and>
     (\<forall>rt k. (rt, k) \<notin> target o0 ` set (slots_of o0) \<longrightarrow>
        view (world s') rt k = view (world s) rt k \<and>
        fmlookup (vcache s') (object_cache_key rt k) = fmlookup (vcache s) (object_cache_key rt k)) \<and>
     settled_in o0 o'' (view (world s'))"
proof -
  let ?js = "slots_of o0" and ?T = "\<lambda>j. fst (target o0 j)" and ?K = "\<lambda>j. snd (target o0 j)"
  have 1: "slots_of o' = ?js" "inj_on (target o0) (set ?js)"
    "all_held view healthy func ?T ?K (wants o0) ?js o' (view (world s)) (vcache s)"
    using assms(3) by (simp_all add: ready_in_def)
  have inj: "inj_on (\<lambda>j. (?T j, ?K j)) (set ?js)" using 1(2) by simp
  from slots_deploy [OF assms(1,2) slots_distinct inj 1(3)] obtain results o'' s1 where
    c: "CollectResourceStatus (map (slot_func func) ?js) (o', s) = (Ok results, (o'', s1))"
      "healthy (world s1)" "cache_wf (vcache s1)" "length results = length ?js"
      "list_all (\<lambda>res. IsSuccess res \<and> rr_OperationResult res \<noteq> OperationResultDeleted) results"
      "\<forall>j. in_range o'' j = in_range o' j"
      "\<forall>j. m_name (o_meta (elem j o'')) = m_name (o_meta (elem j o'))"
      "\<forall>ck. ck \<notin> (\<lambda>j. object_cache_key (?T j) (?K j)) ` set ?js \<longrightarrow> fmlookup (vcache s1) ck = fmlookup (vcache s) ck"
      "\<forall>t' k'. (t', k') \<notin> (\<lambda>j. (?T j, ?K j)) ` set ?js \<longrightarrow> view (world s1) t' k' = view (world s) t' k'"
      "all_settled view healthy func ?T ?K (wants o0) ?js o'' (view (world s1))" by blast
  have "slots_of o'' = ?js" using slots_cong [OF c(6,7)] 1(1) by simp
  then have "settled_in o0 o'' (view (world s1))" using c(10) 1(2) by (simp add: settled_in_def)
  moreover have "list_all IsSuccess results" using c(5) by (simp add: list_all_iff)
  moreover have "view (world s1) rt k = view (world s) rt k \<and>
      fmlookup (vcache s1) (object_cache_key rt k) = fmlookup (vcache s) (object_cache_key rt k)"
    if "(rt, k) \<notin> target o0 ` set ?js" for rt k
    using that c(8) [rule_format, of "object_cache_key rt k"] c(9) [rule_format, of rt k] by force
  ultimately show ?thesis using c(1-4) 1(1) by (simp add: run_slots report_frame)
qed

end

end
