(* ===== verification/Samples.thy ===== *)
theory Samples
  imports Fake_Client
begin

text \<open>
  A small concrete cluster on which the theorems of the development are run: a
  \<open>TektonTasks\<close> resource, the objects of a bundle, and a fake API server that holds nothing but
  what a sample says.
\<close>

definition sample_env :: environ where
  "sample_env = (\<lambda>_. None)"

definition sample_tt :: TektonTasks where
  "sample_tt = \<lparr>tt_kind = ''TektonTasks'', tt_apiVersion = ''tektontasks.kubevirt.io/v1alpha1'',
     tt_meta = empty_meta\<lparr>m_name := ''tt'', m_namespace := ''kubevirt'', m_uid := ''u1'',
                          m_resourceVersion := ''1'', m_generation := 1\<rparr>,
     Spec = \<lparr>Spec_Pipelines = \<lparr>Pipelines_Namespace = ''examples''\<rparr>, Spec_Tasks = None,
             Spec_FeatureGates = \<lparr>DeployTektonTaskResources = True\<rparr>\<rparr>,
     Status = empty_status\<rparr>"

definition sample_object :: "rtype \<Rightarrow> string \<Rightarrow> body \<Rightarrow> object" where
  "sample_object t n b = \<lparr>o_kind = rtype_kind t, o_apiVersion = rtype_apiVersion t,
     o_meta = empty_meta\<lparr>m_name := n, m_labels := Some fmempty\<rparr>, o_body = b\<rparr>"

definition sample_step :: "string \<Rightarrow> step" where
  "sample_step n = \<lparr>step_name = n, step_image = ''old'', step_rest = ''''\<rparr>"

definition sample_task :: object where
  "sample_task = sample_object Task ''cleanup-vm'' (TaskBody \<lparr>ts_steps = [sample_step ''run''], ts_rest = ''''\<rparr>)"

definition sample_iso_task :: object where
  "sample_iso_task = sample_object Task ''modify-windows-iso-file''
     (TaskBody \<lparr>ts_steps = [sample_step ''create-iso-file'', sample_step ''other''], ts_rest = ''''\<rparr>)"

definition sample_account :: object where
  "sample_account = sample_object ServiceAccount ''cleanup-vm-task'' (ServiceAccountBody '''')"

definition sample_binding :: object where
  "sample_binding = sample_object RoleBinding ''cleanup-vm-task''
     (RoleBindingBody \<lparr>rr_apiGroup = ''rbac.authorization.k8s.io'', rr_kind = ''ClusterRole'', rr_name = ''cleanup-vm-task''\<rparr>
        [\<lparr>sj_kind = ''ServiceAccount'', sj_apiGroup = '''', sj_name = ''cleanup-vm-task'', sj_namespace = ''''\<rparr>])"

definition sample_role :: object where
  "sample_role = sample_object ClusterRole ''cleanup-vm-task''
     (ClusterRoleBody [\<lparr>pr_verbs = [''get''], pr_apiGroups = [''kubevirt.io''], pr_resources = [''virtualmachines''],
        pr_resourceNames = [], pr_nonResourceURLs = []\<rparr>] '''')"

definition sample_pipeline :: object where
  "sample_pipeline = sample_object Pipeline ''windows10-installer''
     (PipelineBody \<lparr>pl_params = [\<lparr>ps_name = ''virtioContainerDiskName'', ps_default = None, ps_rest = ''''\<rparr>,
                                \<lparr>ps_name = ''winImage'', ps_default = None, ps_rest = ''''\<rparr>], pl_rest = ''''\<rparr>)"

definition sample_config_map :: object where
  "sample_config_map = sample_object ConfigMap ''windows10-autounattend''
     (ConfigMapBody (Some (fmupd ''f'' ''x'' fmempty)) '''')"

definition empty_cluster :: fake_cluster where
  "empty_cluster = \<lparr>fc_objects = (\<lambda>_. fmempty), fc_tts = fmempty, fc_crds = fmempty,
     fc_clusterversions = [], fc_now = 1\<rparr>"

definition sample_sys :: "fake_cluster \<Rightarrow> fake_cluster sys" where
  "sample_sys w = \<lparr>world = w, vcache = fmempty, logs = []\<rparr>"

lemma empty_cluster_healthy [simp]: "fake_healthy empty_cluster"
  by (simp add: fake_healthy_def empty_cluster_def)

lemma empty_cluster_view [simp]: "fake_view empty_cluster t k = None"
  by (simp add: fake_view_def empty_cluster_def)

lemma sample_sys_simps [simp]:
  "world (sample_sys w) = w" "vcache (sample_sys w) = fmempty" "logs (sample_sys w) = []"
  by (simp_all add: sample_sys_def)

lemma sample_tt_simps [simp]:
  "m_name (tt_meta sample_tt) = ''tt''" "m_namespace (tt_meta sample_tt) = ''kubevirt''"
  "tt_kind sample_tt = ''TektonTasks''" "tt_apiVersion sample_tt = ''tektontasks.kubevirt.io/v1alpha1''"
  "m_labels (tt_meta sample_tt) = None" "m_annotations (tt_meta sample_tt) = None"
  "m_finalizers (tt_meta sample_tt) = []" "m_deletionTimestamp (tt_meta sample_tt) = None"
  "m_generation (tt_meta sample_tt) = 1" "Status sample_tt = empty_status"
  "Spec_Tasks (Spec sample_tt) = None" "Pipelines_Namespace (Spec_Pipelines (Spec sample_tt)) = ''examples''"
  "DeployTektonTaskResources (Spec_FeatureGates (Spec sample_tt)) = True"
  by (simp_all add: sample_tt_def empty_meta_def)

lemmas sample_defs = sample_object_def sample_step_def sample_task_def sample_iso_task_def
  sample_account_def sample_binding_def sample_role_def sample_pipeline_def sample_config_map_def

end
