(* ===== verification/Tekton_Tasks_Deploy.thy ===== *)
theory Tekton_Tasks_Deploy
  imports Tekton_Tasks_Operand Operand_Contract Samples
begin

text \<open>
  What the tekton-tasks operand guarantees: which objects it keeps, which images its tasks
  get and when preparing one panics, and that on a healthy API server one reconciliation
  deploys everything and the next one changes nothing.
\<close>

section \<open>Images\<close>

lemma AllowedTasks_simps [simp]:
  "AllowedTasks modifyDataObjectTaskName = Some GetModifyDataObjectImage"
  "AllowedTasks diskVirtCustomizeTaskName = Some GetDiskVirtCustomizeImage"
  by (simp_all add: AllowedTasks_def task_name_defs)

definition iso_image :: "environ \<Rightarrow> step \<Rightarrow> step" where
  "iso_image env step =
     (if step_name step = ''create-iso-file'' then step\<lparr>step_image := GetModifyDataObjectImage env\<rparr>
      else if step_name step = ''convert-iso-file'' \<or> step_name step = ''modify-iso-file''
      then step\<lparr>step_image := GetDiskVirtCustomizeImage env\<rparr> else step)"

lemma iso_step_image: "iso_step env step = Ok (iso_image env step)"
  by (simp add: iso_step_def iso_image_def call_AllowedTask_def)

lemma iso_steps_map: "iso_steps env steps = Ok (map (iso_image env) steps)"
  by (induction steps) (simp_all add: iso_step_image)

lemma iso_image_idem [simp]: "iso_image env (iso_image env step) = iso_image env step"
  by (simp add: iso_image_def)

lemma map_iso_image_idem [simp]:
  "map (iso_image env) (map (iso_image env) steps) = map (iso_image env) steps"
  by simp

text \<open>The steps of a task as the operator deploys them; \<open>None\<close> when assigning them panics.\<close>

definition deployed_steps :: "environ \<Rightarrow> string \<Rightarrow> step list \<Rightarrow> step list option" where
  "deployed_steps env name steps =
     (if name = modifyWindowsVMIsoFileName then Some (map (iso_image env) steps)
      else case AllowedTasks name of None \<Rightarrow> None
        | Some f \<Rightarrow> (case steps of [] \<Rightarrow> None
            | step # steps \<Rightarrow> Some (step\<lparr>step_image := f env\<rparr> # steps)))"

lemma deployed_steps_idem:
  "deployed_steps env name steps = Some steps' \<Longrightarrow> deployed_steps env name steps' = Some steps'"
  by (auto simp: deployed_steps_def split: if_splits option.splits list.splits)

lemma assign_images_Ok_iff:
  "assign_images env x = (Ok (), x') \<longleftrightarrow>
     (\<exists>spec steps. o_body x = TaskBody spec \<and>
        deployed_steps env (m_name (o_meta x)) (ts_steps spec) = Some steps \<and>
        x' = x\<lparr>o_body := TaskBody (spec\<lparr>ts_steps := steps\<rparr>)\<rparr>)"
  by (auto simp: assign_images_def deployed_steps_def iso_steps_map call_AllowedTask_def
      split: body.splits option.splits list.splits if_splits)

lemma assign_images_Err: "assign_images env x \<noteq> (Err e, x')"
  by (auto simp: assign_images_def iso_steps_map call_AllowedTask_def
      split: body.splits option.splits list.splits if_splits)

section \<open>Preparing a task\<close>

text \<open>The object prepared for deployment, when preparing it does not panic.\<close>

definition prepared_task :: "environ \<Rightarrow> TektonTasks \<Rightarrow> object \<Rightarrow> object option" where
  "prepared_task env inst x =
     (case o_body x of
        TaskBody spec \<Rightarrow>
          (case (deployed_steps env (m_name (o_meta x)) (ts_steps spec), m_labels (o_meta x)) of
             (Some steps, Some labels) \<Rightarrow>
               Some (x\<lparr>o_meta := (o_meta x)\<lparr>m_namespace := task_namespace inst,
                          m_labels := Some (fmupd TektonTasksVersionLabel TektonTasksVersion labels)\<rparr>,
                       o_body := TaskBody (spec\<lparr>ts_steps := steps\<rparr>)\<rparr>)
           | _ \<Rightarrow> None)
      | _ \<Rightarrow> None)"

lemma prepare_task_Ok_iff:
  "prepare_task env inst x = (Ok (), x') \<longleftrightarrow> prepared_task env inst x = Some x'"
proof -
  let ?x = "set_namespace (task_namespace inst) x"
  have "prepare_task env inst x = (Ok (), x') \<longleftrightarrow>
      (\<exists>x1. assign_images env ?x = (Ok (), x1) \<and> set_version_label x1 = (Ok (), x'))"
    by (auto simp: prepare_task_def bind_outcome_Ok_iff)
  also have "\<dots> \<longleftrightarrow> prepared_task env inst x = Some x'"
    unfolding assign_images_Ok_iff
    by (auto simp: prepared_task_def set_namespace_def set_version_label_def upd_meta_def
        split: body.splits option.splits)
  finally show ?thesis .
qed

lemma version_label_other [simp]:
  "TektonTasksVersionLabel \<noteq> AppKubernetesManagedByLabel"
  "TektonTasksVersionLabel \<noteq> AppKubernetesComponentLabel"
  "TektonTasksVersionLabel \<noteq> AppKubernetesNameLabel"
  "TektonTasksVersionLabel \<noteq> AppKubernetesPartOfLabel"
  "TektonTasksVersionLabel \<noteq> AppKubernetesVersionLabel"
  by (simp_all add: TektonTasksVersionLabel_def label_defs)

lemma prepared_task_SomeE:
  assumes "prepared_task env inst x = Some x1"
  obtains spec steps labels where "o_body x = TaskBody spec" "m_labels (o_meta x) = Some labels"
    "deployed_steps env (m_name (o_meta x)) (ts_steps spec) = Some steps"
    "x1 = x\<lparr>o_meta := (o_meta x)\<lparr>m_namespace := task_namespace inst,
              m_labels := Some (fmupd TektonTasksVersionLabel TektonTasksVersion labels)\<rparr>,
            o_body := TaskBody (spec\<lparr>ts_steps := steps\<rparr>)\<rparr>"
  using assms by (auto simp: prepared_task_def split: body.splits option.splits)

lemma fmupd_same: "fmlookup l k = Some v \<Longrightarrow> fmupd k v l = l"
  by (intro fmap_ext) auto

lemma prepare_task_stable:
  assumes "prepare_task env inst x = (Ok (), x1)" and "o_body r = o_body x1"
    and "object_key_of r = object_key_of x1"
    and "m_labels (o_meta r) = m_labels (o_meta (AddAppLabels inst n c x1))"
  shows "prepare_task env inst r = (Ok (), r)"
proof -
  from assms(1) have "prepared_task env inst x = Some x1" by (simp add: prepare_task_Ok_iff)
  then obtain spec steps labels where x1: "o_body x = TaskBody spec" "m_labels (o_meta x) = Some labels"
    "deployed_steps env (m_name (o_meta x)) (ts_steps spec) = Some steps"
    "x1 = x\<lparr>o_meta := (o_meta x)\<lparr>m_namespace := task_namespace inst,
              m_labels := Some (fmupd TektonTasksVersionLabel TektonTasksVersion labels)\<rparr>,
            o_body := TaskBody (spec\<lparr>ts_steps := steps\<rparr>)\<rparr>"
    by (rule prepared_task_SomeE)
  have "m_labels (o_meta r) \<noteq> None" unfolding assms(4) by simp
  then obtain l where l: "m_labels (o_meta r) = Some l" by blast
  have "smap_get (m_labels (o_meta r)) TektonTasksVersionLabel = Some TektonTasksVersion"
    unfolding assms(4) AddAppLabels_lookup by (simp add: x1(4))
  then have lv: "fmupd TektonTasksVersionLabel TektonTasksVersion l = l"
    using l fmupd_same by simp
  have key: "m_namespace (o_meta r) = task_namespace inst" "m_name (o_meta r) = m_name (o_meta x)"
    using assms(3) by (simp_all add: object_key_of_def x1(4))
  have "prepared_task env inst r = Some r"
    using assms(2) deployed_steps_idem [OF x1(3)] l lv key
    by (simp add: prepared_task_def x1(4))
  then show ?thesis by (simp add: prepare_task_Ok_iff)
qed

text \<open>
  C21. Preparing a task for deployment succeeds exactly for a task that is one of the
  operator's, has labels and (unless it is \<open>modify-windows-iso-file\<close>) has a step; every other
  input makes the operator panic, never return an error. A prepared task differs from the
  bundle's in its namespace, its version label and its images only, and preparing it again
  changes nothing.
\<close>

theorem prepare_task_spec:
  "(fst (prepare_task env inst x) = Ok () \<longleftrightarrow> prepared_task env inst x \<noteq> None) \<and>
   (\<forall>e x'. prepare_task env inst x \<noteq> (Err e, x')) \<and>
   (case prepared_task env inst x of
      Some x' \<Rightarrow> prepare_task env inst x = (Ok (), x') \<and> prepare_task env inst x' = (Ok (), x') \<and>
        object_key_of x' = (task_namespace inst, m_name (o_meta x))
    | None \<Rightarrow> (\<exists>p x'. prepare_task env inst x = (Panic p, x')))"
proof -
  have err: "prepare_task env inst x \<noteq> (Err e, x')" for e x'
    using assign_images_Err
    by (auto simp: prepare_task_def bind_outcome_def set_version_label_def
        split: prod.splits outcome.splits option.splits)
  show ?thesis
  proof (cases "prepared_task env inst x")
    case None
    obtain q x' where q: "prepare_task env inst x = (q, x')" by (cases "prepare_task env inst x")
    with None have "q \<noteq> Ok ()" using prepare_task_Ok_iff [of env inst x x'] by auto
    with err q show ?thesis using None by (cases q) auto
  next
    case (Some x')
    then have p: "prepare_task env inst x = (Ok (), x')" by (simp add: prepare_task_Ok_iff)
    from Some have "prepared_task env inst x' = Some x'"
      by (rule prepared_task_SomeE)
        (auto simp: prepared_task_def deployed_steps_idem fmupd_same)
    then have "prepare_task env inst x' = (Ok (), x')" by (simp add: prepare_task_Ok_iff)
    moreover from Some have "object_key_of x' = (task_namespace inst, m_name (o_meta x))"
      by (rule prepared_task_SomeE) (simp add: object_key_of_def)
    ultimately show ?thesis using Some p err by simp
  qed
qed

section \<open>What the operand keeps\<close>

text \<open>
  C22. The operand keeps, in their order, exactly the objects of the bundle that belong to a
  task it knows an image for: tasks by their name, service accounts, role bindings and
  cluster roles by their name without the suffix \<open>-task\<close>. So no task it reconciles lacks an
  image.
\<close>

theorem tt_New_keeps_allowed:
  "tt_tasks (tt_New b) = filter (\<lambda>x. m_name (o_meta x) \<in> dom AllowedTasks) (Bundle_Tasks b) \<and>
   tt_serviceAccounts (tt_New b) =
     filter (\<lambda>x. \<exists>n \<in> dom AllowedTasks. m_name (o_meta x) = n @ ''-task'' \<or>
                   m_name (o_meta x) = n) (Bundle_ServiceAccounts b) \<and>
   tt_roleBindings (tt_New b) =
     filter (\<lambda>x. \<exists>n \<in> dom AllowedTasks. m_name (o_meta x) = n @ ''-task'' \<or>
                   m_name (o_meta x) = n) (Bundle_RoleBindings b) \<and>
   tt_clusterRoles (tt_New b) =
     filter (\<lambda>x. \<exists>n \<in> dom AllowedTasks. m_name (o_meta x) = n @ ''-task'' \<or>
                   m_name (o_meta x) = n) (Bundle_ClusterRoles b) \<and>
   list_all (\<lambda>x. call_AllowedTask env (m_name (o_meta x)) \<noteq> Panic nil_deref_panic) (tt_tasks (tt_New b))"
proof -
  have no_suffix: "n \<in> dom AllowedTasks \<Longrightarrow> \<not> has_suffix n ''-task''" for n
    by (auto simp: AllowedTasks_def task_name_defs has_suffix_def split: if_splits)
  have trim: "allowed_name (trim_suffix m ''-task'') \<longleftrightarrow>
      (\<exists>n \<in> dom AllowedTasks. m = n @ ''-task'' \<or> m = n)" for m
  proof
    assume "allowed_name (trim_suffix m ''-task'')"
    then have "trim_suffix m ''-task'' \<in> dom AllowedTasks" by (auto simp: allowed_name_def)
    then show "\<exists>n \<in> dom AllowedTasks. m = n @ ''-task'' \<or> m = n"
      using trim_suffix_cases [of m "''-task''"] by metis
  next
    assume "\<exists>n \<in> dom AllowedTasks. m = n @ ''-task'' \<or> m = n"
    then obtain n where n: "n \<in> dom AllowedTasks" "m = n @ ''-task'' \<or> m = n" by blast
    then have "trim_suffix m ''-task'' = n" using no_suffix [OF n(1)] by (auto simp: trim_suffix_def)
    then show "allowed_name (trim_suffix m ''-task'')" using n(1) by (auto simp: allowed_name_def)
  qed
  have allowed: "allowed_name n \<longleftrightarrow> n \<in> dom AllowedTasks" for n
    by (auto simp: allowed_name_def)
  have "list_all (\<lambda>x. call_AllowedTask env (m_name (o_meta x)) \<noteq> Panic nil_deref_panic)
      (filter (\<lambda>x. m_name (o_meta x) \<in> dom AllowedTasks) (Bundle_Tasks b))"
    by (auto simp: list_all_iff call_AllowedTask_def)
  then show ?thesis
    unfolding tt_New_def filterUnusedObjects_def trim by (simp add: allowed)
qed

section \<open>The operand's closures meet the contract\<close>

lemma tt_builder_operand: "operand_builder (tt_builder f)"
  by (cases f) (simp_all add: operand_builder_def tt_builder_def builder_defs)

lemma tt_builder_update: "updateFunc (tt_builder (Some f)) = f"
  by (simp add: tt_builder_def builder_defs)

lemma tt_builder_None: "updateFunc (tt_builder None) = (\<lambda>e f. (Ok f, e))"
  by (simp add: tt_builder_def builder_defs)

interpretation tt_task: operand_closure fake_client fake_view fake_healthy update_task Task False
  "\<lambda>e f. e" id inst "tt_builder (Some update_task)" "prepare_task env inst" for inst env
proof (unfold_locales, goal_cases)
  case (8 x x1)
  then show ?case
    by (auto simp: prepare_task_Ok_iff o_rtype_def elim!: prepared_task_SomeE)
next
  case (9 x x1 r)
  then show ?case using prepare_task_stable by simp
qed (auto simp: o_rtype_def body_rtype_cases tt_builder_operand tt_builder_update)

interpretation tt_role: operand_closure fake_client fake_view fake_healthy update_cluster_role ClusterRole False
  merge_cluster_role id inst "tt_builder (Some update_cluster_role)" "\<lambda>x. (Ok (), x)" for inst
  by unfold_locales (auto simp: o_rtype_def body_rtype_cases tt_builder_operand tt_builder_update merge_cluster_role_def)

interpretation tt_account: operand_closure fake_client fake_view fake_healthy "\<lambda>e f. (Ok f, e)" ServiceAccount False
  "\<lambda>e f. f" id inst "tt_builder None" "prepare_instance_namespace inst" for inst
  by unfold_locales (auto simp: o_rtype_def body_rtype_cases tt_builder_operand tt_builder_None
      prepare_instance_namespace_def set_namespace_def object_key_of_def upd_meta_def)

interpretation tt_binding: operand_closure fake_client fake_view fake_healthy update_role_binding RoleBinding False
  "\<lambda>e f. e" id inst "tt_builder (Some update_role_binding)" "prepare_instance_namespace inst" for inst
  by unfold_locales (auto simp: o_rtype_def body_rtype_cases tt_builder_operand tt_builder_update
      prepare_instance_namespace_def set_namespace_def object_key_of_def upd_meta_def)

section \<open>The whole operand\<close>

datatype tt_slot = TaskAt nat | RoleAt nat | AccountAt nat | BindingAt nat

fun tt_elem :: "tt_slot \<Rightarrow> tektonTasks \<Rightarrow> object" where
  "tt_elem (TaskAt i) t = tt_tasks t ! i"
| "tt_elem (RoleAt i) t = tt_clusterRoles t ! i"
| "tt_elem (AccountAt i) t = tt_serviceAccounts t ! i"
| "tt_elem (BindingAt i) t = tt_roleBindings t ! i"

fun tt_put :: "tt_slot \<Rightarrow> object \<Rightarrow> tektonTasks \<Rightarrow> tektonTasks" where
  "tt_put (TaskAt i) x t = t\<lparr>tt_tasks := (tt_tasks t)[i := x]\<rparr>"
| "tt_put (RoleAt i) x t = t\<lparr>tt_clusterRoles := (tt_clusterRoles t)[i := x]\<rparr>"
| "tt_put (AccountAt i) x t = t\<lparr>tt_serviceAccounts := (tt_serviceAccounts t)[i := x]\<rparr>"
| "tt_put (BindingAt i) x t = t\<lparr>tt_roleBindings := (tt_roleBindings t)[i := x]\<rparr>"

fun tt_in_range :: "tektonTasks \<Rightarrow> tt_slot \<Rightarrow> bool" where
  "tt_in_range t (TaskAt i) = (i < length (tt_tasks t))"
| "tt_in_range t (RoleAt i) = (i < length (tt_clusterRoles t))"
| "tt_in_range t (AccountAt i) = (i < length (tt_serviceAccounts t))"
| "tt_in_range t (BindingAt i) = (i < length (tt_roleBindings t))"

interpretation tt_slots: operand_slots tt_elem tt_put tt_in_range
proof (unfold_locales, goal_cases)
  case (1 t j x) then show ?case by (cases j) auto
next
  case (2 j j' x t) then show ?case by (cases j; cases j') auto
next
  case (3 j x t j') show ?case by (cases j; cases j') auto
next
  case (4 t j) then show ?case by (cases j) auto
qed

definition tt_slots_of :: "tektonTasks \<Rightarrow> tt_slot list" where
  "tt_slots_of t = map TaskAt [0..<length (tt_tasks t)] @ map RoleAt [0..<length (tt_clusterRoles t)]
     @ map AccountAt [0..<length (tt_serviceAccounts t)] @ map BindingAt [0..<length (tt_roleBindings t)]"

lemma tt_slots_of_distinct: "distinct (tt_slots_of t)"
  by (auto simp: tt_slots_of_def distinct_map inj_on_def)

lemma tt_slots_of_range: "j \<in> set (tt_slots_of t) \<longleftrightarrow> tt_in_range t j"
  by (cases j) (auto simp: tt_slots_of_def)

lemma tt_slots_of_cong:
  assumes "\<forall>j. tt_in_range t' j = tt_in_range t j"
  shows "tt_slots_of t' = tt_slots_of t"
proof -
  have eq: "m = n" if "\<And>i. i < m \<longleftrightarrow> i < (n :: nat)" for m n
    using that [of m] that [of n] by auto
  show ?thesis
    using assms [rule_format, of "TaskAt _"] assms [rule_format, of "RoleAt _"]
      assms [rule_format, of "AccountAt _"] assms [rule_format, of "BindingAt _"]
    by (simp add: tt_slots_of_def eq [of "length (tt_tasks t')" "length (tt_tasks t)"]
        eq [of "length (tt_clusterRoles t')" "length (tt_clusterRoles t)"]
        eq [of "length (tt_serviceAccounts t')" "length (tt_serviceAccounts t)"]
        eq [of "length (tt_roleBindings t')" "length (tt_roleBindings t)"])
qed

fun tt_func :: "'w client \<Rightarrow> environ \<Rightarrow> TektonTasks \<Rightarrow> tt_slot \<Rightarrow> 'w element_func" where
  "tt_func cl env inst (TaskAt i) =
     reconcile_element cl inst (prepare_task env inst) (tt_builder (Some update_task))"
| "tt_func cl env inst (RoleAt i) =
     reconcile_element cl inst (\<lambda>x. (Ok (), x)) (tt_builder (Some update_cluster_role))"
| "tt_func cl env inst (AccountAt i) =
     reconcile_element cl inst (prepare_instance_namespace inst) (tt_builder None)"
| "tt_func cl env inst (BindingAt i) =
     reconcile_element cl inst (prepare_instance_namespace inst) (tt_builder (Some update_role_binding))"

lemma tt_slot_func:
  "tt_slots.slot_func (tt_func cl env inst) (TaskAt i) =
     at_index tt_tasks tt_tasks_update i
       (reconcile_element cl inst (prepare_task env inst) (tt_builder (Some update_task)))"
  "tt_slots.slot_func (tt_func cl env inst) (RoleAt i) =
     at_index tt_clusterRoles tt_clusterRoles_update i
       (reconcile_element cl inst (\<lambda>x. (Ok (), x)) (tt_builder (Some update_cluster_role)))"
  "tt_slots.slot_func (tt_func cl env inst) (AccountAt i) =
     at_index tt_serviceAccounts tt_serviceAccounts_update i
       (reconcile_element cl inst (prepare_instance_namespace inst) (tt_builder None))"
  "tt_slots.slot_func (tt_func cl env inst) (BindingAt i) =
     at_index tt_roleBindings tt_roleBindings_update i
       (reconcile_element cl inst (prepare_instance_namespace inst) (tt_builder (Some update_role_binding)))"
  by (auto simp: tt_slots.slot_func_def at_index_def fun_eq_iff split: prod.splits)

lemma tt_Reconcile_slots:
  "tt_Reconcile cl env inst (t, s) =
     bind_outcome (CollectResourceStatus (map (tt_slots.slot_func (tt_func cl env inst)) (tt_slots_of t)) (t, s))
       (\<lambda>results st. (Ok results, (fst st, log_reverted ''Changes reverted in tekton tasks: ''
                                   (isUpgradingNow env inst) results (snd st))))"
  by (simp add: tt_Reconcile_def tt_slots_of_def tt_slot_func reconcileTektonTasksFuncs_def
      tt_reconcileClusterRoleFuncs_def tt_reconcileServiceAccountsFuncs_def
      tt_reconcileRoleBindingFuncs_def Let_def comp_def)

fun tt_slot_type :: "tt_slot \<Rightarrow> rtype" where
  "tt_slot_type (TaskAt i) = Task" | "tt_slot_type (RoleAt i) = ClusterRole"
| "tt_slot_type (AccountAt i) = ServiceAccount" | "tt_slot_type (BindingAt i) = RoleBinding"

fun tt_prepared :: "environ \<Rightarrow> TektonTasks \<Rightarrow> tt_slot \<Rightarrow> object \<Rightarrow> object option" where
  "tt_prepared env inst (TaskAt i) x = prepared_task env inst x"
| "tt_prepared env inst (RoleAt i) x = Some x"
| "tt_prepared env inst (AccountAt i) x = Some (set_namespace (m_namespace (tt_meta inst)) x)"
| "tt_prepared env inst (BindingAt i) x = Some (set_namespace (m_namespace (tt_meta inst)) x)"

definition tt_target :: "environ \<Rightarrow> TektonTasks \<Rightarrow> tektonTasks \<Rightarrow> tt_slot \<Rightarrow> rtype \<times> object_key" where
  "tt_target env inst t j =
     (tt_slot_type j, case tt_prepared env inst j (tt_elem j t) of None \<Rightarrow> ('''', '''') | Some x \<Rightarrow> object_key_of x)"

text \<open>
  An operand that can be deployed: every element has the Go type of its list and a name, no
  task makes its preparation panic, and no two objects share a type, namespace and name.
\<close>

definition tt_deployable :: "environ \<Rightarrow> TektonTasks \<Rightarrow> tektonTasks \<Rightarrow> bool" where
  "tt_deployable env inst t \<longleftrightarrow>
     list_all (\<lambda>j. tt_prepared env inst j (tt_elem j t) \<noteq> None \<and> o_rtype (tt_elem j t) = tt_slot_type j \<and>
                   m_name (o_meta (tt_elem j t)) \<noteq> '''') (tt_slots_of t) \<and>
     distinct (map (tt_target env inst t) (tt_slots_of t))"

text \<open>The stored object carries what the element \<open>x\<close> wants.\<close>

fun tt_body_ok :: "tt_slot \<Rightarrow> object \<Rightarrow> object \<Rightarrow> bool" where
  "tt_body_ok (TaskAt i) x y = (o_body y = o_body x)"
| "tt_body_ok (RoleAt i) x y =
     (case (o_body x, o_body y) of (ClusterRoleBody rules _, ClusterRoleBody rules' _) \<Rightarrow> rules' = rules | _ \<Rightarrow> False)"
| "tt_body_ok (AccountAt i) x y = True"
| "tt_body_ok (BindingAt i) x y = (o_body y = o_body x)"

definition tt_deployed :: "TektonTasks \<Rightarrow> tt_slot \<Rightarrow> object \<Rightarrow> object \<Rightarrow> bool" where
  "tt_deployed inst j x y \<longleftrightarrow>
     owner_marked inst y \<and> m_ownerReferences (o_meta y) = [] \<and>
     time_is_zero (m_deletionTimestamp (o_meta y)) \<and>
     smap_sub (m_labels (o_meta (AddAppLabels inst tt_operandName tt_operandComponent x))) (m_labels (o_meta y)) \<and>
     tt_body_ok j x y"

lemma tt_builder_names: "operandName (tt_builder f) = tt_operandName" "operandComponent (tt_builder f) = tt_operandComponent"
  by (cases f; simp add: tt_builder_def builder_defs)+

lemma tt_func_deploys:
  assumes inst: "m_name (tt_meta inst) \<noteq> ''''" "tt_kind inst \<noteq> ''''"
    and x: "tt_prepared env inst j x = Some x1" "o_rtype x = tt_slot_type j" "m_name (o_meta x) \<noteq> ''''"
  shows "deploys fake_view fake_healthy (tt_func fake_client env inst j) (tt_slot_type j) (object_key_of x1)
           (tt_deployed inst j x1) x"
proof (cases j)
    case (TaskAt i)
    with x have p: "prepare_task env inst x = (Ok (), x1)" "o_rtype x = Task" "m_name (o_meta x) \<noteq> ''''"
      by (simp_all add: prepare_task_Ok_iff)
    from x(1) TaskAt obtain spec where b: "o_body x1 = TaskBody spec"
      by (auto elim!: prepared_task_SomeE)
    show ?thesis
      using deploys_mono [OF tt_task.closure_deploys [OF inst p]] TaskAt
      by (auto simp: deployed_as_def tt_deployed_def tt_builder_names b body_norm_eq_simps)
  next
    case (RoleAt i)
    with x have p: "o_rtype x = ClusterRole" "x1 = x" by simp_all
    then obtain u v where b: "o_body x = ClusterRoleBody u v" by (auto simp: o_rtype_def body_rtype_cases)
    have "tt_deployed inst (RoleAt i) x y"
      if "deployed_as False merge_cluster_role id inst (tt_builder (Some update_cluster_role)) x y" for y
      using that b
      by (auto simp: deployed_as_def tt_deployed_def tt_builder_names merge_cluster_role_def o_rtype_def
          body_rtype_cases)
    then show ?thesis
      using deploys_mono [OF tt_role.closure_deploys [OF inst refl p(1) x(3)]] RoleAt p(2) by simp
  next
    case (AccountAt i)
    with x have p: "o_rtype x = ServiceAccount" "x1 = set_namespace (m_namespace (tt_meta inst)) x" by simp_all
    have q: "prepare_instance_namespace inst x = (Ok (), x1)" by (simp add: prepare_instance_namespace_def p)
    show ?thesis
      using deploys_mono [OF tt_account.closure_deploys [OF inst q p(1) x(3)]] AccountAt
      by (auto simp: deployed_as_def tt_deployed_def tt_builder_names)
  next
    case (BindingAt i)
    with x have p: "o_rtype x = RoleBinding" "x1 = set_namespace (m_namespace (tt_meta inst)) x" by simp_all
    have q: "prepare_instance_namespace inst x = (Ok (), x1)" by (simp add: prepare_instance_namespace_def p)
    obtain u v where b: "o_body x1 = RoleBindingBody u v"
      using p by (auto simp: o_rtype_def body_rtype_cases set_namespace_def)
    show ?thesis
      using deploys_mono [OF tt_binding.closure_deploys [OF inst q p(1) x(3)]] BindingAt
      by (auto simp: deployed_as_def tt_deployed_def tt_builder_names b body_norm_eq_simps)
qed

text \<open>What the operand wants stored for a slot: the element as it was prepared.\<close>

definition tt_wants :: "environ \<Rightarrow> TektonTasks \<Rightarrow> tektonTasks \<Rightarrow> tt_slot \<Rightarrow> object \<Rightarrow> bool" where
  "tt_wants env inst t j y \<longleftrightarrow> (\<exists>x. tt_prepared env inst j (tt_elem j t) = Some x \<and>
     object_key_of x = snd (tt_target env inst t j) \<and> tt_deployed inst j x y)"

interpretation tt_run: operand_deployment tt_elem tt_put tt_in_range fake_view fake_healthy tt_slots_of
  "tt_func fake_client env inst" "tt_target env inst" "tt_wants env inst"
  "log_reverted ''Changes reverted in tekton tasks: '' (isUpgradingNow env inst)" "tt_Reconcile fake_client env inst"
  for env inst
  by unfold_locales (auto simp: tt_slots_of_distinct tt_slots_of_range tt_Reconcile_slots intro: tt_slots_of_cong)

lemma tt_ready_start:
  assumes "m_name (tt_meta inst) \<noteq> ''''" and "tt_kind inst \<noteq> ''''" and "tt_deployable env inst t"
    and "list_all (\<lambda>j. fresh_at v vc (fst (tt_target env inst t j)) (snd (tt_target env inst t j))) (tt_slots_of t)"
  shows "tt_run.ready_in env inst t t v vc"
proof (rule tt_run.ready_start)
  show "inj_on (tt_target env inst t) (set (tt_slots_of t))"
    using assms(3) by (simp add: tt_deployable_def distinct_map)
  fix j assume j: "j \<in> set (tt_slots_of t)"
  with assms(3) obtain x where x: "tt_prepared env inst j (tt_elem j t) = Some x"
    "o_rtype (tt_elem j t) = tt_slot_type j" "m_name (o_meta (tt_elem j t)) \<noteq> ''''"
    unfolding tt_deployable_def list_all_iff by blast
  have k: "tt_target env inst t j = (tt_slot_type j, object_key_of x)" by (simp add: tt_target_def x(1))
  have "deploys fake_view fake_healthy (tt_func fake_client env inst j) (tt_slot_type j) (object_key_of x)
      (tt_wants env inst t j) (tt_elem j t)"
    by (rule deploys_mono [OF tt_func_deploys [OF assms(1,2) x]]) (simp add: tt_wants_def x(1) k)
  moreover have "fresh_at v vc (fst (tt_target env inst t j)) (snd (tt_target env inst t j))"
    using assms(4) j by (simp add: list_all_iff)
  ultimately show "deploys fake_view fake_healthy (tt_func fake_client env inst j) (fst (tt_target env inst t j))
      (snd (tt_target env inst t j)) (tt_wants env inst t j) (tt_elem j t) \<and>
      fresh_at v vc (fst (tt_target env inst t j)) (snd (tt_target env inst t j))"
    by (simp add: k)
qed

lemma tt_settled_stored:
  assumes "tt_run.settled_in env inst t t' v" and "j \<in> set (tt_slots_of t)"
  shows "\<exists>x y. tt_prepared env inst j (tt_elem j t) = Some x \<and>
     v (tt_slot_type j) (object_key_of x) = Some y \<and> tt_deployed inst j x y"
proof -
  obtain y where y: "v (fst (tt_target env inst t j)) (snd (tt_target env inst t j)) = Some y" "tt_wants env inst t j y"
    using tt_run.settled_wants [OF assms] by blast
  then obtain x where "tt_prepared env inst j (tt_elem j t) = Some x" "tt_deployed inst j x y"
    unfolding tt_wants_def by blast
  then show ?thesis using y(1) by (simp add: tt_target_def)
qed

lemma tt_reconcile_run:
  assumes "fake_healthy (world s)" and "cache_wf (vcache s)"
    and "m_name (tt_meta inst) \<noteq> ''''" and "tt_kind inst \<noteq> ''''"
    and "tt_deployable env inst t"
    and "list_all (\<lambda>j. fresh_at (fake_view (world s)) (vcache s)
           (fst (tt_target env inst t j)) (snd (tt_target env inst t j))) (tt_slots_of t)"
  shows "\<exists>results t' s'. tt_Reconcile fake_client env inst (t, s) = (Ok results, (t', s')) \<and>
     length results = length (tt_slots_of t) \<and> list_all IsSuccess results \<and> fake_healthy (world s') \<and>
     (\<forall>j \<in> set (tt_slots_of t). \<exists>x y. tt_prepared env inst j (tt_elem j t) = Some x \<and>
        fake_view (world s') (tt_slot_type j) (object_key_of x) = Some y \<and> tt_deployed inst j x y) \<and>
     (\<forall>rt k. (rt, k) \<notin> tt_target env inst t ` set (tt_slots_of t) \<longrightarrow>
        fake_view (world s') rt k = fake_view (world s) rt k) \<and>
     (\<exists>results2 s2. tt_Reconcile fake_client env inst (t', s') = (Ok results2, (t', s2)) \<and>
        world s2 = world s' \<and>
        list_all (\<lambda>res. IsSuccess res \<and> rr_OperationResult res = OperationResultNone) results2)"
proof -
  obtain results t' s' where 1: "tt_Reconcile fake_client env inst (t, s) = (Ok results, (t', s'))"
      "length results = length (tt_slots_of t)" "list_all IsSuccess results" "fake_healthy (world s')"
      "\<forall>rt k. (rt, k) \<notin> tt_target env inst t ` set (tt_slots_of t) \<longrightarrow>
        fake_view (world s') rt k = fake_view (world s) rt k \<and>
        fmlookup (vcache s') (object_cache_key rt k) = fmlookup (vcache s) (object_cache_key rt k)"
      "tt_run.settled_in env inst t t' (fake_view (world s'))"
    using tt_run.run_ready [OF assms(1,2) tt_ready_start [OF assms(3-6)]] by blast
  show ?thesis
    using 1(1-5) tt_settled_stored [OF 1(6)] tt_run.run_settled [OF 1(4,6)] by blast
qed

text \<open>
  C11. One reconciliation of the tekton-tasks operand on a healthy API server, from an empty or
  outdated cluster and a cold cache: it succeeds with a successful result for every object,
  stores each task, cluster role, service account and role binding the way it was prepared
  (owner annotations, labels, images, namespace), touches no other object, and a second
  reconciliation reports no operation and leaves the cluster as it is.
\<close>

theorem tt_Reconcile_converges:
  assumes "fake_healthy (world s)" and "cache_wf (vcache s)"
    and "m_name (tt_meta inst) \<noteq> ''''" and "tt_kind inst \<noteq> ''''"
    and "tt_deployable env inst t"
    and "list_all (\<lambda>j. fresh_at (fake_view (world s)) (vcache s)
           (fst (tt_target env inst t j)) (snd (tt_target env inst t j))) (tt_slots_of t)"
  shows "\<exists>results t' s'. tt_Reconcile fake_client env inst (t, s) = (Ok results, (t', s')) \<and>
     length results = length (tt_slots_of t) \<and> list_all IsSuccess results \<and> fake_healthy (world s') \<and>
     (\<forall>j \<in> set (tt_slots_of t). \<exists>x y. tt_prepared env inst j (tt_elem j t) = Some x \<and>
        fake_view (world s') (tt_slot_type j) (object_key_of x) = Some y \<and> tt_deployed inst j x y) \<and>
     (\<forall>rt k. (rt, k) \<notin> tt_target env inst t ` set (tt_slots_of t) \<longrightarrow>
        fake_view (world s') rt k = fake_view (world s) rt k) \<and>
     (\<exists>results2 s2. tt_Reconcile fake_client env inst (t', s') = (Ok results2, (t', s2)) \<and>
        world s2 = world s' \<and>
        list_all (\<lambda>res. IsSuccess res \<and> rr_OperationResult res = OperationResultNone) results2)"
  using tt_reconcile_run [OF assms] by (elim ex_forward) blast

definition sample_tasks_operand :: tektonTasks where
  "sample_tasks_operand = \<lparr>tt_tasks = [sample_task, sample_iso_task], tt_serviceAccounts = [sample_account],
     tt_roleBindings = [sample_binding], tt_clusterRoles = [sample_role]\<rparr>"

lemma sample_tasks_slots:
  "tt_slots_of sample_tasks_operand = [TaskAt 0, TaskAt 1, RoleAt 0, AccountAt 0, BindingAt 0]"
  by (simp add: tt_slots_of_def sample_tasks_operand_def upt_rec)

lemma sample_tasks_deployable: "tt_deployable sample_env sample_tt sample_tasks_operand"
  unfolding tt_deployable_def sample_tasks_slots
  by (simp add: tt_target_def sample_tasks_operand_def
      prepared_task_def deployed_steps_def AllowedTasks_def task_name_defs sample_defs o_rtype_def
      empty_meta_def task_namespace_def set_namespace_def object_key_of_def)

theorem tt_Reconcile_converges_witness:
  "\<exists>results t' s'. tt_Reconcile fake_client sample_env sample_tt
     (sample_tasks_operand, sample_sys empty_cluster) = (Ok results, (t', s')) \<and> length results = 5"
  using tt_Reconcile_converges [OF _ _ _ _ sample_tasks_deployable, of "sample_sys empty_cluster"]
  by (auto simp: sample_tasks_slots fresh_at_def)

end
