(* ===== verification/Tekton_Pipelines_Deploy.thy ===== *)
theory Tekton_Pipelines_Deploy
  imports Tekton_Pipelines_Operand Operand_Contract Samples
begin

text \<open>
  What the tekton-pipelines operand guarantees: on a healthy API server one reconciliation
  deploys its objects, with the default of every \<open>virtioContainer\<close> parameter set, and the next
  one changes nothing; the \<open>pipeline\<close> service account is deployed in
  \<open>openshift-\<close> and \<open>kube-\<close> namespaces only.
\<close>

section \<open>The operand's closures meet the contract\<close>

lemma tp_builder_operand: "operand_builder (tp_builder f)"
  by (simp add: operand_builder_def tp_builder_def builder_defs)

lemma tp_builder_simps [simp]:
  "updateFunc (tp_builder f) = f" "operandName (tp_builder f) = tp_operandName"
  "operandComponent (tp_builder f) = tp_operandComponent"
  by (simp_all add: tp_builder_def builder_defs)

lemma virtio_param_idem [simp]: "virtio_param env (virtio_param env p) = virtio_param env p"
  by (simp add: virtio_param_def)

lemma virtio_spec_idem [simp]: "virtio_spec env (virtio_spec env s) = virtio_spec env s"
  by (simp add: virtio_spec_def comp_def)

definition virtio_body :: "environ \<Rightarrow> body \<Rightarrow> body" where
  "virtio_body env c = (case c of PipelineBody spec \<Rightarrow> PipelineBody (virtio_spec env spec) | _ \<Rightarrow> c)"

definition merge_config_map :: "body \<Rightarrow> body \<Rightarrow> body" where
  "merge_config_map e f =
     (case (e, f) of (ConfigMapBody data _, ConfigMapBody _ rest) \<Rightarrow> ConfigMapBody data rest | _ \<Rightarrow> f)"

lemma virtio_body_simps [simp]:
  "virtio_body env (PipelineBody spec) = PipelineBody (virtio_spec env spec)"
  "virtio_body env (virtio_body env c) = virtio_body env c"
  "body_rtype (virtio_body env c) = body_rtype c"
  by (auto simp: virtio_body_def split: body.splits)

lemmas tp_prepare_defs = prepare_pipelines_namespace_def prepare_service_account_def
  prepare_role_binding_def default_namespace_def Let_def

interpretation tp_pipeline: operand_closure fake_client fake_view fake_healthy "update_pipeline env" Pipeline False
  "\<lambda>e f. virtio_body env e" "virtio_body env" inst "tp_builder (update_pipeline env)"
  "prepare_pipelines_namespace inst" for env inst
  by unfold_locales (auto simp: o_rtype_def body_rtype_cases tp_builder_operand tp_prepare_defs
      object_key_of_def upd_meta_def)

interpretation tp_config: operand_closure fake_client fake_view fake_healthy update_config_map ConfigMap False
  merge_config_map id inst "tp_builder update_config_map" "prepare_pipelines_namespace inst" for inst
  by unfold_locales (auto simp: o_rtype_def body_rtype_cases tp_builder_operand tp_prepare_defs
      object_key_of_def upd_meta_def merge_config_map_def)

interpretation tp_account: operand_closure fake_client fake_view fake_healthy update_service_account ServiceAccount True
  "\<lambda>e f. f" id inst "tp_builder update_service_account" "prepare_service_account inst" for inst
  by unfold_locales (auto simp: o_rtype_def body_rtype_cases tp_builder_operand tp_prepare_defs
      object_key_of_def upd_meta_def replace_labels_annotations_def split: if_splits)

interpretation tp_role: operand_closure fake_client fake_view fake_healthy tp_update_cluster_role ClusterRole True
  merge_cluster_role id inst "tp_builder tp_update_cluster_role" "\<lambda>x. (Ok (), x)" for inst
  by unfold_locales (auto simp: o_rtype_def body_rtype_cases tp_builder_operand merge_cluster_role_def
      upd_meta_def replace_labels_annotations_def)

interpretation tp_binding: operand_closure fake_client fake_view fake_healthy tp_update_role_binding RoleBinding False
  "\<lambda>e f. e" id inst "tp_builder tp_update_role_binding" "prepare_role_binding inst" for inst
proof (unfold_locales, goal_cases)
  case (9 x x1 r)
  then obtain ref subjects where b: "o_body x = RoleBindingBody ref subjects"
    by (auto simp: o_rtype_def body_rtype_cases)
  with 9 show ?case
    by (cases r) (auto simp: tp_prepare_defs object_key_of_def upd_meta_def comp_def split: if_splits)
qed (auto simp: o_rtype_def body_rtype_cases tp_builder_operand tp_prepare_defs split: body.splits)

section \<open>The whole operand\<close>

datatype tp_slot = PipelineAt nat | ConfigAt nat | PBindingAt nat | PAccountAt nat | PRoleAt nat

fun tp_elem :: "tp_slot \<Rightarrow> tektonPipelines \<Rightarrow> object" where
  "tp_elem (PipelineAt i) t = tp_pipelines t ! i"
| "tp_elem (ConfigAt i) t = tp_configMaps t ! i"
| "tp_elem (PBindingAt i) t = tp_roleBindings t ! i"
| "tp_elem (PAccountAt i) t = tp_serviceAccounts t ! i"
| "tp_elem (PRoleAt i) t = tp_clusterRoles t ! i"

fun tp_put :: "tp_slot \<Rightarrow> object \<Rightarrow> tektonPipelines \<Rightarrow> tektonPipelines" where
  "tp_put (PipelineAt i) x t = t\<lparr>tp_pipelines := (tp_pipelines t)[i := x]\<rparr>"
| "tp_put (ConfigAt i) x t = t\<lparr>tp_configMaps := (tp_configMaps t)[i := x]\<rparr>"
| "tp_put (PBindingAt i) x t = t\<lparr>tp_roleBindings := (tp_roleBindings t)[i := x]\<rparr>"
| "tp_put (PAccountAt i) x t = t\<lparr>tp_serviceAccounts := (tp_serviceAccounts t)[i := x]\<rparr>"
| "tp_put (PRoleAt i) x t = t\<lparr>tp_clusterRoles := (tp_clusterRoles t)[i := x]\<rparr>"

fun tp_in_range :: "tektonPipelines \<Rightarrow> tp_slot \<Rightarrow> bool" where
  "tp_in_range t (PipelineAt i) = (i < length (tp_pipelines t))"
| "tp_in_range t (ConfigAt i) = (i < length (tp_configMaps t))"
| "tp_in_range t (PBindingAt i) = (i < length (tp_roleBindings t))"
| "tp_in_range t (PAccountAt i) = (i < length (tp_serviceAccounts t))"
| "tp_in_range t (PRoleAt i) = (i < length (tp_clusterRoles t))"

interpretation tp_slots: operand_slots tp_elem tp_put tp_in_range
proof (unfold_locales, goal_cases)
  case (1 t j x) then show ?case by (cases j) auto
next
  case (2 j j' x t) then show ?case by (cases j; cases j') auto
next
  case (3 j x t j') show ?case by (cases j; cases j') auto
next
  case (4 t j) then show ?case by (cases j) auto
qed

definition tp_slots_of :: "TektonTasks \<Rightarrow> tektonPipelines \<Rightarrow> tp_slot list" where
  \<comment> \<open>in the order of the reconciliation, without the skipped service accounts\<close>
  "tp_slots_of inst t = map PRoleAt [0..<length (tp_clusterRoles t)]
     @ map PipelineAt [0..<length (tp_pipelines t)]
     @ map ConfigAt [0..<length (tp_configMaps t)] @ map PBindingAt [0..<length (tp_roleBindings t)]
     @ map PAccountAt (filter (\<lambda>i. \<not> skip_service_account inst (tp_serviceAccounts t ! i))
                        [0..<length (tp_serviceAccounts t)])"

lemma tp_slots_of_distinct: "distinct (tp_slots_of inst t)"
  by (auto simp: tp_slots_of_def distinct_map inj_on_def)

lemma tp_slots_of_range: "j \<in> set (tp_slots_of inst t) \<Longrightarrow> tp_in_range t j"
  by (cases j) (auto simp: tp_slots_of_def)

lemma tp_slots_of_cong:
  assumes "\<forall>j. tp_in_range t' j = tp_in_range t j"
    and "\<forall>j. m_name (o_meta (tp_elem j t')) = m_name (o_meta (tp_elem j t))"
  shows "tp_slots_of inst t' = tp_slots_of inst t"
proof -
  have eq: "m = n" if "\<And>i. i < m \<longleftrightarrow> i < (n :: nat)" for m n
    using that [of m] that [of n] by auto
  have "m_name (o_meta (tp_serviceAccounts t' ! i)) = m_name (o_meta (tp_serviceAccounts t ! i))" for i
    using assms(2) [rule_format, of "PAccountAt i"] by simp
  then have "skip_service_account inst (tp_serviceAccounts t' ! i) = skip_service_account inst (tp_serviceAccounts t ! i)" for i
    by (simp add: skip_service_account_def)
  then show ?thesis
    using assms(1) [rule_format, of "PipelineAt _"] assms(1) [rule_format, of "ConfigAt _"]
      assms(1) [rule_format, of "PBindingAt _"] assms(1) [rule_format, of "PAccountAt _"]
      assms(1) [rule_format, of "PRoleAt _"]
    by (simp add: tp_slots_of_def eq [of "length (tp_pipelines t')" "length (tp_pipelines t)"]
        eq [of "length (tp_configMaps t')" "length (tp_configMaps t)"]
        eq [of "length (tp_roleBindings t')" "length (tp_roleBindings t)"]
        eq [of "length (tp_serviceAccounts t')" "length (tp_serviceAccounts t)"]
        eq [of "length (tp_clusterRoles t')" "length (tp_clusterRoles t)"])
qed

fun tp_func :: "'w client \<Rightarrow> environ \<Rightarrow> TektonTasks \<Rightarrow> tp_slot \<Rightarrow> 'w element_func" where
  "tp_func cl env inst (PipelineAt i) =
     reconcile_element cl inst (prepare_pipelines_namespace inst) (tp_builder (update_pipeline env))"
| "tp_func cl env inst (ConfigAt i) =
     reconcile_element cl inst (prepare_pipelines_namespace inst) (tp_builder update_config_map)"
| "tp_func cl env inst (PBindingAt i) =
     reconcile_element cl inst (prepare_role_binding inst) (tp_builder tp_update_role_binding)"
| "tp_func cl env inst (PAccountAt i) =
     reconcile_element cl inst (prepare_service_account inst) (tp_builder update_service_account)"
| "tp_func cl env inst (PRoleAt i) =
     reconcile_element cl inst (\<lambda>x. (Ok (), x)) (tp_builder tp_update_cluster_role)"

lemma tp_slot_func:
  "tp_slots.slot_func (tp_func cl env inst) (PipelineAt i) =
     at_index tp_pipelines tp_pipelines_update i (tp_func cl env inst (PipelineAt i))"
  "tp_slots.slot_func (tp_func cl env inst) (ConfigAt i) =
     at_index tp_configMaps tp_configMaps_update i (tp_func cl env inst (ConfigAt i))"
  "tp_slots.slot_func (tp_func cl env inst) (PBindingAt i) =
     at_index tp_roleBindings tp_roleBindings_update i (tp_func cl env inst (PBindingAt i))"
  "tp_slots.slot_func (tp_func cl env inst) (PAccountAt i) =
     at_index tp_serviceAccounts tp_serviceAccounts_update i (tp_func cl env inst (PAccountAt i))"
  "tp_slots.slot_func (tp_func cl env inst) (PRoleAt i) =
     at_index tp_clusterRoles tp_clusterRoles_update i (tp_func cl env inst (PRoleAt i))"
  by (auto simp: tp_slots.slot_func_def at_index_def fun_eq_iff split: prod.splits)

lemma tp_Reconcile_slots:
  "tp_Reconcile cl env inst (t, s) =
     bind_outcome (CollectResourceStatus (map (tp_slots.slot_func (tp_func cl env inst)) (tp_slots_of inst t)) (t, s))
       (\<lambda>results st. (Ok results, (fst st, log_reverted ''Changes reverted in tekton pipeline: ''
                                   (isUpgradingNow env inst) results (snd st))))"
  by (simp add: tp_Reconcile_def tp_slots_of_def tp_slot_func reconcileTektonPipelinesFuncs_def
      reconcileConfigMapsFuncs_def tp_reconcileServiceAccountsFuncs_def tp_reconcileClusterRolesFuncs_def
      tp_reconcileRoleBindingsFuncs_def Let_def comp_def)

fun tp_slot_type :: "tp_slot \<Rightarrow> rtype" where
  "tp_slot_type (PipelineAt i) = Pipeline" | "tp_slot_type (ConfigAt i) = ConfigMap"
| "tp_slot_type (PBindingAt i) = RoleBinding" | "tp_slot_type (PAccountAt i) = ServiceAccount"
| "tp_slot_type (PRoleAt i) = ClusterRole"

fun tp_prepared :: "TektonTasks \<Rightarrow> tp_slot \<Rightarrow> object \<Rightarrow> object" where
  "tp_prepared inst (PipelineAt i) x = snd (prepare_pipelines_namespace inst x)"
| "tp_prepared inst (ConfigAt i) x = snd (prepare_pipelines_namespace inst x)"
| "tp_prepared inst (PBindingAt i) x = snd (prepare_role_binding inst x)"
| "tp_prepared inst (PAccountAt i) x = snd (prepare_service_account inst x)"
| "tp_prepared inst (PRoleAt i) x = x"

definition tp_target :: "TektonTasks \<Rightarrow> tektonPipelines \<Rightarrow> tp_slot \<Rightarrow> rtype \<times> object_key" where
  "tp_target inst t j = (tp_slot_type j, object_key_of (tp_prepared inst j (tp_elem j t)))"

definition tp_deployable :: "TektonTasks \<Rightarrow> tektonPipelines \<Rightarrow> bool" where
  "tp_deployable inst t \<longleftrightarrow>
     list_all (\<lambda>j. o_rtype (tp_elem j t) = tp_slot_type j \<and> m_name (o_meta (tp_elem j t)) \<noteq> '''')
       (tp_slots_of inst t) \<and>
     distinct (map (tp_target inst t) (tp_slots_of inst t))"

text \<open>The stored object carries what the element \<open>x\<close> wants; a config map keeps its binary data.\<close>

fun tp_body_ok :: "environ \<Rightarrow> tp_slot \<Rightarrow> object \<Rightarrow> object \<Rightarrow> bool" where
  "tp_body_ok env (PipelineAt i) x y =
     (case o_body x of PipelineBody spec \<Rightarrow>
        o_body y = PipelineBody (spec\<lparr>pl_params := map (\<lambda>p.
            if has_prefix (ps_name p) ''virtioContainer''
            then p\<lparr>ps_default := Some \<lparr>aos_type = ''string'', aos_stringVal = GetVirtioImage env, aos_arrayVal = []\<rparr>\<rparr>
            else p) (pl_params spec)\<rparr>)
      | _ \<Rightarrow> False)"
| "tp_body_ok env (ConfigAt i) x y =
     (case (o_body x, o_body y) of (ConfigMapBody data _, ConfigMapBody data' _) \<Rightarrow> smap_norm data' = smap_norm data
      | _ \<Rightarrow> False)"
| "tp_body_ok env (PBindingAt i) x y = (o_body y = o_body x)"
| "tp_body_ok env (PAccountAt i) x y = True"
| "tp_body_ok env (PRoleAt i) x y =
     (case (o_body x, o_body y) of (ClusterRoleBody rules _, ClusterRoleBody rules' _) \<Rightarrow> rules' = rules | _ \<Rightarrow> False)"

definition tp_deployed :: "environ \<Rightarrow> TektonTasks \<Rightarrow> tp_slot \<Rightarrow> object \<Rightarrow> object \<Rightarrow> bool" where
  "tp_deployed env inst j x y \<longleftrightarrow>
     owner_marked inst y \<and> m_ownerReferences (o_meta y) = [] \<and>
     time_is_zero (m_deletionTimestamp (o_meta y)) \<and>
     smap_sub (m_labels (o_meta (AddAppLabels inst tp_operandName tp_operandComponent x))) (m_labels (o_meta y)) \<and>
     tp_body_ok env j x y"

lemma body_norm_eq_simps':
  "PipelineBody s = body_norm c \<longleftrightarrow> c = PipelineBody s"
  by (cases c; auto)

lemma tp_func_deploys:
  assumes inst: "m_name (tt_meta inst) \<noteq> ''''" "tt_kind inst \<noteq> ''''"
    and x: "o_rtype x = tp_slot_type j" "m_name (o_meta x) \<noteq> ''''" and x1: "x1 = tp_prepared inst j x"
  shows "deploys fake_view fake_healthy (tp_func fake_client env inst j) (tp_slot_type j) (object_key_of x1)
           (tp_deployed env inst j x1) x"
proof (cases j)
  case (PipelineAt i)
  with x x1 have p: "prepare_pipelines_namespace inst x = (Ok (), x1)" "o_rtype x = Pipeline"
    by (simp_all add: prepare_pipelines_namespace_def)
  then obtain spec where b: "o_body x1 = PipelineBody spec"
    by (auto simp: o_rtype_def body_rtype_cases prepare_pipelines_namespace_def)
  show ?thesis
    using deploys_mono [OF tp_pipeline.closure_deploys [OF inst p x(2)], where g' = "tp_deployed env inst j x1"] PipelineAt
    by (simp add: deployed_as_def tp_deployed_def b body_norm_eq_simps' virtio_spec_def virtio_param_def
        virtio_default_def comp_def)
next
  case (ConfigAt i)
  with x x1 have p: "prepare_pipelines_namespace inst x = (Ok (), x1)" "o_rtype x = ConfigMap"
    by (simp_all add: prepare_pipelines_namespace_def)
  then obtain u v where b: "o_body x1 = ConfigMapBody u v"
    by (auto simp: o_rtype_def body_rtype_cases prepare_pipelines_namespace_def)
  have "tp_deployed env inst (ConfigAt i) x1 y"
    if "deployed_as False merge_config_map id inst (tp_builder update_config_map) x1 y" for y
    using that b by (auto simp: deployed_as_def tp_deployed_def merge_config_map_def o_rtype_def body_rtype_cases)
  then show ?thesis
    using deploys_mono [OF tp_config.closure_deploys [OF inst p x(2)]] ConfigAt by simp
next
  case (PBindingAt i)
  with x x1 have p: "prepare_role_binding inst x = (Ok (), x1)" "o_rtype x = RoleBinding"
    by (simp_all add: prepare_role_binding_def Let_def)
  then obtain u v where b: "o_body x1 = RoleBindingBody u v"
    by (auto simp: o_rtype_def body_rtype_cases tp_prepare_defs)
  show ?thesis
    using deploys_mono [OF tp_binding.closure_deploys [OF inst p x(2)], where g' = "tp_deployed env inst j x1"] PBindingAt
    by (simp add: deployed_as_def tp_deployed_def b body_norm_eq_simps)
next
  case (PAccountAt i)
  with x x1 have p: "prepare_service_account inst x = (Ok (), x1)" "o_rtype x = ServiceAccount"
    by (simp_all add: prepare_service_account_def)
  show ?thesis
    using deploys_mono [OF tp_account.closure_deploys [OF inst p x(2)], where g' = "tp_deployed env inst j x1"] PAccountAt
    by (simp add: deployed_as_def tp_deployed_def)
next
  case (PRoleAt i)
  with x x1 have p: "o_rtype x = ClusterRole" "x1 = x" by simp_all
  then obtain u v where b: "o_body x = ClusterRoleBody u v" by (auto simp: o_rtype_def body_rtype_cases)
  have "tp_deployed env inst (PRoleAt i) x y"
    if "deployed_as True merge_cluster_role id inst (tp_builder tp_update_cluster_role) x y" for y
    using that b by (auto simp: deployed_as_def tp_deployed_def merge_cluster_role_def o_rtype_def body_rtype_cases)
  then show ?thesis
    using deploys_mono [OF tp_role.closure_deploys [OF inst refl p(1) x(2)]] PRoleAt p(2) by simp
qed

text \<open>What the operand wants stored for a slot: the element as it was prepared.\<close>

definition tp_wants :: "environ \<Rightarrow> TektonTasks \<Rightarrow> tektonPipelines \<Rightarrow> tp_slot \<Rightarrow> object \<Rightarrow> bool" where
  "tp_wants env inst t j y \<longleftrightarrow> tp_deployed env inst j (tp_prepared inst j (tp_elem j t)) y"

interpretation tp_run: operand_deployment tp_elem tp_put tp_in_range fake_view fake_healthy "tp_slots_of inst"
  "tp_func fake_client env inst" "tp_target inst" "tp_wants env inst"
  "log_reverted ''Changes reverted in tekton pipeline: '' (isUpgradingNow env inst)" "tp_Reconcile fake_client env inst"
  for inst env
  by unfold_locales (auto simp: tp_slots_of_distinct tp_slots_of_range tp_Reconcile_slots intro: tp_slots_of_cong)

lemma tp_ready_start:
  assumes "m_name (tt_meta inst) \<noteq> ''''" and "tt_kind inst \<noteq> ''''" and "tp_deployable inst t"
    and "list_all (\<lambda>j. fresh_at v vc (fst (tp_target inst t j)) (snd (tp_target inst t j))) (tp_slots_of inst t)"
  shows "tp_run.ready_in inst env t t v vc"
proof (rule tp_run.ready_start)
  show "inj_on (tp_target inst t) (set (tp_slots_of inst t))"
    using assms(3) by (simp add: tp_deployable_def distinct_map)
  fix j assume j: "j \<in> set (tp_slots_of inst t)"
  with assms(3) have x: "o_rtype (tp_elem j t) = tp_slot_type j" "m_name (o_meta (tp_elem j t)) \<noteq> ''''"
    unfolding tp_deployable_def list_all_iff by blast+
  have "deploys fake_view fake_healthy (tp_func fake_client env inst j) (fst (tp_target inst t j))
      (snd (tp_target inst t j)) (tp_wants env inst t j) (tp_elem j t)"
    using tp_func_deploys [OF assms(1,2) x refl] by (simp add: tp_target_def tp_wants_def [abs_def])
  then show "deploys fake_view fake_healthy (tp_func fake_client env inst j) (fst (tp_target inst t j))
      (snd (tp_target inst t j)) (tp_wants env inst t j) (tp_elem j t) \<and>
      fresh_at v vc (fst (tp_target inst t j)) (snd (tp_target inst t j))"
    using assms(4) j by (simp add: list_all_iff)
qed

lemma tp_settled_stored:
  assumes "tp_run.settled_in inst env t t' v" and "j \<in> set (tp_slots_of inst t)"
  shows "\<exists>y. v (tp_slot_type j) (object_key_of (tp_prepared inst j (tp_elem j t))) = Some y \<and>
     tp_deployed env inst j (tp_prepared inst j (tp_elem j t)) y"
  using tp_run.settled_wants [OF assms] unfolding tp_wants_def tp_target_def by simp

lemma tp_reconcile_run:
  assumes "fake_healthy (world s)" and "cache_wf (vcache s)"
    and "m_name (tt_meta inst) \<noteq> ''''" and "tt_kind inst \<noteq> ''''"
    and "tp_deployable inst t"
    and "list_all (\<lambda>j. fresh_at (fake_view (world s)) (vcache s)
           (fst (tp_target inst t j)) (snd (tp_target inst t j))) (tp_slots_of inst t)"
  shows "\<exists>results t' s'. tp_Reconcile fake_client env inst (t, s) = (Ok results, (t', s')) \<and>
     length results = length (tp_slots_of inst t) \<and> list_all IsSuccess results \<and> fake_healthy (world s') \<and>
     (\<forall>j \<in> set (tp_slots_of inst t). \<exists>y. fake_view (world s') (tp_slot_type j)
          (object_key_of (tp_prepared inst j (tp_elem j t))) = Some y \<and>
        tp_deployed env inst j (tp_prepared inst j (tp_elem j t)) y) \<and>
     (\<forall>rt k. (rt, k) \<notin> tp_target inst t ` set (tp_slots_of inst t) \<longrightarrow>
        fake_view (world s') rt k = fake_view (world s) rt k) \<and>
     (\<exists>results2 s2. tp_Reconcile fake_client env inst (t', s') = (Ok results2, (t', s2)) \<and>
        world s2 = world s' \<and>
        list_all (\<lambda>res. IsSuccess res \<and> rr_OperationResult res = OperationResultNone) results2)"
proof -
  obtain results t' s' where 1: "tp_Reconcile fake_client env inst (t, s) = (Ok results, (t', s'))"
      "length results = length (tp_slots_of inst t)" "list_all IsSuccess results" "fake_healthy (world s')"
      "\<forall>rt k. (rt, k) \<notin> tp_target inst t ` set (tp_slots_of inst t) \<longrightarrow>
        fake_view (world s') rt k = fake_view (world s) rt k \<and>
        fmlookup (vcache s') (object_cache_key rt k) = fmlookup (vcache s) (object_cache_key rt k)"
      "tp_run.settled_in inst env t t' (fake_view (world s'))"
    using tp_run.run_ready [OF assms(1,2) tp_ready_start [OF assms(3-6)]] by blast
  show ?thesis
    using 1(1-5) tp_settled_stored [OF 1(6)] tp_run.run_settled [OF 1(4,6)] by blast
qed

text \<open>
  C12. One reconciliation of the tekton-pipelines operand on a healthy API server, from an
  empty or outdated cluster and a cold cache: it succeeds with a successful result for every
  object but the skipped service accounts, stores each object the way it was prepared, with
  the operator's virtio image as the default of every parameter whose name starts with
  \<open>virtioContainer\<close>, touches no other object, and a second reconciliation reports no operation
  and leaves the cluster as it is.
\<close>

theorem tp_Reconcile_converges:
  assumes "fake_healthy (world s)" and "cache_wf (vcache s)"
    and "m_name (tt_meta inst) \<noteq> ''''" and "tt_kind inst \<noteq> ''''"
    and "tp_deployable inst t"
    and "list_all (\<lambda>j. fresh_at (fake_view (world s)) (vcache s)
           (fst (tp_target inst t j)) (snd (tp_target inst t j))) (tp_slots_of inst t)"
  shows "\<exists>results t' s'. tp_Reconcile fake_client env inst (t, s) = (Ok results, (t', s')) \<and>
     length results = length (tp_slots_of inst t) \<and> list_all IsSuccess results \<and> fake_healthy (world s') \<and>
     (\<forall>j \<in> set (tp_slots_of inst t). \<exists>y. fake_view (world s') (tp_slot_type j)
          (object_key_of (tp_prepared inst j (tp_elem j t))) = Some y \<and>
        tp_deployed env inst j (tp_prepared inst j (tp_elem j t)) y) \<and>
     (\<forall>rt k. (rt, k) \<notin> tp_target inst t ` set (tp_slots_of inst t) \<longrightarrow>
        fake_view (world s') rt k = fake_view (world s) rt k) \<and>
     (\<exists>results2 s2. tp_Reconcile fake_client env inst (t', s') = (Ok results2, (t', s2)) \<and>
        world s2 = world s' \<and>
        list_all (\<lambda>res. IsSuccess res \<and> rr_OperationResult res = OperationResultNone) results2)"
  using tp_reconcile_run [OF assms, where env = env] by (elim ex_forward) blast

definition sample_pipelines_operand :: tektonPipelines where
  "sample_pipelines_operand = \<lparr>tp_pipelines = [sample_pipeline], tp_configMaps = [sample_config_map],
     tp_roleBindings = [sample_binding], tp_serviceAccounts = [sample_account, upd_meta (\<lambda>m. m\<lparr>m_name := ''pipeline''\<rparr>) sample_account],
     tp_clusterRoles = [sample_role]\<rparr>"

lemma sample_pipelines_slots:
  "tp_slots_of sample_tt sample_pipelines_operand = [PRoleAt 0, PipelineAt 0, ConfigAt 0, PBindingAt 0, PAccountAt 0]"
  by (simp add: tp_slots_of_def sample_pipelines_operand_def upt_rec skip_service_account_def
      namespaceRegex_MatchString_def has_prefix_def sample_defs)

lemma sample_pipelines_deployable: "tp_deployable sample_tt sample_pipelines_operand"
  unfolding tp_deployable_def sample_pipelines_slots
  by (simp add: tp_target_def sample_pipelines_operand_def sample_defs o_rtype_def
      empty_meta_def tp_prepare_defs object_key_of_def)

theorem tp_Reconcile_converges_witness:
  "\<exists>results t' s'. tp_Reconcile fake_client sample_env sample_tt
     (sample_pipelines_operand, sample_sys empty_cluster) = (Ok results, (t', s')) \<and> length results = 5"
  using tp_Reconcile_converges [OF _ _ _ _ sample_pipelines_deployable, of "sample_sys empty_cluster" sample_env]
  by (auto simp: sample_pipelines_slots fresh_at_def)

end
