(* ===== verification/Controller_Contract.thy ===== *)
theory Controller_Contract
  imports Setup Client_Frame Tekton_Tasks_Deploy Tekton_Pipelines_Deploy
begin

text \<open>
  The interfaces the controller relies on: a server that stores \<open>TektonTasks\<close> resources
  (\<open>tt_server\<close>), with the fake client as its provider, and what the functions that write a
  resource do on it.
\<close>

section \<open>Status functions\<close>

lemma set_condition_simps [simp]:
  "Phase (set_condition now ty st rs msg s) = Phase s"
  "OperatorVersion (set_condition now ty st rs msg s) = OperatorVersion s"
  "TargetVersion (set_condition now ty st rs msg s) = TargetVersion s"
  "ObservedVersion (set_condition now ty st rs msg s) = ObservedVersion s"
  "Paused (set_condition now ty st rs msg s) = Paused s"
  "ObservedGeneration (set_condition now ty st rs msg s) = ObservedGeneration s"
  by (simp_all add: set_condition_def)

lemma set_condition_status [simp]:
  "IsStatusConditionPresentAndEqual (Conditions (set_condition now ty st rs msg s)) ty' st' \<longleftrightarrow>
     (if ty' = ty then st' = st else IsStatusConditionPresentAndEqual (Conditions s) ty' st')"
  by (simp add: set_condition_def cond.status_set)

lemma set_condition_message [simp]:
  "condition_message (Conditions (set_condition now ty st rs msg s)) ty' =
     (if ty' = ty then Some msg else condition_message (Conditions s) ty')"
  by (simp add: set_condition_def cond.message_set)

lemma set_condition_distinct:
  "distinct (map c_Type (Conditions s)) \<Longrightarrow> distinct (map c_Type (Conditions (set_condition now ty st rs msg s)))"
  by (simp add: set_condition_def SetStatusCondition_distinct)

lemma set_three_simps [simp]:
  "Phase (set_three now av pr dg msg s) = Phase s"
  "OperatorVersion (set_three now av pr dg msg s) = OperatorVersion s"
  "TargetVersion (set_three now av pr dg msg s) = TargetVersion s"
  "ObservedVersion (set_three now av pr dg msg s) = ObservedVersion s"
  "Paused (set_three now av pr dg msg s) = Paused s"
  "ObservedGeneration (set_three now av pr dg msg s) = ObservedGeneration s"
  by (simp_all add: set_three_def)

definition three_are :: "TektonTasksStatus \<Rightarrow> condition_status \<Rightarrow> condition_status \<Rightarrow> condition_status \<Rightarrow> bool" where
  \<comment> \<open>the statuses of the conditions Available, Progressing and Degraded\<close>
  "three_are s av pr dg \<longleftrightarrow>
     IsStatusConditionPresentAndEqual (Conditions s) ConditionAvailable av \<and>
     IsStatusConditionPresentAndEqual (Conditions s) ConditionProgressing pr \<and>
     IsStatusConditionPresentAndEqual (Conditions s) ConditionDegraded dg"

definition all_say :: "TektonTasksStatus \<Rightarrow> string \<Rightarrow> bool" where
  "all_say s msg \<longleftrightarrow> (\<forall>ty \<in> {ConditionAvailable, ConditionProgressing, ConditionDegraded}.
     condition_message (Conditions s) ty = Some msg)"

lemma set_three_are [simp]: "three_are (set_three now av pr dg msg s) av pr dg"
  by (simp add: three_are_def set_three_def)

lemma set_three_say [simp]: "all_say (set_three now av pr dg msg s) msg"
  by (simp add: all_say_def set_three_def)

lemma set_if_different_simps [simp]:
  "Phase (set_if_different now ty st rs msg s) = Phase s"
  "OperatorVersion (set_if_different now ty st rs msg s) = OperatorVersion s"
  "TargetVersion (set_if_different now ty st rs msg s) = TargetVersion s"
  "ObservedVersion (set_if_different now ty st rs msg s) = ObservedVersion s"
  "Paused (set_if_different now ty st rs msg s) = Paused s"
  "ObservedGeneration (set_if_different now ty st rs msg s) = ObservedGeneration s"
  by (simp_all add: set_if_different_def)

lemma set_if_different_status [simp]:
  "IsStatusConditionPresentAndEqual (Conditions (set_if_different now ty st rs msg s)) ty' st' \<longleftrightarrow>
     (if ty' = ty then st' = st else IsStatusConditionPresentAndEqual (Conditions s) ty' st')"
  using status_unique by (auto simp: set_if_different_def)

section \<open>A server that stores the resource\<close>

text \<open>
  \<open>stored w k\<close> is the resource as the server keeps it, \<open>read\<close> what a client gets when it
  reads it. An update in the stored version replaces it, or, when the resource is being
  deleted and its last finalizer went, removes it; the server chooses the new version, and
  may keep the old status (a server with a status subresource does). A status update of an
  otherwise unchanged resource writes the status. Neither touches the rest of the world.
\<close>

definition alive :: "object_meta \<Rightarrow> bool" where
  "alive m \<longleftrightarrow> time_is_zero (m_deletionTimestamp m) \<or> m_finalizers m \<noteq> []"

definition with_rv :: "string \<Rightarrow> TektonTasks \<Rightarrow> TektonTasks" where
  "with_rv v = tt_upd_meta (\<lambda>m. m\<lparr>m_resourceVersion := v\<rparr>)"

lemma tt_upd_meta_simps [simp]:
  "tt_meta (tt_upd_meta f t) = f (tt_meta t)" "Spec (tt_upd_meta f t) = Spec t"
  "Status (tt_upd_meta f t) = Status t" "tt_kind (tt_upd_meta f t) = tt_kind t"
  "tt_apiVersion (tt_upd_meta f t) = tt_apiVersion t"
  by (simp_all add: tt_upd_meta_def)

lemma with_rv_simps [simp]:
  "tt_meta (with_rv v t) = (tt_meta t)\<lparr>m_resourceVersion := v\<rparr>" "Spec (with_rv v t) = Spec t"
  "Status (with_rv v t) = Status t" "tt_kind (with_rv v t) = tt_kind t"
  "tt_apiVersion (with_rv v t) = tt_apiVersion t" "tt_key (with_rv v t) = tt_key t"
  by (simp_all add: with_rv_def tt_key_def)

locale tt_server =
  fixes cl :: "'w client"
    and stored :: "'w \<Rightarrow> object_key \<Rightarrow> TektonTasks option"
    and read :: "TektonTasks \<Rightarrow> TektonTasks"
    and rest :: "'w \<Rightarrow> 'z"
    and healthy :: "'w \<Rightarrow> bool"
  assumes tt_get: "healthy w \<Longrightarrow> stored w k = Some t \<Longrightarrow> c_get_tt cl k w = (Inr (read t), w)"
    and tt_get_none: "healthy w \<Longrightarrow> stored w k = None \<Longrightarrow>
      \<exists>e. c_get_tt cl k w = (Inl e, w) \<and> is_not_found e"
    and tt_wf: "healthy w \<Longrightarrow> stored w k = Some t \<Longrightarrow> tt_key t = k \<and> alive (tt_meta t) \<and> snd k \<noteq> ''''"
    and read_keeps: "Spec (read t) = Spec t \<and> Status (read t) = Status t \<and> tt_key (read t) = tt_key t \<and>
      m_resourceVersion (tt_meta (read t)) = m_resourceVersion (tt_meta t) \<and>
      m_generation (tt_meta (read t)) = m_generation (tt_meta t) \<and>
      m_finalizers (tt_meta (read t)) = m_finalizers (tt_meta t) \<and>
      m_uid (tt_meta (read t)) = m_uid (tt_meta t) \<and>
      m_labels (tt_meta (read t)) = smap_norm (m_labels (tt_meta t)) \<and>
      m_annotations (tt_meta (read t)) = smap_norm (m_annotations (tt_meta t)) \<and>
      time_is_zero (m_deletionTimestamp (tt_meta (read t))) = time_is_zero (m_deletionTimestamp (tt_meta t)) \<and>
      tt_kind (read t) \<noteq> ''''"
    and tt_update: "healthy w \<Longrightarrow> stored w (tt_key t) = Some old \<Longrightarrow>
      m_resourceVersion (tt_meta t) = m_resourceVersion (tt_meta old) \<Longrightarrow> alive (tt_meta t) \<Longrightarrow>
      \<exists>v st w'. c_update_tt cl t w = (Inr ((with_rv v t)\<lparr>Status := st\<rparr>), w') \<and> healthy w' \<and>
        (st = Status t \<or> st = Status old) \<and>
        stored w' = (stored w)(tt_key t := Some ((with_rv v t)\<lparr>Status := st\<rparr>)) \<and> rest w' = rest w"
    and tt_status: "healthy w \<Longrightarrow> stored w (tt_key t) = Some old \<Longrightarrow>
      Spec t = Spec old \<Longrightarrow> m_resourceVersion (tt_meta t) = m_resourceVersion (tt_meta old) \<Longrightarrow>
      m_finalizers (tt_meta t) = m_finalizers (tt_meta old) \<Longrightarrow>
      time_is_zero (m_deletionTimestamp (tt_meta t)) = time_is_zero (m_deletionTimestamp (tt_meta old)) \<Longrightarrow>
      \<exists>v w'. c_status_update_tt cl t w = (Inr (with_rv v t), w') \<and> healthy w' \<and>
        stored w' = (stored w)(tt_key t := Some (with_rv v t)) \<and> rest w' = rest w"
    and tt_update_dead: "healthy w \<Longrightarrow> stored w (tt_key t) = Some old \<Longrightarrow>
      m_resourceVersion (tt_meta t) = m_resourceVersion (tt_meta old) \<Longrightarrow> \<not> alive (tt_meta t) \<Longrightarrow>
      \<exists>v st w'. c_update_tt cl t w = (Inr ((with_rv v t)\<lparr>Status := st\<rparr>), w') \<and> healthy w' \<and>
        stored w' = (stored w)(tt_key t := None) \<and> rest w' = rest w"
    and tt_status_none: "healthy w \<Longrightarrow> stored w (tt_key t) = None \<Longrightarrow> snd (tt_key t) \<noteq> '''' \<Longrightarrow>
      \<exists>e. c_status_update_tt cl t w = (Inl e, w) \<and> is_not_found e"
    and tt_list: "healthy w \<Longrightarrow> \<exists>items. c_list_tt cl None w = (Inr items, w) \<and>
      distinct (map tt_key items) \<and> set (map tt_key items) = {k. stored w k \<noteq> None}"
begin

text \<open>
  The resource in the reconciler's hands is the stored one, but for its status: what the
  next status update needs.
\<close>

definition up_to_date :: "TektonTasks \<Rightarrow> TektonTasks \<Rightarrow> bool" where
  "up_to_date t old \<longleftrightarrow> Spec t = Spec old \<and>
     m_resourceVersion (tt_meta t) = m_resourceVersion (tt_meta old) \<and>
     m_finalizers (tt_meta t) = m_finalizers (tt_meta old) \<and>
     time_is_zero (m_deletionTimestamp (tt_meta t)) = time_is_zero (m_deletionTimestamp (tt_meta old))"

definition holds :: "TektonTasks \<Rightarrow> 'w \<Rightarrow> bool" where
  "holds t w \<longleftrightarrow> healthy w \<and> (\<exists>old. stored w (tt_key t) = Some old \<and> up_to_date t old)"

lemma holds_status [simp]: "holds (upd_status f t) w = holds t w"
  by (simp add: holds_def up_to_date_def)

lemma holds_read:
  assumes "healthy w" and "stored w k = Some t"
  shows "holds (read t) w" "tt_key (read t) = k"
  using assms read_keeps [of t] tt_wf [OF assms] by (simp_all add: holds_def up_to_date_def)

lemma write_status:
  assumes "holds t (world s)"
  shows "\<exists>v w'. write_tt (c_status_update_tt cl) (t, s) = (Ok (), (with_rv v t, s\<lparr>world := w'\<rparr>)) \<and>
     holds (with_rv v t) w' \<and> stored w' = (stored (world s))(tt_key t := Some (with_rv v t)) \<and>
     rest w' = rest (world s)"
proof -
  from assms obtain old where o': "healthy (world s)" "stored (world s) (tt_key t) = Some old" "up_to_date t old"
    by (auto simp: holds_def)
  from tt_status [OF o'(1,2)] o'(3) obtain v w' where
    "c_status_update_tt cl t (world s) = (Inr (with_rv v t), w')" "healthy w'"
    "stored w' = (stored (world s))(tt_key t := Some (with_rv v t))" "rest w' = rest (world s)"
    by (auto simp: up_to_date_def)
  then show ?thesis
    by (intro exI [of _ v] exI [of _ w']) (simp add: write_tt_def holds_def up_to_date_def)
qed

lemma write_update:
  assumes "healthy (world s)" and "stored (world s) (tt_key t) = Some old"
    and "m_resourceVersion (tt_meta t) = m_resourceVersion (tt_meta old)" and "alive (tt_meta t)"
  shows "\<exists>v st w'. write_tt (c_update_tt cl) (t, s) = (Ok (), ((with_rv v t)\<lparr>Status := st\<rparr>, s\<lparr>world := w'\<rparr>)) \<and>
     holds ((with_rv v t)\<lparr>Status := st\<rparr>) w' \<and>
     stored w' = (stored (world s))(tt_key t := Some ((with_rv v t)\<lparr>Status := st\<rparr>)) \<and>
     rest w' = rest (world s)"
proof -
  from tt_update [OF assms] obtain v st w' where
    u: "c_update_tt cl t (world s) = (Inr ((with_rv v t)\<lparr>Status := st\<rparr>), w')" "healthy w'"
    "stored w' = (stored (world s))(tt_key t := Some ((with_rv v t)\<lparr>Status := st\<rparr>))" "rest w' = rest (world s)"
    by blast
  have "tt_key ((with_rv v t)\<lparr>Status := st\<rparr>) = tt_key t" by (simp add: tt_key_def)
  then show ?thesis
    using u by (intro exI [of _ v] exI [of _ st] exI [of _ w']) (simp add: write_tt_def holds_def up_to_date_def)
qed

end

section \<open>The fake client stores the resource\<close>

definition fake_stored_tt :: "fake_cluster \<Rightarrow> object_key \<Rightarrow> TektonTasks option" where
  "fake_stored_tt w k = fmlookup (fc_tts w) k"

definition fake_rest :: "fake_cluster \<Rightarrow> fake_cluster" where
  "fake_rest w = w\<lparr>fc_tts := fmempty\<rparr>"

definition fake_tt_healthy :: "fake_cluster \<Rightarrow> bool" where
  "fake_tt_healthy w \<longleftrightarrow> (\<forall>k t. fmlookup (fc_tts w) k = Some t \<longrightarrow>
     tt_key t = k \<and> alive (tt_meta t) \<and> snd k \<noteq> '''' \<and> parse_uint (m_resourceVersion (tt_meta t)) \<noteq> None)"

lemma fake_rest_eq [simp]: "fake_rest (w\<lparr>fc_tts := f\<rparr>) = fake_rest w"
  by (simp add: fake_rest_def)

lemma fake_rest_objects:
  assumes "fake_rest w' = fake_rest w"
  shows "fc_objects w' = fc_objects w" "fc_crds w' = fc_crds w" "fake_view w' = fake_view w"
    "fake_healthy w' = fake_healthy w"
proof -
  have "fc_objects (fake_rest w') = fc_objects (fake_rest w)" "fc_crds (fake_rest w') = fc_crds (fake_rest w)"
    "fc_now (fake_rest w') = fc_now (fake_rest w)"
    by (simp_all add: assms)
  then show "fc_objects w' = fc_objects w" "fc_crds w' = fc_crds w" "fake_view w' = fake_view w"
    "fake_healthy w' = fake_healthy w"
    by (simp_all add: fake_rest_def fake_view_def fake_healthy_def fun_eq_iff)
qed

lemma fake_update_tt_result:
  assumes w: "fake_tt_healthy w" "fake_stored_tt w (tt_key t) = Some old"
    and rv: "m_resourceVersion (tt_meta t) = m_resourceVersion (tt_meta old)"
  shows "\<exists>v. parse_uint v \<noteq> None \<and> fake_update_tt t w = (Inr (with_rv v t),
     w\<lparr>fc_tts := if alive (tt_meta t) then fmupd (tt_key t) (with_rv v t) (fc_tts w)
                else fmdrop (tt_key t) (fc_tts w)\<rparr>)"
proof -
  have o': "fmlookup (fc_tts w) (tt_key t) = Some old" using w(2) by (simp add: fake_stored_tt_def)
  with w(1) have p: "parse_uint (m_resourceVersion (tt_meta old)) \<noteq> None" "snd (tt_key t) \<noteq> ''''"
    unfolding fake_tt_healthy_def by blast+
  then obtain n where n: "parse_uint (m_resourceVersion (tt_meta old)) = Some n" by blast
  have k: "meta_key (tt_meta t) = tt_key t" by (simp add: meta_key_def tt_key_def)
  have name: "m_name (tt_meta t) \<noteq> ''''" using p(2) by (simp add: tt_key_def)
  let ?v = "format_uint (unat (word_of_nat n + 1 :: 64 word))"
  have "tracker_update False res tt_meta tt_upd_meta t (fc_tts w) =
     (Inr (with_rv ?v t), if alive (tt_meta t) then fmupd (tt_key t) (with_rv ?v t) (fc_tts w)
                else fmdrop (tt_key t) (fc_tts w))" for res
    using o' name n rv parse_uint_nonempty [OF p(1)]
    by (auto simp: tracker_update_def Let_def k alive_def with_rv_def)
  then show ?thesis
    by (intro exI [of _ ?v]) (simp add: fake_update_tt_def Let_def next_rv_ok)
qed

lemma fake_tt_healthy_upd:
  "fake_tt_healthy w \<Longrightarrow> alive (tt_meta t) \<Longrightarrow> snd (tt_key t) \<noteq> '''' \<Longrightarrow>
     parse_uint (m_resourceVersion (tt_meta t)) \<noteq> None \<Longrightarrow>
     fake_tt_healthy (w\<lparr>fc_tts := fmupd (tt_key t) t (fc_tts w)\<rparr>)"
  by (auto simp: fake_tt_healthy_def)

lemma fake_list_tt_keys:
  assumes "fake_tt_healthy w"
  shows "\<exists>items. fake_list_tt None w = (Inr items, w) \<and> distinct (map tt_key items) \<and>
     set (map tt_key items) = {k. fake_stored_tt w k \<noteq> None}"
proof -
  define xs where "xs = sorted_list_of_fmap (fc_tts w)"
  define items where "items = map (\<lambda>(k, t). t\<lparr>tt_meta := meta_json (tt_meta t)\<rparr>) xs"
  have mem: "(k, t) \<in> set xs \<longleftrightarrow> fmlookup (fc_tts w) k = Some t" for k t
    unfolding xs_def sorted_list_of_fmap_def
    by (auto simp: fmlookup_dom_iff)
  have dist: "distinct (map fst xs)"
    by (simp add: xs_def sorted_list_of_fmap_def comp_def sorted_list_of_fset.rep_eq)
  have key: "tt_key (t\<lparr>tt_meta := meta_json (tt_meta t)\<rparr>) = tt_key t" for t
    by (simp add: tt_key_def)
  have "map tt_key items = map fst xs"
    unfolding items_def using assms mem
    by (auto simp: key fake_tt_healthy_def)
  moreover have "set (map fst xs) = {k. fake_stored_tt w k \<noteq> None}"
    using mem by (force simp: fake_stored_tt_def)
  moreover have "fake_list_tt None w = (Inr items, w)"
    by (simp add: fake_list_tt_def items_def xs_def)
  ultimately show ?thesis using dist by (intro exI [of _ items]) (simp only: simp_thms)
qed

interpretation fake_tts: tt_server fake_client fake_stored_tt fake_read_tt fake_rest fake_tt_healthy
proof (unfold_locales, goal_cases)
  case (1 w k t)
  then show ?case by (simp add: fake_get_tt_def fake_stored_tt_def)
next
  case (2 w k)
  then show ?case by (simp add: fake_get_tt_def fake_stored_tt_def not_found_def)
next
  case (3 w k t)
  then show ?case unfolding fake_tt_healthy_def fake_stored_tt_def by blast
next
  case (4 t)
  show ?case by (simp add: fake_read_tt_def tt_key_def)
next
  case (5 w t old)
  from fake_update_tt_result [OF 5(1,2,3)] obtain v where v: "parse_uint v \<noteq> None"
    "fake_update_tt t w = (Inr (with_rv v t), w\<lparr>fc_tts := fmupd (tt_key t) (with_rv v t) (fc_tts w)\<rparr>)"
    using 5(4) by auto
  have "snd (tt_key t) \<noteq> ''''"
    using 5(1,2) unfolding fake_tt_healthy_def fake_stored_tt_def by blast
  then have "fake_tt_healthy (w\<lparr>fc_tts := fmupd (tt_key t) (with_rv v t) (fc_tts w)\<rparr>)"
    using fake_tt_healthy_upd [of w "with_rv v t"] 5(1,4) v(1) by (simp add: alive_def)
  then show ?case
    using v by (intro exI [of _ v] exI [of _ "Status t"]
        exI [of _ "w\<lparr>fc_tts := fmupd (tt_key t) (with_rv v t) (fc_tts w)\<rparr>"])
      (auto simp: fake_stored_tt_def fun_eq_iff with_rv_def tt_upd_meta_def)
next
  case (6 w t old)
  have "alive (tt_meta old)" "snd (tt_key t) \<noteq> ''''"
    using 6(1,2) unfolding fake_tt_healthy_def fake_stored_tt_def by blast+
  then have a: "alive (tt_meta t)" "snd (tt_key t) \<noteq> ''''" using 6 by (simp_all add: alive_def)
  from fake_update_tt_result [OF 6(1,2,4)] obtain v where v: "parse_uint v \<noteq> None"
    "fake_update_tt t w = (Inr (with_rv v t), w\<lparr>fc_tts := fmupd (tt_key t) (with_rv v t) (fc_tts w)\<rparr>)"
    using a by auto
  have "fake_tt_healthy (w\<lparr>fc_tts := fmupd (tt_key t) (with_rv v t) (fc_tts w)\<rparr>)"
    using fake_tt_healthy_upd [of w "with_rv v t"] 6(1) a v(1) by (simp add: alive_def)
  then show ?case
    using v by (intro exI [of _ v] exI [of _ "w\<lparr>fc_tts := fmupd (tt_key t) (with_rv v t) (fc_tts w)\<rparr>"])
      (auto simp: fake_stored_tt_def fun_eq_iff)
next
  case (7 w t old)
  from fake_update_tt_result [OF 7(1,2,3)] obtain v where v:
    "fake_update_tt t w = (Inr (with_rv v t), w\<lparr>fc_tts := fmdrop (tt_key t) (fc_tts w)\<rparr>)"
    using 7(4) by auto
  have "fake_tt_healthy (w\<lparr>fc_tts := fmdrop (tt_key t) (fc_tts w)\<rparr>)"
    using 7(1) by (auto simp: fake_tt_healthy_def split: if_splits)
  then show ?case
    using v by (intro exI [of _ v] exI [of _ "Status t"]
        exI [of _ "w\<lparr>fc_tts := fmdrop (tt_key t) (fc_tts w)\<rparr>"])
      (auto simp: fake_stored_tt_def fun_eq_iff with_rv_def tt_upd_meta_def)
next
  case (8 w t)
  then show ?case
    by (auto simp: fake_update_tt_def tracker_update_def fake_stored_tt_def tt_key_def meta_key_def
        not_found_def Let_def)
next
  case (9 w)
  then show ?case using fake_list_tt_keys by simp
qed

end
