(* ===== verification/Controller_Deploy.thy ===== *)
theory Controller_Deploy
  imports Controller_Contract
begin

text \<open>
  One whole reconciliation of the controller on the server of the tests: the operands run one
  after the other, the status that results, and what is in the cluster afterwards.
\<close>

section \<open>The functions that write a status\<close>

definition pre_status :: "environ \<Rightarrow> time \<Rightarrow> int64 \<Rightarrow> TektonTasksStatus \<Rightarrow> TektonTasksStatus" where
  "pre_status env now gen s =
     set_if_different now ConditionDegraded ConditionTrue ''Degraded'' reconciling_message
       (set_if_different now ConditionProgressing ConditionTrue ''Progressing'' reconciling_message
         (set_if_different now ConditionAvailable ConditionFalse ''Available'' reconciling_message
           (s\<lparr>Phase := PhaseDeploying, ObservedGeneration := gen, OperatorVersion := GetOperatorVersion env,
              TargetVersion := GetOperatorVersion env, Paused := False\<rparr>)))"

lemma preUpdateStatus_write:
  "preUpdateStatus cl env now (inst, s) =
     write_tt (c_status_update_tt cl)
       (upd_status (pre_status env now (m_generation (tt_meta inst))) inst,
        if Paused (Status inst) then log_msg (''Unpausing Tekton tasks operator on resource: '' @ namespaced_name inst) s
        else s)"
  by (simp add: preUpdateStatus_def pre_status_def Let_def on_status_def observe_generation_def set_phase_def
      upd_status_def namespaced_name_def)

definition reported ::
  "environ \<Rightarrow> time \<Rightarrow> ReconcileResult list \<Rightarrow> int64 \<Rightarrow> TektonTasksStatus \<Rightarrow> TektonTasksStatus" where
  "reported env now results gen s =
     (let notAvailable = filter (\<lambda>r. NotAvailable (rr_Status r) \<noteq> None) results;
          progressing = filter (\<lambda>r. Progressing (rr_Status r) \<noteq> None) results;
          degraded = filter (\<lambda>r. Degraded (rr_Status r) \<noteq> None) results;
          s = set_condition now ConditionAvailable
                (if notAvailable = [] then ConditionTrue else ConditionFalse) ''Available''
                (status_message NotAvailable ''Tekton operator is available''
                   '' Tekton tasks resources are not available'' notAvailable) s;
          s = set_condition now ConditionProgressing
                (if progressing = [] then ConditionFalse else ConditionTrue) ''Progressing''
                (status_message Progressing ''No Tekton tasks resources are progressing''
                   '' Tekton tasks resources are progressing'' progressing) s;
          s = set_condition now ConditionDegraded
                (if degraded = [] then ConditionFalse else ConditionTrue) ''Degraded''
                (status_message Degraded ''No Tekton tasks resources are degraded''
                   '' Tekton tasks resources are degraded'' degraded) s;
          s = s\<lparr>ObservedGeneration := gen\<rparr>
      in if notAvailable = [] \<and> progressing = [] \<and> degraded = []
         then s\<lparr>Phase := PhaseDeployed, ObservedVersion := GetOperatorVersion env\<rparr>
         else s\<lparr>Phase := PhaseDeploying\<rparr>)"

lemma report_results_status:
  "report_results env now results (inst, s) =
     (upd_status (reported env now results (m_generation (tt_meta inst))) inst, s)"
proof -
  have upd: "upd_status f inst = upd_status g inst" if "\<And>s. f s = g s" for f g
    using that by (simp add: upd_status_def)
  show ?thesis
    unfolding report_results_def Let_def on_status_def observe_generation_def set_phase_def
    by (simp add: if_distrib [where f = "\<lambda>x. (x, s)"] del: not_None_eq)
      (auto intro!: upd simp: reported_def Let_def simp del: not_None_eq)
qed

lemma updateStatus_write:
  "updateStatus cl env now results (inst, s) =
     write_tt (c_status_update_tt cl)
       (upd_status (reported env now results (m_generation (tt_meta inst))) inst, s)"
  by (simp add: updateStatus_def report_results_status)

lemma reported_success:
  assumes "list_all IsSuccess results"
  shows "Phase (reported env now results gen s) = PhaseDeployed"
    "ObservedVersion (reported env now results gen s) = GetOperatorVersion env"
    "three_are (reported env now results gen s) ConditionTrue ConditionFalse ConditionFalse"
    "ObservedGeneration (reported env now results gen s) = gen"
proof -
  have "filter (\<lambda>r. NotAvailable (rr_Status r) \<noteq> None) results = []"
    "filter (\<lambda>r. Progressing (rr_Status r) \<noteq> None) results = []"
    "filter (\<lambda>r. Degraded (rr_Status r) \<noteq> None) results = []"
    using assms by (auto simp: filter_empty_conv list_all_iff IsSuccess_def)
  note e = this [unfolded not_None_eq]
  show "Phase (reported env now results gen s) = PhaseDeployed"
    "ObservedVersion (reported env now results gen s) = GetOperatorVersion env"
    "three_are (reported env now results gen s) ConditionTrue ConditionFalse ConditionFalse"
    "ObservedGeneration (reported env now results gen s) = gen"
    by (simp_all add: reported_def Let_def e three_are_def)
qed

section \<open>The operands, one after the other\<close>

text \<open>What an operand does depends on these parts of the resource only.\<close>

definition same_owner :: "TektonTasks \<Rightarrow> TektonTasks \<Rightarrow> bool" where
  "same_owner a b \<longleftrightarrow> Spec a = Spec b \<and> tt_kind a = tt_kind b \<and> tt_apiVersion a = tt_apiVersion b \<and>
     m_name (tt_meta a) = m_name (tt_meta b) \<and> m_namespace (tt_meta a) = m_namespace (tt_meta b) \<and>
     m_labels (tt_meta a) = m_labels (tt_meta b)"

lemma same_owner_deployable:
  assumes "same_owner a b"
  shows "tt_deployable env a t = tt_deployable env b t" "tp_deployable a p = tp_deployable b p"
    "tt_target env a t = tt_target env b t" "tp_target a p = tp_target b p"
    "tp_slots_of a p = tp_slots_of b p" "tt_deployed a = tt_deployed b" "tp_deployed env a = tp_deployed env b"
    "tt_prepared env a = tt_prepared env b" "tp_prepared a = tp_prepared b"
proof -
  have tn: "task_namespace a = task_namespace b"
    using assms by (simp add: same_owner_def task_namespace_def split: option.splits)
  have lab: "AddAppLabels a n c x = AddAppLabels b n c x" for n c x
    using assms by (simp add: same_owner_def AddAppLabels_def addInstanceLabels_def)
  have own: "owner_marked a = owner_marked b"
    using assms by (simp add: same_owner_def owner_marked_def owner_type_def owner_namespaced_name_def fun_eq_iff)
  have pt: "prepared_task env a = prepared_task env b" unfolding prepared_task_def [abs_def] tn by (rule refl)
  show tpr: "tt_prepared env a = tt_prepared env b"
  proof (intro ext)
    fix j x show "tt_prepared env a j x = tt_prepared env b j x"
      using assms by (cases j) (simp_all add: pt same_owner_def)
  qed
  then show tt: "tt_target env a t = tt_target env b t" by (simp add: tt_target_def fun_eq_iff)
  show "tt_deployable env a t = tt_deployable env b t" by (simp add: tt_deployable_def tpr tt)
  show ppr: "tp_prepared a = tp_prepared b"
  proof (intro ext)
    fix j x show "tp_prepared a j x = tp_prepared b j x"
      using assms by (cases j) (simp_all add: same_owner_def tp_prepare_defs)
  qed
  then show tp: "tp_target a p = tp_target b p" by (simp add: tp_target_def fun_eq_iff)
  show sl: "tp_slots_of a p = tp_slots_of b p"
    using assms by (simp add: tp_slots_of_def skip_service_account_def same_owner_def)
  show "tp_deployable a p = tp_deployable b p" by (simp add: tp_deployable_def tp sl)
  show "tt_deployed a = tt_deployed b" by (simp add: tt_deployed_def own lab fun_eq_iff)
  show "tp_deployed env a = tp_deployed env b" by (simp add: tp_deployed_def own lab fun_eq_iff)
qed

text \<open>Both operands can be deployed, and no object of one is an object of the other.\<close>

definition operands_deployable :: "environ \<Rightarrow> TektonTasks \<Rightarrow> tektonTasks \<Rightarrow> tektonPipelines \<Rightarrow> bool" where
  "operands_deployable env inst t p \<longleftrightarrow> tt_deployable env inst t \<and> tp_deployable inst p \<and>
     list_all (\<lambda>j. tt_target env inst t j \<notin> set (map (tp_target inst p) (tp_slots_of inst p))) (tt_slots_of t)"

definition operand_targets :: "environ \<Rightarrow> TektonTasks \<Rightarrow> tektonTasks \<Rightarrow> tektonPipelines \<Rightarrow> (rtype \<times> object_key) list" where
  "operand_targets env inst t p = map (tt_target env inst t) (tt_slots_of t) @ map (tp_target inst p) (tp_slots_of inst p)"

definition all_deployed ::
  "environ \<Rightarrow> TektonTasks \<Rightarrow> tektonTasks \<Rightarrow> tektonPipelines \<Rightarrow> (rtype \<Rightarrow> object_key \<Rightarrow> object option) \<Rightarrow> bool" where
  "all_deployed env inst t p v \<longleftrightarrow>
     (\<forall>j \<in> set (tt_slots_of t). \<exists>x y. tt_prepared env inst j (tt_elem j t) = Some x \<and>
        v (tt_slot_type j) (object_key_of x) = Some y \<and> tt_deployed inst j x y) \<and>
     (\<forall>j \<in> set (tp_slots_of inst p). \<exists>y. v (tp_slot_type j) (object_key_of (tp_prepared inst j (tp_elem j p))) = Some y \<and>
        tp_deployed env inst j (tp_prepared inst j (tp_elem j p)) y)"

lemma fake_calls_keep: "object_calls_keep fake_client (\<lambda>w. fc_tts w = f \<and> fc_now w = n \<and> fc_crds w = c)"
  by (auto simp: object_calls_keep_def fake_get_def fake_create_def fake_update_def fake_delete_def
      fake_list_clustertasks_def with_objects_def)

text \<open>
  The two operands as they were created are \<open>t0\<close> and \<open>p0\<close>, as earlier reconciliations left them
  \<open>t\<close> and \<open>p\<close>. They are ready when a reconciliation will deploy what \<open>t0\<close> and \<open>p0\<close> want, and settled
  when it is there already.
\<close>

definition disjoint_targets :: "environ \<Rightarrow> TektonTasks \<Rightarrow> tektonTasks \<Rightarrow> tektonPipelines \<Rightarrow> bool" where
  "disjoint_targets env inst t p \<longleftrightarrow>
     list_all (\<lambda>j. tt_target env inst t j \<notin> set (map (tp_target inst p) (tp_slots_of inst p))) (tt_slots_of t)"

definition operands_ready where
  "operands_ready env inst t0 p0 t p v vc \<longleftrightarrow> disjoint_targets env inst t0 p0 \<and>
     tt_run.ready_in env inst t0 t v vc \<and> tp_run.ready_in inst env p0 p v vc"

definition operands_settled where
  "operands_settled env inst t0 p0 t p v \<longleftrightarrow> disjoint_targets env inst t0 p0 \<and>
     tt_run.settled_in env inst t0 t v \<and> tp_run.settled_in inst env p0 p v"

lemma targets_disjointD:
  assumes "disjoint_targets env inst t p" and "j \<in> set (tt_slots_of t)" and "i \<in> set (tp_slots_of inst p)"
  shows "tt_target env inst t j \<noteq> tp_target inst p i"
  using assms by (auto simp: disjoint_targets_def list_all_iff)

lemma operands_ready_start:
  assumes "m_name (tt_meta inst) \<noteq> ''''" "tt_kind inst \<noteq> ''''" and "operands_deployable env inst t p"
    and "list_all (\<lambda>(rt, k). fresh_at v vc rt k) (operand_targets env inst t p)"
  shows "operands_ready env inst t p t p v vc"
proof -
  have "list_all (\<lambda>j. fresh_at v vc (fst (tt_target env inst t j)) (snd (tt_target env inst t j))) (tt_slots_of t)"
    "list_all (\<lambda>j. fresh_at v vc (fst (tp_target inst p j)) (snd (tp_target inst p j))) (tp_slots_of inst p)"
    using assms(4) by (simp_all add: operand_targets_def list_all_iff case_prod_beta)
  then show ?thesis
    using assms(3) tt_ready_start [OF assms(1,2)] tp_ready_start [OF assms(1,2)]
    by (simp add: operands_ready_def operands_deployable_def disjoint_targets_def)
qed

lemma operands_settled_deployed:
  assumes "operands_settled env inst t0 p0 t p v"
  shows "all_deployed env inst t0 p0 v"
  unfolding all_deployed_def
  using assms tt_settled_stored tp_settled_stored unfolding operands_settled_def by blast

lemma operands_settled_ready:
  assumes "operands_settled env inst t0 p0 t p v"
    and "list_all (\<lambda>(rt, k). v' rt k = v rt k \<or> fresh_at v' vc rt k) (operand_targets env inst t0 p0)"
  shows "operands_ready env inst t0 p0 t p v' vc"
proof -
  have s: "disjoint_targets env inst t0 p0" "tt_run.settled_in env inst t0 t v" "tp_run.settled_in inst env p0 p v"
    using assms(1) by (simp_all add: operands_settled_def)
  have "tt_run.ready_in env inst t0 t v' vc"
    by (rule tt_run.settled_ready [OF s(2)]) (use assms(2) in \<open>simp add: operand_targets_def list_all_iff case_prod_beta\<close>)
  moreover have "tp_run.ready_in inst env p0 p v' vc"
    by (rule tp_run.settled_ready [OF s(3)]) (use assms(2) in \<open>simp add: operand_targets_def list_all_iff case_prod_beta\<close>)
  ultimately show ?thesis using s(1) by (simp add: operands_ready_def)
qed

lemma reconcileOperands_ready:
  assumes w: "fake_healthy (world s)" "cache_wf (vcache s)"
    and ready: "operands_ready env inst t0 p0 t p (fake_view (world s)) (vcache s)"
  shows "\<exists>results t' p' s'. reconcileOperands fake_client env inst [TasksOperand t, PipelinesOperand p] s =
       (Ok results, ([TasksOperand t', PipelinesOperand p'], s')) \<and>
     list_all IsSuccess results \<and> fake_healthy (world s') \<and> cache_wf (vcache s') \<and>
     fc_tts (world s') = fc_tts (world s) \<and>
     operands_settled env inst t0 p0 t' p' (fake_view (world s')) \<and>
     (\<forall>rt k. (rt, k) \<notin> set (operand_targets env inst t0 p0) \<longrightarrow>
        fake_view (world s') rt k = fake_view (world s) rt k)"
proof -
  have d: "disjoint_targets env inst t0 p0" "tt_run.ready_in env inst t0 t (fake_view (world s)) (vcache s)"
    "tp_run.ready_in inst env p0 p (fake_view (world s)) (vcache s)"
    using ready by (simp_all add: operands_ready_def)
  obtain r1 t' s1 where T: "tt_Reconcile fake_client env inst (t, s) = (Ok r1, (t', s1))"
      "list_all IsSuccess r1" "fake_healthy (world s1)" "cache_wf (vcache s1)"
      "\<forall>rt k. (rt, k) \<notin> tt_target env inst t0 ` set (tt_slots_of t0) \<longrightarrow>
        fake_view (world s1) rt k = fake_view (world s) rt k \<and>
        fmlookup (vcache s1) (object_cache_key rt k) = fmlookup (vcache s) (object_cache_key rt k)"
      "tt_run.settled_in env inst t0 t' (fake_view (world s1))"
    using tt_run.run_ready [OF w d(2)] by blast
  have "tp_target inst p0 j \<notin> tt_target env inst t0 ` set (tt_slots_of t0)" if "j \<in> set (tp_slots_of inst p0)" for j
    using targets_disjointD [OF d(1) _ that] by (metis imageE)
  then have "tp_run.ready_in inst env p0 p (fake_view (world s1)) (vcache s1)"
    using T(5) by (intro tp_run.ready_cong [OF d(3)]) (metis prod.collapse)
  then obtain r2 p' s2 where P: "tp_Reconcile fake_client env inst (p, s1) = (Ok r2, (p', s2))"
      "list_all IsSuccess r2" "fake_healthy (world s2)" "cache_wf (vcache s2)"
      "\<forall>rt k. (rt, k) \<notin> tp_target inst p0 ` set (tp_slots_of inst p0) \<longrightarrow>
        fake_view (world s2) rt k = fake_view (world s1) rt k \<and>
        fmlookup (vcache s2) (object_cache_key rt k) = fmlookup (vcache s1) (object_cache_key rt k)"
      "tp_run.settled_in inst env p0 p' (fake_view (world s2))"
    using tp_run.run_ready [OF T(3,4)] by blast
  have run: "reconcileOperands fake_client env inst [TasksOperand t, PipelinesOperand p] s =
       (Ok (r1 @ r2), ([TasksOperand t', PipelinesOperand p'], s2))"
    by (simp add: T(1) P(1))
  have tts: "fc_tts (world s2) = fc_tts (world s)"
    using keepsD [OF tt_Reconcile_keeps [OF fake_calls_keep] _ T(1)]
      keepsD [OF tp_Reconcile_keeps [OF fake_calls_keep] _ P(1)] by simp
  have "tt_target env inst t0 j \<notin> tp_target inst p0 ` set (tp_slots_of inst p0)" if "j \<in> set (tt_slots_of t0)" for j
    using targets_disjointD [OF d(1) that] by (metis imageE)
  then have "tt_run.settled_in env inst t0 t' (fake_view (world s2))"
    using P(5) by (intro tt_run.settled_cong [OF T(6)]) (metis prod.collapse)
  then have settled: "operands_settled env inst t0 p0 t' p' (fake_view (world s2))"
    using d(1) P(6) by (simp add: operands_settled_def)
  have frame: "fake_view (world s2) rt k = fake_view (world s) rt k"
    if "(rt, k) \<notin> set (operand_targets env inst t0 p0)" for rt k
    using that T(5) [rule_format, of rt k] P(5) [rule_format, of rt k] by (simp add: operand_targets_def)
  show ?thesis
    using run T(2) P(2-4) tts settled frame
    by (intro exI [of _ "r1 @ r2"] exI [of _ t'] exI [of _ p'] exI [of _ s2]) simp
qed

lemma reconcileOperands_settled:
  assumes w: "fake_healthy (world s)" and settled: "operands_settled env inst t0 p0 t p (fake_view (world s))"
  shows "\<exists>results s'. reconcileOperands fake_client env inst [TasksOperand t, PipelinesOperand p] s =
       (Ok results, ([TasksOperand t, PipelinesOperand p], s')) \<and>
     list_all IsSuccess results \<and> world s' = world s"
proof -
  have d: "tt_run.settled_in env inst t0 t (fake_view (world s))" "tp_run.settled_in inst env p0 p (fake_view (world s))"
    using settled by (simp_all add: operands_settled_def)
  obtain r1 s1 where T: "tt_Reconcile fake_client env inst (t, s) = (Ok r1, (t, s1))" "world s1 = world s"
      "list_all (\<lambda>res. IsSuccess res \<and> rr_OperationResult res = OperationResultNone) r1"
    using tt_run.run_settled [OF w d(1)] by blast
  have 1: "fake_healthy (world s1)" "tp_run.settled_in inst env p0 p (fake_view (world s1))"
    using w d(2) by (simp_all add: T(2))
  obtain r2 s2 where P: "tp_Reconcile fake_client env inst (p, s1) = (Ok r2, (p, s2))" "world s2 = world s1"
      "list_all (\<lambda>res. IsSuccess res \<and> rr_OperationResult res = OperationResultNone) r2"
    using tp_run.run_settled [OF 1] by blast
  show ?thesis
    using T P by (intro exI [of _ "r1 @ r2"] exI [of _ s2]) (auto simp: list_all_iff)
qed

section \<open>A whole reconciliation\<close>

lemma with_rv_same_owner: "same_owner (with_rv v (upd_status f t)) t"
  by (simp add: same_owner_def)

lemma fake_read_tt_simps [simp]:
  "Spec (fake_read_tt t) = Spec t" "Status (fake_read_tt t) = Status t" "tt_kind (fake_read_tt t) = ''TektonTasks''"
  "tt_meta (fake_read_tt t) = meta_json (tt_meta t)" "tt_key (fake_read_tt t) = tt_key t"
  by (simp_all add: fake_read_tt_def tt_key_def)

lemma fake_only_cr:
  assumes "fake_tt_healthy w" and "fmdom (fc_tts w) = {|k|}"
  shows "\<exists>items. fake_list_tt None w = (Inr items, w) \<and> length items = 1"
proof -
  obtain items where i: "fake_list_tt None w = (Inr items, w)" "distinct (map tt_key items)"
     "set (map tt_key items) = {k. fake_stored_tt w k \<noteq> None}" using fake_list_tt_keys [OF assms(1)] by blast
  have "{k. fake_stored_tt w k \<noteq> None} = {k}"
  proof -
    have "fake_stored_tt w k' \<noteq> None \<longleftrightarrow> k' |\<in>| fmdom (fc_tts w)" for k'
      by (auto simp: fake_stored_tt_def fmlookup_dom_iff)
    then show ?thesis unfolding assms(2) by simp
  qed
  then have "card (set (map tt_key items)) = 1" using i(3) by simp
  then have "length items = 1" using distinct_card [OF i(2)] by simp
  then show ?thesis using i(1) by blast
qed

lemma pre_status_keeps [simp]:
  "ObservedVersion (pre_status env now gen s) = ObservedVersion s"
  by (simp add: pre_status_def)

definition served :: "TektonTasks \<Rightarrow> fake_cluster \<Rightarrow> bool" where
  \<comment> \<open>the resource in the reconciler's hands is the one the server stores\<close>
  "served inst w \<longleftrightarrow> fake_healthy w \<and> fake_tts.holds inst w"

definition deployed_status :: "environ \<Rightarrow> TektonTasks \<Rightarrow> bool" where
  "deployed_status env t \<longleftrightarrow> Phase (Status t) = PhaseDeployed \<and> ObservedVersion (Status t) = GetOperatorVersion env \<and>
     ObservedGeneration (Status t) = m_generation (tt_meta t) \<and>
     three_are (Status t) ConditionTrue ConditionFalse ConditionFalse"

lemma served_write:
  assumes "served inst (world s)"
  shows "\<exists>v w. write_tt (c_status_update_tt fake_client) (upd_status f inst, s) =
       (Ok (), (with_rv v (upd_status f inst), s\<lparr>world := w\<rparr>)) \<and>
     served (with_rv v (upd_status f inst)) w \<and>
     fc_tts w = fmupd (tt_key inst) (with_rv v (upd_status f inst)) (fc_tts (world s)) \<and>
     fake_view w = fake_view (world s) \<and> fc_objects w = fc_objects (world s)"
proof -
  have "fake_tts.holds (upd_status f inst) (world s)" using assms by (simp add: served_def)
  from fake_tts.write_status [OF this] obtain v w where
    w: "write_tt (c_status_update_tt fake_client) (upd_status f inst, s) =
       (Ok (), (with_rv v (upd_status f inst), s\<lparr>world := w\<rparr>))"
    "fake_tts.holds (with_rv v (upd_status f inst)) w"
    "fake_stored_tt w = (fake_stored_tt (world s))(tt_key inst := Some (with_rv v (upd_status f inst)))"
    "fake_rest w = fake_rest (world s)"
    by auto
  have "fc_tts w = fmupd (tt_key inst) (with_rv v (upd_status f inst)) (fc_tts (world s))"
    using fun_cong [OF w(3)] by (intro fmap_ext) (simp add: fake_stored_tt_def)
  then show ?thesis
    using w assms fake_rest_objects [OF w(4)] by (auto simp: served_def)
qed

lemma served_keep:
  assumes "served inst w" and "fc_tts w' = fc_tts w" and "fake_healthy w'"
  shows "served inst w'"
  using assms by (simp add: served_def fake_tts.holds_def fake_stored_tt_def fake_tt_healthy_def)

text \<open>
  A reconciliation whose operands succeed: the two writes of the status around it do not touch
  the objects, and what holds of the operands, the cache and the objects after the operands
  ran (\<open>Q\<close>) holds at the end.
\<close>

lemma reconcile_deploy_ok:
  assumes inst: "served inst (world (rs_sys r))"
    and gate: "DeployTektonTaskResources (Spec_FeatureGates (Spec inst))"
    and ops: "\<And>i s. same_owner i inst \<Longrightarrow> vcache s = vcache (rs_sys r) \<Longrightarrow>
      fake_view (world s) = fake_view (world (rs_sys r)) \<Longrightarrow> fake_healthy (world s) \<Longrightarrow>
      \<exists>results ops' s'. reconcileOperands fake_client env i (rs_operands r) s = (Ok results, (ops', s')) \<and>
        list_all IsSuccess results \<and> fake_healthy (world s') \<and> fc_tts (world s') = fc_tts (world s) \<and>
        Q ops' (vcache s') (fake_view (world s'))"
  shows "\<exists>r' t2. reconcile_deploy fake_client env now inst r = (Ok False, r') \<and> rs_gauge r' = 1 \<and>
     served t2 (world (rs_sys r')) \<and>
     fc_tts (world (rs_sys r')) = fmupd (tt_key inst) t2 (fc_tts (world (rs_sys r))) \<and>
     (\<exists>v st. t2 = with_rv v (upd_status (\<lambda>_. st) inst)) \<and> deployed_status env t2 \<and>
     Q (rs_operands r') (vcache (rs_sys r')) (fake_view (world (rs_sys r')))"
proof -
  let ?s = "rs_sys r"
  define s0 where "s0 = (if Paused (Status inst)
    then log_msg (''Unpausing Tekton tasks operator on resource: '' @ namespaced_name inst) ?s else ?s)"
  define f1 where "f1 = pre_status env now (m_generation (tt_meta inst))"
  have s0: "world s0 = world ?s" "vcache s0 = vcache ?s" by (simp_all add: s0_def)
  from served_write [of inst s0 f1] inst(1) obtain v1 w1 where
    1: "preUpdateStatus fake_client env now (inst, ?s) = (Ok (), (with_rv v1 (upd_status f1 inst), s0\<lparr>world := w1\<rparr>))"
    "served (with_rv v1 (upd_status f1 inst)) w1"
    "fc_tts w1 = fmupd (tt_key inst) (with_rv v1 (upd_status f1 inst)) (fc_tts (world ?s))"
    "fake_view w1 = fake_view (world ?s)"
    by (auto simp: preUpdateStatus_write s0 s0_def [symmetric] f1_def)
  let ?i1 = "with_rv v1 (upd_status f1 inst)" and ?s1 = "log_msg ''Reconciling operands...'' (s0\<lparr>world := w1\<rparr>)"
  have "fake_healthy w1" using 1(2) by (simp add: served_def)
  with ops [of ?i1 ?s1] with_rv_same_owner [of v1 f1 inst] obtain results ops' s2 where
    2: "reconcileOperands fake_client env ?i1 (rs_operands r) ?s1 = (Ok results, (ops', s2))"
    "list_all IsSuccess results" "fake_healthy (world s2)" "fc_tts (world s2) = fc_tts w1"
    "Q ops' (vcache s2) (fake_view (world s2))"
    by (auto simp: s0 1(4))
  define f2 where "f2 = reported env now results (m_generation (tt_meta ?i1))"
  have "served ?i1 (world s2)" by (rule served_keep [OF 1(2) 2(4,3)])
  from served_write [OF this, of f2] obtain v2 w3 where
    3: "updateStatus fake_client env now results (?i1, s2) = (Ok (), (with_rv v2 (upd_status f2 ?i1), s2\<lparr>world := w3\<rparr>))"
    "served (with_rv v2 (upd_status f2 ?i1)) w3"
    "fc_tts w3 = fmupd (tt_key ?i1) (with_rv v2 (upd_status f2 ?i1)) (fc_tts (world s2))"
    "fake_view w3 = fake_view (world s2)"
    by (auto simp: updateStatus_write f2_def)
  let ?i2 = "with_rv v2 (upd_status f2 ?i1)"
  have st: "deployed_status env ?i2"
    using reported_success [OF 2(2)] by (simp add: deployed_status_def f2_def)
  have ph: "Phase (Status ?i2) = PhaseDeployed" using st by (simp add: deployed_status_def)
  define r' where "r' = r\<lparr>rs_operands := ops',
     rs_sys := log_msg ''CR status updated'' (s2\<lparr>world := w3\<rparr>), rs_gauge := 1\<rparr>"
  have run: "reconcile_deploy fake_client env now inst r = (Ok False, r')"
    using gate 1(1) 2(1) 3(1) ph
    by (simp add: reconcile_deploy_def with_inst_def r'_def)
  have tts: "fc_tts w3 = fmupd (tt_key inst) ?i2 (fc_tts (world ?s))"
    using 1(3) 2(4) 3(3) by (intro fmap_ext) auto
  have shape: "\<exists>v st. ?i2 = with_rv v (upd_status (\<lambda>_. st) inst)"
    by (intro exI [of _ v2] exI [of _ "f2 (f1 (Status inst))"]) (simp add: upd_status_def with_rv_def tt_upd_meta_def)
  show ?thesis
    using run st tts 2(5) 3(2,4) shape
    by (intro exI [of _ r'] exI [of _ ?i2]) (simp add: r'_def)
qed

lemma isPaused_norm: "isPaused m' = isPaused m" if "m_annotations m' = smap_norm (m_annotations m)"
  using that by (auto simp: isPaused_def smap_norm_def dest: fmdomI split: option.splits)

lemma meta_json_pause [simp]: "isPaused (meta_json m) = isPaused m"
  by (rule isPaused_norm) (simp add: meta_json_def)

lemma meta_json_deleted [simp]: "isBeingDeleted (meta_json m) = isBeingDeleted m"
  by (simp add: isBeingDeleted_def meta_json_def)

lemma world_as_is: "world (rs_sys c) = w \<Longrightarrow> c\<lparr>rs_sys := (rs_sys c)\<lparr>world := w\<rparr>\<rparr> = c"
  by (cases c) auto

lemma clearCacheIfNeeded_simps [simp]:
  "world (rs_sys (clearCacheIfNeeded t r)) = world (rs_sys r)"
  "logs (rs_sys (clearCacheIfNeeded t r)) = logs (rs_sys r)"
  "rs_operands (clearCacheIfNeeded t r) = rs_operands r"
  "rs_gauge (clearCacheIfNeeded t r) = rs_gauge r"
  by (simp_all add: clearCacheIfNeeded_def)

text \<open>
  The resource that the server holds under \<open>k\<close> is ready to be deployed: the server is healthy,
  it holds no other resource, and the resource is initialised, kept by no finalizer of an old
  release, neither being deleted nor paused.
\<close>

definition ready :: "object_key \<Rightarrow> TektonTasks \<Rightarrow> fake_cluster \<Rightarrow> bool" where
  "ready k t0 w \<longleftrightarrow> fake_healthy w \<and> fake_tt_healthy w \<and> fmdom (fc_tts w) = {|k|} \<and>
     fmlookup (fc_tts w) k = Some t0 \<and> Phase (Status t0) \<noteq> PhaseEmpty \<and>
     \<not> ContainsFinalizer (tt_meta t0) oldFinalizerName \<and>
     \<not> isBeingDeleted (tt_meta t0) \<and> \<not> isPaused (tt_meta t0)"

lemma fake_request:
  assumes "fake_tt_healthy w" and "fmlookup (fc_tts w) k = Some t0"
  shows "fake_get_tt k w = (Inr (fake_read_tt t0), w)" "fake_tts.holds (fake_read_tt t0) w"
    "tt_key (fake_read_tt t0) = k" "m_name (tt_meta (fake_read_tt t0)) \<noteq> ''''"
    "m_finalizers (tt_meta (fake_read_tt t0)) = m_finalizers (tt_meta t0)"
proof -
  have st: "fake_stored_tt w k = Some t0" using assms(2) by (simp add: fake_stored_tt_def)
  show "fake_get_tt k w = (Inr (fake_read_tt t0), w)" using fake_tts.tt_get [OF assms(1) st] by simp
  show "fake_tts.holds (fake_read_tt t0) w" "tt_key (fake_read_tt t0) = k"
    using fake_tts.holds_read [OF assms(1) st] by simp_all
  show "m_name (tt_meta (fake_read_tt t0)) \<noteq> ''''"
    using fake_tts.tt_wf [OF assms(1) st] fake_tts.read_keeps [of t0] by (auto simp: tt_key_def)
  show "m_finalizers (tt_meta (fake_read_tt t0)) = m_finalizers (tt_meta t0)"
    using fake_tts.read_keeps [of t0] by simp
qed

lemma ready_reconciles:
  assumes "ready k t0 (world (rs_sys r))"
  shows "reconcile_request fake_client env now k r =
     reconcile_deploy fake_client env now (fake_read_tt t0) (clearCacheIfNeeded (fake_read_tt t0) r)"
proof -
  have h: "fake_tt_healthy (world (rs_sys r))" "fmlookup (fc_tts (world (rs_sys r))) k = Some t0"
    using assms by (simp_all add: ready_def)
  obtain items where items: "fake_list_tt None (world (rs_sys r)) = (Inr items, world (rs_sys r))" "length items = 1"
    using fake_only_cr [OF h(1), of k] assms by (auto simp: ready_def)
  show ?thesis
    using assms items fake_request [OF h]
    by (simp add: ready_def reconcile_request_def call_def reconcile_instance_def Let_def isInitialized_def
        with_inst_def updateTektonTasks_def ContainsFinalizer_def world_as_is)
qed

text \<open>What a deployment leaves of the stored resource: all of it but its status and resource version.\<close>

lemma redeployed_resource:
  assumes "ready k t1 w" and "t2 = with_rv v (upd_status f (fake_read_tt t1))" and "deployed_status env t2"
    and "served t2 w'" and "fc_tts w' = fmupd k t2 (fc_tts w)"
  shows "ready k t2 w'" "same_owner (fake_read_tt t2) (fake_read_tt t1)"
    "Spec t2 = Spec t1" "m_finalizers (tt_meta t2) = m_finalizers (tt_meta t1)"
proof -
  have "isPaused (tt_meta t2) = isPaused (meta_json (tt_meta t1))"
    "isBeingDeleted (tt_meta t2) = isBeingDeleted (meta_json (tt_meta t1))"
    "ContainsFinalizer (tt_meta t2) oldFinalizerName = ContainsFinalizer (tt_meta t1) oldFinalizerName"
    by (simp_all add: assms(2) isPaused_def isBeingDeleted_def ContainsFinalizer_def meta_json_def)
  then show "ready k t2 w'"
    using assms(1,3-5) by (simp add: ready_def served_def fake_tts.holds_def deployed_status_def)
  show "same_owner (fake_read_tt t2) (fake_read_tt t1)"
    by (simp add: same_owner_def assms(2) fake_read_tt_def meta_json_def meta_norm_def)
  show "Spec t2 = Spec t1" "m_finalizers (tt_meta t2) = m_finalizers (tt_meta t1)"
    by (simp_all add: assms(2) meta_json_def)
qed

lemma same_owner_sym: "same_owner a b \<Longrightarrow> same_owner b a"
  by (simp add: same_owner_def)

lemma same_owner_trans: "same_owner a b \<Longrightarrow> same_owner b c \<Longrightarrow> same_owner a c"
  by (simp add: same_owner_def)

lemma same_owner_prepare:
  assumes "same_owner a b" and "isClusterResource c"
  shows "reconcile_prepare a c = reconcile_prepare b c"
proof -
  have "AddAppLabels a n m x = AddAppLabels b n m x" for n m x
    using assms(1) by (simp add: same_owner_def AddAppLabels_def addInstanceLabels_def)
  moreover have "SetOwnerAnnotations a x = SetOwnerAnnotations b x" for x
    using assms(1) by (simp add: same_owner_def SetOwnerAnnotations_def owner_type_def owner_namespaced_name_def Let_def)
  ultimately show ?thesis
    using assms(2) by (simp add: fun_eq_iff reconcile_prepare_def setOwner_def)
qed

lemma same_owner_element:
  assumes "same_owner a b" and "operand_builder c"
  shows "reconcile_element cl a prep c = reconcile_element cl b prep c"
proof -
  have "isClusterResource c" using assms(2) by (simp add: operand_builder_def)
  from same_owner_prepare [OF assms(1) this] have "Reconcile cl a c = Reconcile cl b c"
    unfolding Reconcile_def [abs_def] by simp
  then show ?thesis unfolding reconcile_element_def [abs_def] by simp
qed

lemma same_owner_func:
  assumes "same_owner a b"
  shows "tt_func cl env a = tt_func cl env b" "tp_func cl env a = tp_func cl env b"
proof -
  have tn: "task_namespace a = task_namespace b"
    using assms by (simp add: same_owner_def task_namespace_def split: option.splits)
  have prep: "prepare_task env a = prepare_task env b" "prepare_instance_namespace a = prepare_instance_namespace b"
    using assms by (simp_all add: fun_eq_iff prepare_task_def prepare_instance_namespace_def tn same_owner_def)
  show "tt_func cl env a = tt_func cl env b"
  proof
    fix j show "tt_func cl env a j = tt_func cl env b j"
      using same_owner_element [OF assms tt_builder_operand, of cl] prep by (cases j) simp_all
  qed
  have prep: "prepare_pipelines_namespace a = prepare_pipelines_namespace b" "prepare_role_binding a = prepare_role_binding b"
    "prepare_service_account a = prepare_service_account b"
    using assms by (simp_all add: fun_eq_iff tp_prepare_defs same_owner_def)
  show "tp_func cl env a = tp_func cl env b"
  proof
    fix j show "tp_func cl env a j = tp_func cl env b j"
      using same_owner_element [OF assms tp_builder_operand, of cl] prep by (cases j) simp_all
  qed
qed

lemma same_owner_wants:
  assumes "same_owner a b"
  shows "tt_wants env a = tt_wants env b" "tp_wants env a = tp_wants env b"
  using same_owner_deployable [OF assms] by (simp_all add: fun_eq_iff tt_wants_def tp_wants_def)

lemma same_owner_operands:
  assumes "same_owner a b"
  shows "operands_ready env a t0 p0 t p v vc = operands_ready env b t0 p0 t p v vc"
    "operands_settled env a t0 p0 t p v = operands_settled env b t0 p0 t p v"
    "all_deployed env a t p v = all_deployed env b t p v" "operand_targets env a t p = operand_targets env b t p"
  unfolding operands_ready_def operands_settled_def disjoint_targets_def all_deployed_def operand_targets_def
    tt_run.ready_in_def tt_run.settled_in_def tp_run.ready_in_def tp_run.settled_in_def
    same_owner_deployable [OF assms] same_owner_func [OF assms] same_owner_wants [OF assms]
  by (rule refl)+

text \<open>One reconciliation when the operands are ready: everything is deployed, and stays ready.\<close>

lemma controller_settles:
  assumes w: "ready k t1 (world (rs_sys r))"
    and gate: "DeployTektonTaskResources (Spec_FeatureGates (Spec t1))"
    and ops: "rs_operands r = [TasksOperand t, PipelinesOperand p]"
    and cache: "cache_wf (vcache (rs_sys (clearCacheIfNeeded (fake_read_tt t1) r)))"
    and rdy: "operands_ready env (fake_read_tt t1) t0 p0 t p (fake_view (world (rs_sys r)))
      (vcache (rs_sys (clearCacheIfNeeded (fake_read_tt t1) r)))"
  shows "\<exists>r' t2 t' p'. controller_Reconcile fake_client env now k r = (Ok False, r') \<and> rs_gauge r' = 1 \<and>
     ready k t2 (world (rs_sys r')) \<and> fc_tts (world (rs_sys r')) = fmupd k t2 (fc_tts (world (rs_sys r))) \<and>
     Spec t2 = Spec t1 \<and> m_finalizers (tt_meta t2) = m_finalizers (tt_meta t1) \<and>
     same_owner (fake_read_tt t2) (fake_read_tt t1) \<and> deployed_status env t2 \<and>
     rs_operands r' = [TasksOperand t', PipelinesOperand p'] \<and> cache_wf (vcache (rs_sys r')) \<and>
     operands_settled env (fake_read_tt t1) t0 p0 t' p' (fake_view (world (rs_sys r'))) \<and>
     (\<forall>rt i. (rt, i) \<notin> set (operand_targets env (fake_read_tt t1) t0 p0) \<longrightarrow>
        fake_view (world (rs_sys r')) rt i = fake_view (world (rs_sys r)) rt i)"
proof -
  let ?i = "fake_read_tt t1" and ?c = "clearCacheIfNeeded (fake_read_tt t1) r"
  define Q where "Q ops vc v \<longleftrightarrow> (\<exists>t' p'. ops = [TasksOperand t', PipelinesOperand p'] \<and> cache_wf vc \<and>
     operands_settled env ?i t0 p0 t' p' v \<and>
     (\<forall>rt i. (rt, i) \<notin> set (operand_targets env ?i t0 p0) \<longrightarrow> v rt i = fake_view (world (rs_sys r)) rt i))" for ops vc v
  have h: "fake_tt_healthy (world (rs_sys r))" "fmlookup (fc_tts (world (rs_sys r))) k = Some t1"
    "fake_healthy (world (rs_sys r))"
    using w by (simp_all add: ready_def)
  have run: "\<exists>results ops' s'. reconcileOperands fake_client env i (rs_operands ?c) s = (Ok results, (ops', s')) \<and>
        list_all IsSuccess results \<and> fake_healthy (world s') \<and> fc_tts (world s') = fc_tts (world s) \<and>
        Q ops' (vcache s') (fake_view (world s'))"
    if s: "same_owner i ?i" "vcache s = vcache (rs_sys ?c)" "fake_view (world s) = fake_view (world (rs_sys ?c))"
      "fake_healthy (world s)" for i s
  proof -
    have "operands_ready env i t0 p0 t p (fake_view (world s)) (vcache s)" "cache_wf (vcache s)"
      using rdy cache s by (simp_all add: same_owner_operands [OF s(1)])
    from reconcileOperands_ready [OF s(4) this(2,1)] show ?thesis
      unfolding Q_def clearCacheIfNeeded_simps ops same_owner_operands [OF s(1)] s(3) by blast
  qed
  have "served ?i (world (rs_sys ?c))" using fake_request [OF h(1,2)] h(3) by (simp add: served_def)
  moreover have "DeployTektonTaskResources (Spec_FeatureGates (Spec ?i))" using gate by simp
  ultimately have "\<exists>r' t2. reconcile_deploy fake_client env now ?i ?c = (Ok False, r') \<and> rs_gauge r' = 1 \<and>
     served t2 (world (rs_sys r')) \<and>
     fc_tts (world (rs_sys r')) = fmupd (tt_key ?i) t2 (fc_tts (world (rs_sys ?c))) \<and>
     (\<exists>v st. t2 = with_rv v (upd_status (\<lambda>_. st) ?i)) \<and> deployed_status env t2 \<and>
     Q (rs_operands r') (vcache (rs_sys r')) (fake_view (world (rs_sys r')))"
    by (rule reconcile_deploy_ok) (rule run)
  then obtain r' t2 v st where d: "reconcile_deploy fake_client env now ?i ?c = (Ok False, r')" "rs_gauge r' = 1"
     "served t2 (world (rs_sys r'))"
     "fc_tts (world (rs_sys r')) = fmupd k t2 (fc_tts (world (rs_sys r)))"
     "t2 = with_rv v (upd_status (\<lambda>_. st) ?i)" "deployed_status env t2"
     "Q (rs_operands r') (vcache (rs_sys r')) (fake_view (world (rs_sys r')))"
    unfolding clearCacheIfNeeded_simps fake_request(3) [OF h(1,2)] by blast
  note t2 = redeployed_resource [OF w d(5,6,3,4)]
  have "controller_Reconcile fake_client env now k r = (Ok False, r')"
    by (simp add: controller_Reconcile_def ready_reconciles [OF w] d(1,2))
  then show ?thesis using d t2 unfolding Q_def by blast
qed

lemma controller_run:
  assumes w: "ready k t0 (world (rs_sys r))"
    and gate: "DeployTektonTaskResources (Spec_FeatureGates (Spec t0))"
    and ops: "rs_operands r = [TasksOperand t, PipelinesOperand p]" "operands_deployable env (fake_read_tt t0) t p"
    and cache: "cache_wf (vcache (rs_sys (clearCacheIfNeeded (fake_read_tt t0) r)))"
      "list_all (\<lambda>(rt, i). fresh_at (fake_view (world (rs_sys r)))
           (vcache (rs_sys (clearCacheIfNeeded (fake_read_tt t0) r))) rt i)
         (operand_targets env (fake_read_tt t0) t p)"
  shows "\<exists>r' t2 w'. controller_Reconcile fake_client env now k r = (Ok False, r') \<and> rs_gauge r' = 1 \<and>
     world (rs_sys r') = w' \<and> fake_healthy w' \<and> fc_tts w' = fmupd k t2 (fc_tts (world (rs_sys r))) \<and>
     Spec t2 = Spec t0 \<and> m_finalizers (tt_meta t2) = m_finalizers (tt_meta t0) \<and> deployed_status env t2 \<and>
     all_deployed env (fake_read_tt t0) t p (fake_view w') \<and>
     (\<forall>rt i. (rt, i) \<notin> set (operand_targets env (fake_read_tt t0) t p) \<longrightarrow>
        fake_view w' rt i = fake_view (world (rs_sys r)) rt i)"
proof -
  have h: "fake_tt_healthy (world (rs_sys r))" "fmlookup (fc_tts (world (rs_sys r))) k = Some t0"
    using w by (simp_all add: ready_def)
  have "m_name (tt_meta (fake_read_tt t0)) \<noteq> ''''" "tt_kind (fake_read_tt t0) \<noteq> ''''"
    using fake_request(4) [OF h] by simp_all
  from controller_settles [OF w gate ops(1) cache(1) operands_ready_start [OF this ops(2) cache(2)]]
  show ?thesis using operands_settled_deployed unfolding ready_def by blast
qed

text \<open>
  C1. A reconciliation of an initialised resource on the API server of the tests: the server
  holds this one \<open>TektonTasks\<close> resource, which is neither paused nor being deleted, its feature gate is
  on, and the objects of the two bundles are not yet recorded in the version cache. The
  reconciliation returns no error and asks for no retry, every object of both operands is
  in the cluster the way it was prepared, no other object changed, the stored resource is the
  only one and says Deployed for the current generation and operator version with the three
  conditions true, false, false, and the metric is set to 1.
\<close>

theorem controller_deploys:
  assumes "ready k t0 (world (rs_sys r))"
    and "DeployTektonTaskResources (Spec_FeatureGates (Spec t0))"
    and "rs_operands r = [TasksOperand t, PipelinesOperand p]" "operands_deployable env (fake_read_tt t0) t p"
    and "cache_wf (vcache (rs_sys (clearCacheIfNeeded (fake_read_tt t0) r)))"
      "list_all (\<lambda>(rt, i). fresh_at (fake_view (world (rs_sys r)))
           (vcache (rs_sys (clearCacheIfNeeded (fake_read_tt t0) r))) rt i)
         (operand_targets env (fake_read_tt t0) t p)"
  shows "\<exists>r' t2 w'. controller_Reconcile fake_client env now k r = (Ok False, r') \<and> rs_gauge r' = 1 \<and>
     world (rs_sys r') = w' \<and> fake_healthy w' \<and> fc_tts w' = fmupd k t2 (fc_tts (world (rs_sys r))) \<and>
     Spec t2 = Spec t0 \<and> m_finalizers (tt_meta t2) = m_finalizers (tt_meta t0) \<and> deployed_status env t2 \<and>
     all_deployed env (fake_read_tt t0) t p (fake_view w') \<and>
     (\<forall>rt i. (rt, i) \<notin> set (operand_targets env (fake_read_tt t0) t p) \<longrightarrow>
        fake_view w' rt i = fake_view (world (rs_sys r)) rt i)"
  using assms by (rule controller_run)

definition sample_cr :: TektonTasks where
  "sample_cr = upd_status (\<lambda>s. s\<lparr>Phase := PhaseDeploying\<rparr>) sample_tt"

definition sample_cluster :: fake_cluster where
  "sample_cluster = empty_cluster\<lparr>fc_tts := fmupd (''kubevirt'', ''tt'') sample_cr fmempty\<rparr>"

definition sample_pipelines :: tektonPipelines where
  "sample_pipelines = \<lparr>tp_pipelines = [sample_pipeline], tp_configMaps = [sample_config_map],
     tp_roleBindings = [upd_meta (\<lambda>m. m\<lparr>m_name := ''windows10''\<rparr>) sample_binding],
     tp_serviceAccounts = [upd_meta (\<lambda>m. m\<lparr>m_name := ''windows10''\<rparr>) sample_account],
     tp_clusterRoles = [upd_meta (\<lambda>m. m\<lparr>m_name := ''windows10''\<rparr>) sample_role]\<rparr>"

definition sample_operands :: "Operand list" where
  "sample_operands = [TasksOperand sample_tasks_operand, PipelinesOperand sample_pipelines]"

lemma sample_cr_owner: "same_owner (fake_read_tt sample_cr) sample_tt"
  by (simp add: same_owner_def sample_cr_def meta_json_def meta_norm_def smap_norm_def fake_read_tt_def
      GroupVersion_Group_def GroupVersion_Version_def)

lemma sample_pipelines_slots': "tp_slots_of sample_tt sample_pipelines = [PRoleAt 0, PipelineAt 0, ConfigAt 0, PBindingAt 0, PAccountAt 0]"
  by (simp add: tp_slots_of_def sample_pipelines_def upt_rec skip_service_account_def
      namespaceRegex_MatchString_def has_prefix_def sample_defs upd_meta_def)

lemma sample_operands_deployable: "operands_deployable sample_env sample_tt sample_tasks_operand sample_pipelines"
proof -
  have "tp_deployable sample_tt sample_pipelines"
    unfolding tp_deployable_def sample_pipelines_slots'
    by (simp add: tp_target_def sample_pipelines_def sample_defs o_rtype_def upd_meta_def
        empty_meta_def tp_prepare_defs object_key_of_def)
  then show ?thesis
    using sample_tasks_deployable
    unfolding operands_deployable_def sample_pipelines_slots' sample_tasks_slots
    by (simp add: tp_target_def tt_target_def sample_pipelines_def sample_tasks_operand_def
      prepared_task_def deployed_steps_def AllowedTasks_def task_name_defs sample_defs o_rtype_def
      empty_meta_def task_namespace_def set_namespace_def object_key_of_def upd_meta_def tp_prepare_defs)
qed

lemma sample_cluster_ready: "ready (''kubevirt'', ''tt'') sample_cr sample_cluster"
  by (auto simp: ready_def sample_cluster_def fake_healthy_def empty_cluster_def fake_tt_healthy_def sample_cr_def
      tt_key_def alive_def ContainsFinalizer_def isBeingDeleted_def isPaused_def sample_tt_def empty_meta_def
      parse_uint_def is_digit_def digits_value_def split: if_splits)

text \<open>The sample resource, on a server that holds nothing else.\<close>

lemma sample_first:
  fixes r :: "fake_cluster tektonTasksReconciler"
  defines "r \<equiv> NewTektonReconciler sample_operands sample_cluster"
  shows "ready (''kubevirt'', ''tt'') sample_cr (world (rs_sys r))"
    and "DeployTektonTaskResources (Spec_FeatureGates (Spec sample_cr))"
    and "rs_operands r = [TasksOperand sample_tasks_operand, PipelinesOperand sample_pipelines]"
    and "operands_deployable sample_env (fake_read_tt sample_cr) sample_tasks_operand sample_pipelines"
    and "cache_wf (vcache (rs_sys (clearCacheIfNeeded (fake_read_tt sample_cr) r)))"
    and "list_all (\<lambda>(rt, i). fresh_at (fake_view (world (rs_sys r)))
           (vcache (rs_sys (clearCacheIfNeeded (fake_read_tt sample_cr) r))) rt i)
         (operand_targets sample_env (fake_read_tt sample_cr) sample_tasks_operand sample_pipelines)"
proof -
  have v: "fake_view sample_cluster rt i = None" for rt i
    using empty_cluster_view [of rt i] by (simp add: sample_cluster_def fake_view_def)
  have "vcache (rs_sys (clearCacheIfNeeded (fake_read_tt sample_cr) r)) = fmempty"
    by (simp add: clearCacheIfNeeded_def NewTektonReconciler_def r_def)
  note c = this
  show "ready (''kubevirt'', ''tt'') sample_cr (world (rs_sys r))"
    using sample_cluster_ready by (simp add: NewTektonReconciler_def r_def)
  show "DeployTektonTaskResources (Spec_FeatureGates (Spec sample_cr))" by (simp add: sample_cr_def)
  show "rs_operands r = [TasksOperand sample_tasks_operand, PipelinesOperand sample_pipelines]"
    by (simp add: NewTektonReconciler_def r_def sample_operands_def)
  show "operands_deployable sample_env (fake_read_tt sample_cr) sample_tasks_operand sample_pipelines"
    using sample_operands_deployable
    by (simp add: operands_deployable_def same_owner_deployable [OF sample_cr_owner])
  show "cache_wf (vcache (rs_sys (clearCacheIfNeeded (fake_read_tt sample_cr) r)))" by (simp add: c)
  show "list_all (\<lambda>(rt, i). fresh_at (fake_view (world (rs_sys r)))
           (vcache (rs_sys (clearCacheIfNeeded (fake_read_tt sample_cr) r))) rt i)
         (operand_targets sample_env (fake_read_tt sample_cr) sample_tasks_operand sample_pipelines)"
    unfolding c by (simp add: list_all_iff fresh_at_def v NewTektonReconciler_def r_def)
qed

theorem controller_deploys_witness:
  "\<exists>r' t2. controller_Reconcile fake_client sample_env 7 (''kubevirt'', ''tt'')
       (NewTektonReconciler sample_operands sample_cluster) = (Ok False, r') \<and>
     fmlookup (fc_tts (world (rs_sys r'))) (''kubevirt'', ''tt'') = Some t2 \<and> Phase (Status t2) = PhaseDeployed"
  using controller_deploys [OF sample_first, where now = 7]
  by (auto simp: deployed_status_def NewTektonReconciler_def)

end
