(* ===== verification/Controller_Invariant.thy ===== *)
theory Controller_Invariant
  imports Controller_Deploy
begin

text \<open>
  How an invariant passes through a reconciliation: a property of the system state and one
  of the operands that the client's calls on \<open>TektonTasks\<close> resources, the log, the clearing of
  the cache, and the operands keep, every reconciliation keeps, however it ends. The proof follows the
  code of the controller once, for every such invariant.
\<close>

locale controller_invariant =
  fixes cl :: "'w client" and env :: environ and S :: "'w sys \<Rightarrow> bool" and A :: "Operand list \<Rightarrow> bool"
    and G :: "nat \<Rightarrow> bool"
  assumes gauge: "G 0" "G 1" and logged: "S s \<Longrightarrow> S (log_msg m s)"
    and cleared: "S s \<Longrightarrow> S (s\<lparr>vcache := fmempty\<rparr>)"
    and read_tt: "S s \<Longrightarrow> S (snd (call (c_get_tt cl k) s))" and listed_tt: "S s \<Longrightarrow> S (snd (call (c_list_tt cl ns) s))"
    and updated_tt: "S s \<Longrightarrow> S (s\<lparr>world := snd (c_update_tt cl t (world s))\<rparr>)"
    and status_updated_tt: "S s \<Longrightarrow> S (s\<lparr>world := snd (c_status_update_tt cl t (world s))\<rparr>)"
    and operand_reconciled: "A (xs @ op # ys) \<Longrightarrow> S s \<Longrightarrow> operand_Reconcile cl env inst op s = (q, (op', s')) \<Longrightarrow>
      A (xs @ op' # ys) \<and> S s'"
    and operand_cleaned: "A (xs @ op # ys) \<Longrightarrow> S s \<Longrightarrow> S (snd (operand_Cleanup cl inst op s))"
begin

definition reconciler_inv :: "'w tektonTasksReconciler \<Rightarrow> bool" where
  "reconciler_inv r \<longleftrightarrow> S (rs_sys r) \<and> A (rs_operands r) \<and> G (rs_gauge r)"

abbreviation inst_keeps :: "('w inst_state \<Rightarrow> 'a outcome \<times> 'w inst_state) \<Rightarrow> bool" where
  "inst_keeps f \<equiv> (\<forall>st. S (snd st) \<longrightarrow> S (snd (snd (f st))))"

lemma write_tt_S:
  "S (snd st) \<Longrightarrow> write_tt (c_update_tt cl) st = (q, st') \<Longrightarrow> S (snd st')"
  "S (snd st) \<Longrightarrow> write_tt (c_status_update_tt cl) st = (q, st') \<Longrightarrow> S (snd st')"
  using updated_tt [of "snd st" "fst st"] status_updated_tt [of "snd st" "fst st"]
  by (auto simp: write_tt_def split: prod.splits sum.splits)

lemma pure_updates_S [simp]:
  "snd (on_status f st) = snd st" "snd (on_meta g st) = snd st"
  "snd (observe_generation st) = snd st" "snd (set_phase p st) = snd st"
  "snd (report_results env now rs st) = snd st"
  by (simp_all add: on_status_def on_meta_def observe_generation_def set_phase_def report_results_def Let_def)

lemma updateTektonTasksResource_S:
  "S (snd st) \<Longrightarrow> updateTektonTasksResource cl st = (q, st') \<Longrightarrow> S (snd st')"
proof -
  assume st: "S (snd st)" and run: "updateTektonTasksResource cl st = (q, st')"
  obtain q1 st1 where 1: "write_tt (c_update_tt cl) st = (q1, st1)" by (metis surj_pair)
  have st1: "S (snd st1)" by (rule write_tt_S(1) [OF st 1])
  show ?thesis
    using run st1 write_tt_S(2) [of "observe_generation (set_phase PhaseDeploying st1)"]
    by (cases q1) (auto simp: updateTektonTasksResource_def 1)
qed

lemma initialize_S: "inst_keeps (initialize cl)"
  by (auto simp: initialize_def intro: updateTektonTasksResource_S [OF _ surjective_pairing])

lemma updateTektonTasks_S: "inst_keeps (updateTektonTasks cl)"
  by (auto simp: updateTektonTasks_def split: prod.split outcome.split
      dest!: updateTektonTasksResource_S [rotated])

lemma preUpdateStatus_S: "inst_keeps (preUpdateStatus cl env now)"
proof (intro allI impI)
  fix st :: "'w inst_state" assume S: "S (snd st)"
  obtain inst s where st: "st = (inst, s)" by (cases st)
  have "S (if p then log_msg m s else s)" for p m using S st by (simp add: logged)
  then show "S (snd (snd (preUpdateStatus cl env now st)))"
    unfolding st preUpdateStatus_write by (intro write_tt_S(2) [OF _ surjective_pairing]) simp
qed

lemma updateStatus_S: "inst_keeps (updateStatus cl env now rs)"
  by (auto simp: updateStatus_def intro: write_tt_S(2) [OF _ surjective_pairing])

lemma handleError_S: "inst_keeps (handleError cl now e)"
  by (auto simp: handleError_def Let_def logged split: option.split prod.split outcome.split
      dest!: write_tt_S(2) [rotated])

lemma set_multiple_S: "S s \<Longrightarrow> S (snd (set_multiple cl now items s))"
proof (induction items arbitrary: s)
  case (Cons t ts)
  obtain q i s1 where w: "write_tt (c_status_update_tt cl) (on_status (set_three now ConditionFalse ConditionFalse
      ConditionTrue ''there are multiple CRs deployed'') (t, s)) = (q, (i, s1))" by (metis surj_pair)
  have "S s1" using write_tt_S(2) [OF _ w] Cons.prems by simp
  then show ?case unfolding set_multiple.simps w using Cons.IH by (cases q) simp_all
qed simp

lemma finish_cleanup_S: "S (snd st) \<Longrightarrow> finish_cleanup cl st = (q, st') \<Longrightarrow> S (snd st')"
  by (auto simp: finish_cleanup_def split: prod.splits outcome.splits if_splits dest!: write_tt_S(2) [rotated])

lemma cleanupOperands_S: "A (xs @ ops) \<Longrightarrow> S s \<Longrightarrow> S (snd (cleanupOperands cl inst ops n s))"
proof (induction ops arbitrary: xs n s)
  case (Cons op ops)
  obtain q s1 where c: "operand_Cleanup cl inst op s = (q, s1)" by (metis surj_pair)
  have "S s1" using operand_cleaned [OF Cons.prems, of inst] by (simp add: c)
  then show ?case using Cons.IH [of "xs @ [op]"] Cons.prems(1) by (cases q) (simp_all add: c)
qed simp

lemma controller_cleanup_S:
  assumes A: "A ops"
  shows "inst_keeps (controller_cleanup cl now ops)"
proof (intro allI impI)
  fix st :: "'w inst_state" assume st: "S (snd st)"
  define st1 where "st1 = on_status (set_three now ConditionFalse ConditionTrue ConditionTrue deleting_message)
      (observe_generation (set_phase PhaseDeleting st))"
  obtain q2 i2 s2 where 2: "write_tt (c_status_update_tt cl) st1 = (q2, (i2, s2))" by (metis surj_pair)
  have s2: "S s2" using write_tt_S(2) [OF _ 2] st by (simp add: st1_def)
  obtain q3 s3 where 3: "cleanupOperands cl i2 ops 0 s2 = (q3, s3)" by (metis surj_pair)
  have s3: "S s3" using cleanupOperands_S [of "[]" ops s2 i2 0] A s2 by (simp add: 3)
  obtain q4 st4 where 4: "write_tt (c_update_tt cl) (on_meta (RemoveFinalizer oldFinalizerName)
      (on_meta (RemoveFinalizer finalizerName) (i2, s3))) = (q4, st4)" by (metis surj_pair)
  have s4: "S (snd st4)" using write_tt_S(1) [OF _ 4] s3 by simp
  have fin: "S (snd (snd (finish_cleanup cl x)))" if "S (snd x)" for x :: "'w inst_state"
    using finish_cleanup_S [OF that surjective_pairing] .
  show "S (snd (snd (controller_cleanup cl now ops st)))"
    unfolding controller_cleanup_def Let_def st1_def [symmetric] 2 bind_outcome_def
    using 3 4 s2 s3 s4 st fin by (auto split: outcome.split)
qed

lemma reconcileOperands_inv:
  "reconcileOperands cl env inst ops s = (q, (ops', s')) \<Longrightarrow> A (xs @ ops) \<Longrightarrow> S s \<Longrightarrow> A (xs @ ops') \<and> S s'"
proof (induction ops arbitrary: xs s q ops' s')
  case (Cons op ops)
  obtain q1 op1 s1 where 1: "operand_Reconcile cl env inst op s = (q1, (op1, s1))" by (metis surj_pair)
  have a1: "A (xs @ op1 # ops)" "S s1" using operand_reconciled [OF Cons.prems(2,3) 1] by simp_all
  obtain q2 ops2 s2 where 2: "reconcileOperands cl env inst ops s1 = (q2, (ops2, s2))" by (metis surj_pair)
  have a2: "A (xs @ op1 # ops2)" "S s2" using Cons.IH [OF 2, of "xs @ [op1]"] a1 by simp_all
  show ?case using Cons.prems(1) a1 a2 1 2 by (cases q1; cases q2) (auto intro: logged)
qed simp

lemma with_inst_inv:
  assumes "with_inst f inst r = (q, inst', r')" and "reconciler_inv r" and "inst_keeps f"
  shows "reconciler_inv r'"
proof -
  obtain i s where f: "f (inst, rs_sys r) = (q, (i, s))" "r' = r\<lparr>rs_sys := s\<rparr>"
    using assms(1) by (auto simp: with_inst_def split: prod.splits)
  have "S s" using assms(2,3) f(1) unfolding reconciler_inv_def by (metis snd_conv)
  then show ?thesis using assms(2) by (simp add: reconciler_inv_def f(2))
qed

lemma handle_error_inv: "handle_error cl now e inst r = (q, r') \<Longrightarrow> reconciler_inv r \<Longrightarrow> reconciler_inv r'"
  by (auto simp: handle_error_def split: prod.splits dest: with_inst_inv [OF _ _ handleError_S])

lemma sys_inv: "reconciler_inv r \<Longrightarrow> S s \<Longrightarrow> reconciler_inv (r\<lparr>rs_sys := s\<rparr>)"
  by (simp add: reconciler_inv_def)

lemma clearing_inv:
  "reconciler_inv r \<Longrightarrow> reconciler_inv (clearCacheIfNeeded t r)" "reconciler_inv r \<Longrightarrow> reconciler_inv (clearCache r)"
  by (simp_all add: reconciler_inv_def clearCacheIfNeeded_def clearCache_def cleared)

lemma pause_CR_inv:
  assumes "pause_CR cl inst r = (q, r')" and r: "reconciler_inv r"
  shows "reconciler_inv r'"
proof -
  let ?r = "r\<lparr>rs_sys := log_msg (''Pausing Tekton operator on resource: '' @ namespaced_name inst) (rs_sys r)\<rparr>"
  have "reconciler_inv ?r" using r by (simp add: reconciler_inv_def logged)
  moreover have "inst_keeps (\<lambda>st. write_tt (c_status_update_tt cl)
      (observe_generation (on_status (\<lambda>s. s\<lparr>Paused := True\<rparr>) st)))"
    by (auto intro: write_tt_S(2) [OF _ surjective_pairing])
  ultimately show ?thesis
    using assms by (auto simp: pause_CR_def split: if_splits prod.splits outcome.splits dest: with_inst_inv)
qed

lemma reconcile_deploy_inv:
  assumes run: "reconcile_deploy cl env now inst r = (q, r')" and r: "reconciler_inv r"
  shows "reconciler_inv r'"
proof -
  obtain q1 i1 r1 where 1: "with_inst (preUpdateStatus cl env now) inst r = (q1, i1, r1)" by (metis surj_pair)
  have r1: "reconciler_inv r1" by (rule with_inst_inv [OF 1 r preUpdateStatus_S])
  obtain q2 r2 where 2: "(if DeployTektonTaskResources (Spec_FeatureGates (Spec i1)) then
                   (case reconcileOperands cl env i1 (rs_operands r1)
                           (log_msg ''Reconciling operands...'' (rs_sys r1)) of
                      (q, (ops, s)) \<Rightarrow> (q, r1\<lparr>rs_operands := ops, rs_sys := s\<rparr>))
                 else (Ok [], r1)) = (q2, r2)" by (metis surj_pair)
  have r2: "reconciler_inv r2"
  proof (cases "DeployTektonTaskResources (Spec_FeatureGates (Spec i1))")
    case True
    obtain q3 ops s where 3: "reconcileOperands cl env i1 (rs_operands r1) (log_msg ''Reconciling operands...'' (rs_sys r1)) =
        (q3, (ops, s))" by (metis surj_pair)
    have "r2 = r1\<lparr>rs_operands := ops, rs_sys := s\<rparr>" using 2 True by (simp only: 3 if_True prod.case prod.inject)
    then show ?thesis
      using reconcileOperands_inv [OF 3, of "[]"] r1 by (simp add: reconciler_inv_def logged)
  next
    case False
    then show ?thesis using 2 r1 by simp
  qed
  have fin: "reconciler_inv (r\<lparr>rs_sys := log_msg m (rs_sys r), rs_gauge := (if b then 1 else 0)\<rparr>)"
    if "reconciler_inv r" for r :: "'w tektonTasksReconciler" and m b
    using that gauge by (simp add: reconciler_inv_def logged)
  show ?thesis
    using run r1 r2 unfolding reconcile_deploy_def 1 prod.case 2
    by (auto split: outcome.splits prod.splits dest: handle_error_inv with_inst_inv [OF _ _ updateStatus_S] intro!: fin)
qed

lemma reconcile_instance_inv:
  assumes run: "reconcile_instance cl env now inst r = (q, r')" and r0: "reconciler_inv r"
  shows "reconciler_inv r'"
proof -
  define c where "c = clearCacheIfNeeded inst r"
  have c: "reconciler_inv c" unfolding c_def by (rule clearing_inv(1) [OF r0])
  note run = run [unfolded reconcile_instance_def Let_def c_def [symmetric]]
  show ?thesis
  proof (cases "isInitialized inst")
    case False
    obtain q1 i1 r1 where 1: "with_inst (initialize cl) inst c = (q1, i1, r1)" by (metis surj_pair)
    have "reconciler_inv r1" by (rule with_inst_inv [OF 1 c initialize_S])
    then show ?thesis using run False 1 by (cases q1) (auto dest: handle_error_inv)
  next
    case True
    obtain q1 i1 r1 where 1: "with_inst (updateTektonTasks cl) inst c = (q1, i1, r1)" by (metis surj_pair)
    have r1: "reconciler_inv r1" by (rule with_inst_inv [OF 1 c updateTektonTasks_S])
    obtain q2 i2 r2 where 2: "with_inst (controller_cleanup cl now (rs_operands r1)) i1 r1 = (q2, i2, r2)" by (metis surj_pair)
    have "A (rs_operands r1)" using r1 by (simp add: reconciler_inv_def)
    then have r2: "reconciler_inv r2" using with_inst_inv [OF 2 r1] controller_cleanup_S by blast
    obtain q3 s3 where 3: "call (c_list_tt cl None) (rs_sys r1) = (q3, s3)" by (metis surj_pair)
    have s3: "S s3" using listed_tt [of "rs_sys r1" None] r1 3 by (simp add: reconciler_inv_def)
    then have r3: "reconciler_inv (r1\<lparr>rs_sys := s3\<rparr>)" by (rule sys_inv [OF r1])
    have r4: "reconciler_inv (r1\<lparr>rs_sys := s4\<rparr>)" if "setStatusMultipleCRs cl now items s3 = (q4, s4)" for items q4 s4
    proof (rule sys_inv [OF r1])
      show "S s4"
        using that set_multiple_S [OF logged [OF s3], of now items "''there are multiple CRs deployed''"]
        by (simp add: setStatusMultipleCRs_def)
    qed
    show ?thesis
    proof (cases q1)
      case (Ok ue)
      obtain updated err where ue: "ue = (updated, err)" by (metis surj_pair)
      show ?thesis
        using run True 1 Ok ue 2 3 r1 r2 r3
        by (auto split: if_splits outcome.splits prod.splits intro: clearing_inv
            dest: handle_error_inv r4 pause_CR_inv reconcile_deploy_inv)
    qed (use run True 1 r1 in \<open>auto dest: handle_error_inv\<close>)
  qed
qed

lemma controller_Reconcile_inv:
  assumes run: "controller_Reconcile cl env now req r = (q, r')" and r: "reconciler_inv r"
  shows "reconciler_inv r'"
proof -
  obtain q1 s where 1: "call (c_get_tt cl req) (rs_sys r) = (q1, s)" by (metis surj_pair)
  have "S s" using read_tt [of "rs_sys r" req] r 1 by (simp add: reconciler_inv_def)
  then have r1: "reconciler_inv (r\<lparr>rs_sys := s\<rparr>)" by (rule sys_inv [OF r])
  obtain q2 r2 where 2: "reconcile_request cl env now req r = (q2, r2)" by (metis surj_pair)
  have "reconciler_inv r2"
    using 2 1 r1 unfolding reconcile_request_def
    by (auto split: outcome.splits if_splits dest: reconcile_instance_inv)
  then show ?thesis using run 2 by (cases q2) (auto simp: controller_Reconcile_def reconciler_inv_def gauge)
qed

end

end
