(* ===== verification/Controller_Cleanup.thy ===== *)
theory Controller_Cleanup
  imports Controller_Deploy
begin

text \<open>
  The deletion of a \<open>TektonTasks\<close> resource on the server of the tests: which objects a cleanup
  looks at, what one round of it leaves behind, when the operator lets its finalizer go, and
  that two reconciliations complete the deletion.
\<close>

section \<open>Cleanup of the operands\<close>

definition deprecated_tasks :: "fake_cluster \<Rightarrow> object list" where
  \<comment> \<open>the cluster tasks of old releases that the tasks operand finds by their label\<close>
  "deprecated_tasks w = filter (matches_labels [(AppKubernetesManagedByLabel, AppKubernetesManagedByValue)])
     (map (\<lambda>(k, x). object_json x) (sorted_list_of_fmap (fc_objects w ClusterTask)))"

definition tt_objects :: "tektonTasks \<Rightarrow> object list" where
  "tt_objects t = tt_tasks t @ tt_clusterRoles t @ tt_roleBindings t @ tt_serviceAccounts t"

definition tp_objects :: "tektonPipelines \<Rightarrow> object list" where
  "tp_objects p = tp_pipelines p @ tp_configMaps p @ tp_roleBindings p @ tp_serviceAccounts p @ tp_clusterRoles p"

definition cleaned :: "tektonTasks \<Rightarrow> tektonPipelines \<Rightarrow> fake_cluster \<Rightarrow> object list" where
  \<comment> \<open>everything a cleanup looks at\<close>
  "cleaned t p w = tt_objects t @ deprecated_tasks w @ tp_objects p"

definition swept :: "TektonTasks \<Rightarrow> object list \<Rightarrow> (rtype \<Rightarrow> object_key \<Rightarrow> object option) \<Rightarrow>
    rtype \<Rightarrow> object_key \<Rightarrow> object option" where
  \<comment> \<open>a cluster without the objects of the list that carry the resource's owner annotations\<close>
  "swept inst rs v = (\<lambda>rt i. if (\<exists>r \<in> set rs. o_rtype r = rt \<and> object_key_of r = i) \<and> marked_at inst v rt i
     then None else v rt i)"

definition none_left :: "TektonTasks \<Rightarrow> object list \<Rightarrow> (rtype \<Rightarrow> object_key \<Rightarrow> object option) \<Rightarrow> bool" where
  "none_left inst rs v \<longleftrightarrow> list_all (\<lambda>r. \<not> marked_at inst v (o_rtype r) (object_key_of r)) rs"

lemma swept_append: "swept inst qs (swept inst rs v) = swept inst (rs @ qs) v"
  by (auto simp: swept_def marked_at_def fun_eq_iff split: option.splits)

lemma none_left_swept: "none_left inst rs (swept inst rs v)"
  by (auto simp: none_left_def swept_def marked_at_def list_all_iff split: option.splits)

lemma swept_none_left: "none_left inst rs v \<Longrightarrow> swept inst rs v = v"
  by (auto simp: none_left_def swept_def list_all_iff fun_eq_iff)

lemma none_left_append [simp]: "none_left inst (rs @ qs) v \<longleftrightarrow> none_left inst rs v \<and> none_left inst qs v"
  by (simp add: none_left_def)

lemma swept_later:
  assumes "none_left inst qs (swept inst rs v)" and "none_left inst rs v"
  shows "none_left inst qs v"
  using assms(1) swept_none_left [OF assms(2)] by simp

lemma cleanable_swept: "cleanable v q \<Longrightarrow> cleanable (swept inst rs v) q"
  by (auto simp: cleanable_def swept_def split: option.splits)

text \<open>Objects whose deletion is complete at once are gone after a sweep.\<close>

lemma swept_to_cleanable:
  assumes "list_all (cleanable v) rs" and "swept_to inst rs v v'"
  shows "v' = swept inst rs v"
proof (intro ext)
  fix rt i
  have own: "owned_at inst v r \<longleftrightarrow> marked_at inst v (o_rtype r) (object_key_of r)" if "r \<in> set rs" for r
    using assms(1) that cleanable_sweepable(2) unfolding list_all_iff by blast
  show "v' rt i = swept inst rs v rt i"
  proof (cases "\<exists>r \<in> set rs. o_rtype r = rt \<and> object_key_of r = i \<and> owned_at inst v r")
    case True
    then obtain r where r: "r \<in> set rs" "o_rtype r = rt" "object_key_of r = i" "owned_at inst v r" by blast
    have "after_delete (v rt i) (v' rt i)" using assms(2) True unfolding swept_to_def by metis
    moreover have "cleanable v r" using assms(1) r(1) unfolding list_all_iff by blast
    ultimately have "v' rt i = None"
      using r(2-4) by (auto simp: after_delete_def cleanable_def owned_at_def split: option.splits)
    then show ?thesis using r own [OF r(1)] by (auto simp: swept_def)
  next
    case False
    then have "v' rt i = v rt i" using assms(2) unfolding swept_to_def by metis
    then show ?thesis using False own by (auto simp: swept_def)
  qed
qed

lemma none_owned_cleanable: "list_all (cleanable v) rs \<Longrightarrow> none_owned inst rs v \<longleftrightarrow> none_left inst rs v"
  using cleanable_sweepable(2) [of v _ inst] unfolding none_owned_def none_left_def list_all_iff by blast

lemma fake_delete_all:
  assumes "m_name (tt_meta inst) \<noteq> ''''" "tt_kind inst \<noteq> ''''"
    and "fake_healthy (world s)" "list_all (sweepable inst (fake_view (world s))) rs"
  shows "\<exists>results s'. DeleteAll fake_client inst rs s = (Ok results, s') \<and> fake_healthy (world s') \<and>
     fc_tts (world s') = fc_tts (world s) \<and> swept_to inst rs (fake_view (world s)) (fake_view (world s')) \<and>
     (list_all cr_Deleted results \<longleftrightarrow> none_owned inst rs (fake_view (world s)))"
proof -
  from fake.cleanup_all [OF assms] obtain results s' where
    r: "DeleteAll fake_client inst rs s = (Ok results, s')" "fake_healthy (world s')"
    "swept_to inst rs (fake_view (world s)) (fake_view (world s'))"
    "list_all cr_Deleted results \<longleftrightarrow> none_owned inst rs (fake_view (world s))"
    by blast
  have "fc_tts (world s') = fc_tts (world s)"
    using keepsD [OF DeleteAll_keeps [OF fake_calls_keep] _ r(1)] by simp
  then show ?thesis using r by blast
qed

lemma filter_nil_all: "length (filter (\<lambda>result. \<not> cr_Deleted result) results) = 0 \<longleftrightarrow> list_all cr_Deleted results"
  by (auto simp: filter_empty_conv list_all_iff)

lemma cleanupOperands_run:
  assumes inst: "m_name (tt_meta inst) \<noteq> ''''" "tt_kind inst \<noteq> ''''"
    and s: "fake_healthy (world s)" "list_all (sweepable inst (fake_view (world s))) (cleaned t p (world s))"
  shows "\<exists>n s'. cleanupOperands fake_client inst [TasksOperand t, PipelinesOperand p] 0 s = (Ok n, s') \<and>
     (n = 0 \<longleftrightarrow> none_owned inst (cleaned t p (world s)) (fake_view (world s))) \<and>
     fake_healthy (world s') \<and> fc_tts (world s') = fc_tts (world s) \<and>
     swept_to inst (cleaned t p (world s)) (fake_view (world s)) (fake_view (world s'))"
proof -
  let ?a = "tt_objects t @ deprecated_tasks (world s)" and ?b = "tp_objects p" and ?v = "fake_view (world s)"
  have list: "listDeprecatedClusterTasks fake_client s = (Ok (deprecated_tasks (world s)), s)"
    by (simp add: listDeprecatedClusterTasks_def call_def fake_list_clustertasks_def deprecated_tasks_def)
  have ab: "cleaned t p (world s) = ?a @ ?b" by (simp add: cleaned_def)
  have cl: "list_all (sweepable inst ?v) ?a" "list_all (sweepable inst ?v) ?b"
    using s(2) by (simp_all add: cleaned_def)
  from fake_delete_all [OF inst s(1) cl(1)] obtain r1 s1 where
    1: "DeleteAll fake_client inst ?a s = (Ok r1, s1)" "fake_healthy (world s1)"
      "fc_tts (world s1) = fc_tts (world s)" "swept_to inst ?a ?v (fake_view (world s1))"
      "list_all cr_Deleted r1 \<longleftrightarrow> none_owned inst ?a ?v"
    by blast
  have "list_all (sweepable inst (fake_view (world s1))) ?b"
    using cl(2) sweepable_swept [OF 1(4)] unfolding list_all_iff by blast
  from fake_delete_all [OF inst 1(2) this] obtain r2 s2 where
    2: "DeleteAll fake_client inst ?b s1 = (Ok r2, s2)" "fake_healthy (world s2)"
      "fc_tts (world s2) = fc_tts (world s1)" "swept_to inst ?b (fake_view (world s1)) (fake_view (world s2))"
      "list_all cr_Deleted r2 \<longleftrightarrow> none_owned inst ?b (fake_view (world s1))"
    by blast
  have run: "cleanupOperands fake_client inst [TasksOperand t, PipelinesOperand p] 0 s =
     (Ok (length (filter (\<lambda>result. \<not> cr_Deleted result) r1) + length (filter (\<lambda>result. \<not> cr_Deleted result) r2)), s2)"
    using 1(1) 2(1) list by (simp add: tt_Cleanup_def tp_Cleanup_def tt_objects_def tp_objects_def)
  have zero: "length (filter (\<lambda>result. \<not> cr_Deleted result) r1) + length (filter (\<lambda>result. \<not> cr_Deleted result) r2) = 0
      \<longleftrightarrow> none_owned inst (cleaned t p (world s)) ?v"
    unfolding add_is_0 filter_nil_all 1(5) 2(5) ab none_owned_append [OF 1(4)] ..
  show ?thesis
    using run zero 1(3) 2(2,3) swept_to_append [OF 1(4) 2(4)] by (intro exI conjI) (auto simp: ab)
qed

section \<open>The deletion of the resource\<close>

lemma same_owner_swept:
  assumes "same_owner a b"
  shows "marked_at a = marked_at b" "swept a = swept b" "none_left a = none_left b"
proof -
  have om: "owner_marked a = owner_marked b"
    using assms by (simp add: same_owner_def owner_marked_def owner_type_def owner_namespaced_name_def fun_eq_iff)
  show m: "marked_at a = marked_at b" by (intro ext) (simp add: marked_at_def om split: option.split)
  show "swept a = swept b" "none_left a = none_left b"
    by (intro ext, simp add: swept_def none_left_def m)+
qed

definition deleting_status :: "time \<Rightarrow> int64 \<Rightarrow> TektonTasksStatus \<Rightarrow> TektonTasksStatus" where
  "deleting_status now gen s = set_three now ConditionFalse ConditionTrue ConditionTrue deleting_message
     (s\<lparr>Phase := PhaseDeleting, ObservedGeneration := gen\<rparr>)"

lemma finish_cleanup_gone:
  assumes "fake_tt_healthy (world s)" and "fake_stored_tt (world s) (tt_key inst) = None" and "snd (tt_key inst) \<noteq> ''''"
  shows "\<exists>inst'. finish_cleanup fake_client (inst, s) = (Ok (), (inst', s))"
proof -
  let ?i = "upd_status (\<lambda>s. s\<lparr>Phase := PhaseDeleted, ObservedGeneration := m_generation (tt_meta inst)\<rparr>) inst"
  have k: "tt_key ?i = tt_key inst" by (simp add: tt_key_def)
  obtain e where e: "fake_update_tt ?i (world s) = (Inl e, world s)" "is_not_found e"
    using fake_tts.tt_status_none [of "world s" ?i] assms k by auto
  have "observe_generation (set_phase PhaseDeleted (inst, s)) = (?i, s)"
    by (simp add: observe_generation_def set_phase_def on_status_def upd_status_def)
  then show ?thesis
    using e by (intro exI [of _ ?i]) (simp add: finish_cleanup_def write_tt_def)
qed

lemma with_rv_owned:
  "sweepable (with_rv v (upd_status f inst)) = sweepable inst" "swept_to (with_rv v (upd_status f inst)) = swept_to inst"
  "none_owned (with_rv v (upd_status f inst)) = none_owned inst"
proof -
  have eq: "owned_by (with_rv v (upd_status f inst)) = owned_by inst"
    by (intro ext)
      (simp add: owned_by_def owner_ref_of_def owner_marked_def owner_type_def owner_namespaced_name_def)
  have at: "owned_at (with_rv v (upd_status f inst)) = owned_at inst" by (intro ext) (simp add: owned_at_def eq split: option.split)
  show "sweepable (with_rv v (upd_status f inst)) = sweepable inst" "swept_to (with_rv v (upd_status f inst)) = swept_to inst"
    "none_owned (with_rv v (upd_status f inst)) = none_owned inst"
    by (intro ext, simp add: sweepable_def swept_to_def none_owned_def at split: option.split)+
qed

lemma controller_cleanup_run:
  assumes inst: "served inst (world s)" "m_name (tt_meta inst) \<noteq> ''''" "tt_kind inst \<noteq> ''''"
    and del: "isBeingDeleted (tt_meta inst)" "set (m_finalizers (tt_meta inst)) = {finalizerName}"
    and cl: "list_all (sweepable inst (fake_view (world s))) (cleaned t p (world s))"
  shows "\<exists>inst' s'. controller_cleanup fake_client now [TasksOperand t, PipelinesOperand p] (inst, s) =
       (Ok (), (inst', s')) \<and> fake_healthy (world s') \<and> fake_tt_healthy (world s') \<and>
     swept_to inst (cleaned t p (world s)) (fake_view (world s)) (fake_view (world s')) \<and>
     fc_tts (world s') = (if none_owned inst (cleaned t p (world s)) (fake_view (world s))
       then fmdrop (tt_key inst) (fc_tts (world s))
       else fmupd (tt_key inst) (with_rv (m_resourceVersion (tt_meta inst'))
              (upd_status (deleting_status now (m_generation (tt_meta inst))) inst)) (fc_tts (world s)))"
proof -
  let ?rs = "cleaned t p (world s)" and ?v = "fake_view (world s)"
  define f1 where "f1 = deleting_status now (m_generation (tt_meta inst))"
  have u: "on_status (set_three now ConditionFalse ConditionTrue ConditionTrue deleting_message)
      (observe_generation (set_phase PhaseDeleting (inst, s))) = (upd_status f1 inst, s)"
    by (simp add: observe_generation_def set_phase_def on_status_def upd_status_def f1_def deleting_status_def)
  from served_write [OF inst(1), of f1] obtain v1 w1 where
    1: "write_tt (c_status_update_tt fake_client) (upd_status f1 inst, s) =
         (Ok (), (with_rv v1 (upd_status f1 inst), s\<lparr>world := w1\<rparr>))"
       "served (with_rv v1 (upd_status f1 inst)) w1"
       "fc_tts w1 = fmupd (tt_key inst) (with_rv v1 (upd_status f1 inst)) (fc_tts (world s))"
       "fake_view w1 = ?v" "fc_objects w1 = fc_objects (world s)"
    by auto
  let ?i1 = "with_rv v1 (upd_status f1 inst)" and ?s1 = "s\<lparr>world := w1\<rparr>"
  note own = with_rv_owned [of v1 f1 inst]
  have rs: "cleaned t p w1 = ?rs" by (simp add: cleaned_def deprecated_tasks_def 1(5))
  have "fake_healthy w1" using 1(2) by (simp add: served_def)
  then obtain n s2 where
    2: "cleanupOperands fake_client ?i1 [TasksOperand t, PipelinesOperand p] 0 ?s1 = (Ok n, s2)"
       "n = 0 \<longleftrightarrow> none_owned inst ?rs ?v" "fake_healthy (world s2)" "fc_tts (world s2) = fc_tts w1"
       "swept_to inst ?rs ?v (fake_view (world s2))"
    using cleanupOperands_run [of ?i1 ?s1 t p] inst(2,3) cl
    by (auto simp: rs 1(4) own)
  have fin: "ContainsFinalizer (tt_meta inst) finalizerName" using del(2) by (simp add: ContainsFinalizer_def)
  have served2: "served ?i1 (world s2)" by (rule served_keep [OF 1(2) 2(4,3)])
  have h2: "fake_tt_healthy (world s2)" using served2 by (simp add: served_def fake_tts.holds_def)
  show ?thesis
  proof (cases "none_owned inst ?rs ?v")
    case False
    then have run: "controller_cleanup fake_client now [TasksOperand t, PipelinesOperand p] (inst, s) = (Ok (), (?i1, s2))"
      using fin 1(1) 2(1,2) by (simp add: controller_cleanup_def u Let_def del: cleanupOperands.simps)
    show ?thesis
      using run 2(3,4,5) h2 False 1(3)
      by (intro exI [of _ ?i1] exI [of _ s2]) (simp add: f1_def)
  next
    case True
    define i2 where "i2 = tt_upd_meta (RemoveFinalizer oldFinalizerName) (tt_upd_meta (RemoveFinalizer finalizerName) ?i1)"
    have i2: "tt_key i2 = tt_key inst" "m_resourceVersion (tt_meta i2) = v1" "\<not> alive (tt_meta i2)"
      using del by (auto simp: i2_def tt_key_def alive_def isBeingDeleted_def RemoveFinalizer_def remove_string_filter
          filter_empty_conv)
    have st: "fake_stored_tt (world s2) (tt_key i2) = Some ?i1"
      by (simp add: fake_stored_tt_def 2(4) 1(3) i2(1))
    from fake_tts.tt_update_dead [OF h2 st, of ] i2(2,3) obtain v3 st3 w3 where
      3: "fake_update_tt i2 (world s2) = (Inr ((with_rv v3 i2)\<lparr>Status := st3\<rparr>), w3)" "fake_tt_healthy w3"
         "fake_stored_tt w3 = (fake_stored_tt (world s2))(tt_key i2 := None)" "fake_rest w3 = fake_rest (world s2)"
      by auto
    let ?i3 = "(with_rv v3 i2)\<lparr>Status := st3\<rparr>"
    have k3: "tt_key ?i3 = tt_key inst" using i2(1) by (simp add: tt_key_def)
    obtain i4 where 4: "finish_cleanup fake_client (?i3, s2\<lparr>world := w3\<rparr>) = (Ok (), (i4, s2\<lparr>world := w3\<rparr>))"
      using finish_cleanup_gone [of "s2\<lparr>world := w3\<rparr>" ?i3] 3(2,3) inst(2) k3 i2(1) by (auto simp: tt_key_def)
    have upd: "write_tt (c_update_tt fake_client) (on_meta (RemoveFinalizer oldFinalizerName)
        (on_meta (RemoveFinalizer finalizerName) (?i1, s2))) = (Ok (), (?i3, s2\<lparr>world := w3\<rparr>))"
      by (simp add: write_tt_def on_meta_def i2_def [symmetric] 3(1))
    have run: "controller_cleanup fake_client now [TasksOperand t, PipelinesOperand p] (inst, s) =
        (Ok (), (i4, s2\<lparr>world := w3\<rparr>))"
      using fin 1(1) 2(1,2) True upd 4
      by (simp add: controller_cleanup_def u Let_def del: cleanupOperands.simps)
    have "fc_tts w3 = fmdrop (tt_key inst) (fc_tts (world s))"
      using fun_cong [OF 3(3)] by (intro fmap_ext) (auto simp: fake_stored_tt_def 2(4) 1(3) i2(1))
    then show ?thesis
      using run True 2(3,5) 3(2) fake_rest_objects [OF 3(4)]
      by (intro exI [of _ i4] exI [of _ "s2\<lparr>world := w3\<rparr>"]) simp
  qed
qed

lemma sorted_list_of_fmap_mem: "(k, x) \<in> set (sorted_list_of_fmap m) \<longleftrightarrow> fmlookup m k = Some x"
  unfolding sorted_list_of_fmap_def by (auto simp: fmlookup_dom_iff)

lemma deprecated_from:
  assumes view: "fake_view w1 = swept inst rs (fake_view w)" and r: "r \<in> set (deprecated_tasks w1)"
    and ok: "fake_healthy w" "fake_healthy w1"
  shows "\<exists>r' \<in> set (deprecated_tasks w). o_rtype r' = o_rtype r \<and> o_meta r' = o_meta r"
proof -
  from r obtain k x where x: "fmlookup (fc_objects w1 ClusterTask) k = Some x" "r = object_json x"
      "matches_labels [(AppKubernetesManagedByLabel, AppKubernetesManagedByValue)] r"
    by (auto simp: deprecated_tasks_def sorted_list_of_fmap_mem)
  then have "swept inst rs (fake_view w) ClusterTask k = Some (fake_read ClusterTask x)"
    unfolding view [symmetric] by (simp add: fake_view_def)
  then have "fake_view w ClusterTask k = Some (fake_read ClusterTask x)" by (simp add: swept_def split: if_splits)
  then obtain x' where x': "fmlookup (fc_objects w ClusterTask) k = Some x'" "fake_read ClusterTask x' = fake_read ClusterTask x"
    by (auto simp: fake_view_def)
  have m: "o_meta (object_json x') = o_meta r"
    using arg_cong [OF x'(2), of o_meta] by (simp add: fake_read_def object_json_def x(2))
  have t: "o_rtype (object_json x') = o_rtype r"
  proof -
    have "o_rtype x' = ClusterTask" "o_rtype x = ClusterTask"
      using ok x(1) x'(1) unfolding fake_healthy_def stored_ok_def by blast+
    then show ?thesis using x(2) by (simp add: object_json_def o_rtype_def)
  qed
  have "matches_labels [(AppKubernetesManagedByLabel, AppKubernetesManagedByValue)] (object_json x')"
    using x(3) unfolding matches_labels_def m .
  then have "object_json x' \<in> set (deprecated_tasks w)"
    using x'(1) by (force simp: deprecated_tasks_def sorted_list_of_fmap_mem)
  then show ?thesis using m t by blast
qed

lemma cleaned_from:
  assumes view: "fake_view w1 = swept inst rs (fake_view w)" and r: "r \<in> set (cleaned t p w1)"
    and ok: "fake_healthy w" "fake_healthy w1"
  shows "\<exists>r' \<in> set (cleaned t p w). o_rtype r' = o_rtype r \<and> o_meta r' = o_meta r"
  using r deprecated_from [OF view _ ok] by (auto simp: cleaned_def)

text \<open>What a first round of cleanup leaves behind is again something cleanup can deal with, and nothing of it is owned.\<close>

lemma second_round:
  assumes view: "fake_view w1 = swept inst (cleaned t p w) (fake_view w)" and ok: "fake_healthy w" "fake_healthy w1"
    and cl: "list_all (cleanable (fake_view w)) (cleaned t p w)"
  shows "list_all (cleanable (fake_view w1)) (cleaned t p w1)" "none_left inst (cleaned t p w1) (fake_view w1)"
proof -
  have from': "\<exists>r' \<in> set (cleaned t p w). o_rtype r' = o_rtype r \<and> o_meta r' = o_meta r" if "r \<in> set (cleaned t p w1)" for r
    using cleaned_from [OF view that ok] .
  have "cleanable (fake_view w1) r" if mem: "r \<in> set (cleaned t p w1)" for r
  proof -
    obtain r' where r': "r' \<in> set (cleaned t p w)" "o_rtype r' = o_rtype r" "o_meta r' = o_meta r"
      using from' [OF mem] by blast
    have "cleanable (fake_view w1) r'" using cl r'(1) by (simp add: view list_all_iff cleanable_swept)
    then show ?thesis using r'(2,3) by (simp add: cleanable_def object_key_of_def)
  qed
  then show "list_all (cleanable (fake_view w1)) (cleaned t p w1)" by (simp add: list_all_iff)
  have "\<not> marked_at inst (fake_view w1) (o_rtype r) (object_key_of r)" if mem: "r \<in> set (cleaned t p w1)" for r
  proof -
    obtain r' where r': "r' \<in> set (cleaned t p w)" "o_rtype r' = o_rtype r" "o_meta r' = o_meta r"
      using from' [OF mem] by blast
    have "\<not> marked_at inst (fake_view w1) (o_rtype r') (object_key_of r')"
      using r'(1) none_left_swept [of inst "cleaned t p w" "fake_view w"] by (simp add: view none_left_def list_all_iff)
    then show ?thesis using r'(2,3) by (simp add: object_key_of_def)
  qed
  then show "none_left inst (cleaned t p w1) (fake_view w1)" by (simp add: none_left_def list_all_iff)
qed

section \<open>Reconciling a resource that is being deleted\<close>

definition being_deleted :: "object_key \<Rightarrow> TektonTasks \<Rightarrow> fake_cluster \<Rightarrow> bool" where
  "being_deleted k t0 w \<longleftrightarrow> fake_healthy w \<and> fake_tt_healthy w \<and> fmlookup (fc_tts w) k = Some t0 \<and>
     isBeingDeleted (tt_meta t0) \<and> set (m_finalizers (tt_meta t0)) = {finalizerName}"

lemma deletion_sweep:
  assumes d: "being_deleted k t0 (world (rs_sys r))"
    and ops: "rs_operands r = [TasksOperand t, PipelinesOperand p]"
    and cl: "list_all (sweepable (fake_read_tt t0) (fake_view (world (rs_sys r)))) (cleaned t p (world (rs_sys r)))"
  shows "\<exists>r'. controller_Reconcile fake_client env now k r = (Ok False, r') \<and>
     rs_operands r' = rs_operands r \<and> vcache (rs_sys r') = fmempty \<and>
     fake_healthy (world (rs_sys r')) \<and> fake_tt_healthy (world (rs_sys r')) \<and>
     swept_to (fake_read_tt t0) (cleaned t p (world (rs_sys r))) (fake_view (world (rs_sys r))) (fake_view (world (rs_sys r'))) \<and>
     (if none_owned (fake_read_tt t0) (cleaned t p (world (rs_sys r))) (fake_view (world (rs_sys r)))
      then fc_tts (world (rs_sys r')) = fmdrop k (fc_tts (world (rs_sys r)))
      else \<exists>v. fc_tts (world (rs_sys r')) = fmupd k (with_rv v (upd_status
             (deleting_status now (m_generation (tt_meta t0))) (fake_read_tt t0))) (fc_tts (world (rs_sys r))))"
proof -
  have h: "fake_tt_healthy (world (rs_sys r))" "fmlookup (fc_tts (world (rs_sys r))) k = Some t0"
    using d by (simp_all add: being_deleted_def)
  note q = fake_request [OF h]
  let ?c = "clearCacheIfNeeded (fake_read_tt t0) r" and ?i = "fake_read_tt t0"
  have fin: "set (m_finalizers (tt_meta ?i)) = {finalizerName}" "isBeingDeleted (tt_meta ?i)"
    using d q(5) by (simp_all add: being_deleted_def)
  have no_old: "\<not> ContainsFinalizer (tt_meta ?i) oldFinalizerName"
    using fin(1) finalizer_names by (simp add: ContainsFinalizer_def)
  have gen: "m_generation (tt_meta ?i) = m_generation (tt_meta t0)" using fake_tts.read_keeps [of t0] by simp
  have "served ?i (world (rs_sys ?c))" using d q(2) by (simp add: served_def being_deleted_def)
  from controller_cleanup_run [OF this q(4) _ fin(2,1), of t p now] cl obtain inst' s' where
    1: "controller_cleanup fake_client now [TasksOperand t, PipelinesOperand p] (?i, rs_sys ?c) = (Ok (), (inst', s'))"
      "fake_healthy (world s')" "fake_tt_healthy (world s')"
      "swept_to ?i (cleaned t p (world (rs_sys r))) (fake_view (world (rs_sys r))) (fake_view (world s'))"
      "fc_tts (world s') = (if none_owned ?i (cleaned t p (world (rs_sys r))) (fake_view (world (rs_sys r)))
       then fmdrop k (fc_tts (world (rs_sys r)))
       else fmupd k (with_rv (m_resourceVersion (tt_meta inst'))
              (upd_status (deleting_status now (m_generation (tt_meta t0))) ?i)) (fc_tts (world (rs_sys r))))"
    unfolding q(3) gen clearCacheIfNeeded_simps by (auto simp del: fake_read_tt_simps(4,5))
  have g: "call (fake_get_tt k) (rs_sys r) = (Ok ?i, rs_sys r)" using q(1) by (simp add: call_def)
  have "controller_Reconcile fake_client env now k r = (Ok False, clearCache (?c\<lparr>rs_sys := s'\<rparr>))"
    using 1(1) ops no_old fin(2)
    by (simp add: controller_Reconcile_def reconcile_request_def g reconcile_instance_def Let_def isInitialized_def
        with_inst_def updateTektonTasks_def del: fake_read_tt_simps(4,5))
  then show ?thesis
    using 1(2-5) by (intro exI [of _ "clearCache (?c\<lparr>rs_sys := s'\<rparr>)"]) (auto simp: clearCache_def)
qed

lemma deletion_step:
  assumes d: "being_deleted k t0 (world (rs_sys r))"
    and ops: "rs_operands r = [TasksOperand t, PipelinesOperand p]"
    and cl: "list_all (cleanable (fake_view (world (rs_sys r)))) (cleaned t p (world (rs_sys r)))"
  shows "\<exists>r'. controller_Reconcile fake_client env now k r = (Ok False, r') \<and>
     rs_operands r' = rs_operands r \<and> vcache (rs_sys r') = fmempty \<and>
     fake_healthy (world (rs_sys r')) \<and> fake_tt_healthy (world (rs_sys r')) \<and>
     fake_view (world (rs_sys r')) = swept (fake_read_tt t0) (cleaned t p (world (rs_sys r))) (fake_view (world (rs_sys r))) \<and>
     (if none_left (fake_read_tt t0) (cleaned t p (world (rs_sys r))) (fake_view (world (rs_sys r)))
      then fc_tts (world (rs_sys r')) = fmdrop k (fc_tts (world (rs_sys r)))
      else \<exists>v. fc_tts (world (rs_sys r')) = fmupd k (with_rv v (upd_status
             (deleting_status now (m_generation (tt_meta t0))) (fake_read_tt t0))) (fc_tts (world (rs_sys r))))"
proof -
  have "list_all (sweepable (fake_read_tt t0) (fake_view (world (rs_sys r)))) (cleaned t p (world (rs_sys r)))"
    using cl cleanable_sweepable(1) unfolding list_all_iff by blast
  from deletion_sweep [OF d ops this, of env now] show ?thesis
    unfolding none_owned_cleanable [OF cl] using swept_to_cleanable [OF cl] by blast
qed

lemma deletion_twice:
  assumes d: "being_deleted k t0 (world (rs_sys r))"
    and ops: "rs_operands r = [TasksOperand t, PipelinesOperand p]"
    and cl: "list_all (cleanable (fake_view (world (rs_sys r)))) (cleaned t p (world (rs_sys r)))"
  shows "\<exists>r1 r2. controller_Reconcile fake_client env now k r = (Ok False, r1) \<and>
     controller_Reconcile fake_client env now2 k r1 = (Ok False, r2) \<and>
     fc_tts (world (rs_sys r2)) = fmdrop k (fc_tts (world (rs_sys r))) \<and> vcache (rs_sys r2) = fmempty \<and>
     fake_view (world (rs_sys r2)) = swept (fake_read_tt t0) (cleaned t p (world (rs_sys r))) (fake_view (world (rs_sys r)))"
proof -
  let ?w = "world (rs_sys r)" and ?i = "fake_read_tt t0"
  obtain r1 where 1: "controller_Reconcile fake_client env now k r = (Ok False, r1)"
     "rs_operands r1 = rs_operands r" "vcache (rs_sys r1) = fmempty"
     "fake_healthy (world (rs_sys r1))" "fake_tt_healthy (world (rs_sys r1))"
     "fake_view (world (rs_sys r1)) = swept ?i (cleaned t p ?w) (fake_view ?w)"
     "if none_left ?i (cleaned t p ?w) (fake_view ?w) then fc_tts (world (rs_sys r1)) = fmdrop k (fc_tts ?w)
      else \<exists>v. fc_tts (world (rs_sys r1)) = fmupd k (with_rv v (upd_status
             (deleting_status now (m_generation (tt_meta t0))) ?i)) (fc_tts ?w)"
    using deletion_step [OF d ops cl, of env now] by blast
  show ?thesis
  proof (cases "none_left ?i (cleaned t p ?w) (fake_view ?w)")
    case True
    then have tts: "fc_tts (world (rs_sys r1)) = fmdrop k (fc_tts ?w)" using 1(7) by simp
    then obtain e where e: "fake_get_tt k (world (rs_sys r1)) = (Inl e, world (rs_sys r1))" "is_not_found e"
      using fake_tts.tt_get_none [OF 1(5), of k] by (auto simp: fake_stored_tt_def)
    have "controller_Reconcile fake_client env now2 k r1 = (Ok False, r1)"
      using e by (simp add: controller_Reconcile_def reconcile_request_def call_def)
    then show ?thesis using 1(1,3,6) tts by blast
  next
    case False
    then obtain v where v: "fc_tts (world (rs_sys r1)) = fmupd k (with_rv v (upd_status
             (deleting_status now (m_generation (tt_meta t0))) ?i)) (fc_tts ?w)"
      using 1(7) by auto
    let ?t1 = "with_rv v (upd_status (deleting_status now (m_generation (tt_meta t0))) ?i)"
    have ok: "fake_healthy ?w" using d by (simp add: being_deleted_def)
    have keep: "m_finalizers (tt_meta ?i) = m_finalizers (tt_meta t0)" "isBeingDeleted (tt_meta ?i)"
      using d fake_tts.read_keeps [of t0] by (simp_all add: being_deleted_def isBeingDeleted_def)
    have d1: "being_deleted k ?t1 (world (rs_sys r1))"
      using 1(4,5) d keep unfolding being_deleted_def v by (simp add: isBeingDeleted_def)
    have own: "same_owner (fake_read_tt ?t1) ?i"
      by (simp add: same_owner_def fake_read_tt_def meta_json_def meta_norm_def)
    have own2: "swept (fake_read_tt ?t1) = swept ?i" "none_left (fake_read_tt ?t1) = none_left ?i"
      using same_owner_swept [OF own] by blast+
    note second = second_round [OF 1(6) ok 1(4) cl]
    have ops1: "rs_operands r1 = [TasksOperand t, PipelinesOperand p]" using 1(2) ops by simp
    from deletion_step [OF d1 ops1 second(1), of env now2] obtain r2 where
      2: "controller_Reconcile fake_client env now2 k r1 = (Ok False, r2)" "vcache (rs_sys r2) = fmempty"
        "fake_view (world (rs_sys r2)) = swept ?i (cleaned t p (world (rs_sys r1))) (fake_view (world (rs_sys r1)))"
        "fc_tts (world (rs_sys r2)) = fmdrop k (fc_tts (world (rs_sys r1)))"
      using second(2) unfolding own2 by auto
    have "fmdrop k (fc_tts (world (rs_sys r1))) = fmdrop k (fc_tts ?w)"
      unfolding v by (intro fmap_ext) simp
    moreover have "fake_view (world (rs_sys r2)) = fake_view (world (rs_sys r1))"
      unfolding 2(3) by (rule swept_none_left [OF second(2)])
    ultimately show ?thesis using 1(1,6) 2(1,2,4) by (intro exI [of _ r1] exI [of _ r2]) simp
  qed
qed

section \<open>The whole deletion\<close>

text \<open>
  C2. A \<open>TektonTasks\<close> resource that is being deleted and that only the operator's finalizer keeps
  is gone after two reconciliations, whatever else happened before: both return no error and
  ask for no retry, every object of the two bundles and every deprecated cluster task that carries
  the resource's owner annotations is gone from the cluster, every other object is as it was,
  no other resource is touched and the version cache is empty.
\<close>

theorem controller_deletes:
  assumes "being_deleted k t0 (world (rs_sys r))"
    and "rs_operands r = [TasksOperand t, PipelinesOperand p]"
    and "list_all (cleanable (fake_view (world (rs_sys r)))) (cleaned t p (world (rs_sys r)))"
  shows "\<exists>r1 r2. controller_Reconcile fake_client env now k r = (Ok False, r1) \<and>
     controller_Reconcile fake_client env now2 k r1 = (Ok False, r2) \<and>
     fc_tts (world (rs_sys r2)) = fmdrop k (fc_tts (world (rs_sys r))) \<and> vcache (rs_sys r2) = fmempty \<and>
     fake_view (world (rs_sys r2)) = swept (fake_read_tt t0) (cleaned t p (world (rs_sys r))) (fake_view (world (rs_sys r)))"
  using assms by (rule deletion_twice)

text \<open>
  C10. As long as the cluster holds an object of the resource's own, the resource keeps its finalizers, whether that
  object is yet to be deleted, kept by its finalizers, or being deleted already: a reconciliation that
  finds one leaves the resource stored, with the phase Deleting, the three conditions false, true,
  true, and the same finalizers. Of the objects it touches only those of the resource that are not being deleted, and
  deletes them: one with finalizers is being deleted from then on, the others are gone.
\<close>

theorem finalizer_kept_while_pending:
  assumes "being_deleted k t0 (world (rs_sys r))"
    and "rs_operands r = [TasksOperand t, PipelinesOperand p]"
    and "list_all (sweepable (fake_read_tt t0) (fake_view (world (rs_sys r)))) (cleaned t p (world (rs_sys r)))"
    and "x \<in> set (cleaned t p (world (rs_sys r)))" and "owned_at (fake_read_tt t0) (fake_view (world (rs_sys r))) x"
  shows "\<exists>r1 t1. controller_Reconcile fake_client env now k r = (Ok False, r1) \<and>
     fmlookup (fc_tts (world (rs_sys r1))) k = Some t1 \<and> m_finalizers (tt_meta t1) = m_finalizers (tt_meta t0) \<and>
     Phase (Status t1) = PhaseDeleting \<and> three_are (Status t1) ConditionFalse ConditionTrue ConditionTrue \<and>
     all_say (Status t1) deleting_message \<and>
     swept_to (fake_read_tt t0) (cleaned t p (world (rs_sys r))) (fake_view (world (rs_sys r))) (fake_view (world (rs_sys r1)))"
proof -
  have "\<not> none_owned (fake_read_tt t0) (cleaned t p (world (rs_sys r))) (fake_view (world (rs_sys r)))"
    using assms(4,5) unfolding none_owned_def by blast
  then obtain r1 v where 1: "controller_Reconcile fake_client env now k r = (Ok False, r1)"
     "fc_tts (world (rs_sys r1)) = fmupd k (with_rv v (upd_status
             (deleting_status now (m_generation (tt_meta t0))) (fake_read_tt t0))) (fc_tts (world (rs_sys r)))"
     "swept_to (fake_read_tt t0) (cleaned t p (world (rs_sys r))) (fake_view (world (rs_sys r))) (fake_view (world (rs_sys r1)))"
    using deletion_sweep [OF assms(1-3), of env now] by auto
  show ?thesis
    using 1 fake_tts.read_keeps [of t0]
    by (intro exI [of _ r1] exI [of _ "with_rv v (upd_status (deleting_status now (m_generation (tt_meta t0))) (fake_read_tt t0))"])
      (simp add: deleting_status_def del: fake_read_tt_simps(4))
qed

text \<open>
  C20. Cleanup looks for the objects under the namespaces that the operand's own copies of
  them have at that moment. If it finds none of them there, for instance because the operator has
  been restarted since it deployed them and its copies still have the namespaces of the bundle
  files, the first reconciliation removes the finalizer and the resource and leaves every
  deployed object in the cluster.
\<close>

theorem deletion_misses_moved_objects:
  assumes "being_deleted k t0 (world (rs_sys r))"
    and "rs_operands r = [TasksOperand t, PipelinesOperand p]"
    and "list_all (\<lambda>x. m_ownerReferences (o_meta x) = [] \<and> fake_view (world (rs_sys r)) (o_rtype x) (object_key_of x) = None)
           (cleaned t p (world (rs_sys r)))"
  shows "\<exists>r1. controller_Reconcile fake_client env now k r = (Ok False, r1) \<and>
     fc_tts (world (rs_sys r1)) = fmdrop k (fc_tts (world (rs_sys r))) \<and>
     fake_view (world (rs_sys r1)) = fake_view (world (rs_sys r))"
proof -
  let ?w = "world (rs_sys r)"
  have cl: "list_all (cleanable (fake_view ?w)) (cleaned t p ?w)"
    using assms(3) by (simp add: list_all_iff cleanable_def)
  have none: "none_left (fake_read_tt t0) (cleaned t p ?w) (fake_view ?w)"
    using assms(3) by (simp add: none_left_def marked_at_def list_all_iff)
  show ?thesis
    using deletion_step [OF assms(1,2) cl, of env now] swept_none_left [OF none] none by auto
qed

text \<open>
  A cluster in which the operator had deployed the task of the sample bundle, and whose
  resource is now being deleted.
\<close>

definition deployed_task :: object where
  "deployed_task = sample_task\<lparr>o_meta := (o_meta sample_task)\<lparr>m_namespace := ''kubevirt'', m_resourceVersion := ''1'',
     m_annotations := Some (fmupd TypeAnnotation (owner_type sample_tt)
       (fmupd NamespacedNameAnnotation (owner_namespaced_name sample_tt) fmempty))\<rparr>\<rparr>"

definition deleting_cr :: TektonTasks where
  "deleting_cr = tt_upd_meta (\<lambda>m. m\<lparr>m_deletionTimestamp := Some 5, m_finalizers := [finalizerName]\<rparr>) sample_cr"

definition deleting_cluster :: fake_cluster where
  "deleting_cluster = empty_cluster\<lparr>fc_tts := fmupd (''kubevirt'', ''tt'') deleting_cr fmempty,
     fc_objects := (\<lambda>_. fmempty)(Task := fmupd (''kubevirt'', ''cleanup-vm'') deployed_task fmempty)\<rparr>"

definition remembering_operands :: "Operand list" where
  \<comment> \<open>the operands of the process that deployed the task\<close>
  "remembering_operands =
     [TasksOperand (sample_tasks_operand\<lparr>tt_tasks := [upd_meta (\<lambda>m. m\<lparr>m_namespace := ''kubevirt''\<rparr>) sample_task]\<rparr>),
      PipelinesOperand sample_pipelines]"

lemma deleting_cluster_ready: "being_deleted (''kubevirt'', ''tt'') deleting_cr deleting_cluster"
  by (auto simp: being_deleted_def deleting_cluster_def deleting_cr_def fake_healthy_def empty_cluster_def
      fake_tt_healthy_def sample_cr_def tt_key_def alive_def isBeingDeleted_def sample_tt_def empty_meta_def
      parse_uint_def is_digit_def digits_value_def stored_ok_def deployed_task_def sample_defs o_rtype_def
      object_key_of_def split: if_splits)

lemma deleting_cluster_view:
  "fake_view deleting_cluster rt i =
     (if rt = Task \<and> i = (''kubevirt'', ''cleanup-vm'') then Some (fake_read Task deployed_task) else None)"
  by (simp add: fake_view_def deleting_cluster_def empty_cluster_def)

lemma deleting_cluster_emptied: "fmdrop (''kubevirt'', ''tt'') (fc_tts deleting_cluster) = fmempty"
  by (intro fmap_ext) (simp add: deleting_cluster_def)

lemma deprecated_tasks_none: "fc_objects w ClusterTask = fmempty \<Longrightarrow> deprecated_tasks w = []"
  by (simp add: deprecated_tasks_def sorted_list_of_fmap_def sorted_list_of_fset.rep_eq)

lemma deployed_task_marked: "owner_marked (fake_read_tt deleting_cr) (fake_read Task deployed_task)"
proof -
  have "TypeAnnotation \<noteq> NamespacedNameAnnotation" by simp
  then show ?thesis
    by (simp add: owner_marked_def fake_read_def object_json_def meta_json_def meta_norm_def smap_norm_def deployed_task_def
        sample_tt_def deleting_cr_def sample_cr_def owner_type_def owner_namespaced_name_def fake_read_tt_def
        GroupVersion_Group_def GroupVersion_Version_def empty_meta_def)
qed

lemmas sample_cleanup_defs = cleaned_def tt_objects_def tp_objects_def sample_tasks_operand_def sample_pipelines_def
  sample_defs upd_meta_def empty_meta_def o_rtype_def object_key_of_def

lemma deleting_cleanable:
  "list_all (cleanable (fake_view deleting_cluster))
     (cleaned (sample_tasks_operand\<lparr>tt_tasks := [upd_meta (\<lambda>m. m\<lparr>m_namespace := ''kubevirt''\<rparr>) sample_task]\<rparr>)
        sample_pipelines deleting_cluster)"
proof -
  have "deprecated_tasks deleting_cluster = []"
    by (rule deprecated_tasks_none) (simp add: deleting_cluster_def empty_cluster_def)
  then show ?thesis
    by (simp add: cleanable_def deleting_cluster_view sample_cleanup_defs fake_read_def object_json_def meta_json_def
        meta_norm_def deployed_task_def)
qed

theorem controller_deletes_witness:
  "\<exists>r1 r2. controller_Reconcile fake_client sample_env 7 (''kubevirt'', ''tt'')
       (NewTektonReconciler remembering_operands deleting_cluster) = (Ok False, r1) \<and>
     controller_Reconcile fake_client sample_env 8 (''kubevirt'', ''tt'') r1 = (Ok False, r2) \<and>
     fc_tts (world (rs_sys r2)) = fmempty \<and> fake_view (world (rs_sys r2)) Task (''kubevirt'', ''cleanup-vm'') = None"
proof -
  let ?r = "NewTektonReconciler remembering_operands deleting_cluster"
  let ?t = "sample_tasks_operand\<lparr>tt_tasks := [upd_meta (\<lambda>m. m\<lparr>m_namespace := ''kubevirt''\<rparr>) sample_task]\<rparr>"
  have r: "world (rs_sys ?r) = deleting_cluster" "rs_operands ?r = [TasksOperand ?t, PipelinesOperand sample_pipelines]"
    by (simp_all add: NewTektonReconciler_def remembering_operands_def)
  have gone: "swept (fake_read_tt deleting_cr) (cleaned ?t sample_pipelines deleting_cluster) (fake_view deleting_cluster)
      Task (''kubevirt'', ''cleanup-vm'') = None"
  proof -
    have "marked_at (fake_read_tt deleting_cr) (fake_view deleting_cluster) Task (''kubevirt'', ''cleanup-vm'')"
      using deployed_task_marked by (simp add: marked_at_def deleting_cluster_view)
    moreover have "\<exists>x \<in> set (cleaned ?t sample_pipelines deleting_cluster).
        o_rtype x = Task \<and> object_key_of x = (''kubevirt'', ''cleanup-vm'')"
      by (simp add: sample_cleanup_defs)
    ultimately show ?thesis by (simp add: swept_def)
  qed
  show ?thesis
    using controller_deletes [where r = ?r and env = sample_env and now = 7 and ?now2.0 = 8,
        OF _ r(2), unfolded r(1), OF deleting_cluster_ready deleting_cleanable] gone
    by (auto simp: deleting_cluster_emptied)
qed

text \<open>The same cluster while another finalizer keeps the task, which is being deleted already.\<close>

definition pending_task :: object where
  "pending_task = upd_meta (\<lambda>m. m\<lparr>m_deletionTimestamp := Some 6, m_finalizers := [''other'']\<rparr>) deployed_task"

definition pending_cluster :: fake_cluster where
  "pending_cluster = deleting_cluster\<lparr>
     fc_objects := (\<lambda>_. fmempty)(Task := fmupd (''kubevirt'', ''cleanup-vm'') pending_task fmempty)\<rparr>"

lemma pending_cluster_ready: "being_deleted (''kubevirt'', ''tt'') deleting_cr pending_cluster"
  using deleting_cluster_ready
  by (auto simp: being_deleted_def pending_cluster_def pending_task_def deleting_cluster_def fake_healthy_def
      fake_tt_healthy_def stored_ok_def upd_meta_def object_key_of_def o_rtype_def split: if_splits)

lemma pending_cluster_view:
  "fake_view pending_cluster rt i =
     (if rt = Task \<and> i = (''kubevirt'', ''cleanup-vm'') then Some (fake_read Task pending_task) else None)"
  by (simp add: fake_view_def pending_cluster_def)

theorem finalizer_kept_while_pending_witness:
  "\<exists>r1 t1. controller_Reconcile fake_client sample_env 7 (''kubevirt'', ''tt'')
       (NewTektonReconciler remembering_operands pending_cluster) = (Ok False, r1) \<and>
     fmlookup (fc_tts (world (rs_sys r1))) (''kubevirt'', ''tt'') = Some t1 \<and> m_finalizers (tt_meta t1) = [finalizerName] \<and>
     Phase (Status t1) = PhaseDeleting"
proof -
  let ?r = "NewTektonReconciler remembering_operands pending_cluster"
  let ?x = "upd_meta (\<lambda>m. m\<lparr>m_namespace := ''kubevirt''\<rparr>) sample_task"
  let ?t = "sample_tasks_operand\<lparr>tt_tasks := [?x]\<rparr>"
  have r: "world (rs_sys ?r) = pending_cluster" "rs_operands ?r = [TasksOperand ?t, PipelinesOperand sample_pipelines]"
    by (simp_all add: NewTektonReconciler_def remembering_operands_def)
  have "deprecated_tasks pending_cluster = []"
    by (rule deprecated_tasks_none) (simp add: pending_cluster_def)
  then have s: "list_all (sweepable (fake_read_tt deleting_cr) (fake_view pending_cluster))
      (cleaned ?t sample_pipelines pending_cluster)"
    by (simp add: sweepable_def pending_cluster_view sample_cleanup_defs fake_read_def object_json_def meta_json_def
        meta_norm_def pending_task_def deployed_task_def)
  have x: "?x \<in> set (cleaned ?t sample_pipelines pending_cluster)" by (simp add: cleaned_def tt_objects_def)
  have "owner_marked (fake_read_tt deleting_cr) (fake_read Task pending_task)"
    using deployed_task_marked
    by (simp add: pending_task_def owner_marked_def fake_read_def object_json_def meta_json_def meta_norm_def)
  then have "owned_at (fake_read_tt deleting_cr) (fake_view pending_cluster) ?x"
    by (simp add: owned_at_def owned_by_def pending_cluster_view sample_cleanup_defs)
  from finalizer_kept_while_pending [where r = ?r and env = sample_env and now = 7,
      OF _ r(2), unfolded r(1), OF pending_cluster_ready s x this]
  show ?thesis by (auto simp: deleting_cr_def)
qed

theorem deletion_misses_moved_objects_witness:
  "\<exists>r1. controller_Reconcile fake_client sample_env 7 (''kubevirt'', ''tt'')
       (NewTektonReconciler sample_operands deleting_cluster) = (Ok False, r1) \<and>
     fc_tts (world (rs_sys r1)) = fmempty \<and>
     fake_view (world (rs_sys r1)) Task (''kubevirt'', ''cleanup-vm'') = Some (fake_read Task deployed_task)"
proof -
  let ?r = "NewTektonReconciler sample_operands deleting_cluster"
  have r: "world (rs_sys ?r) = deleting_cluster" "rs_operands ?r = [TasksOperand sample_tasks_operand, PipelinesOperand sample_pipelines]"
    by (simp_all add: NewTektonReconciler_def sample_operands_def)
  have "deprecated_tasks deleting_cluster = []"
    by (rule deprecated_tasks_none) (simp add: deleting_cluster_def empty_cluster_def)
  then have "list_all (\<lambda>x. m_ownerReferences (o_meta x) = [] \<and> fake_view deleting_cluster (o_rtype x) (object_key_of x) = None)
           (cleaned sample_tasks_operand sample_pipelines deleting_cluster)"
    by (simp add: deleting_cluster_view sample_cleanup_defs)
  then show ?thesis
    using deletion_misses_moved_objects [where r = ?r and env = sample_env and now = 7,
        OF _ r(2), unfolded r(1), OF deleting_cluster_ready]
    by (auto simp: deleting_cluster_view deleting_cluster_emptied)
qed

end
