(* ===== verification/Controller_Lifecycle.thy ===== *)
theory Controller_Lifecycle
  imports Controller_Cleanup
begin

text \<open>
  The branches of the controller's reconcile function: errors, the reported status,
  initialisation, the finalizer of older releases, several resources, a paused one, and the feature
  gate. The lemmas that end in \<open>_run\<close> say what one reconciliation does on the server of
  the tests.
\<close>

section \<open>Errors\<close>

text \<open>
  C13. What the controller does with an error, on any API server. No error: done, nothing
  written. A conflict: nothing written, the request is queued again, and the error is not
  returned. Any other error is returned, also when the status cannot be written; the
  status update that is sent has the phase Deploying, the conditions false, true, true and the error's
  text in each, and leaves the rest of the resource as it was.
\<close>

theorem handleError_outcomes:
  "(case errParam of
      None \<Rightarrow> handleError cl now errParam (inst, s) = (Ok False, (inst, s))
    | Some e \<Rightarrow>
        if is_conflict e then handleError cl now errParam (inst, s) = (Ok True, (inst, s))
        else (\<exists>f inst' s'. handleError cl now errParam (inst, s) = (Err e, (inst', s')) \<and>
          world s' = snd (c_status_update_tt cl (upd_status f inst) (world s)) \<and>
          vcache s' = vcache s \<and>
          Phase (f (Status inst)) = PhaseDeploying \<and>
          three_are (f (Status inst)) ConditionFalse ConditionTrue ConditionTrue \<and>
          all_say (f (Status inst)) (''Error: '' @ error_message e)))"
proof (cases errParam)
  case None
  then show ?thesis by (simp add: handleError_def)
next
  case (Some e)
  define f where "f = (\<lambda>s. set_three now ConditionFalse ConditionTrue ConditionTrue (''Error: '' @ error_message e)
     (s\<lparr>Phase := PhaseDeploying\<rparr>))"
  have u: "on_status (set_three now ConditionFalse ConditionTrue ConditionTrue (''Error: '' @ error_message e))
      (set_phase PhaseDeploying (inst, s)) = (upd_status f inst, s)"
    by (simp add: on_status_def set_phase_def upd_status_def f_def)
  have run: "handleError cl now (Some e) (inst, s) = (if is_conflict e then (Ok True, (inst, s))
      else (case write_tt (c_status_update_tt cl) (upd_status f inst, s) of
         (Err e', (t, s)) \<Rightarrow> (Err e, (t, log_msg ''Error updating Tekton tasks status.'' s))
       | (_, st) \<Rightarrow> (Err e, st)))"
    by (simp only: handleError_def Let_def option.case u)
  have "Phase (f (Status inst)) = PhaseDeploying" "three_are (f (Status inst)) ConditionFalse ConditionTrue ConditionTrue"
    "all_say (f (Status inst)) (''Error: '' @ error_message e)"
    by (simp_all only: f_def set_three_simps set_three_are set_three_say) simp
  then show ?thesis
    unfolding Some option.case run
    by (cases "c_status_update_tt cl (upd_status f inst) (world s)"; cases "fst (c_status_update_tt cl (upd_status f inst) (world s))")
      (auto simp: write_tt_def simp del: append_Cons intro!: exI [of _ f])
qed

section \<open>What the results of the operands say\<close>

text \<open>
  C15. The status after the operands ran: it is Deployed, with the observed version of the
  operator, exactly when every result is a success. Otherwise it is Deploying and keeps the
  observed version. Each condition tells whether some result reports it.
\<close>

theorem report_results_phase:
  "\<exists>st. report_results env now results (inst, s) = (upd_status (\<lambda>_. st) inst, s) \<and>
     (Phase st = PhaseDeployed \<longleftrightarrow> list_all IsSuccess results) \<and>
     (Phase st = PhaseDeploying \<longleftrightarrow> \<not> list_all IsSuccess results) \<and>
     ObservedVersion st = (if list_all IsSuccess results then GetOperatorVersion env else ObservedVersion (Status inst)) \<and>
     ObservedGeneration st = m_generation (tt_meta inst) \<and>
     three_are st
       (if list_ex (\<lambda>r. NotAvailable (rr_Status r) \<noteq> None) results then ConditionFalse else ConditionTrue)
       (if list_ex (\<lambda>r. Progressing (rr_Status r) \<noteq> None) results then ConditionTrue else ConditionFalse)
       (if list_ex (\<lambda>r. Degraded (rr_Status r) \<noteq> None) results then ConditionTrue else ConditionFalse)"
proof -
  let ?st = "reported env now results (m_generation (tt_meta inst)) (Status inst)"
  let ?none = "\<lambda>field. filter (\<lambda>r. field (rr_Status r) \<noteq> None) results = []"
  have all: "list_all IsSuccess results \<longleftrightarrow> ?none NotAvailable \<and> ?none Progressing \<and> ?none Degraded"
    by (auto simp: filter_empty_conv list_all_iff IsSuccess_def)
  have ex: "list_ex (\<lambda>r. field (rr_Status r) \<noteq> None) results \<longleftrightarrow> \<not> ?none field" for field
    by (auto simp: filter_empty_conv list_ex_iff)
  have upd: "upd_status (reported env now results (m_generation (tt_meta inst))) inst = upd_status (\<lambda>_. ?st) inst"
    by (simp add: upd_status_def)
  show ?thesis
    unfolding report_results_status upd ex all
    by (intro exI [of _ ?st] conjI) (auto simp: reported_def Let_def three_are_def simp del: not_None_eq)
qed

section \<open>Initialisation and the finalizer of older releases\<close>

definition deploying_status :: "int64 \<Rightarrow> TektonTasksStatus \<Rightarrow> TektonTasksStatus" where
  "deploying_status gen s = s\<lparr>Phase := PhaseDeploying, ObservedGeneration := gen\<rparr>"

lemma update_resource_run:
  assumes w: "fake_healthy (world s)" "fake_tt_healthy (world s)" "fmlookup (fc_tts (world s)) (tt_key t) = Some old"
    and t: "m_resourceVersion (tt_meta t) = m_resourceVersion (tt_meta old)" "alive (tt_meta t)" "Status old = Status t"
  shows "\<exists>v w. updateTektonTasksResource fake_client (t, s) =
       (Ok (), (with_rv v (upd_status (deploying_status (m_generation (tt_meta t))) t), s\<lparr>world := w\<rparr>)) \<and>
     served (with_rv v (upd_status (deploying_status (m_generation (tt_meta t))) t)) w \<and>
     fc_tts w = fmupd (tt_key t) (with_rv v (upd_status (deploying_status (m_generation (tt_meta t))) t)) (fc_tts (world s)) \<and>
     fake_view w = fake_view (world s)"
proof -
  have st: "fake_stored_tt (world s) (tt_key t) = Some old" using w(3) by (simp add: fake_stored_tt_def)
  obtain v1 x w1 where
    1: "write_tt (c_update_tt fake_client) (t, s) = (Ok (), ((with_rv v1 t)\<lparr>Status := x\<rparr>, s\<lparr>world := w1\<rparr>))"
      "fake_tts.holds ((with_rv v1 t)\<lparr>Status := x\<rparr>) w1"
      "fake_stored_tt w1 = (fake_stored_tt (world s))(tt_key t := Some ((with_rv v1 t)\<lparr>Status := x\<rparr>))"
      "fake_rest w1 = fake_rest (world s)" "x = Status t"
  proof -
    from fake_tts.tt_update [OF w(2) st t(1,2)] obtain v st' w' where
      u: "c_update_tt fake_client t (world s) = (Inr ((with_rv v t)\<lparr>Status := st'\<rparr>), w')" "fake_tt_healthy w'"
        "st' = Status t \<or> st' = Status old"
        "fake_stored_tt w' = (fake_stored_tt (world s))(tt_key t := Some ((with_rv v t)\<lparr>Status := st'\<rparr>))"
        "fake_rest w' = fake_rest (world s)" by blast
    have k: "tt_key ((with_rv v t)\<lparr>Status := st'\<rparr>) = tt_key t" by (simp add: tt_key_def)
    show ?thesis
      by (rule that [where ?v1.0 = v and x = st' and ?w1.0 = w']) (use u t(3) k in \<open>simp_all add: write_tt_def fake_tts.holds_def fake_tts.up_to_date_def\<close>)
  qed
  have e: "(with_rv v1 t)\<lparr>Status := x\<rparr> = with_rv v1 t" using 1(5) by (simp add: with_rv_def tt_upd_meta_def)
  have sv: "served (with_rv v1 t) w1"
    using 1(2) w(1) fake_rest_objects [OF 1(4)] unfolding e served_def by simp
  let ?g = "deploying_status (m_generation (tt_meta t))"
  from served_write [of "with_rv v1 t" "s\<lparr>world := w1\<rparr>" ?g] sv obtain v2 w2 where
    2: "write_tt (c_status_update_tt fake_client) (upd_status ?g (with_rv v1 t), s\<lparr>world := w1\<rparr>) =
        (Ok (), (with_rv v2 (upd_status ?g (with_rv v1 t)), s\<lparr>world := w2\<rparr>))"
      "served (with_rv v2 (upd_status ?g (with_rv v1 t))) w2"
      "fc_tts w2 = fmupd (tt_key t) (with_rv v2 (upd_status ?g (with_rv v1 t))) (fc_tts w1)"
      "fake_view w2 = fake_view w1"
    by auto
  have eq: "with_rv v2 (upd_status ?g (with_rv v1 t)) = with_rv v2 (upd_status ?g t)"
    by (simp add: with_rv_def tt_upd_meta_def upd_status_def)
  have u: "observe_generation (set_phase PhaseDeploying (with_rv v1 t, s\<lparr>world := w1\<rparr>)) =
      (upd_status ?g (with_rv v1 t), s\<lparr>world := w1\<rparr>)"
    by (simp add: observe_generation_def set_phase_def on_status_def upd_status_def deploying_status_def)
  have run: "updateTektonTasksResource fake_client (t, s) =
      (Ok (), (with_rv v2 (upd_status ?g t), s\<lparr>world := w2\<rparr>))"
    using 1(1) 2(1) by (simp add: updateTektonTasksResource_def e u eq)
  have "fc_tts w2 = fmupd (tt_key t) (with_rv v2 (upd_status ?g t)) (fc_tts (world s))"
    using fun_cong [OF 1(3)] by (intro fmap_ext) (auto simp: 2(3) eq fake_stored_tt_def)
  then show ?thesis
    using run 2(2,4) fake_rest_objects [OF 1(4)] unfolding eq by (intro exI [of _ v2] exI [of _ w2]) simp
qed

text \<open>
  The resource under \<open>k\<close> after its meta was changed by \<open>f\<close> and its phase set to Deploying; nothing
  else of the cluster changed.
\<close>

definition took_over ::
  "(object_meta \<Rightarrow> object_meta) \<Rightarrow> object_key \<Rightarrow> TektonTasks \<Rightarrow> fake_cluster \<Rightarrow> fake_cluster \<Rightarrow> bool" where
  "took_over f k t0 w w' \<longleftrightarrow> fake_healthy w' \<and> fake_tt_healthy w' \<and> fake_view w' = fake_view w \<and>
     (\<exists>v. fc_tts w' = fmupd k (with_rv v (upd_status (deploying_status (m_generation (tt_meta t0)))
        (tt_upd_meta f (fake_read_tt t0)))) (fc_tts w))"

lemma took_over_run:
  assumes h: "fake_healthy (world s)" "fake_tt_healthy (world s)" "fmlookup (fc_tts (world s)) k = Some t0"
    and f: "\<And>m. m_name (f m) = m_name m \<and> m_namespace (f m) = m_namespace m \<and> m_generation (f m) = m_generation m \<and>
      m_resourceVersion (f m) = m_resourceVersion m \<and> m_finalizers (f m) \<noteq> []"
  shows "\<exists>t1 w'. updateTektonTasksResource fake_client (tt_upd_meta f (fake_read_tt t0), s) =
      (Ok (), (t1, s\<lparr>world := w'\<rparr>)) \<and> took_over f k t0 (world s) w'"
proof -
  note q = fake_request [OF h(2,3)]
  let ?t = "tt_upd_meta f (fake_read_tt t0)"
  have key: "tt_key ?t = k" using f q(3) by (simp add: tt_key_def)
  have lookup: "fmlookup (fc_tts (world s)) (tt_key ?t) = Some t0" using h(3) key by simp
  have keep: "m_resourceVersion (tt_meta ?t) = m_resourceVersion (tt_meta t0)" "alive (tt_meta ?t)" "Status t0 = Status ?t"
      "m_generation (tt_meta ?t) = m_generation (tt_meta t0)"
    using f fake_tts.read_keeps [of t0] by (auto simp: alive_def simp del: fake_read_tt_simps(4))
  from update_resource_run [OF h(1,2) lookup keep(1,2,3)] show ?thesis
    unfolding keep(4) key took_over_def served_def fake_tts.holds_def by blast
qed

lemma initialize_run:
  assumes h: "fake_healthy (world (rs_sys r))" "fake_tt_healthy (world (rs_sys r))"
      "fmlookup (fc_tts (world (rs_sys r))) k = Some t0"
    and new: "Phase (Status t0) = PhaseEmpty" "\<not> isBeingDeleted (tt_meta t0)"
  shows "\<exists>r'. controller_Reconcile fake_client env now k r = (Ok False, r') \<and> rs_operands r' = rs_operands r \<and>
     vcache (rs_sys r') = vcache (rs_sys (clearCacheIfNeeded t0 r)) \<and> rs_lastTektonTasksSpec r' = Spec t0 \<and>
     took_over (AddFinalizer finalizerName) k t0 (world (rs_sys r)) (world (rs_sys r'))"
proof -
  note q = fake_request [OF h(2,3)]
  let ?c = "clearCacheIfNeeded (fake_read_tt t0) r"
  have c: "?c = clearCacheIfNeeded t0 r" by (simp add: clearCacheIfNeeded_def)
  have "\<exists>t1 w'. updateTektonTasksResource fake_client (tt_upd_meta (AddFinalizer finalizerName) (fake_read_tt t0), rs_sys ?c) =
      (Ok (), (t1, (rs_sys ?c)\<lparr>world := w'\<rparr>)) \<and> took_over (AddFinalizer finalizerName) k t0 (world (rs_sys ?c)) w'"
    by (rule took_over_run) (use h in \<open>auto simp: AddFinalizer_def ContainsFinalizer_def\<close>)
  then obtain t1 w' where u: "updateTektonTasksResource fake_client (tt_upd_meta (AddFinalizer finalizerName) (fake_read_tt t0), rs_sys ?c) =
      (Ok (), (t1, (rs_sys ?c)\<lparr>world := w'\<rparr>))" "took_over (AddFinalizer finalizerName) k t0 (world (rs_sys ?c)) w'" by blast
  have g: "call (fake_get_tt k) (rs_sys r) = (Ok (fake_read_tt t0), rs_sys r)" using q(1) by (simp add: call_def)
  have "controller_Reconcile fake_client env now k r = (Ok False, ?c\<lparr>rs_sys := (rs_sys ?c)\<lparr>world := w'\<rparr>\<rparr>)"
    using u(1) new
    by (simp add: controller_Reconcile_def reconcile_request_def g reconcile_instance_def Let_def isInitialized_def
        with_inst_def initialize_def on_meta_def error_of_def handle_error_def handleError_def)
  then show ?thesis
    using u(2) by (auto simp: c [symmetric]) (simp add: clearCacheIfNeeded_def)
qed

lemma took_over_same_owner:
  assumes "\<And>m. m_name (f m) = m_name m \<and> m_namespace (f m) = m_namespace m \<and> m_labels (f m) = m_labels m"
  shows "same_owner (fake_read_tt (with_rv v (upd_status g (tt_upd_meta f (fake_read_tt t0))))) (fake_read_tt t0)"
  using assms by (simp add: same_owner_def fake_read_tt_def meta_json_def meta_norm_def)

lemma new_resource_run:
  assumes h: "fake_healthy (world (rs_sys r))" "fake_tt_healthy (world (rs_sys r))" "fmdom (fc_tts (world (rs_sys r))) = {|k|}"
      "fmlookup (fc_tts (world (rs_sys r))) k = Some t0"
    and new: "Phase (Status t0) = PhaseEmpty" "\<not> isBeingDeleted (tt_meta t0)" "\<not> isPaused (tt_meta t0)"
      "\<not> ContainsFinalizer (tt_meta t0) oldFinalizerName"
    and gate: "DeployTektonTaskResources (Spec_FeatureGates (Spec t0))"
    and ops: "rs_operands r = [TasksOperand t, PipelinesOperand p]" "operands_deployable env (fake_read_tt t0) t p"
    and cache: "vcache (rs_sys r) = fmempty"
      "list_all (\<lambda>(rt, i). fresh_at (fake_view (world (rs_sys r))) fmempty rt i) (operand_targets env (fake_read_tt t0) t p)"
  shows "\<exists>r1 t1 r2 t2. controller_Reconcile fake_client env now k r = (Ok False, r1) \<and>
     fake_view (world (rs_sys r1)) = fake_view (world (rs_sys r)) \<and>
     fc_tts (world (rs_sys r1)) = fmupd k t1 (fc_tts (world (rs_sys r))) \<and>
     m_finalizers (tt_meta t1) = (if ContainsFinalizer (tt_meta t0) finalizerName then m_finalizers (tt_meta t0)
       else m_finalizers (tt_meta t0) @ [finalizerName]) \<and>
     Spec t1 = Spec t0 \<and> Phase (Status t1) = PhaseDeploying \<and>
     controller_Reconcile fake_client env now2 k r1 = (Ok False, r2) \<and> rs_gauge r2 = 1 \<and>
     fmlookup (fc_tts (world (rs_sys r2))) k = Some t2 \<and> m_finalizers (tt_meta t2) = m_finalizers (tt_meta t1) \<and>
     ContainsFinalizer (tt_meta t2) finalizerName \<and>
     deployed_status env t2 \<and> all_deployed env (fake_read_tt t0) t p (fake_view (world (rs_sys r2))) \<and>
     (\<forall>rt i. (rt, i) \<notin> set (operand_targets env (fake_read_tt t0) t p) \<longrightarrow>
        fake_view (world (rs_sys r2)) rt i = fake_view (world (rs_sys r)) rt i)"
proof -
  let ?f = "AddFinalizer finalizerName" and ?w = "world (rs_sys r)"
  from initialize_run [OF h(1,2,4) new(1,2), of env now] obtain r1 where
    1: "controller_Reconcile fake_client env now k r = (Ok False, r1)" "rs_operands r1 = rs_operands r"
      "vcache (rs_sys r1) = vcache (rs_sys (clearCacheIfNeeded t0 r))" "rs_lastTektonTasksSpec r1 = Spec t0"
      "took_over ?f k t0 ?w (world (rs_sys r1))" by blast
  have c1: "vcache (rs_sys r1) = fmempty" using 1(3) cache(1) by (simp add: clearCacheIfNeeded_def split: if_splits)
  define g where "g = deploying_status (m_generation (tt_meta t0))"
  obtain v where v: "fc_tts (world (rs_sys r1)) = fmupd k (with_rv v (upd_status g (tt_upd_meta ?f (fake_read_tt t0)))) (fc_tts ?w)"
      "fake_healthy (world (rs_sys r1))" "fake_tt_healthy (world (rs_sys r1))" "fake_view (world (rs_sys r1)) = fake_view ?w"
    using 1(5) by (auto simp: took_over_def g_def)
  define t1 where "t1 = with_rv v (upd_status g (tt_upd_meta ?f (fake_read_tt t0)))"
  have own: "same_owner (fake_read_tt t1) (fake_read_tt t0)"
    unfolding t1_def by (rule took_over_same_owner) (simp add: AddFinalizer_def)
  note same = same_owner_deployable [OF own]
  have "finalizerName \<in> set (m_finalizers (?f m))" for m by (auto simp: AddFinalizer_def ContainsFinalizer_def)
  moreover have "oldFinalizerName \<notin> set (m_finalizers (?f (tt_meta (fake_read_tt t0))))"
    using new(4) finalizer_names fake_tts.read_keeps [of t0]
    by (auto simp: AddFinalizer_def ContainsFinalizer_def simp del: fake_read_tt_simps(4))
  ultimately have t1: "ContainsFinalizer (tt_meta t1) finalizerName" "\<not> ContainsFinalizer (tt_meta t1) oldFinalizerName"
      "Spec t1 = Spec t0" "Phase (Status t1) = PhaseDeploying"
    unfolding t1_def by (simp_all add: ContainsFinalizer_def g_def deploying_status_def del: fake_read_tt_simps(4))
  have "isPaused (tt_meta t1) = isPaused (meta_json (tt_meta t0))" "isBeingDeleted (tt_meta t1) = isBeingDeleted (meta_json (tt_meta t0))"
    by (simp_all add: t1_def isPaused_def isBeingDeleted_def AddFinalizer_def)
  then have "ready k t1 (world (rs_sys r1))"
    using v h(3) new t1 unfolding ready_def v(1) by (simp add: t1_def [symmetric])
  note rd = this
  have clr: "clearCacheIfNeeded (fake_read_tt t1) r1 = r1"
    using 1(4) t1(3) by (simp add: clearCacheIfNeeded_def)
  have tgt: "operand_targets env (fake_read_tt t1) t p = operand_targets env (fake_read_tt t0) t p"
    by (simp add: operand_targets_def same)
  have dep: "operands_deployable env (fake_read_tt t1) t p" using ops(2) by (simp add: operands_deployable_def same)
  have all: "all_deployed env (fake_read_tt t1) t p x \<longleftrightarrow> all_deployed env (fake_read_tt t0) t p x" for x
    by (simp add: all_deployed_def same)
  have ops1: "rs_operands r1 = [TasksOperand t, PipelinesOperand p]" using 1(2) ops(1) by simp
  have gate1: "DeployTektonTaskResources (Spec_FeatureGates (Spec t1))" using gate t1(3) by simp
  have cw: "cache_wf (vcache (rs_sys (clearCacheIfNeeded (fake_read_tt t1) r1)))" unfolding clr c1 by simp
  have fr: "list_all (\<lambda>(rt, i). fresh_at (fake_view (world (rs_sys r1)))
           (vcache (rs_sys (clearCacheIfNeeded (fake_read_tt t1) r1))) rt i) (operand_targets env (fake_read_tt t1) t p)"
    using cache(2) unfolding clr c1 tgt v(4) .
  from controller_run [OF rd gate1 ops1 dep cw fr, of now2] obtain r2 t2 w2 where
    2: "controller_Reconcile fake_client env now2 k r1 = (Ok False, r2)" "rs_gauge r2 = 1" "world (rs_sys r2) = w2"
      "fc_tts w2 = fmupd k t2 (fc_tts (world (rs_sys r1)))" "m_finalizers (tt_meta t2) = m_finalizers (tt_meta t1)"
      "deployed_status env t2" "all_deployed env (fake_read_tt t0) t p (fake_view w2)"
      "\<forall>rt i. (rt, i) \<notin> set (operand_targets env (fake_read_tt t0) t p) \<longrightarrow> fake_view w2 rt i = fake_view ?w rt i"
    unfolding tgt all v(4) by blast
  have "m_finalizers (tt_meta t1) = (if ContainsFinalizer (tt_meta t0) finalizerName then m_finalizers (tt_meta t0)
      else m_finalizers (tt_meta t0) @ [finalizerName])"
    using fake_tts.read_keeps [of t0]
    by (simp add: t1_def AddFinalizer_def ContainsFinalizer_def del: fake_read_tt_simps(4))
  then show ?thesis
    using 1(1) 2 v(4) t1(1,3,4) v(1) [folded t1_def]
    by (intro exI [of _ r1] exI [of _ t1] exI [of _ r2] exI [of _ t2]) (simp add: ContainsFinalizer_def)
qed

section \<open>Branches that do not run the operands\<close>

lemma old_finalizer_run:
  assumes h: "fake_healthy (world (rs_sys r))" "fake_tt_healthy (world (rs_sys r))"
      "fmlookup (fc_tts (world (rs_sys r))) k = Some t0"
    and t0: "isInitialized t0" "ContainsFinalizer (tt_meta t0) oldFinalizerName"
  shows "\<exists>r'. controller_Reconcile fake_client env now k r = (Ok False, r') \<and>
     took_over (\<lambda>m. AddFinalizer finalizerName (RemoveFinalizer oldFinalizerName m)) k t0
       (world (rs_sys r)) (world (rs_sys r'))"
proof -
  note q = fake_request [OF h(2,3)]
  let ?c = "clearCacheIfNeeded (fake_read_tt t0) r"
  let ?f = "\<lambda>m. AddFinalizer finalizerName (RemoveFinalizer oldFinalizerName m)"
  have "\<exists>t1 w'. updateTektonTasksResource fake_client (tt_upd_meta ?f (fake_read_tt t0), rs_sys ?c) =
      (Ok (), (t1, (rs_sys ?c)\<lparr>world := w'\<rparr>)) \<and> took_over ?f k t0 (world (rs_sys ?c)) w'"
    by (rule took_over_run) (use h in \<open>auto simp: AddFinalizer_def ContainsFinalizer_def RemoveFinalizer_def\<close>)
  then obtain t1 w' where u: "updateTektonTasksResource fake_client (tt_upd_meta ?f (fake_read_tt t0), rs_sys ?c) =
      (Ok (), (t1, (rs_sys ?c)\<lparr>world := w'\<rparr>))" "took_over ?f k t0 (world (rs_sys ?c)) w'" by blast
  have g: "call (fake_get_tt k) (rs_sys r) = (Ok (fake_read_tt t0), rs_sys r)" using q(1) by (simp add: call_def)
  have i: "isInitialized (fake_read_tt t0)" using t0(1) by (simp add: isInitialized_def)
  have old: "ContainsFinalizer (tt_meta (fake_read_tt t0)) oldFinalizerName"
    using t0(2) q(5) by (simp add: ContainsFinalizer_def del: fake_read_tt_simps(4))
  have comp: "tt_upd_meta (AddFinalizer finalizerName) (tt_upd_meta (RemoveFinalizer oldFinalizerName) (fake_read_tt t0)) =
      tt_upd_meta ?f (fake_read_tt t0)" by (simp add: tt_upd_meta_def)
  have "controller_Reconcile fake_client env now k r = (Ok False, ?c\<lparr>rs_sys := (rs_sys ?c)\<lparr>world := w'\<rparr>\<rparr>)"
    using u(1) i old
    by (simp add: controller_Reconcile_def reconcile_request_def g reconcile_instance_def Let_def
        with_inst_def updateTektonTasks_def on_meta_def comp handle_error_def handleError_def del: fake_read_tt_simps(4))
  then show ?thesis using u(2) by simp
qed

text \<open>The resource under \<open>k\<close> is initialised, kept by no old finalizer and not being deleted.\<close>

definition active :: "object_key \<Rightarrow> TektonTasks \<Rightarrow> fake_cluster \<Rightarrow> bool" where
  "active k t0 w \<longleftrightarrow> fake_healthy w \<and> fake_tt_healthy w \<and> fmlookup (fc_tts w) k = Some t0 \<and>
     Phase (Status t0) \<noteq> PhaseEmpty \<and> \<not> ContainsFinalizer (tt_meta t0) oldFinalizerName \<and> \<not> isBeingDeleted (tt_meta t0)"

lemma rs_sys_id [simp]: "(r :: 'w tektonTasksReconciler)\<lparr>rs_sys := rs_sys r\<rparr> = r"
  by (cases r) simp

lemma active_reconciles:
  assumes a: "active k t0 (world (rs_sys r))"
    and l: "fake_list_tt None (world (rs_sys r)) = (Inr items, world (rs_sys r))"
  shows "reconcile_request fake_client env now k r =
     (let inst = fake_read_tt t0; r = clearCacheIfNeeded inst r
      in if length items > 1 then
           (case setStatusMultipleCRs fake_client now items (rs_sys r) of
              (Ok _, s) \<Rightarrow> (Ok False, r\<lparr>rs_sys := s\<rparr>)
            | (Err e, s) \<Rightarrow> (Err e, r\<lparr>rs_sys := s\<rparr>)
            | (Panic p, s) \<Rightarrow> (Panic p, r\<lparr>rs_sys := s\<rparr>))
         else if isPaused (tt_meta t0) then pause_CR fake_client inst r
         else reconcile_deploy fake_client env now inst r)"
proof -
  have h: "fake_tt_healthy (world (rs_sys r))" "fmlookup (fc_tts (world (rs_sys r))) k = Some t0"
    using a by (simp_all add: active_def)
  let ?c = "clearCacheIfNeeded (fake_read_tt t0) r"
  have g: "call (fake_get_tt k) (rs_sys r) = (Ok (fake_read_tt t0), rs_sys r)"
    using fake_request [OF h] by (simp add: call_def)
  have cl: "call (fake_list_tt None) (rs_sys ?c) = (Ok items, rs_sys ?c)" using l by (simp add: call_def)
  show ?thesis
    using a by (simp add: active_def reconcile_request_def g reconcile_instance_def Let_def isInitialized_def
        with_inst_def updateTektonTasks_def ContainsFinalizer_def cl split: prod.split outcome.split)
qed

definition multiple_status :: "time \<Rightarrow> TektonTasksStatus \<Rightarrow> TektonTasksStatus" where
  "multiple_status now = set_three now ConditionFalse ConditionFalse ConditionTrue ''there are multiple CRs deployed''"

lemma set_multiple_run:
  assumes "fake_healthy (world s)" and "\<forall>t \<in> set items. fake_tts.holds t (world s)" and "distinct (map tt_key items)"
  shows "\<exists>s'. set_multiple fake_client now items s = (Ok (), s') \<and> fake_view (world s') = fake_view (world s) \<and>
     fmdom (fc_tts (world s')) = fmdom (fc_tts (world s)) \<and>
     (\<forall>t \<in> set items. \<exists>v. fmlookup (fc_tts (world s')) (tt_key t) = Some (with_rv v (upd_status (multiple_status now) t))) \<and>
     (\<forall>k. k \<notin> tt_key ` set items \<longrightarrow> fmlookup (fc_tts (world s')) k = fmlookup (fc_tts (world s)) k)"
  using assms
proof (induction items arbitrary: s)
  case Nil
  then show ?case by simp
next
  case (Cons t ts)
  have "served t (world s)" using Cons.prems(1,2) by (simp add: served_def)
  from served_write [OF this, of "multiple_status now"] obtain v w where
    1: "write_tt (c_status_update_tt fake_client) (upd_status (multiple_status now) t, s) =
       (Ok (), (with_rv v (upd_status (multiple_status now) t), s\<lparr>world := w\<rparr>))"
      "served (with_rv v (upd_status (multiple_status now) t)) w"
      "fc_tts w = fmupd (tt_key t) (with_rv v (upd_status (multiple_status now) t)) (fc_tts (world s))"
      "fake_view w = fake_view (world s)"
    by auto
  have w: "fake_healthy w" "fake_tt_healthy w" using 1(2) by (simp_all add: served_def fake_tts.holds_def)
  have "\<forall>q \<in> set ts. fake_tts.holds q w"
  proof
    fix q assume q: "q \<in> set ts"
    then have "tt_key q \<noteq> tt_key t"
      using Cons.prems(3) by (metis distinct.simps(2) image_eqI list.set_map list.simps(9))
    moreover have "fake_tts.holds q (world s)" using Cons.prems(2) q by simp
    ultimately show "fake_tts.holds q w"
      using w(2) unfolding fake_tts.holds_def fake_stored_tt_def 1(3) by simp
  qed
  moreover have "distinct (map tt_key ts)" using Cons.prems(3) by simp
  ultimately obtain s' where 2: "set_multiple fake_client now ts (s\<lparr>world := w\<rparr>) = (Ok (), s')"
      "fake_view (world s') = fake_view w" "fmdom (fc_tts (world s')) = fmdom (fc_tts w)"
      "\<forall>t \<in> set ts. \<exists>v. fmlookup (fc_tts (world s')) (tt_key t) = Some (with_rv v (upd_status (multiple_status now) t))"
      "\<forall>k. k \<notin> tt_key ` set ts \<longrightarrow> fmlookup (fc_tts (world s')) k = fmlookup (fc_tts w) k"
    using Cons.IH [of "s\<lparr>world := w\<rparr>"] w(1) by auto
  have u: "on_status (set_three now ConditionFalse ConditionFalse ConditionTrue ''there are multiple CRs deployed'') (t, s) =
      (upd_status (multiple_status now) t, s)"
    by (simp only: on_status_def multiple_status_def fst_conv snd_conv)
  have run: "set_multiple fake_client now (t # ts) s = (Ok (), s')"
    unfolding set_multiple.simps u 1(1) using 2(1) by simp
  have "fake_stored_tt (world s) (tt_key t) \<noteq> None"
    using \<open>served t (world s)\<close> by (auto simp: served_def fake_tts.holds_def)
  then have "tt_key t |\<in>| fmdom (fc_tts (world s))" by (auto simp: fake_stored_tt_def fmlookup_dom_iff)
  then have dom: "fmdom (fc_tts (world s')) = fmdom (fc_tts (world s))" by (auto simp: 2(3) 1(3))
  have "tt_key t \<notin> tt_key ` set ts" using Cons.prems(3) by simp
  then have "fmlookup (fc_tts (world s')) (tt_key t) = Some (with_rv v (upd_status (multiple_status now) t))"
    using 2(5) [rule_format, of "tt_key t"] by (simp add: 1(3))
  then show ?case using run dom 1(3,4) 2(2,4,5) by (intro exI [of _ s']) auto
qed

lemma listed_holds:
  assumes "fake_tt_healthy w"
  shows "\<exists>items. fake_list_tt None w = (Inr items, w) \<and> distinct (map tt_key items) \<and>
     set (map tt_key items) = fset (fmdom (fc_tts w)) \<and>
     (\<forall>t \<in> set items. fake_tts.holds t w)"
proof -
  obtain items where i: "fake_list_tt None w = (Inr items, w)" "distinct (map tt_key items)"
     "set (map tt_key items) = {k. fake_stored_tt w k \<noteq> None}" using fake_list_tt_keys [OF assms] by blast
  have "{k. fake_stored_tt w k \<noteq> None} = fset (fmdom (fc_tts w))"
    by (auto simp: fake_stored_tt_def fmlookup_dom_iff)
  moreover have "fake_tts.holds t w" if "t \<in> set items" for t
  proof -
    from that i(1) obtain k t' where t': "fmlookup (fc_tts w) k = Some t'" "t = t'\<lparr>tt_meta := meta_json (tt_meta t')\<rparr>"
      by (auto simp: fake_list_tt_def sorted_list_of_fmap_mem)
    then have "tt_key t' = k" using assms unfolding fake_tt_healthy_def by blast
    then show ?thesis
      using assms t' by (auto simp: fake_tts.holds_def fake_stored_tt_def fake_tts.up_to_date_def tt_key_def meta_json_def)
  qed
  ultimately show ?thesis using i by (intro exI [of _ items]) simp
qed

lemma multiple_run:
  assumes a: "active k t0 (world (rs_sys r))" and other: "k' \<noteq> k" "fmlookup (fc_tts (world (rs_sys r))) k' \<noteq> None"
  shows "\<exists>r'. controller_Reconcile fake_client env now k r = (Ok False, r') \<and>
     fake_view (world (rs_sys r')) = fake_view (world (rs_sys r)) \<and>
     fmdom (fc_tts (world (rs_sys r'))) = fmdom (fc_tts (world (rs_sys r))) \<and>
     (\<forall>j t. fmlookup (fc_tts (world (rs_sys r'))) j = Some t \<longrightarrow>
        three_are (Status t) ConditionFalse ConditionFalse ConditionTrue \<and>
        all_say (Status t) ''there are multiple CRs deployed'')"
proof -
  let ?w = "world (rs_sys r)" and ?c = "clearCacheIfNeeded (fake_read_tt t0) r"
  have h: "fake_healthy ?w" "fake_tt_healthy ?w" "fmlookup (fc_tts ?w) k = Some t0" using a by (simp_all add: active_def)
  obtain items where i: "fake_list_tt None ?w = (Inr items, ?w)" "distinct (map tt_key items)"
      "set (map tt_key items) = fset (fmdom (fc_tts ?w))" "\<forall>t \<in> set items. fake_tts.holds t ?w"
    using listed_holds [OF h(2)] by blast
  have "{k, k'} \<subseteq> set (map tt_key items)"
    unfolding i(3) using h(3) other(2) by (auto simp: fmlookup_dom_iff)
  then have "card {k, k'} \<le> length items"
    using distinct_card [OF i(2)] card_mono [of "set (map tt_key items)" "{k, k'}"] by simp
  then have len: "length items > 1" using other(1) by simp
  let ?s = "log_msg ''there are multiple CRs deployed'' (rs_sys ?c)"
  have pre: "fake_healthy (world ?s)" "\<forall>t \<in> set items. fake_tts.holds t (world ?s)" using h(1) i(4) by simp_all
  from set_multiple_run [OF pre i(2), of now] obtain s' where
    s: "set_multiple fake_client now items ?s = (Ok (), s')" "fake_view (world s') = fake_view ?w"
      "fmdom (fc_tts (world s')) = fmdom (fc_tts ?w)"
      "\<forall>t \<in> set items. \<exists>v. fmlookup (fc_tts (world s')) (tt_key t) = Some (with_rv v (upd_status (multiple_status now) t))"
    by auto
  have run: "controller_Reconcile fake_client env now k r = (Ok False, ?c\<lparr>rs_sys := s'\<rparr>)"
    using len s(1) by (simp add: controller_Reconcile_def active_reconciles [OF a i(1)] Let_def setStatusMultipleCRs_def)
  have "three_are (Status t) ConditionFalse ConditionFalse ConditionTrue \<and> all_say (Status t) ''there are multiple CRs deployed''"
    if "fmlookup (fc_tts (world s')) j = Some t" for j t
  proof -
    have "j \<in> set (map tt_key items)" unfolding i(3) s(3) [symmetric] using that by (auto simp: fmlookup_dom_iff)
    then obtain q where "q \<in> set items" "tt_key q = j" by auto
    with s(4) that obtain v where "t = with_rv v (upd_status (multiple_status now) q)" by fastforce
    then have "Status t = multiple_status now (Status q)" by simp
    then show ?thesis by (simp only: multiple_status_def set_three_are set_three_say simp_thms)
  qed
  then show ?thesis using run s(2,3) by (intro exI [of _ "?c\<lparr>rs_sys := s'\<rparr>"]) simp
qed

lemma single_run:
  assumes a: "active k t0 (world (rs_sys r))" and one: "fmdom (fc_tts (world (rs_sys r))) = {|k|}"
  shows "reconcile_request fake_client env now k r =
     (if isPaused (tt_meta t0) then pause_CR fake_client (fake_read_tt t0) (clearCacheIfNeeded (fake_read_tt t0) r)
      else reconcile_deploy fake_client env now (fake_read_tt t0) (clearCacheIfNeeded (fake_read_tt t0) r))"
proof -
  obtain items where "fake_list_tt None (world (rs_sys r)) = (Inr items, world (rs_sys r))" "length items = 1"
    using fake_only_cr [OF _ one] a by (auto simp: active_def)
  then show ?thesis by (simp add: active_reconciles [OF a] Let_def)
qed


lemma gate_off_run:
  assumes a: "active k t0 (world (rs_sys r))" and one: "fmdom (fc_tts (world (rs_sys r))) = {|k|}"
    and p: "\<not> isPaused (tt_meta t0)" and gate: "\<not> DeployTektonTaskResources (Spec_FeatureGates (Spec t0))"
  shows "\<exists>r' t1. controller_Reconcile fake_client env now k r = (Ok False, r') \<and>
     rs_operands r' = rs_operands r \<and> rs_gauge r' = 1 \<and>
     fake_view (world (rs_sys r')) = fake_view (world (rs_sys r)) \<and>
     fc_tts (world (rs_sys r')) = fmupd k t1 (fc_tts (world (rs_sys r))) \<and> deployed_status env t1"
proof -
  have h: "fake_healthy (world (rs_sys r))" "fake_tt_healthy (world (rs_sys r))" "fmlookup (fc_tts (world (rs_sys r))) k = Some t0"
    using a by (simp_all add: active_def)
  note q = fake_request [OF h(2,3)]
  let ?c = "clearCacheIfNeeded (fake_read_tt t0) r" and ?i = "fake_read_tt t0"
  define s0 where "s0 = (if Paused (Status ?i)
    then log_msg (''Unpausing Tekton tasks operator on resource: '' @ namespaced_name ?i) (rs_sys ?c) else rs_sys ?c)"
  define f1 where "f1 = pre_status env now (m_generation (tt_meta ?i))"
  have s0: "world s0 = world (rs_sys r)" by (simp add: s0_def)
  have "served ?i (world s0)" using h(1) q(2) by (simp add: served_def s0)
  from served_write [OF this, of f1] obtain v1 w1 where
    1: "preUpdateStatus fake_client env now (?i, rs_sys ?c) = (Ok (), (with_rv v1 (upd_status f1 ?i), s0\<lparr>world := w1\<rparr>))"
      "served (with_rv v1 (upd_status f1 ?i)) w1" "fake_view w1 = fake_view (world (rs_sys r))"
      "fc_tts w1 = fmupd (tt_key ?i) (with_rv v1 (upd_status f1 ?i)) (fc_tts (world (rs_sys r)))"
    unfolding preUpdateStatus_write f1_def [symmetric] s0_def [symmetric] by (auto simp: s0)
  let ?i1 = "with_rv v1 (upd_status f1 ?i)"
  define f2 where "f2 = reported env now [] (m_generation (tt_meta ?i1))"
  from served_write [of ?i1 "s0\<lparr>world := w1\<rparr>" f2] 1(2) obtain v2 w2 where
    2: "updateStatus fake_client env now [] (?i1, s0\<lparr>world := w1\<rparr>) = (Ok (), (with_rv v2 (upd_status f2 ?i1), s0\<lparr>world := w2\<rparr>))"
      "fc_tts w2 = fmupd (tt_key ?i1) (with_rv v2 (upd_status f2 ?i1)) (fc_tts w1)" "fake_view w2 = fake_view w1"
    unfolding updateStatus_write f2_def [symmetric] by auto
  let ?i2 = "with_rv v2 (upd_status f2 ?i1)"
  have st: "deployed_status env ?i2" using reported_success [of "[]"] by (simp add: deployed_status_def f2_def)
  then have ph: "Phase (Status ?i2) = PhaseDeployed" by (simp add: deployed_status_def)
  have run: "controller_Reconcile fake_client env now k r =
      (Ok False, ?c\<lparr>rs_sys := log_msg ''CR status updated'' (s0\<lparr>world := w2\<rparr>), rs_gauge := 1\<rparr>)"
    using p gate 1(1) 2(1) ph
    by (simp add: controller_Reconcile_def single_run [OF a one] reconcile_deploy_def with_inst_def)
  have tts: "fc_tts w2 = fmupd k ?i2 (fc_tts (world (rs_sys r)))"
    using 1(4) 2(2) q(3) by (intro fmap_ext) auto
  show ?thesis
    using run st tts 1(3) 2(3)
    by (intro exI [of _ "?c\<lparr>rs_sys := log_msg ''CR status updated'' (s0\<lparr>world := w2\<rparr>), rs_gauge := 1\<rparr>"] exI [of _ ?i2]) simp
qed

section \<open>The life of a resource\<close>

text \<open>
  C3. A resource the operator has never seen gets the finalizer first and is deployed after that. The first
  of two reconciliations stores the resource with the operator's finalizer behind those it had and the phase Deploying,
  and writes no object and no other resource; the second deploys both operands, keeps the
  finalizers and reports Deployed.
\<close>

theorem new_resource_deployed:
  assumes "fake_healthy (world (rs_sys r))" "fake_tt_healthy (world (rs_sys r))" "fmdom (fc_tts (world (rs_sys r))) = {|k|}"
      "fmlookup (fc_tts (world (rs_sys r))) k = Some t0"
    and "Phase (Status t0) = PhaseEmpty" "\<not> isBeingDeleted (tt_meta t0)" "\<not> isPaused (tt_meta t0)"
      "\<not> ContainsFinalizer (tt_meta t0) oldFinalizerName"
    and "DeployTektonTaskResources (Spec_FeatureGates (Spec t0))"
    and "rs_operands r = [TasksOperand t, PipelinesOperand p]" "operands_deployable env (fake_read_tt t0) t p"
    and "vcache (rs_sys r) = fmempty"
      "list_all (\<lambda>(rt, i). fresh_at (fake_view (world (rs_sys r))) fmempty rt i) (operand_targets env (fake_read_tt t0) t p)"
  shows "\<exists>r1 t1 r2 t2. controller_Reconcile fake_client env now k r = (Ok False, r1) \<and>
     fake_view (world (rs_sys r1)) = fake_view (world (rs_sys r)) \<and>
     fc_tts (world (rs_sys r1)) = fmupd k t1 (fc_tts (world (rs_sys r))) \<and>
     m_finalizers (tt_meta t1) = (if ContainsFinalizer (tt_meta t0) finalizerName then m_finalizers (tt_meta t0)
       else m_finalizers (tt_meta t0) @ [finalizerName]) \<and>
     Spec t1 = Spec t0 \<and> Phase (Status t1) = PhaseDeploying \<and>
     controller_Reconcile fake_client env now2 k r1 = (Ok False, r2) \<and> rs_gauge r2 = 1 \<and>
     fmlookup (fc_tts (world (rs_sys r2))) k = Some t2 \<and> m_finalizers (tt_meta t2) = m_finalizers (tt_meta t1) \<and>
     ContainsFinalizer (tt_meta t2) finalizerName \<and>
     deployed_status env t2 \<and> all_deployed env (fake_read_tt t0) t p (fake_view (world (rs_sys r2))) \<and>
     (\<forall>rt i. (rt, i) \<notin> set (operand_targets env (fake_read_tt t0) t p) \<longrightarrow>
        fake_view (world (rs_sys r2)) rt i = fake_view (world (rs_sys r)) rt i)"
  using assms by (rule new_resource_run)

text \<open>
  C19. A resource with the finalizer of older releases gets the new one instead of it, with the
  other finalizers kept; nothing is deployed or cleaned up in that reconciliation, whether the resource is being
  deleted or not.
\<close>

theorem old_finalizer_migrated:
  assumes "fake_healthy (world (rs_sys r))" "fake_tt_healthy (world (rs_sys r))"
      "fmlookup (fc_tts (world (rs_sys r))) k = Some t0"
    and "isInitialized t0" "ContainsFinalizer (tt_meta t0) oldFinalizerName"
  shows "\<exists>r' t1. controller_Reconcile fake_client env now k r = (Ok False, r') \<and>
     fake_view (world (rs_sys r')) = fake_view (world (rs_sys r)) \<and>
     fc_tts (world (rs_sys r')) = fmupd k t1 (fc_tts (world (rs_sys r))) \<and> Spec t1 = Spec t0 \<and>
     set (m_finalizers (tt_meta t1)) = set (m_finalizers (tt_meta t0)) - {oldFinalizerName} \<union> {finalizerName}"
proof -
  let ?f = "\<lambda>m. AddFinalizer finalizerName (RemoveFinalizer oldFinalizerName m)"
  obtain r' v where 1: "controller_Reconcile fake_client env now k r = (Ok False, r')"
     "fake_view (world (rs_sys r')) = fake_view (world (rs_sys r))"
     "fc_tts (world (rs_sys r')) = fmupd k (with_rv v (upd_status (deploying_status (m_generation (tt_meta t0)))
        (tt_upd_meta ?f (fake_read_tt t0)))) (fc_tts (world (rs_sys r)))"
    using old_finalizer_run [OF assms, of env now] unfolding took_over_def by blast
  let ?t1 = "with_rv v (upd_status (deploying_status (m_generation (tt_meta t0))) (tt_upd_meta ?f (fake_read_tt t0)))"
  have "set (m_finalizers (tt_meta ?t1)) = set (m_finalizers (tt_meta t0)) - {oldFinalizerName} \<union> {finalizerName}"
    using fake_tts.read_keeps [of t0] by auto
  then show ?thesis using 1 by (intro exI [of _ r'] exI [of _ ?t1]) simp
qed

text \<open>
  C16. With more than one resource in the cluster the operator deploys nothing for any of them:
  no object changes, and every resource is reported Degraded, neither available nor progressing,
  with a message that says why.
\<close>

theorem multiple_resources_degraded:
  assumes "active k t0 (world (rs_sys r))" and "k' \<noteq> k" "fmlookup (fc_tts (world (rs_sys r))) k' \<noteq> None"
  shows "\<exists>r'. controller_Reconcile fake_client env now k r = (Ok False, r') \<and>
     fake_view (world (rs_sys r')) = fake_view (world (rs_sys r)) \<and>
     fmdom (fc_tts (world (rs_sys r'))) = fmdom (fc_tts (world (rs_sys r))) \<and>
     (\<forall>j t. fmlookup (fc_tts (world (rs_sys r'))) j = Some t \<longrightarrow>
        three_are (Status t) ConditionFalse ConditionFalse ConditionTrue \<and>
        all_say (Status t) ''there are multiple CRs deployed'')"
  using assms by (rule multiple_run)


text \<open>
  C18. With the feature gate off no operand runs and no object changes, and the resource is
  reported as Deployed all the same.
\<close>

theorem gate_off_deploys_nothing:
  assumes "active k t0 (world (rs_sys r))" and "fmdom (fc_tts (world (rs_sys r))) = {|k|}"
    and "\<not> isPaused (tt_meta t0)" and "\<not> DeployTektonTaskResources (Spec_FeatureGates (Spec t0))"
  shows "\<exists>r' t1. controller_Reconcile fake_client env now k r = (Ok False, r') \<and>
     rs_operands r' = rs_operands r \<and> rs_gauge r' = 1 \<and>
     fake_view (world (rs_sys r')) = fake_view (world (rs_sys r)) \<and>
     fc_tts (world (rs_sys r')) = fmupd k t1 (fc_tts (world (rs_sys r))) \<and> deployed_status env t1"
  using assms by (rule gate_off_run)

section \<open>Witnesses\<close>

definition cluster_with :: "TektonTasks \<Rightarrow> fake_cluster" where
  "cluster_with t = empty_cluster\<lparr>fc_tts := fmupd (''kubevirt'', ''tt'') t fmempty\<rparr>"

definition like_sample :: "TektonTasks \<Rightarrow> bool" where
  "like_sample t \<longleftrightarrow> m_name (tt_meta t) = ''tt'' \<and> m_namespace (tt_meta t) = ''kubevirt'' \<and>
     m_resourceVersion (tt_meta t) = ''1'' \<and> m_deletionTimestamp (tt_meta t) = None"

lemma cluster_with_simps [simp]:
  "fc_tts (cluster_with t) = fmupd (''kubevirt'', ''tt'') t fmempty" "fake_healthy (cluster_with t)"
  "fake_view (cluster_with t) = (\<lambda>rt i. None)"
  by (simp_all add: cluster_with_def empty_cluster_def fake_healthy_def fake_view_def fun_eq_iff)

lemma cluster_with_healthy: "like_sample t \<Longrightarrow> fake_tt_healthy (cluster_with t)"
  by (auto simp: fake_tt_healthy_def like_sample_def tt_key_def alive_def parse_uint_def is_digit_def digits_value_def
      split: if_splits)

lemma like_sample_cases: "like_sample sample_tt" "like_sample (upd_status f t) = like_sample t"
  "like_sample (t\<lparr>Spec := x\<rparr>) = like_sample t"
  by (simp_all add: like_sample_def sample_tt_def empty_meta_def)

lemma active_cluster_with:
  "like_sample t \<Longrightarrow> Phase (Status t) \<noteq> PhaseEmpty \<Longrightarrow> \<not> ContainsFinalizer (tt_meta t) oldFinalizerName \<Longrightarrow>
     active (''kubevirt'', ''tt'') t (cluster_with t)"
  using cluster_with_healthy [of t] by (simp add: active_def isBeingDeleted_def like_sample_def)

lemma NewTektonReconciler_simps [simp]:
  "world (rs_sys (NewTektonReconciler ops w)) = w" "rs_operands (NewTektonReconciler ops w) = ops"
  "vcache (rs_sys (NewTektonReconciler ops w)) = fmempty" "rs_gauge (NewTektonReconciler ops w) = 0"
  by (simp_all add: NewTektonReconciler_def)

theorem new_resource_deployed_witness:
  "\<exists>r1 t1 r2 t2. controller_Reconcile fake_client sample_env 7 (''kubevirt'', ''tt'')
       (NewTektonReconciler sample_operands (cluster_with sample_tt)) = (Ok False, r1) \<and>
     fmlookup (fc_tts (world (rs_sys r1))) (''kubevirt'', ''tt'') = Some t1 \<and> m_finalizers (tt_meta t1) = [finalizerName] \<and>
     controller_Reconcile fake_client sample_env 8 (''kubevirt'', ''tt'') r1 = (Ok False, r2) \<and>
     fmlookup (fc_tts (world (rs_sys r2))) (''kubevirt'', ''tt'') = Some t2 \<and> Phase (Status t2) = PhaseDeployed"
proof -
  have own: "same_owner (fake_read_tt sample_tt) sample_tt"
    by (simp add: same_owner_def meta_json_def meta_norm_def smap_norm_def fake_read_tt_def
        GroupVersion_Group_def GroupVersion_Version_def)
  have dep: "operands_deployable sample_env (fake_read_tt sample_tt) sample_tasks_operand sample_pipelines"
    using sample_operands_deployable by (simp add: operands_deployable_def same_owner_deployable [OF own])
  show ?thesis
    using new_resource_deployed [where r = "NewTektonReconciler sample_operands (cluster_with sample_tt)" and now = 7 and
        ?now2.0 = 8 and k = "(''kubevirt'', ''tt'')" and ?t0.0 = sample_tt, OF _ _ _ _ _ _ _ _ _ _ dep]
      cluster_with_healthy [OF like_sample_cases(1)]
    by (auto simp: sample_operands_def empty_status_def isBeingDeleted_def isPaused_def ContainsFinalizer_def
        fresh_at_def list_all_iff deployed_status_def sample_tt_def empty_meta_def)
qed

definition old_cr :: TektonTasks where
  "old_cr = tt_upd_meta (\<lambda>m. m\<lparr>m_finalizers := [oldFinalizerName]\<rparr>) sample_cr"

theorem old_finalizer_migrated_witness:
  "\<exists>r' t1. controller_Reconcile fake_client sample_env 7 (''kubevirt'', ''tt'')
       (NewTektonReconciler sample_operands (cluster_with old_cr)) = (Ok False, r') \<and>
     fmlookup (fc_tts (world (rs_sys r'))) (''kubevirt'', ''tt'') = Some t1 \<and>
     set (m_finalizers (tt_meta t1)) = {finalizerName}"
proof -
  have "like_sample old_cr"
    by (simp add: old_cr_def sample_cr_def like_sample_def sample_tt_def empty_meta_def)
  moreover have "isInitialized old_cr" "ContainsFinalizer (tt_meta old_cr) oldFinalizerName"
      "m_finalizers (tt_meta old_cr) = [oldFinalizerName]"
    by (simp_all add: old_cr_def sample_cr_def isInitialized_def ContainsFinalizer_def)
  ultimately show ?thesis
    using old_finalizer_migrated [where r = "NewTektonReconciler sample_operands (cluster_with old_cr)" and now = 7 and
        k = "(''kubevirt'', ''tt'')" and ?t0.0 = old_cr and env = sample_env] cluster_with_healthy [of old_cr] by auto
qed

definition two_crs :: fake_cluster where
  "two_crs = empty_cluster\<lparr>fc_tts := fmupd (''kubevirt'', ''second'')
     (tt_upd_meta (\<lambda>m. m\<lparr>m_name := ''second''\<rparr>) sample_cr) (fmupd (''kubevirt'', ''tt'') sample_cr fmempty)\<rparr>"

theorem multiple_resources_degraded_witness:
  "\<exists>r' t. controller_Reconcile fake_client sample_env 7 (''kubevirt'', ''tt'')
       (NewTektonReconciler sample_operands two_crs) = (Ok False, r') \<and>
     fmlookup (fc_tts (world (rs_sys r'))) (''kubevirt'', ''tt'') = Some t \<and>
     three_are (Status t) ConditionFalse ConditionFalse ConditionTrue"
proof -
  have a: "active (''kubevirt'', ''tt'') sample_cr two_crs"
    by (auto simp: active_def two_crs_def fake_healthy_def empty_cluster_def fake_tt_healthy_def sample_cr_def
      tt_key_def alive_def ContainsFinalizer_def isBeingDeleted_def sample_tt_def empty_meta_def
      parse_uint_def is_digit_def digits_value_def split: if_splits)
  have second: "fmlookup (fc_tts two_crs) (''kubevirt'', ''second'') \<noteq> None" by (simp add: two_crs_def)
  obtain r' where r: "controller_Reconcile fake_client sample_env 7 (''kubevirt'', ''tt'')
       (NewTektonReconciler sample_operands two_crs) = (Ok False, r')"
     "fmdom (fc_tts (world (rs_sys r'))) = fmdom (fc_tts two_crs)"
     "\<forall>j t. fmlookup (fc_tts (world (rs_sys r'))) j = Some t \<longrightarrow>
        three_are (Status t) ConditionFalse ConditionFalse ConditionTrue \<and>
        all_say (Status t) ''there are multiple CRs deployed''"
    using multiple_resources_degraded [where r = "NewTektonReconciler sample_operands two_crs" and now = 7 and
        k = "(''kubevirt'', ''tt'')" and k' = "(''kubevirt'', ''second'')" and ?t0.0 = sample_cr and env = sample_env] a second
    by auto
  have "(''kubevirt'', ''tt'') |\<in>| fmdom (fc_tts (world (rs_sys r')))" by (simp add: r(2) two_crs_def)
  then show ?thesis using r(1,3) by (auto simp: fmlookup_dom_iff)
qed



definition gated_cr :: TektonTasks where
  "gated_cr = sample_cr\<lparr>Spec := (Spec sample_cr)\<lparr>Spec_FeatureGates := \<lparr>DeployTektonTaskResources = False\<rparr>\<rparr>\<rparr>"

theorem gate_off_deploys_nothing_witness:
  "\<exists>r' t1. controller_Reconcile fake_client sample_env 7 (''kubevirt'', ''tt'')
       (NewTektonReconciler sample_operands (cluster_with gated_cr)) = (Ok False, r') \<and>
     fmlookup (fc_tts (world (rs_sys r'))) (''kubevirt'', ''tt'') = Some t1 \<and> Phase (Status t1) = PhaseDeployed"
proof -
  have "like_sample gated_cr" by (simp add: gated_cr_def sample_cr_def like_sample_cases)
  then have "active (''kubevirt'', ''tt'') gated_cr (cluster_with gated_cr)"
    by (rule active_cluster_with) (simp_all add: gated_cr_def sample_cr_def ContainsFinalizer_def)
  moreover have "\<not> isPaused (tt_meta gated_cr)" "\<not> DeployTektonTaskResources (Spec_FeatureGates (Spec gated_cr))"
    by (simp_all add: gated_cr_def sample_cr_def isPaused_def)
  ultimately show ?thesis
    using gate_off_deploys_nothing [where r = "NewTektonReconciler sample_operands (cluster_with gated_cr)" and now = 7 and
        k = "(''kubevirt'', ''tt'')" and ?t0.0 = gated_cr and env = sample_env] by (auto simp: deployed_status_def)
qed

end
