(* ===== verification/Operator_Scope.thy ===== *)
theory Operator_Scope
  imports Controller_Invariant Controller_Lifecycle
begin

text \<open>
  Which objects the operator touches: only those with the type and the name of an object of its
  bundles, whatever the request, the state of the cluster and of the cache, and
  however the reconciliation ends. The clients that confine their writes to a set of types and names are an
  interface; the operands and the controller are run against it once.
\<close>

definition ident :: "object \<Rightarrow> rtype \<times> string" where
  "ident x = (o_rtype x, m_name (o_meta x))"

lemma ident_simps [simp]:
  "(\<And>m. m_name (f m) = m_name m) \<Longrightarrow> ident (upd_meta f x) = ident x"
  by (simp add: ident_def o_rtype_def upd_meta_def)

definition upd_ok :: "update_func \<Rightarrow> bool" where
  "upd_ok f = (\<forall>n x r n'. f n x = (r, n') \<longrightarrow> ident n' = ident n \<and> (\<forall>y. r = Ok y \<longrightarrow> ident y = ident x))"

definition prep_ok :: "(object \<Rightarrow> unit outcome \<times> object) \<Rightarrow> bool" where
  "prep_ok prep = (\<forall>x. ident (snd (prep x)) = ident x)"

section \<open>The closures keep types and names\<close>

lemma replace_labels_ident [simp]: "ident (replace_labels_annotations n x) = ident x"
  by (simp add: replace_labels_annotations_def)

lemma body_ident: "o_body x = b \<Longrightarrow> body_rtype b' = body_rtype b \<Longrightarrow> ident (x\<lparr>o_body := b'\<rparr>) = ident x"
  by (auto simp: ident_def o_rtype_def)

lemma upd_oks:
  "upd_ok update_task" "upd_ok update_cluster_role" "upd_ok update_role_binding" "upd_ok (update_pipeline env)"
  "upd_ok update_config_map" "upd_ok update_service_account" "upd_ok tp_update_cluster_role" "upd_ok tp_update_role_binding"
  "upd_ok (\<lambda>n x. (Ok x, n))"
  unfolding upd_ok_def
  by (auto split: body.splits simp: body_ident)
     (simp add: ident_def o_rtype_def replace_labels_annotations_def upd_meta_def)+

lemma prep_oks:
  "prep_ok (\<lambda>x. (Ok (), x))" "prep_ok (prepare_instance_namespace inst)" "prep_ok (prepare_pipelines_namespace inst)"
  "prep_ok (prepare_service_account inst)" "prep_ok (prepare_role_binding inst)" "prep_ok (prepare_task env inst)"
proof -
  show "prep_ok (\<lambda>x. (Ok (), x))" "prep_ok (prepare_instance_namespace inst)" "prep_ok (prepare_pipelines_namespace inst)"
    "prep_ok (prepare_service_account inst)"
    by (simp_all add: prep_ok_def prepare_instance_namespace_def set_namespace_def prepare_pipelines_namespace_def
        prepare_service_account_def default_namespace_def)
  show "prep_ok (prepare_role_binding inst)"
    by (auto simp: prep_ok_def prepare_role_binding_def default_namespace_def Let_def ident_def o_rtype_def upd_meta_def
        split: body.split)
  have a: "ident (snd (assign_images env x)) = ident x" for x
    by (auto simp: assign_images_def body_ident split: body.split outcome.split list.split)
  have l: "ident (snd (set_version_label x)) = ident x" for x
    by (simp add: set_version_label_def split: option.split)
  show "prep_ok (prepare_task env inst)"
    unfolding prep_ok_def prepare_task_def bind_outcome_def
    using a [of "set_namespace (task_namespace inst) x" for x] l
    by (auto simp: set_namespace_def split: prod.split outcome.split) (metis snd_conv)+
qed

section \<open>Clients that confine writes\<close>

locale confined_client =
  fixes cl :: "'w client" and M :: "(rtype \<times> string) set" and I :: "'w \<Rightarrow> bool"
  assumes get_in: "I w \<Longrightarrow> c_get cl t k w = (q, w') \<Longrightarrow> I w' \<and> (\<forall>x. q = Inr x \<longrightarrow> ident x = (t, snd k))"
    and create_in: "I w \<Longrightarrow> ident x \<in> M \<Longrightarrow> I (snd (c_create cl x w))"
    and update_in: "I w \<Longrightarrow> ident x \<in> M \<Longrightarrow> I (snd (c_update cl x w))"
    and delete_in: "I w \<Longrightarrow> ident x \<in> M \<Longrightarrow> I (snd (c_delete cl x w))"
    and list_in: "I w \<Longrightarrow> c_list_clustertasks cl sel w = (ql, w') \<Longrightarrow> I w' \<and> (\<forall>xs. ql = Inr xs \<longrightarrow> ident ` set xs \<subseteq> M)"
begin

lemma calls_in:
  "I (world s) \<Longrightarrow> call (c_get cl t k) s = (q, s') \<Longrightarrow> I (world s') \<and> (\<forall>x. q = Ok x \<longrightarrow> ident x = (t, snd k))"
  "I (world s) \<Longrightarrow> ident x \<in> M \<Longrightarrow> call (c_create cl x) s = (q1, s') \<Longrightarrow> I (world s')"
  "I (world s) \<Longrightarrow> ident x \<in> M \<Longrightarrow> call (c_update cl x) s = (q1, s') \<Longrightarrow> I (world s')"
  "I (world s) \<Longrightarrow> ident x \<in> M \<Longrightarrow> call (c_delete cl x) s = (q2, s') \<Longrightarrow> I (world s')"
  using get_in [of "world s" t k] create_in [of "world s" x] update_in [of "world s" x] delete_in [of "world s" x]
  by (auto simp: call_def split: prod.splits sum.splits)

lemma mutate_ident:
  assumes "upd_ok (updateFunc b)" and "mutate b vc key r x = (q, r')"
  shows "ident r' = ident r \<and> (\<forall>y. q = Ok y \<longrightarrow> ident y = ident x)"
proof -
  have f: "ident r1 = ident r \<and> (\<forall>y. q1 = Ok y \<longrightarrow> ident y = ident x)" if "mutateFn b vc r x = (q1, r1)" for q1 r1
    using that assms(1) unfolding mutateFn_def Let_def upd_ok_def
    by (auto simp: updateLabels_def updateAnnotations_def split: if_splits)
  obtain q1 r1 where 1: "mutateFn b vc r x = (q1, r1)" by (metis surj_pair)
  show ?thesis
    using assms(2) f [OF 1] unfolding mutate_def 1 by (cases q1) (auto split: if_splits)
qed

lemma create_or_update_scope:
  assumes b: "upd_ok (updateFunc b)" and obj: "ident obj = ident r" "ident r \<in> M" and I: "I (world s)"
    and run: "createOrUpdateWithImmutableSpec cl b obj (r, s) = (q, (r', s'))"
  shows "ident r' = ident r \<and> I (world s')"
proof -
  obtain g s1 where g: "call (c_get cl (o_rtype obj) (object_key_of obj)) s = (g, s1)" by (metis surj_pair)
  have s1: "I (world s1)" "\<And>x. g = Ok x \<Longrightarrow> ident x = ident obj"
    using calls_in(1) [OF I g] by (auto simp: ident_def object_key_of_def)
  show ?thesis
  proof (cases g)
    case (Ok x)
    obtain m r1 where m: "mutate b (vcache s1) (object_key_of obj) r x = (m, r1)" by (metis surj_pair)
    have i: "ident r1 = ident r" "\<And>y. m = Ok y \<Longrightarrow> ident y \<in> M" using mutate_ident [OF b m] s1(2) [OF Ok] obj by auto
    show ?thesis
    proof (cases m)
      case y: (Ok y)
      obtain d s2 where d: "call (c_delete cl y) s1 = (d, s2)" by (metis surj_pair)
      obtain u s3 where u: "call (c_update cl y) s1 = (u, s3)" by (metis surj_pair)
      have "I (world s2)" "I (world s3)" using calls_in(3,4) s1(1) i(2) [OF y] d u by blast+
      then show ?thesis
        using run i(1) s1(1) d u
        by (cases d; cases u)
          (auto simp: createOrUpdateWithImmutableSpec_def Let_def on_sys_def g Ok on_resource_def m y split: if_splits)
    qed (use run i(1) s1(1) in \<open>auto simp: createOrUpdateWithImmutableSpec_def Let_def on_sys_def g Ok on_resource_def m\<close>)
  next
    case (Err e)
    obtain m r1 where m: "mutate b (vcache s1) (object_key_of obj) r obj = (m, r1)" by (metis surj_pair)
    have i: "ident r1 = ident r" "\<And>y. m = Ok y \<Longrightarrow> ident y \<in> M" using mutate_ident [OF b m] obj by auto
    show ?thesis
    proof (cases m)
      case y: (Ok y)
      obtain d s2 where d: "call (c_create cl y) s1 = (d, s2)" by (metis surj_pair)
      have "I (world s2)" using calls_in(2) s1(1) i(2) [OF y] d by blast
      then show ?thesis
        using run i(1) s1(1) d
        by (cases d) (auto simp: createOrUpdateWithImmutableSpec_def Let_def on_sys_def g Err on_resource_def m y split: if_splits)
    qed (use run i(1) s1(1) in \<open>auto simp: createOrUpdateWithImmutableSpec_def Let_def on_sys_def g Err on_resource_def m split: if_splits\<close>)
  next
    case (Panic p)
    then show ?thesis using run s1(1) by (auto simp: createOrUpdateWithImmutableSpec_def Let_def on_sys_def g)
  qed
qed

definition element_ok :: "(object \<times> 'w sys \<Rightarrow> ReconcileResult outcome \<times> (object \<times> 'w sys)) \<Rightarrow> bool" where
  "element_ok f \<longleftrightarrow> (\<forall>x s q x' s'. ident x \<in> M \<longrightarrow> I (world s) \<longrightarrow> f (x, s) = (q, (x', s')) \<longrightarrow> ident x' = ident x \<and> I (world s'))"

lemma newEmptyResource_ident:
  "ident (upd_meta (\<lambda>m. m\<lparr>m_name := m_name (o_meta r), m_namespace := n\<rparr>) (newEmptyResource r)) = ident r"
  by (cases "o_rtype r") (simp_all add: ident_def newEmptyResource_def o_rtype_def upd_meta_def)

lemma setOwner_ident: "setOwner inst r c = Inr r' \<Longrightarrow> ident r' = ident r"
  by (auto simp: setOwner_def SetOwnerAnnotations_def SetControllerReference_def ident_def o_rtype_def upd_meta_def Let_def
      split: if_splits sum.splits option.splits)

lemma reconcile_prepare_ident:
  assumes "reconcile_prepare inst b r = (q, r')"
  shows "ident r' = ident r \<and> (\<forall>x. q = Ok x \<longrightarrow> ident x = ident r)"
proof -
  have l: "ident (if addLabels b then AddAppLabels inst (operandName b) (operandComponent b) r else r) = ident r"
    by (simp add: ident_def o_rtype_def)
  show ?thesis
    using assms l unfolding reconcile_prepare_def Let_def
    by (auto split: sum.splits dest!: setOwner_ident)
qed

lemma Reconcile_scope:
  assumes b: "upd_ok (updateFunc b)" and r: "ident r \<in> M" and I: "I (world s)"
    and run: "Reconcile cl inst b (r, s) = (q, (r', s'))"
  shows "ident r' = ident r \<and> I (world s')"
proof -
  obtain p r1 where 1: "reconcile_prepare inst b r = (p, r1)" by (metis surj_pair)
  note i1 = reconcile_prepare_ident [OF 1]
  show ?thesis
  proof (cases p)
    case (Ok x)
    let ?f = "upd_meta (\<lambda>m. m\<lparr>m_name := m_name (o_meta x), m_namespace := m_namespace (o_meta x)\<rparr>) (newEmptyResource x)"
    obtain c r2 s2 where 2: "createOrUpdateWithImmutableSpec cl b ?f (r1, s) = (c, (r2, s2))" by (metis surj_pair)
    have f: "ident ?f = ident r1" using newEmptyResource_ident [where r = x] i1 Ok by simp
    have "ident r2 = ident r1 \<and> I (world s2)"
      using create_or_update_scope [OF b f _ I 2] i1 r by simp
    then show ?thesis
      using run i1 by (cases c) (auto simp: Reconcile_def on_resource_def 1 Ok 2 Let_def split: if_splits)
  qed (use run I i1 in \<open>auto simp: Reconcile_def on_resource_def 1\<close>)
qed

lemma reconcile_element_ok:
  assumes "prep_ok prep" and b: "upd_ok (updateFunc b)"
  shows "element_ok (reconcile_element cl inst prep b)"
  unfolding element_ok_def
proof (intro allI impI)
  fix x s q x' s'
  assume x: "ident x \<in> M" "I (world s)" and run: "reconcile_element cl inst prep b (x, s) = (q, (x', s'))"
  obtain p x1 where 1: "prep x = (p, x1)" by (metis surj_pair)
  have i: "ident x1 = ident x" using assms(1) 1 unfolding prep_ok_def by (metis snd_conv)
  show "ident x' = ident x \<and> I (world s')"
    using run x i Reconcile_scope [OF b, of x1 s inst q x' s']
    by (cases p) (auto simp: reconcile_element_def on_resource_def 1)
qed

text \<open>A state of an operand, seen as the types and names of its objects, does not change.\<close>

lemma at_index_scope:
  fixes J :: "'x \<Rightarrow> bool"
  assumes "element_ok f" and "\<And>t. J t \<Longrightarrow> ident (get t ! i) \<in> M"
    and "\<And>t x. J t \<Longrightarrow> ident x = ident (get t ! i) \<Longrightarrow> J (upd (\<lambda>xs. xs[i := x]) t)"
  shows "keeps (\<lambda>st. st) (\<lambda>st. J (fst st) \<and> I (world (snd st))) (at_index get upd i f)"
  unfolding keeps_def
proof (intro allI impI)
  fix st :: "'x \<times> 'w sys" assume st: "J (fst st) \<and> I (world (snd st))"
  obtain q x s where f: "f (get (fst st) ! i, snd st) = (q, (x, s))" by (metis surj_pair)
  have "ident x = ident (get (fst st) ! i) \<and> I (world s)"
    using assms(1) [unfolded element_ok_def, rule_format, OF _ _ f] assms(2) st by blast
  then show "J (fst (snd (at_index get upd i f st))) \<and> I (world (snd (snd (at_index get upd i f st))))"
    using assms(3) st by (simp add: at_index_def f)
qed

end

lemma map_ident_update: "map ident xs = is \<Longrightarrow> ident x = ident (xs ! i) \<Longrightarrow> map ident (xs[i := x]) = is"
  by (metis list_update_id map_update)

lemma ident_in: "map ident xs = map ident ys \<Longrightarrow> i < length ys \<Longrightarrow> ident ` set ys \<subseteq> M \<Longrightarrow> ident (xs ! i) \<in> M"
  by (metis image_subset_iff length_map nth_map nth_mem)

definition tt_scope :: "tektonTasks \<Rightarrow> (rtype \<times> string) list list" where
  "tt_scope t = [map ident (tt_tasks t), map ident (tt_clusterRoles t), map ident (tt_serviceAccounts t), map ident (tt_roleBindings t)]"

definition tp_scope :: "tektonPipelines \<Rightarrow> (rtype \<times> string) list list" where
  "tp_scope t = [map ident (tp_clusterRoles t), map ident (tp_pipelines t), map ident (tp_configMaps t),
     map ident (tp_roleBindings t), map ident (tp_serviceAccounts t)]"

fun operand_scope :: "Operand \<Rightarrow> (rtype \<times> string) list list" where
  "operand_scope (TasksOperand t) = tt_scope t"
| "operand_scope (PipelinesOperand t) = tp_scope t"

definition managed :: "Operand list \<Rightarrow> (rtype \<times> string) set" where
  "managed ops = set (concat (concat (map operand_scope ops)))"

lemma builder_upd [simp]:
  "updateFunc (tt_builder (Some f)) = f" "updateFunc (tt_builder None) = (\<lambda>n x. (Ok x, n))" "updateFunc (tp_builder f) = f"
  by (simp_all add: tt_builder_def tp_builder_def builder_defs)

context confined_client
begin

lemma tt_Reconcile_scope:
  assumes M: "set (concat (tt_scope t)) \<subseteq> M" and I: "I (world s)"
    and run: "tt_Reconcile cl env inst (t, s) = (q, (t', s'))"
  shows "tt_scope t' = tt_scope t \<and> I (world s')"
proof -
  let ?J = "\<lambda>u. tt_scope u = tt_scope t"
  let ?fs = "reconcileTektonTasksFuncs cl env inst (tt_tasks t)
            @ tt_reconcileClusterRoleFuncs cl inst (tt_clusterRoles t)
            @ tt_reconcileServiceAccountsFuncs cl inst (tt_serviceAccounts t)
            @ tt_reconcileRoleBindingFuncs cl inst (tt_roleBindings t)"
  have J: "map ident (tt_tasks u) = map ident (tt_tasks t)" "map ident (tt_clusterRoles u) = map ident (tt_clusterRoles t)"
     "map ident (tt_serviceAccounts u) = map ident (tt_serviceAccounts t)" "map ident (tt_roleBindings u) = map ident (tt_roleBindings t)"
     if "?J u" for u using that by (simp_all add: tt_scope_def)
  have sub: "ident ` set (tt_tasks t) \<subseteq> M" "ident ` set (tt_clusterRoles t) \<subseteq> M" "ident ` set (tt_serviceAccounts t) \<subseteq> M"
     "ident ` set (tt_roleBindings t) \<subseteq> M"
    using M by (simp_all add: tt_scope_def)
  define P :: "tektonTasks \<times> 'w sys \<Rightarrow> bool" where "P = (\<lambda>st. ?J (fst st) \<and> I (world (snd st)))"
  have slots: "element_ok f \<Longrightarrow> i < length (tt_tasks t) \<Longrightarrow> keeps (\<lambda>st. st) P (at_index tt_tasks tt_tasks_update i f)"
    "element_ok f \<Longrightarrow> i < length (tt_clusterRoles t) \<Longrightarrow> keeps (\<lambda>st. st) P (at_index tt_clusterRoles tt_clusterRoles_update i f)"
    "element_ok f \<Longrightarrow> i < length (tt_serviceAccounts t) \<Longrightarrow> keeps (\<lambda>st. st) P (at_index tt_serviceAccounts tt_serviceAccounts_update i f)"
    "element_ok f \<Longrightarrow> i < length (tt_roleBindings t) \<Longrightarrow> keeps (\<lambda>st. st) P (at_index tt_roleBindings tt_roleBindings_update i f)"
    for f i
    unfolding P_def
    by (rule at_index_scope; (assumption | (erule J [THEN ident_in]; simp add: sub) | simp add: tt_scope_def map_ident_update))+
  have "keeps (\<lambda>st. st) P (CollectResourceStatus ?fs)"
    by (rule CollectResourceStatus_keeps)
      (auto simp: reconcileTektonTasksFuncs_def tt_reconcileClusterRoleFuncs_def tt_reconcileServiceAccountsFuncs_def
        tt_reconcileRoleBindingFuncs_def prep_oks upd_oks intro!: slots reconcile_element_ok)
  then have "?J (fst (snd (CollectResourceStatus ?fs (t, s)))) \<and> I (world (snd (snd (CollectResourceStatus ?fs (t, s)))))"
    using I unfolding keeps_def P_def by simp
  then show ?thesis
    using run by (auto simp: tt_Reconcile_def Let_def bind_outcome_def split: prod.splits outcome.splits)
qed

lemma tp_Reconcile_scope:
  assumes M: "set (concat (tp_scope t)) \<subseteq> M" and I: "I (world s)"
    and run: "tp_Reconcile cl env inst (t, s) = (q, (t', s'))"
  shows "tp_scope t' = tp_scope t \<and> I (world s')"
proof -
  let ?J = "\<lambda>u. tp_scope u = tp_scope t"
  let ?fs = "tp_reconcileClusterRolesFuncs cl inst (tp_clusterRoles t)
            @ reconcileTektonPipelinesFuncs cl env inst (tp_pipelines t)
            @ reconcileConfigMapsFuncs cl inst (tp_configMaps t)
            @ tp_reconcileRoleBindingsFuncs cl inst (tp_roleBindings t)
            @ tp_reconcileServiceAccountsFuncs cl inst (tp_serviceAccounts t)"
  have J: "map ident (tp_clusterRoles u) = map ident (tp_clusterRoles t)" "map ident (tp_pipelines u) = map ident (tp_pipelines t)"
     "map ident (tp_configMaps u) = map ident (tp_configMaps t)" "map ident (tp_roleBindings u) = map ident (tp_roleBindings t)"
     "map ident (tp_serviceAccounts u) = map ident (tp_serviceAccounts t)"
     if "?J u" for u using that by (simp_all add: tp_scope_def)
  have sub: "ident ` set (tp_clusterRoles t) \<subseteq> M" "ident ` set (tp_pipelines t) \<subseteq> M" "ident ` set (tp_configMaps t) \<subseteq> M"
     "ident ` set (tp_roleBindings t) \<subseteq> M" "ident ` set (tp_serviceAccounts t) \<subseteq> M"
    using M by (simp_all add: tp_scope_def)
  define P :: "tektonPipelines \<times> 'w sys \<Rightarrow> bool" where "P = (\<lambda>st. ?J (fst st) \<and> I (world (snd st)))"
  have slots: "element_ok f \<Longrightarrow> i < length (tp_clusterRoles t) \<Longrightarrow> keeps (\<lambda>st. st) P (at_index tp_clusterRoles tp_clusterRoles_update i f)"
    "element_ok f \<Longrightarrow> i < length (tp_pipelines t) \<Longrightarrow> keeps (\<lambda>st. st) P (at_index tp_pipelines tp_pipelines_update i f)"
    "element_ok f \<Longrightarrow> i < length (tp_configMaps t) \<Longrightarrow> keeps (\<lambda>st. st) P (at_index tp_configMaps tp_configMaps_update i f)"
    "element_ok f \<Longrightarrow> i < length (tp_roleBindings t) \<Longrightarrow> keeps (\<lambda>st. st) P (at_index tp_roleBindings tp_roleBindings_update i f)"
    "element_ok f \<Longrightarrow> i < length (tp_serviceAccounts t) \<Longrightarrow> keeps (\<lambda>st. st) P (at_index tp_serviceAccounts tp_serviceAccounts_update i f)"
    for f i
    unfolding P_def
    by (rule at_index_scope; (assumption | (erule J [THEN ident_in]; simp add: sub) | simp add: tp_scope_def map_ident_update))+
  have "keeps (\<lambda>st. st) P (CollectResourceStatus ?fs)"
    by (rule CollectResourceStatus_keeps)
      (auto simp: tp_reconcileClusterRolesFuncs_def reconcileTektonPipelinesFuncs_def reconcileConfigMapsFuncs_def
        tp_reconcileRoleBindingsFuncs_def tp_reconcileServiceAccountsFuncs_def prep_oks upd_oks intro!: slots reconcile_element_ok)
  then have "?J (fst (snd (CollectResourceStatus ?fs (t, s)))) \<and> I (world (snd (snd (CollectResourceStatus ?fs (t, s)))))"
    using I unfolding keeps_def P_def by simp
  then show ?thesis
    using run by (auto simp: tp_Reconcile_def Let_def bind_outcome_def split: prod.splits outcome.splits)
qed

lemma operand_Reconcile_scope:
  assumes "set (concat (operand_scope op)) \<subseteq> M" and "I (world s)"
    and "operand_Reconcile cl env inst op s = (q, (op', s'))"
  shows "operand_scope op' = operand_scope op \<and> I (world s')"
  using assms
  by (cases op) (auto simp del: set_concat split: prod.splits dest: tt_Reconcile_scope tp_Reconcile_scope)

lemma Cleanup_scope:
  assumes r: "ident r \<in> M"
  shows "keeps world I (Cleanup cl inst r)"
  unfolding keeps_def
proof (intro allI impI)
  fix s :: "'w sys" assume s: "I (world s)"
  obtain q s1 where g: "call (c_get cl (o_rtype r) (object_key_of r)) s = (q, s1)" by (metis surj_pair)
  have s1: "I (world s1)" "\<And>x. q = Ok x \<Longrightarrow> ident x = ident r"
    using calls_in(1) [OF s g] by (auto simp: ident_def object_key_of_def)
  show "I (world (snd (Cleanup cl inst r s)))"
  proof (cases q)
    case (Ok found)
    obtain q2 s2 where d: "call (c_delete cl found) s1 = (q2, s2)" by (metis surj_pair)
    have "I (world s2)" using calls_in(4) [OF s1(1) _ d] s1(2) [OF Ok] r by simp
    then show ?thesis
      using Ok g d s1 by (simp add: Cleanup_def split: prod.splits outcome.splits)
  qed (use g s1 in \<open>simp_all add: Cleanup_def\<close>)
qed

lemma DeleteAll_scope: "ident ` set rs \<subseteq> M \<Longrightarrow> keeps world I (DeleteAll cl inst rs)"
  unfolding DeleteAll_def [abs_def] by (rule collect_keeps) (auto intro: Cleanup_scope)

lemma operand_Cleanup_scope:
  assumes M: "set (concat (operand_scope op)) \<subseteq> M" and I: "I (world s)"
  shows "I (world (snd (operand_Cleanup cl inst op s)))"
proof (cases op)
  case (TasksOperand t)
  obtain q s1 where 1: "listDeprecatedClusterTasks cl s = (q, s1)" by (metis surj_pair)
  have s1: "I (world s1)" "\<And>xs. q = Ok xs \<Longrightarrow> ident ` set xs \<subseteq> M"
    using 1 list_in [OF I] unfolding listDeprecatedClusterTasks_def call_def by (auto split: prod.splits sum.splits)
  show ?thesis
  proof (cases q)
    case (Ok xs)
    have "ident ` set ((tt_tasks t @ tt_clusterRoles t @ tt_roleBindings t @ tt_serviceAccounts t) @ xs) \<subseteq> M"
      using M s1(2) [OF Ok] by (auto simp: TasksOperand tt_scope_def)
    then show ?thesis
      using DeleteAll_scope s1(1) unfolding keeps_def by (simp add: TasksOperand tt_Cleanup_def 1 Ok)
  qed (use s1 in \<open>simp_all add: TasksOperand tt_Cleanup_def 1\<close>)
next
  case (PipelinesOperand t)
  have "ident ` set (tp_pipelines t @ tp_configMaps t @ tp_roleBindings t @ tp_serviceAccounts t @ tp_clusterRoles t) \<subseteq> M"
    using M by (auto simp: PipelinesOperand tp_scope_def)
  then show ?thesis
    using DeleteAll_scope I unfolding keeps_def by (simp add: PipelinesOperand tp_Cleanup_def)
qed

end

section \<open>The fake API server\<close>

text \<open>Whatever it is asked, the fake server stays healthy and changes nothing but the object it is given.\<close>

definition same_outside :: "(rtype \<times> string) set \<Rightarrow> (rtype \<Rightarrow> object_key \<Rightarrow> object option) \<Rightarrow> fake_cluster \<Rightarrow> bool" where
  "same_outside M v w \<longleftrightarrow> fake_healthy w \<and> (\<forall>t k. (t, snd k) \<notin> M \<longrightarrow> fmlookup (fc_objects w t) k = v t k)"

lemma same_outsideD:
  "same_outside M v w \<Longrightarrow> fmlookup (fc_objects w t) k = Some x \<Longrightarrow> stored_ok t k x"
  "same_outside M v w \<Longrightarrow> (t, snd k) \<notin> M \<Longrightarrow> fmlookup (fc_objects w t) k = v t k"
  unfolding same_outside_def fake_healthy_def by blast+

lemma same_outside_upd:
  assumes "same_outside M v w" and "(t, snd k) \<in> M" and "\<And>x. fmlookup st k = Some x \<Longrightarrow> stored_ok t k x"
    and "\<And>k'. k' \<noteq> k \<Longrightarrow> fmlookup st k' = fmlookup (fc_objects w t) k'"
  shows "same_outside M v (w\<lparr>fc_objects := (fc_objects w)(t := st)\<rparr>)"
proof -
  have "fake_healthy (w\<lparr>fc_objects := (fc_objects w)(t := st)\<rparr>)"
    unfolding fake_healthy_def
  proof (intro conjI allI impI)
    show "fc_now (w\<lparr>fc_objects := (fc_objects w)(t := st)\<rparr>) \<noteq> 0"
      using assms(1) by (simp add: same_outside_def fake_healthy_def)
    fix t' k' x assume x: "fmlookup (fc_objects (w\<lparr>fc_objects := (fc_objects w)(t := st)\<rparr>) t') k' = Some x"
    show "stored_ok t' k' x"
      using x assms(3) assms(4) [of k'] same_outsideD(1) [OF assms(1), of t' k' x]
      by (cases "t' = t"; cases "k' = k") simp_all
  qed
  moreover have "fmlookup (fc_objects (w\<lparr>fc_objects := (fc_objects w)(t := st)\<rparr>) t') k' = v t' k'"
    if "(t', snd k') \<notin> M" for t' k'
    using that assms(2) assms(4) [of k'] same_outsideD(2) [OF assms(1) that]
    by (cases "t' = t"; cases "k' = k") simp_all
  ultimately show ?thesis unfolding same_outside_def by blast
qed

lemma tracker_create_store:
  assumes "tracker_create res o_meta upd_meta x st = (q, st')"
  shows "st' = st \<or> (\<exists>v. parse_uint v \<noteq> None \<and> m_name (o_meta x) \<noteq> '''' \<and>
     st' = fmupd (object_key_of x) (upd_meta (\<lambda>m. m\<lparr>m_resourceVersion := v\<rparr>) x) st)"
  using assms
  by (auto simp: tracker_create_def Let_def object_key_of_def meta_key_def parse_uint_def is_digit_def digits_value_def
      split: if_splits option.splits intro!: exI [of _ "''1''"])

lemma tracker_update_store:
  assumes "tracker_update u res o_meta upd_meta x st = (q, st')"
  shows "st' = st \<or> st' = fmdrop (object_key_of x) st \<or> (\<exists>v. parse_uint v \<noteq> None \<and> m_name (o_meta x) \<noteq> '''' \<and>
     st' = fmupd (object_key_of x) (upd_meta (\<lambda>m. m\<lparr>m_resourceVersion := v\<rparr>) x) st)"
proof -
  have k: "object_key_of (upd_meta (\<lambda>m. m\<lparr>m_resourceVersion := v\<rparr>) x) = object_key_of x" for v
    by (simp add: object_key_of_def)
  have uu: "upd_meta (\<lambda>m. m\<lparr>m_resourceVersion := v\<rparr>) (upd_meta (\<lambda>m. m\<lparr>m_resourceVersion := v'\<rparr>) x) =
      upd_meta (\<lambda>m. m\<lparr>m_resourceVersion := v\<rparr>) x" for v v'
    by (simp add: upd_meta_def)
  show ?thesis
    using assms next_rv_ok
    by (auto simp: tracker_update_def Let_def k uu split: if_splits option.splits)
qed

lemma same_outside_calls:
  assumes I: "same_outside M v w" and x: "ident x \<in> M"
  shows "same_outside M v (snd (fake_create x w))" "same_outside M v (snd (fake_update x w))" "same_outside M v (snd (fake_delete x w))"
proof -
  let ?t = "o_rtype x" and ?k = "object_key_of x"
  have tk: "(?t, snd ?k) \<in> M" using x by (simp add: ident_def object_key_of_def)
  have ok: "stored_ok ?t ?k (upd_meta (\<lambda>m. m\<lparr>m_resourceVersion := v\<rparr>) x)" if "parse_uint v \<noteq> None" "m_name (o_meta x) \<noteq> ''''" for v
    using that by (simp add: stored_ok_rv)
  have same: "same_outside M v (w\<lparr>fc_objects := (fc_objects w)(?t := fc_objects w ?t)\<rparr>)" using I by simp
  have upd: "same_outside M v (w\<lparr>fc_objects := (fc_objects w)(?t := fmupd ?k y (fc_objects w ?t))\<rparr>)" if "stored_ok ?t ?k y" for y
    by (rule same_outside_upd [OF I tk]) (use that in auto)
  have drop: "same_outside M v (w\<lparr>fc_objects := (fc_objects w)(?t := fmdrop ?k (fc_objects w ?t))\<rparr>)"
    by (rule same_outside_upd [OF I tk]) auto
  obtain q st where c: "tracker_create (rtype_kind ?t) o_meta upd_meta x (fc_objects w ?t) = (q, st)" by (metis surj_pair)
  show "same_outside M v (snd (fake_create x w))"
    using tracker_create_store [OF c] same upd ok by (auto simp: fake_create_def with_objects_def c)
  obtain q2 st2 where u: "tracker_update (object_uncond x) (rtype_kind ?t) o_meta upd_meta x (fc_objects w ?t) = (q2, st2)"
    by (metis surj_pair)
  show "same_outside M v (snd (fake_update x w))"
    using tracker_update_store [OF u] same upd drop ok by (auto simp: fake_update_def with_objects_def u)
  show "same_outside M v (snd (fake_delete x w))"
  proof (cases "fmlookup (fc_objects w ?t) ?k")
    case None
    then show ?thesis using same by (simp add: fake_delete_def with_objects_def tracker_delete_def)
  next
    case (Some old)
    have h: "stored_ok ?t ?k old" by (rule same_outsideD(1) [OF I Some])
    let ?old = "upd_meta (\<lambda>m. m\<lparr>m_deletionTimestamp := Some (fc_now w)\<rparr>) old"
    have o: "object_key_of ?old = ?k" "o_rtype ?old = ?t" using h by (simp_all add: stored_ok_def object_key_of_def o_rtype_def upd_meta_def)
    obtain q3 st3 where u3: "tracker_update (object_uncond x) (rtype_kind ?t) o_meta upd_meta ?old (fc_objects w ?t) = (q3, st3)"
      by (metis surj_pair)
    have "same_outside M v (w\<lparr>fc_objects := (fc_objects w)(?t := st3)\<rparr>)"
      using tracker_update_store [OF u3] same upd drop o stored_ok_rv [of ?old] by auto
    then show ?thesis
      using Some drop by (auto simp: fake_delete_def with_objects_def tracker_delete_def u3 split: sum.split)
  qed
qed

definition scope_of :: "Operand list \<Rightarrow> (rtype \<times> string) set" where
  \<comment> \<open>what the operator may write: the objects of its operands, and any ClusterTask\<close>
  "scope_of ops = managed ops \<union> {ClusterTask} \<times> UNIV"

interpretation fake_scope: confined_client fake_client "scope_of ops" "same_outside (scope_of ops) v"
proof
  fix w assume I: "same_outside (scope_of ops) v w"
  show "same_outside (scope_of ops) v w' \<and> (\<forall>x. q = Inr x \<longrightarrow> ident x = (t, snd k))"
    if "c_get fake_client t k w = (q, w')" for t k q w'
  proof -
    have "ident (fake_read t x) = (t, snd k)" if "fmlookup (fc_objects w t) k = Some x" for x
      using same_outsideD(1) [OF I that]
      by (auto simp: stored_ok_def ident_def fake_read_def object_json_def o_rtype_def object_key_of_def meta_json_def)
    then show ?thesis using that I by (auto simp: fake_get_def split: option.splits)
  qed
  show "same_outside (scope_of ops) v w' \<and> (\<forall>xs. ql = Inr xs \<longrightarrow> ident ` set xs \<subseteq> scope_of ops)"
    if "c_list_clustertasks fake_client sel w = (ql, w')" for sel ql w'
  proof -
    have "ident (object_json x) \<in> scope_of ops" if "fmlookup (fc_objects w ClusterTask) k = Some x" for k x
      using same_outsideD(1) [OF I that]
      by (simp add: stored_ok_def ident_def object_json_def o_rtype_def scope_of_def)
    then show ?thesis using that I
      by (auto simp: fake_list_clustertasks_def sorted_list_of_fmap_def fmlookup_dom_iff)
  qed
qed (simp_all add: same_outside_calls)

lemma managed_split: "managed (xs @ op # ys) = managed xs \<union> set (concat (operand_scope op)) \<union> managed ys"
  by (auto simp: managed_def)

lemma managed_same: "map operand_scope ops = map operand_scope ops' \<Longrightarrow> managed ops = managed ops'"
  by (simp add: managed_def)

interpretation op_scope: controller_invariant fake_client env "\<lambda>s. same_outside (scope_of ops) v (world s)"
  "\<lambda>os. map operand_scope os = map operand_scope ops" "\<lambda>_. True"
proof
  fix s :: "fake_cluster sys"
  assume S: "same_outside (scope_of ops) v (world s)"
  show "same_outside (scope_of ops) v (world (snd (call (c_get_tt fake_client k) s)))"
    "same_outside (scope_of ops) v (world (snd (call (c_list_tt fake_client ns) s)))" for k ns
    using S by (simp_all add: call_def fake_get_tt_def fake_list_tt_def split: option.split)
  have tt: "same_outside (scope_of ops) v (snd (fake_update_tt t (world s)))" for t
    using S by (simp add: fake_update_tt_def Let_def same_outside_def fake_healthy_def)
  then show "same_outside (scope_of ops) v (world (s\<lparr>world := snd (c_update_tt fake_client t (world s))\<rparr>))"
    "same_outside (scope_of ops) v (world (s\<lparr>world := snd (c_status_update_tt fake_client t (world s))\<rparr>))" for t
    by simp_all
  have sub: "set (concat (operand_scope op)) \<subseteq> scope_of ops" if "map operand_scope (xs @ op # ys) = map operand_scope ops" for xs op ys
    using managed_same [OF that] by (auto simp: managed_split scope_of_def simp del: set_concat)
  show "map operand_scope (xs @ op' # ys) = map operand_scope ops \<and> same_outside (scope_of ops) v (world s')"
    if "map operand_scope (xs @ op # ys) = map operand_scope ops" "operand_Reconcile fake_client env inst op s = (q, (op', s'))"
    for xs op ys inst q op' s'
    using fake_scope.operand_Reconcile_scope [OF sub [OF that(1)] S that(2)] that(1) by simp
  show "same_outside (scope_of ops) v (world (snd (operand_Cleanup fake_client inst op s)))"
    if "map operand_scope (xs @ op # ys) = map operand_scope ops" for xs op ys inst
    by (rule fake_scope.operand_Cleanup_scope [OF sub [OF that] S])
qed simp_all

text \<open>
  C9. A reconciliation, whatever it is asked for, whatever state the cluster, the resource and the version cache
  are in, and however it ends, leaves every object alone whose type and name is not that of an
  object of the operator's bundles, ClusterTasks apart; and the types and names the operator
  holds stay the same, so this is so for all reconciliations to come.
\<close>

theorem reconciliation_stays_in_scope:
  assumes "controller_Reconcile fake_client env now req r = (q, r')" and "fake_healthy (world (rs_sys r))"
    and "(t, snd k) \<notin> managed (rs_operands r)" and "t \<noteq> ClusterTask"
  shows "fake_view (world (rs_sys r')) t k = fake_view (world (rs_sys r)) t k \<and>
    managed (rs_operands r') = managed (rs_operands r) \<and> fake_healthy (world (rs_sys r'))"
proof -
  let ?v = "\<lambda>t k. fmlookup (fc_objects (world (rs_sys r)) t) k"
  have "op_scope.reconciler_inv (rs_operands r) ?v r"
    unfolding op_scope.reconciler_inv_def using assms(2) by (simp add: same_outside_def)
  then have "op_scope.reconciler_inv (rs_operands r) ?v r'"
    by (rule op_scope.controller_Reconcile_inv [OF assms(1)])
  then have i: "same_outside (scope_of (rs_operands r)) ?v (world (rs_sys r'))"
      "map operand_scope (rs_operands r') = map operand_scope (rs_operands r)"
    unfolding op_scope.reconciler_inv_def by simp_all
  have "(t, snd k) \<notin> scope_of (rs_operands r)" using assms(3,4) by (simp add: scope_of_def)
  from same_outsideD(2) [OF i(1) this] show ?thesis
    using managed_same [OF i(2)] i(1) by (simp add: fake_view_def same_outside_def)
qed

theorem reconciliation_stays_in_scope_witness:
  "fake_view (world (rs_sys (snd (controller_Reconcile fake_client sample_env 7 (''kubevirt'', ''tt'')
       (NewTektonReconciler sample_operands (cluster_with sample_tt)))))) ConfigMap (''kubevirt'', ''other'') = None"
proof -
  have "(ConfigMap, snd (''kubevirt'', ''other'')) \<notin> managed (rs_operands (NewTektonReconciler sample_operands (cluster_with sample_tt)))"
    by (simp add: managed_def sample_operands_def tt_scope_def tp_scope_def ident_def sample_pipelines_def sample_tasks_operand_def
        sample_defs o_rtype_def empty_meta_def)
  from reconciliation_stays_in_scope [OF prod.collapse [symmetric] _ this] show ?thesis
    using cluster_with_healthy [OF like_sample_cases(1)] by (auto simp: fresh_at_def)
qed

end
