(* ===== verification/Panic_Freedom.thy ===== *)
theory Panic_Freedom
  imports Controller_Invariant
begin

text \<open>
  The Go types of the operands' elements and the panics of the operator. The slices of an operand
  hold objects of one Go type each, a client returns objects of the type it is asked for, and so no type
  assertion of an update function fails; what is left that can panic is told by the elements
  themselves (a task without steps or labels, or one that is not allowed) and by cleanup.
\<close>

section \<open>Elements of a type\<close>

definition task_ok :: "object \<Rightarrow> bool" where
  \<comment> \<open>the task's images can be assigned and its version label set\<close>
  "task_ok x \<longleftrightarrow> m_labels (o_meta x) \<noteq> None \<and>
     (m_name (o_meta x) = modifyWindowsVMIsoFileName \<or>
      (AllowedTasks (m_name (o_meta x)) \<noteq> None \<and>
       (case o_body x of TaskBody spec \<Rightarrow> ts_steps spec \<noteq> [] | _ \<Rightarrow> False)))"

definition element_ok :: "rtype \<Rightarrow> object \<Rightarrow> bool" where
  "element_ok t x \<longleftrightarrow> o_rtype x = t \<and> (t = Task \<longrightarrow> task_ok x)"

definition typed_client :: "'w client \<Rightarrow> bool" where
  "typed_client cl \<longleftrightarrow> (\<forall>t k w x w'. c_get cl t k w = (Inr x, w') \<longrightarrow> o_rtype x = t)"

definition safe_prep :: "rtype \<Rightarrow> (object \<Rightarrow> unit outcome \<times> object) \<Rightarrow> bool" where
  "safe_prep t prep \<longleftrightarrow> (\<forall>x. element_ok t x \<longrightarrow> (\<exists>x1. prep x = (Ok (), x1) \<and> element_ok t x1))"

definition safe_update :: "rtype \<Rightarrow> update_func \<Rightarrow> bool" where
  "safe_update t upd \<longleftrightarrow> (\<forall>e f. element_ok t e \<and> o_rtype f = t \<longrightarrow>
     (\<exists>f' e'. upd e f = (Ok f', e') \<and> element_ok t e'))"

lemma element_ok_meta:
  assumes "element_ok t x" and "o_body y = o_body x" and "m_name (o_meta y) = m_name (o_meta x)"
    and "m_labels (o_meta x) \<noteq> None \<Longrightarrow> m_labels (o_meta y) \<noteq> None"
  shows "element_ok t y"
  using assms by (auto simp: element_ok_def task_ok_def o_rtype_def)

lemma reconcile_prepare_frame:
  assumes "reconcile_prepare inst b x = (q, y)"
  shows "o_body y = o_body x" "m_name (o_meta y) = m_name (o_meta x)"
    "m_labels (o_meta x) \<noteq> None \<Longrightarrow> m_labels (o_meta y) \<noteq> None" "q = Ok z \<Longrightarrow> z = y" "q \<noteq> Panic p"
proof -
  have own: "o_body z = o_body x'" "m_name (o_meta z) = m_name (o_meta x')" "m_labels (o_meta z) = m_labels (o_meta x')"
    if "setOwner inst x' c = Inr z" for x' z c
    using that by (auto simp: setOwner_def SetOwnerAnnotations_def SetControllerReference_def Let_def
        split: if_splits sum.splits option.splits)
  show "o_body y = o_body x" "m_name (o_meta y) = m_name (o_meta x)" "q = Ok z \<Longrightarrow> z = y" "q \<noteq> Panic p"
    using assms by (auto simp: reconcile_prepare_def Let_def own split: sum.splits if_splits)
  have "\<exists>l. m_labels (o_meta (AddAppLabels inst n c x)) = Some l" for n c
    by (simp add: AddAppLabels_def Let_def)
  then show "m_labels (o_meta x) \<noteq> None \<Longrightarrow> m_labels (o_meta y) \<noteq> None"
    using assms by (auto simp: reconcile_prepare_def Let_def own split: sum.splits if_splits)
qed

lemma prepared_element_ok:
  assumes "element_ok t x" and "reconcile_prepare inst b x = (q, y)"
  shows "element_ok t y"
  using element_ok_meta [OF assms(1)] reconcile_prepare_frame [OF assms(2)] by blast

section \<open>One object\<close>

text \<open>A run on the element and the system state: it does not panic and keeps the element's type.\<close>

definition safe_run :: "rtype \<Rightarrow> (object \<times> 'w sys \<Rightarrow> 'a outcome \<times> (object \<times> 'w sys)) \<Rightarrow> bool" where
  "safe_run t f \<longleftrightarrow> (\<forall>st. element_ok t (fst st) \<longrightarrow>
     element_ok t (fst (snd (f st))) \<and> (\<forall>p. fst (f st) \<noteq> Panic p))"

lemma safe_runD:
  assumes "safe_run t f" and "element_ok t (fst st)"
  shows "element_ok t (fst (snd (f st)))" "fst (f st) \<noteq> Panic p"
  using assms unfolding safe_run_def by blast+

named_theorems safe_intros

lemma safe_return [safe_intros]: "safe_run t (\<lambda>st. (Ok (a st), st))"
  by (simp add: safe_run_def)

lemma safe_bind [safe_intros]:
  assumes "safe_run t f" and "\<And>a. safe_run t (g a)"
  shows "safe_run t (\<lambda>st. bind_outcome (f st) g)"
  unfolding safe_run_def
proof (intro allI impI)
  fix st :: "object \<times> 'a sys" assume "element_ok t (fst st)"
  note f = safe_runD [OF assms(1) this]
  show "element_ok t (fst (snd (bind_outcome (f st) g))) \<and> (\<forall>p. fst (bind_outcome (f st) g) \<noteq> Panic p)"
    using f safe_runD [OF assms(2) f(1)]
    by (cases "f st"; cases "fst (f st)") (auto simp: bind_outcome_def)
qed

lemma safe_call [safe_intros]: "safe_run t (on_sys (call f))"
  using call_not_Panic by (fastforce simp: safe_run_def on_sys_def split: prod.splits)

lemma safe_if [safe_intros]:
  "safe_run t f \<Longrightarrow> safe_run t g \<Longrightarrow> safe_run t (\<lambda>st. if P st then f st else g st)"
  by (simp add: safe_run_def)

lemma safe_mutate:
  assumes "safe_update t (updateFunc b)" and "o_rtype f = t"
  shows "safe_run t (\<lambda>st. on_resource (\<lambda>r. mutate b (vc st) key r f) st)"
  unfolding safe_run_def
proof (intro allI impI)
  fix st :: "object \<times> 'a sys" assume ok: "element_ok t (fst st)"
  have "o_rtype (updateAnnotations (fst st) (updateLabels (fst st)
      (upd_meta (\<lambda>m. m\<lparr>m_ownerReferences := m_ownerReferences (o_meta (fst st))\<rparr>) f))) = t"
    using assms(2) by simp
  then obtain f' e' where "updateFunc b (fst st) (updateAnnotations (fst st) (updateLabels (fst st)
      (upd_meta (\<lambda>m. m\<lparr>m_ownerReferences := m_ownerReferences (o_meta (fst st))\<rparr>) f))) = (Ok f', e')" "element_ok t e'"
    using assms(1) ok unfolding safe_update_def by blast
  then show "element_ok t (fst (snd (on_resource (\<lambda>r. mutate b (vc st) key r f) st))) \<and>
      (\<forall>p. fst (on_resource (\<lambda>r. mutate b (vc st) key r f) st) \<noteq> Panic p)"
    using ok by (auto simp: on_resource_def mutate_def mutateFn_def bind_outcome_def Let_def split: prod.splits)
qed

lemma create_or_update_safe:
  assumes cl: "typed_client cl" and upd: "safe_update t (updateFunc b)" and f: "o_rtype f = t"
  shows "safe_run t (createOrUpdateWithImmutableSpec cl b f)"
  unfolding safe_run_def
proof (intro allI impI)
  fix st :: "object \<times> 'a sys" assume ok: "element_ok t (fst st)"
  define key where "key = object_key_of f"
  obtain q s where g: "call (c_get cl t key) (snd st) = (q, s)" by (metis surj_pair)
  show "element_ok t (fst (snd (createOrUpdateWithImmutableSpec cl b f st))) \<and>
      (\<forall>p. fst (createOrUpdateWithImmutableSpec cl b f st) \<noteq> Panic p)"
  proof (cases q)
    case (Ok x)
    then obtain w where "c_get cl t key (world (snd st)) = (Inr x, w)" using g by (auto simp: call_Ok_iff)
    then have x: "o_rtype x = t" using cl unfolding typed_client_def by blast
    have "safe_run t (\<lambda>st. bind_outcome (on_resource (\<lambda>r. mutate b (vcache (snd st)) key r x) st) (\<lambda>obj st.
            if semantic_deep_equal x obj then (Ok (OperationResultNone, obj), st)
            else if immutableSpec b \<and> \<not> spec_deep_equal (specGetter b x) (specGetter b obj)
            then bind_outcome (on_sys (call (c_delete cl obj)) st) (\<lambda>_ st. (Ok (OperationResultDeleted, obj), st))
            else bind_outcome (on_sys (call (c_update cl obj)) st) (\<lambda>obj st. (Ok (OperationResultUpdated, obj), st))))"
      by (intro safe_bind safe_mutate upd x safe_intros)
    from safe_runD [OF this, of "(fst st, s)"] show ?thesis
      using ok Ok by (simp add: createOrUpdateWithImmutableSpec_def Let_def on_sys_def f key_def [symmetric] g)
  next
    case (Err e)
    have "safe_run t (\<lambda>st. bind_outcome (on_resource (\<lambda>r. mutate b (vcache (snd st)) key r f) st) (\<lambda>obj st.
            bind_outcome (on_sys (call (c_create cl obj)) st) (\<lambda>obj st. (Ok (OperationResultCreated, obj), st))))"
      by (intro safe_bind safe_mutate upd f safe_intros)
    from safe_runD [OF this, of "(fst st, s)"] show ?thesis
      using ok Err by (simp add: createOrUpdateWithImmutableSpec_def Let_def on_sys_def f key_def [symmetric] g)
  next
    case (Panic p)
    then show ?thesis using g call_not_Panic by metis
  qed
qed

lemma Reconcile_safe:
  assumes cl: "typed_client cl" and upd: "safe_update t (updateFunc b)"
  shows "safe_run t (Reconcile cl inst b)"
  unfolding safe_run_def
proof (intro allI impI)
  fix st :: "object \<times> 'a sys" assume ok: "element_ok t (fst st)"
  obtain q y where p: "reconcile_prepare inst b (fst st) = (q, y)" by (metis surj_pair)
  have y: "element_ok t y" by (rule prepared_element_ok [OF ok p])
  show "element_ok t (fst (snd (Reconcile cl inst b st))) \<and> (\<forall>p. fst (Reconcile cl inst b st) \<noteq> Panic p)"
  proof (cases q)
    case (Ok z)
    then have z: "z = y" using reconcile_prepare_frame(4) [OF p] by simp
    define f where "f = upd_meta (\<lambda>m. m\<lparr>m_name := m_name (o_meta y), m_namespace := m_namespace (o_meta y)\<rparr>)
      (newEmptyResource y)"
    have f: "o_rtype f = t" using y by (simp add: f_def element_ok_def)
    obtain q1 r s where c: "createOrUpdateWithImmutableSpec cl b f (y, snd st) = (q1, (r, s))" by (metis surj_pair)
    have "element_ok t r" "q1 \<noteq> Panic p" for p
      using safe_runD [OF create_or_update_safe [OF cl upd f], of "(y, snd st)"] y by (simp_all add: c)
    then show ?thesis
      using p Ok z by (cases q1) (auto simp: Reconcile_def on_resource_def Let_def f_def [symmetric] c split: if_splits)
  next
    case (Err e)
    then show ?thesis using p y by (simp add: Reconcile_def on_resource_def)
  next
    case (Panic x)
    then show ?thesis using reconcile_prepare_frame(5) [OF p] by simp
  qed
qed

lemma element_safe:
  assumes "typed_client cl" and "safe_update t (updateFunc b)" and prep: "safe_prep t prep"
  shows "safe_run t (reconcile_element cl inst prep b)"
  unfolding safe_run_def
proof (intro allI impI)
  fix st :: "object \<times> 'a sys" assume "element_ok t (fst st)"
  then obtain x1 where "prep (fst st) = (Ok (), x1)" "element_ok t x1" using prep unfolding safe_prep_def by blast
  then show "element_ok t (fst (snd (reconcile_element cl inst prep b st))) \<and>
      (\<forall>p. fst (reconcile_element cl inst prep b st) \<noteq> Panic p)"
    using safe_runD [OF Reconcile_safe [OF assms(1,2)], of "(x1, snd st)"]
    by (simp add: reconcile_element_def on_resource_def)
qed

section \<open>The closures of the operands\<close>

lemma safe_updates:
  "safe_update Task update_task" "safe_update ClusterRole update_cluster_role"
  "safe_update RoleBinding update_role_binding" "safe_update ServiceAccount (\<lambda>e f. (Ok f, e))"
  "safe_update Pipeline (update_pipeline env)" "safe_update ConfigMap update_config_map"
  "safe_update ServiceAccount update_service_account" "safe_update ClusterRole tp_update_cluster_role"
  "safe_update RoleBinding tp_update_role_binding"
  by (auto simp: safe_update_def element_ok_def o_rtype_def body_rtype_cases)

lemma safe_preps:
  "safe_prep t (\<lambda>x. (Ok (), x))" "t \<noteq> Task \<Longrightarrow> safe_prep t (prepare_instance_namespace inst)"
  "t \<noteq> Task \<Longrightarrow> safe_prep t (prepare_pipelines_namespace inst)" "t \<noteq> Task \<Longrightarrow> safe_prep t (prepare_role_binding inst)"
  "t \<noteq> Task \<Longrightarrow> safe_prep t (prepare_service_account inst)"
  by (auto simp: safe_prep_def element_ok_def prepare_instance_namespace_def set_namespace_def tp_prepare_defs
      o_rtype_def split: body.split)

lemma safe_prepare_task: "safe_prep Task (prepare_task env inst)"
  unfolding safe_prep_def
proof (intro allI impI)
  fix x assume x: "element_ok Task x"
  then obtain spec where b: "o_body x = TaskBody spec" by (auto simp: element_ok_def o_rtype_def body_rtype_cases)
  obtain labels where l: "m_labels (o_meta x) = Some labels" using x by (auto simp: element_ok_def task_ok_def)
  have "\<exists>steps. deployed_steps env (m_name (o_meta x)) (ts_steps spec) = Some steps \<and>
      (ts_steps spec \<noteq> [] \<longrightarrow> steps \<noteq> [])"
    using x b by (auto simp: element_ok_def task_ok_def deployed_steps_def split: option.splits list.splits)
  then obtain steps where s: "deployed_steps env (m_name (o_meta x)) (ts_steps spec) = Some steps"
    "ts_steps spec \<noteq> [] \<longrightarrow> steps \<noteq> []" by blast
  have "prepared_task env inst x = Some (x\<lparr>o_meta := (o_meta x)\<lparr>m_namespace := task_namespace inst,
      m_labels := Some (fmupd TektonTasksVersionLabel TektonTasksVersion labels)\<rparr>,
      o_body := TaskBody (spec\<lparr>ts_steps := steps\<rparr>)\<rparr>)" (is "_ = Some ?y")
    using b l s(1) by (simp add: prepared_task_def)
  moreover have "element_ok Task ?y" using x b s(2) by (auto simp: element_ok_def task_ok_def o_rtype_def)
  ultimately show "\<exists>x1. prepare_task env inst x = (Ok (), x1) \<and> element_ok Task x1"
    by (auto simp: prepare_task_Ok_iff)
qed

lemma tt_func_safe: "typed_client cl \<Longrightarrow> safe_run (tt_slot_type j) (tt_func cl env inst j)"
  by (cases j) (auto intro!: element_safe safe_preps safe_prepare_task simp: safe_updates tt_builder_update tt_builder_None)

lemma tp_func_safe: "typed_client cl \<Longrightarrow> safe_run (tp_slot_type j) (tp_func cl env inst j)"
  by (cases j) (auto intro!: element_safe safe_preps simp: safe_updates)

context operand_slots
begin

lemma slots_safe:
  assumes "\<And>j. j \<in> set js \<Longrightarrow> in_range o' j \<and> safe_run (t j) (f j)"
    and "\<And>j. in_range o' j \<Longrightarrow> element_ok (t j) (elem j o')"
    and "CollectResourceStatus (map (slot_func f) js) (o', s) = (q, (o'', s'))"
  shows "(\<forall>p. q \<noteq> Panic p) \<and> (\<forall>j. in_range o'' j = in_range o' j) \<and>
     (\<forall>j. in_range o'' j \<longrightarrow> element_ok (t j) (elem j o''))"
  using assms
proof (induction js arbitrary: o' s q o'' s')
  case Nil
  then show ?case by (auto simp: CollectResourceStatus_def)
next
  case (Cons j js)
  obtain q1 x s1 where f: "f j (elem j o', s) = (q1, (x, s1))" by (metis surj_pair)
  have j: "in_range o' j" "safe_run (t j) (f j)" using Cons.prems(1) by simp_all
  have x: "element_ok (t j) x" "\<And>p. q1 \<noteq> Panic p"
    using safe_runD [OF j(2), of "(elem j o', s)"] Cons.prems(2) [OF j(1)] by (simp_all add: f)
  let ?o1 = "put j x o'"
  have run: "slot_func f j (o', s) = (q1, (?o1, s1))" using f by (simp add: slot_func_def)
  have ok: "element_ok (t i) (elem i ?o1)" if "in_range ?o1 i" for i
    using that Cons.prems(2) x(1) elem_put [OF j(1)] elem_other [of j i] by (cases "j = i") (simp_all add: range_put)
  show ?case
  proof (cases q1)
    case (Ok res)
    obtain q2 o2 s2 where c: "CollectResourceStatus (map (slot_func f) js) (?o1, s1) = (q2, (o2, s2))" by (metis surj_pair)
    have "(\<forall>p. q2 \<noteq> Panic p) \<and> (\<forall>j. in_range o2 j = in_range ?o1 j) \<and> (\<forall>j. in_range o2 j \<longrightarrow> element_ok (t j) (elem j o2))"
      by (rule Cons.IH [OF _ ok c]) (use Cons.prems(1) in \<open>simp add: range_put\<close>)
    then show ?thesis
      using Cons.prems(3) c Ok run by (cases q2) (auto simp: CollectResourceStatus_def range_put)
  qed (use Cons.prems(3) run x(2) ok in \<open>auto simp: CollectResourceStatus_def range_put\<close>)
qed

end

section \<open>The operands\<close>

definition tt_ok :: "tektonTasks \<Rightarrow> bool" where
  "tt_ok t \<longleftrightarrow> list_all (element_ok Task) (tt_tasks t) \<and> list_all (element_ok ClusterRole) (tt_clusterRoles t) \<and>
     list_all (element_ok ServiceAccount) (tt_serviceAccounts t) \<and> list_all (element_ok RoleBinding) (tt_roleBindings t)"

definition tp_ok :: "tektonPipelines \<Rightarrow> bool" where
  "tp_ok t \<longleftrightarrow> list_all (element_ok Pipeline) (tp_pipelines t) \<and> list_all (element_ok ConfigMap) (tp_configMaps t) \<and>
     list_all (element_ok RoleBinding) (tp_roleBindings t) \<and> list_all (element_ok ServiceAccount) (tp_serviceAccounts t) \<and>
     list_all (element_ok ClusterRole) (tp_clusterRoles t)"

fun operand_ok :: "Operand \<Rightarrow> bool" where
  "operand_ok (TasksOperand t) = tt_ok t"
| "operand_ok (PipelinesOperand t) = tp_ok t"

lemma tt_ok_slots: "tt_ok t \<longleftrightarrow> (\<forall>j. tt_in_range t j \<longrightarrow> element_ok (tt_slot_type j) (tt_elem j t))"
proof
  show "tt_ok t \<Longrightarrow> \<forall>j. tt_in_range t j \<longrightarrow> element_ok (tt_slot_type j) (tt_elem j t)"
  proof (intro allI impI)
    fix j assume "tt_ok t" "tt_in_range t j"
    then show "element_ok (tt_slot_type j) (tt_elem j t)" by (cases j) (simp_all add: tt_ok_def list_all_length)
  qed
  assume r: "\<forall>j. tt_in_range t j \<longrightarrow> element_ok (tt_slot_type j) (tt_elem j t)"
  show "tt_ok t"
    using r [rule_format, of "TaskAt _"] r [rule_format, of "RoleAt _"] r [rule_format, of "AccountAt _"]
      r [rule_format, of "BindingAt _"]
    by (simp add: tt_ok_def list_all_length)
qed

lemma tp_ok_slots: "tp_ok t \<longleftrightarrow> (\<forall>j. tp_in_range t j \<longrightarrow> element_ok (tp_slot_type j) (tp_elem j t))"
proof
  show "tp_ok t \<Longrightarrow> \<forall>j. tp_in_range t j \<longrightarrow> element_ok (tp_slot_type j) (tp_elem j t)"
  proof (intro allI impI)
    fix j assume "tp_ok t" "tp_in_range t j"
    then show "element_ok (tp_slot_type j) (tp_elem j t)" by (cases j) (simp_all add: tp_ok_def list_all_length)
  qed
  assume r: "\<forall>j. tp_in_range t j \<longrightarrow> element_ok (tp_slot_type j) (tp_elem j t)"
  show "tp_ok t"
    using r [rule_format, of "PipelineAt _"] r [rule_format, of "ConfigAt _"] r [rule_format, of "PAccountAt _"]
      r [rule_format, of "PBindingAt _"] r [rule_format, of "PRoleAt _"]
    by (simp add: tp_ok_def list_all_length)
qed

lemma tt_Reconcile_safe:
  assumes "typed_client cl" and "tt_ok t" and "tt_Reconcile cl env inst (t, s) = (q, (t', s'))"
  shows "tt_ok t'" "q \<noteq> Panic p"
proof -
  obtain q1 t1 s1 where c: "CollectResourceStatus (map (tt_slots.slot_func (tt_func cl env inst)) (tt_slots_of t)) (t, s) =
      (q1, (t1, s1))" by (metis surj_pair)
  have "(\<forall>p. q1 \<noteq> Panic p) \<and> (\<forall>j. tt_in_range t1 j = tt_in_range t j) \<and>
      (\<forall>j. tt_in_range t1 j \<longrightarrow> element_ok (tt_slot_type j) (tt_elem j t1))"
    by (rule tt_slots.slots_safe [OF _ _ c]) (use assms(1,2) in \<open>auto simp: tt_slots_of_range tt_func_safe tt_ok_slots\<close>)
  then show "tt_ok t'" "q \<noteq> Panic p"
    using assms(3) by (cases q1; auto simp: tt_Reconcile_slots c tt_ok_slots)+
qed

lemma tp_Reconcile_safe:
  assumes "typed_client cl" and "tp_ok t" and "tp_Reconcile cl env inst (t, s) = (q, (t', s'))"
  shows "tp_ok t'" "q \<noteq> Panic p"
proof -
  obtain q1 t1 s1 where c: "CollectResourceStatus (map (tp_slots.slot_func (tp_func cl env inst)) (tp_slots_of inst t)) (t, s) =
      (q1, (t1, s1))" by (metis surj_pair)
  have "(\<forall>p. q1 \<noteq> Panic p) \<and> (\<forall>j. tp_in_range t1 j = tp_in_range t j) \<and>
      (\<forall>j. tp_in_range t1 j \<longrightarrow> element_ok (tp_slot_type j) (tp_elem j t1))"
    by (rule tp_slots.slots_safe [OF _ _ c]) (use assms(1,2) in \<open>auto simp: tp_slots_of_range tp_func_safe tp_ok_slots\<close>)
  then show "tp_ok t'" "q \<noteq> Panic p"
    using assms(3) by (cases q1; auto simp: tp_Reconcile_slots c tp_ok_slots)+
qed

lemma operand_Reconcile_safe:
  assumes "typed_client cl" and "operand_ok op" and "operand_Reconcile cl env inst op s = (q, (op', s'))"
  shows "operand_ok op'" "q \<noteq> Panic p"
  using assms tt_Reconcile_safe [OF assms(1)] tp_Reconcile_safe [OF assms(1)]
  by (cases op; fastforce split: prod.splits)+

section \<open>The controller\<close>

text \<open>What a client returns for deployed objects is all that the panics depend on: no write panics.\<close>

lemma write_tt_no_panic: "write_tt f st \<noteq> (Panic p, st')"
  by (auto simp: write_tt_def split: prod.splits sum.splits)

lemma status_no_panic:
  "preUpdateStatus cl env now st \<noteq> (Panic p, st')" "updateStatus cl env now rs st \<noteq> (Panic p, st')"
  "initialize cl st \<noteq> (Panic p, st')" "updateTektonTasks cl st \<noteq> (Panic p, st')"
  "handleError cl now e st \<noteq> (Panic p, st')" "finish_cleanup cl st \<noteq> (Panic p, st')"
proof -
  have u: "updateTektonTasksResource cl st \<noteq> (Panic p, st')" for st st'
    by (auto simp: updateTektonTasksResource_def bind_outcome_Panic_iff write_tt_no_panic)
  show "initialize cl st \<noteq> (Panic p, st')" by (simp add: initialize_def u)
  show "updateTektonTasks cl st \<noteq> (Panic p, st')"
    by (auto simp: updateTektonTasks_def u split: prod.splits outcome.splits if_splits)
  show "preUpdateStatus cl env now st \<noteq> (Panic p, st')" "updateStatus cl env now rs st \<noteq> (Panic p, st')"
    by (auto simp: preUpdateStatus_def updateStatus_def Let_def write_tt_no_panic)
  show "handleError cl now e st \<noteq> (Panic p, st')" "finish_cleanup cl st \<noteq> (Panic p, st')"
    by (auto simp: handleError_def finish_cleanup_def Let_def write_tt_no_panic
        split: option.splits prod.splits outcome.splits if_splits)
qed

lemma set_multiple_no_panic: "set_multiple cl now items s \<noteq> (Panic p, s')"
proof (induction items arbitrary: s)
  case (Cons t ts)
  then show ?case by (auto simp: write_tt_no_panic split: prod.splits outcome.splits)
qed simp

lemma Cleanup_panic: "Cleanup cl inst r s = (Panic p, s') \<Longrightarrow> p = index_panic"
proof -
  have "isResourceOwned inst r x = (Panic p, r') \<Longrightarrow> p = index_panic" for x r'
    by (auto simp: isResourceOwned_def Let_def split: sum.splits if_splits)
  then show "Cleanup cl inst r s = (Panic p, s') \<Longrightarrow> p = index_panic"
    by (auto simp: Cleanup_def call_not_Panic split: prod.splits outcome.splits if_splits)
qed

lemma DeleteAll_panic: "DeleteAll cl inst rs s = (Panic p, s') \<Longrightarrow> p = index_panic"
  unfolding DeleteAll_def
proof (induction rs arbitrary: s)
  case (Cons r rs)
  then show ?case by (auto simp: bind_outcome_Panic_iff dest: Cleanup_panic)
qed simp

lemma operand_Cleanup_panic: "operand_Cleanup cl inst op s = (Panic p, s') \<Longrightarrow> p = index_panic"
  by (cases op)
    (auto simp: tt_Cleanup_def tp_Cleanup_def Let_def bind_outcome_Panic_iff listDeprecatedClusterTasks_def
      call_not_Panic dest: DeleteAll_panic)

lemma cleanupOperands_panic: "cleanupOperands cl inst ops n s = (Panic p, s') \<Longrightarrow> p = index_panic"
proof (induction ops arbitrary: n s)
  case (Cons op ops)
  then show ?case by (auto simp: bind_outcome_Panic_iff dest: operand_Cleanup_panic)
qed simp

lemma controller_cleanup_panic:
  assumes "controller_cleanup cl now ops st = (Panic p, st')"
  shows "p = index_panic"
proof (cases "ContainsFinalizer (tt_meta (fst st)) finalizerName \<or> ContainsFinalizer (tt_meta (fst st)) oldFinalizerName")
  case True
  define st1 where "st1 = on_status (set_three now ConditionFalse ConditionTrue ConditionTrue deleting_message)
      (observe_generation (set_phase PhaseDeleting st))"
  obtain q2 i2 s2 where 2: "write_tt (c_status_update_tt cl) st1 = (q2, (i2, s2))" by (metis surj_pair)
  obtain q3 s3 where 3: "cleanupOperands cl i2 ops 0 s2 = (q3, s3)" by (metis surj_pair)
  have "q2 \<noteq> Panic p" using 2 write_tt_no_panic by metis
  moreover have "q3 = Panic p \<Longrightarrow> p = index_panic" using 3 cleanupOperands_panic by metis
  ultimately show ?thesis
    using assms True unfolding controller_cleanup_def Let_def st1_def [symmetric] 2
    by (cases q2; cases q3)
      (auto simp: 3 bind_outcome_Panic_iff write_tt_no_panic status_no_panic split: if_splits)
next
  case False
  then show ?thesis using assms by (simp add: controller_cleanup_def status_no_panic)
qed

lemma reconcileOperands_safe:
  assumes "typed_client cl" and "list_all operand_ok ops" and "reconcileOperands cl env inst ops s = (q, (ops', s'))"
  shows "q \<noteq> Panic p"
  using assms(2,3)
proof (induction ops arbitrary: s q ops' s')
  case (Cons op ops)
  obtain q1 op1 s1 where 1: "operand_Reconcile cl env inst op s = (q1, (op1, s1))" by (metis surj_pair)
  obtain q2 ops2 s2 where 2: "reconcileOperands cl env inst ops s1 = (q2, (ops2, s2))" by (metis surj_pair)
  show ?case
    using Cons.prems operand_Reconcile_safe(2) [OF assms(1) _ 1] Cons.IH [OF _ 2] 1 2
    by (cases q1; cases q2) auto
qed auto

lemma with_inst_Panic: "with_inst f inst r = (Panic p, inst', r') \<Longrightarrow> \<exists>st. f (inst, rs_sys r) = (Panic p, st)"
  by (auto simp: with_inst_def split: prod.splits)

lemma handle_error_no_panic: "handle_error cl now e inst r \<noteq> (Panic p, r')"
  by (auto simp: handle_error_def status_no_panic dest: with_inst_Panic split: prod.splits)

lemma pause_CR_no_panic: "pause_CR cl inst r \<noteq> (Panic p, r')"
  by (auto simp: pause_CR_def write_tt_no_panic dest!: with_inst_Panic split: if_splits prod.splits outcome.splits)

lemma with_inst_operands: "with_inst f inst r = (q, inst', r') \<Longrightarrow> rs_operands r' = rs_operands r"
  by (auto simp: with_inst_def split: prod.splits)

lemma reconcile_deploy_no_panic:
  assumes "typed_client cl" and "list_all operand_ok (rs_operands r)"
  shows "reconcile_deploy cl env now inst r \<noteq> (Panic p, r')"
proof
  assume run: "reconcile_deploy cl env now inst r = (Panic p, r')"
  obtain q1 i1 r1 where 1: "with_inst (preUpdateStatus cl env now) inst r = (q1, i1, r1)" by (metis surj_pair)
  have q1: "q1 \<noteq> Panic p" using 1 with_inst_Panic status_no_panic(1) by metis
  have r1: "list_all operand_ok (rs_operands r1)" using with_inst_operands [OF 1] assms(2) by simp
  obtain q2 ops s where 2: "reconcileOperands cl env i1 (rs_operands r1) (log_msg ''Reconciling operands...'' (rs_sys r1)) =
      (q2, (ops, s))" by (metis surj_pair)
  have q2: "q2 \<noteq> Panic p" by (rule reconcileOperands_safe [OF assms(1) r1 2])
  have upd: "with_inst (updateStatus cl env now rs) i r \<noteq> (Panic p, i', r')" for rs i r i' r'
    using with_inst_Panic status_no_panic(2) by metis
  show False
    using run q1 q2 unfolding reconcile_deploy_def 1 prod.case 2
    by (cases q1; cases q2) (auto simp: upd handle_error_no_panic split: prod.splits outcome.splits if_splits)
qed

lemma reconcile_instance_panic:
  assumes cl: "typed_client cl" and ops: "list_all operand_ok (rs_operands r)"
    and run: "reconcile_instance cl env now inst r = (Panic p, r')"
  shows "p = index_panic \<and> isBeingDeleted (tt_meta inst)"
proof -
  define c where "c = clearCacheIfNeeded inst r"
  have c: "list_all operand_ok (rs_operands c)" using ops by (simp add: c_def)
  note run = run [unfolded reconcile_instance_def Let_def c_def [symmetric]]
  show ?thesis
  proof (cases "isInitialized inst")
    case False
    obtain q1 i1 r1 where 1: "with_inst (initialize cl) inst c = (q1, i1, r1)" by (metis surj_pair)
    have "q1 \<noteq> Panic p" using 1 with_inst_Panic status_no_panic(3) by metis
    then show ?thesis using run False 1 by (cases q1) (auto simp: handle_error_no_panic)
  next
    case True
    obtain q1 i1 r1 where 1: "with_inst (updateTektonTasks cl) inst c = (q1, i1, r1)" by (metis surj_pair)
    have q1: "q1 \<noteq> Panic p" using 1 with_inst_Panic status_no_panic(4) by metis
    obtain q2 i2 r2 where 2: "with_inst (controller_cleanup cl now (rs_operands r1)) i1 r1 = (q2, i2, r2)" by (metis surj_pair)
    have q2: "q2 = Panic p \<Longrightarrow> p = index_panic" using 2 with_inst_Panic controller_cleanup_panic by metis
    obtain q3 s3 where 3: "call (c_list_tt cl None) (rs_sys r1) = (q3, s3)" by (metis surj_pair)
    have q3: "q3 \<noteq> Panic p" using 3 call_not_Panic by metis
    have rest: "setStatusMultipleCRs cl now items s3 \<noteq> (Panic p, s4)" "pause_CR cl i r4 \<noteq> (Panic p, r')" for items s4 i r4 r'
      by (simp_all add: setStatusMultipleCRs_def set_multiple_no_panic pause_CR_no_panic)
    have deploy: "reconcile_deploy cl env now i (r1\<lparr>rs_sys := s3\<rparr>) \<noteq> (Panic p, r')" for i r'
      using with_inst_operands [OF 1] c by (intro reconcile_deploy_no_panic [OF cl]) simp
    show ?thesis
    proof (cases q1)
      case (Ok ue)
      obtain updated err where ue: "ue = (updated, err)" by (metis surj_pair)
      have same: "\<not> updated \<Longrightarrow> err = None \<Longrightarrow> i1 = inst"
        using 1 Ok ue by (auto simp: with_inst_def updateTektonTasks_def split: prod.splits outcome.splits if_splits)
      show ?thesis
        using run True 1 Ok ue 2 3 q2 q3 same
        by (auto simp: rest deploy handle_error_no_panic split: if_splits outcome.splits prod.splits)
    qed (use run True 1 q1 in \<open>auto simp: handle_error_no_panic\<close>)
  qed
qed

lemma controller_Reconcile_panic:
  assumes "typed_client cl" and "list_all operand_ok (rs_operands r)"
    and "controller_Reconcile cl env now req r = (Panic p, r')"
  shows "p = index_panic \<and> (\<exists>inst s. call (c_get_tt cl req) (rs_sys r) = (Ok inst, s) \<and> isBeingDeleted (tt_meta inst))"
  using assms(2,3) call_not_Panic [of "c_get_tt cl req" "rs_sys r"]
  by (auto simp: controller_Reconcile_def reconcile_request_def split: prod.splits outcome.splits if_splits
      dest!: reconcile_instance_panic [OF assms(1), rotated])

section \<open>What makes the operator panic\<close>

text \<open>
  C8. Typed operands are an invariant of a reconciliation, and with them the operator's own
  code panics nowhere but in cleanup: on a client that returns objects of the type it is asked for,
  a reconciliation keeps every element of the operands of its type and every task one whose
  images and labels can be set, and if it panics, then by indexing the empty list of owner references,
  and the resource it read is being deleted. The hypothesis on the client is what the type of
  \<open>client.Get\<close>'s argument gives.
\<close>

theorem reconcile_keeps_types:
  assumes "typed_client cl" and "list_all operand_ok (rs_operands r)"
    and "controller_Reconcile cl env now req r = (q, r')"
  shows "list_all operand_ok (rs_operands r') \<and>
    (q = Panic p \<longrightarrow> p = index_panic \<and>
       (\<exists>inst s. call (c_get_tt cl req) (rs_sys r) = (Ok inst, s) \<and> isBeingDeleted (tt_meta inst)))"
proof
  have keeps: "controller_invariant cl env (\<lambda>_. True) (list_all operand_ok) (\<lambda>_. True)"
    by unfold_locales (auto dest: operand_Reconcile_safe(1) [OF assms(1)])
  show "list_all operand_ok (rs_operands r')"
    using controller_invariant.controller_Reconcile_inv [OF keeps assms(3)] assms(2)
    by (simp add: controller_invariant.reconciler_inv_def [OF keeps])
  show "q = Panic p \<longrightarrow> p = index_panic \<and>
      (\<exists>inst s. call (c_get_tt cl req) (rs_sys r) = (Ok inst, s) \<and> isBeingDeleted (tt_meta inst))"
    using controller_Reconcile_panic [OF assms(1,2)] assms(3) by blast
qed

definition typed_fake_client :: "fake_cluster client" where
  \<comment> \<open>the fake server behind a \<open>Get\<close> that decodes into the type it is asked for\<close>
  "typed_fake_client = fake_client\<lparr>c_get := (\<lambda>t k w.
     case fake_get t k w of
       (Inr x, w) \<Rightarrow> (if o_rtype x = t then Inr x else Inl (PlainError ''unable to decode the object''), w)
     | y \<Rightarrow> y)\<rparr>"

theorem reconcile_keeps_types_witness:
  "\<exists>q r'. controller_Reconcile typed_fake_client sample_env 7 (''kubevirt'', ''tt'')
      (NewTektonReconciler sample_operands sample_cluster) = (q, r') \<and>
    list_all operand_ok (rs_operands r') \<and> q \<noteq> Panic ''assertion'' \<and> q \<noteq> Panic index_panic"
proof -
  let ?r = "NewTektonReconciler sample_operands sample_cluster"
  obtain q r' where run: "controller_Reconcile typed_fake_client sample_env 7 (''kubevirt'', ''tt'') ?r = (q, r')"
    by (metis surj_pair)
  have typed: "typed_client typed_fake_client"
    unfolding typed_client_def typed_fake_client_def by (simp split: prod.split sum.split)
  have ops: "list_all operand_ok (rs_operands ?r)"
    by (simp add: NewTektonReconciler_def sample_operands_def sample_tasks_operand_def sample_pipelines_def
        tt_ok_def tp_ok_def element_ok_def task_ok_def sample_defs o_rtype_def upd_meta_def
        AllowedTasks_def task_name_defs empty_meta_def)
  have "call (c_get_tt typed_fake_client (''kubevirt'', ''tt'')) (rs_sys ?r) =
      (Ok (fake_read_tt sample_cr), rs_sys ?r)"
    by (simp add: typed_fake_client_def fake_client_def fake_get_tt_def call_def NewTektonReconciler_def sample_cluster_def)
  moreover have "\<not> isBeingDeleted (tt_meta (fake_read_tt sample_cr))"
    by (simp add: sample_cr_def isBeingDeleted_def)
  ultimately show ?thesis
    using reconcile_keeps_types [OF typed ops run, of "''assertion''"] reconcile_keeps_types [OF typed ops run, of index_panic] run
    by (auto simp: index_panic_def)
qed

text \<open>
  C14. Cleanup panics exactly on an object in another namespace than the resource that has owner
  references of its own while the operand's copy has none: \<open>isResourceOwned\<close> compares each of them
  with the first of an empty list. A ClusterRole to which anyone added an owner reference
  makes the operator crash at every reconciliation of a resource being deleted.
\<close>

theorem cleanup_panics_on_owner_references:
  assumes "m_name (tt_meta inst) \<noteq> ''''" and "tt_kind inst \<noteq> ''''"
    and "call (c_get cl (o_rtype r) (object_key_of r)) s = (Ok x, s1)"
  shows "(\<exists>p s2. Cleanup cl inst r s = (Panic p, s2)) \<longleftrightarrow>
     m_namespace (o_meta r) \<noteq> m_namespace (tt_meta inst) \<and>
     m_ownerReferences (o_meta x) \<noteq> [] \<and> m_ownerReferences (o_meta r) = []"
proof -
  have "(\<exists>p r'. isResourceOwned inst r x = (Panic p, r')) \<longleftrightarrow> m_namespace (o_meta r) \<noteq> m_namespace (tt_meta inst) \<and>
     m_ownerReferences (o_meta x) \<noteq> [] \<and> m_ownerReferences (o_meta r) = []"
    using assms(1,2)
    by (auto simp: isResourceOwned_def SetOwnerAnnotations_def SetControllerReference_empty Let_def upd_meta_def
        split: sum.splits option.splits if_splits)
  then show ?thesis
    using assms(3) by (auto simp: Cleanup_def call_not_Panic split: prod.splits outcome.splits)
qed

definition adopted_role :: object where
  \<comment> \<open>a deployed ClusterRole to which an owner was added\<close>
  "adopted_role = upd_meta (\<lambda>m. m\<lparr>m_resourceVersion := ''1'',
     m_ownerReferences := [owner_ref_of sample_tt]\<rparr>) sample_role"

definition adopted_cluster :: fake_cluster where
  "adopted_cluster = empty_cluster\<lparr>fc_objects :=
     (\<lambda>_. fmempty)(ClusterRole := fmupd (object_key_of sample_role) adopted_role fmempty)\<rparr>"

theorem cleanup_panics_on_owner_references_witness:
  "\<exists>p s2. Cleanup fake_client sample_tt sample_role (sample_sys adopted_cluster) = (Panic p, s2)"
proof -
  have "call (c_get fake_client (o_rtype sample_role) (object_key_of sample_role)) (sample_sys adopted_cluster) =
      (Ok (fake_read ClusterRole adopted_role), sample_sys adopted_cluster)"
    by (simp add: call_def fake_get_def adopted_cluster_def sample_sys_def sample_defs o_rtype_def)
  from cleanup_panics_on_owner_references [OF _ _ this] show ?thesis
    by (simp add: fake_read_def adopted_role_def sample_defs upd_meta_def empty_meta_def object_json_def meta_json_def meta_norm_def object_norm_def)
qed

end
