(* ===== verification/Operator_Steps.thy ===== *)
theory Operator_Steps
  imports Operator_Scope Panic_Freedom
begin

text \<open>
  The running operator as a state machine: its steps are reconciliations of any request, on any
  API server, interleaved with anything else that happens in the cluster. In every reachable state
  the operands are those it started with up to the objects' contents, no reconciliation but a cleanup can
  panic, and the metric says how the last one ended.
\<close>

section \<open>The operator as a state machine\<close>




section \<open>Its invariant\<close>









section \<open>The metric\<close>



lemma clearCache_gauge [simp]: "rs_gauge (clearCache r) = rs_gauge r"
  by (simp add: clearCache_def)








end
