(* ===== verification/Self_Healing.thy ===== *)
theory Self_Healing
  imports Controller_Deploy
begin

text \<open>
  The operator over time: once a resource is deployed, whatever others do to the operator's
  objects in between is undone by the next reconciliation, and when nobody does anything, no
  object is written.
\<close>

section \<open>Rounds of disturbance and reconciliation\<close>

text \<open>
  What others may do between two reconciliations: delete objects, or write them, so that the API
  server serves a version the operator has not recorded; of the \<open>TektonTasks\<close> resource they may change
  what does not decide what is deployed (its status, annotations, finalizers), as
  long as it is not being paused or deleted.
\<close>

definition disturbed ::
  "environ \<Rightarrow> object_key \<Rightarrow> TektonTasks \<Rightarrow> tektonTasks \<Rightarrow> tektonPipelines \<Rightarrow>
   fake_cluster tektonTasksReconciler \<Rightarrow> fake_cluster \<Rightarrow> bool" where
  "disturbed env k t0 t p r w \<longleftrightarrow>
     (\<exists>t1. ready k t1 w \<and> same_owner (fake_read_tt t1) (fake_read_tt t0)) \<and>
     list_all (\<lambda>(rt, i). fake_view w rt i = fake_view (world (rs_sys r)) rt i \<or>
                         fresh_at (fake_view w) (vcache (rs_sys r)) rt i)
       (operand_targets env (fake_read_tt t0) t p)"

definition in_world :: "'w tektonTasksReconciler \<Rightarrow> 'w \<Rightarrow> 'w tektonTasksReconciler" where
  "in_world r w = r\<lparr>rs_sys := (rs_sys r)\<lparr>world := w\<rparr>\<rparr>"

inductive rounds ::
  "environ \<Rightarrow> object_key \<Rightarrow> TektonTasks \<Rightarrow> tektonTasks \<Rightarrow> tektonPipelines \<Rightarrow>
   fake_cluster tektonTasksReconciler \<Rightarrow> fake_cluster tektonTasksReconciler \<Rightarrow> bool"
  for env k t0 t p r where
  Start: "rounds env k t0 t p r r"
| Round: "rounds env k t0 t p r r1 \<Longrightarrow> disturbed env k t0 t p r1 w \<Longrightarrow>
    rounds env k t0 t p r (snd (controller_Reconcile fake_client env now k (in_world r1 w)))"

text \<open>The state between two reconciliations.\<close>

definition keeps_deployed where
  "keeps_deployed env k t0 t p r \<longleftrightarrow>
     (\<exists>t1. ready k t1 (world (rs_sys r)) \<and> same_owner (fake_read_tt t1) (fake_read_tt t0) \<and> deployed_status env t1) \<and>
     (\<exists>t' p'. rs_operands r = [TasksOperand t', PipelinesOperand p'] \<and>
        operands_settled env (fake_read_tt t0) t p t' p' (fake_view (world (rs_sys r)))) \<and>
     cache_wf (vcache (rs_sys r))"

lemma fresh_at_empty: "fresh_at v vc rt i \<Longrightarrow> fresh_at v fmempty rt i"
  by (simp add: fresh_at_def)

lemma cleared_cache:
  "vcache (rs_sys (clearCacheIfNeeded t r)) = vcache (rs_sys r) \<or> vcache (rs_sys (clearCacheIfNeeded t r)) = fmempty"
  by (simp add: clearCacheIfNeeded_def)

lemma in_world_simps [simp]:
  "world (rs_sys (in_world r w)) = w" "vcache (rs_sys (in_world r w)) = vcache (rs_sys r)"
  "rs_operands (in_world r w) = rs_operands r"
  by (simp_all add: in_world_def)

lemma first_deployment:
  assumes w: "ready k t0 (world (rs_sys r))"
    and gate: "DeployTektonTaskResources (Spec_FeatureGates (Spec t0))"
    and ops: "rs_operands r = [TasksOperand t, PipelinesOperand p]" "operands_deployable env (fake_read_tt t0) t p"
    and cache: "cache_wf (vcache (rs_sys (clearCacheIfNeeded (fake_read_tt t0) r)))"
      "list_all (\<lambda>(rt, i). fresh_at (fake_view (world (rs_sys r)))
           (vcache (rs_sys (clearCacheIfNeeded (fake_read_tt t0) r))) rt i)
         (operand_targets env (fake_read_tt t0) t p)"
  shows "keeps_deployed env k t0 t p (snd (controller_Reconcile fake_client env now k r))"
proof -
  have h: "fake_tt_healthy (world (rs_sys r))" "fmlookup (fc_tts (world (rs_sys r))) k = Some t0"
    using w by (simp_all add: ready_def)
  have "m_name (tt_meta (fake_read_tt t0)) \<noteq> ''''" "tt_kind (fake_read_tt t0) \<noteq> ''''"
    using fake_request(4) [OF h] by simp_all
  from controller_settles [OF w gate ops(1) cache(1) operands_ready_start [OF this ops(2) cache(2)], where now = now]
  show ?thesis unfolding keeps_deployed_def by auto
qed

text \<open>One round keeps it.\<close>

lemma one_round:
  assumes r: "keeps_deployed env k t0 t p r" and d: "disturbed env k t0 t p r w"
    and gate: "DeployTektonTaskResources (Spec_FeatureGates (Spec t0))"
  shows "\<exists>r'. controller_Reconcile fake_client env now k (in_world r w) = (Ok False, r') \<and>
     keeps_deployed env k t0 t p r'"
proof -
  obtain t1 where t1: "ready k t1 w" "same_owner (fake_read_tt t1) (fake_read_tt t0)"
    using d unfolding disturbed_def by blast
  obtain t' p' where ops: "rs_operands r = [TasksOperand t', PipelinesOperand p']"
    "operands_settled env (fake_read_tt t0) t p t' p' (fake_view (world (rs_sys r)))" and wf: "cache_wf (vcache (rs_sys r))"
    using r unfolding keeps_deployed_def by blast
  let ?vc = "vcache (rs_sys (clearCacheIfNeeded (fake_read_tt t1) (in_world r w)))"
  have vc: "?vc = vcache (rs_sys r) \<or> ?vc = fmempty"
    using cleared_cache [of "fake_read_tt t1" "in_world r w"] by simp
  then have wf': "cache_wf ?vc" using wf by auto
  have "fresh_at (fake_view w) ?vc rt i" if "fresh_at (fake_view w) (vcache (rs_sys r)) rt i" for rt i
    using vc that fresh_at_empty by metis
  then have "list_all (\<lambda>(rt, i). fake_view w rt i = fake_view (world (rs_sys r)) rt i \<or> fresh_at (fake_view w) ?vc rt i)
       (operand_targets env (fake_read_tt t0) t p)"
    using d unfolding disturbed_def list_all_iff by blast
  from operands_settled_ready [OF ops(2) this]
  have "operands_ready env (fake_read_tt t1) t p t' p' (fake_view w) ?vc"
    by (simp add: same_owner_operands [OF t1(2)])
  moreover have "DeployTektonTaskResources (Spec_FeatureGates (Spec t1))"
    using gate t1(2) by (simp add: same_owner_def)
  ultimately obtain r' t2 t2' p2' where 2:
     "controller_Reconcile fake_client env now k (in_world r w) = (Ok False, r')"
     "ready k t2 (world (rs_sys r'))" "same_owner (fake_read_tt t2) (fake_read_tt t1)" "deployed_status env t2"
     "rs_operands r' = [TasksOperand t2', PipelinesOperand p2']" "cache_wf (vcache (rs_sys r'))"
     "operands_settled env (fake_read_tt t1) t p t2' p2' (fake_view (world (rs_sys r')))"
    using controller_settles [of k t1 "in_world r w" t' p' env t p now] t1(1) ops(1) wf' by auto
  show ?thesis
    using 2 same_owner_trans [OF 2(3) t1(2)] same_owner_operands(2) [OF t1(2)]
    unfolding keeps_deployed_def by blast
qed

lemma rounds_keep:
  assumes "rounds env k t0 t p r r1" and "keeps_deployed env k t0 t p r"
    and "DeployTektonTaskResources (Spec_FeatureGates (Spec t0))"
  shows "keeps_deployed env k t0 t p r1"
  using assms(1)
proof induction
  case Start
  show ?case by (rule assms(2))
next
  case (Round r1 w now)
  then show ?case using one_round [OF Round.IH Round.hyps(2) assms(3), of now] by auto
qed

text \<open>
  Left alone, the operator writes no object, and what it writes into the status of the resource does
  not pass the filter of its own watch.
\<close>

definition unnoticed :: "object_key \<Rightarrow> fake_cluster \<Rightarrow> fake_cluster \<Rightarrow> bool" where
  "unnoticed k w w' \<longleftrightarrow> fake_view w' = fake_view w \<and>
     (\<exists>t1 t2. fmlookup (fc_tts w) k = Some t1 \<and> fmlookup (fc_tts w') k = Some t2 \<and>
        \<not> watch_predicate (UpdateEvent (fake_read_tt t1) (fake_read_tt t2)))"

lemma idle_round:
  assumes r: "keeps_deployed env k t0 t p r"
    and gate: "DeployTektonTaskResources (Spec_FeatureGates (Spec t0))"
  shows "\<exists>r'. controller_Reconcile fake_client env now k r = (Ok False, r') \<and>
     rs_operands r' = rs_operands r \<and> unnoticed k (world (rs_sys r)) (world (rs_sys r'))"
proof -
  obtain t1 where t1: "ready k t1 (world (rs_sys r))" "same_owner (fake_read_tt t1) (fake_read_tt t0)"
    using r unfolding keeps_deployed_def by blast
  obtain t' p' where ops: "rs_operands r = [TasksOperand t', PipelinesOperand p']"
    "operands_settled env (fake_read_tt t0) t p t' p' (fake_view (world (rs_sys r)))"
    using r unfolding keeps_deployed_def by blast
  let ?i = "fake_read_tt t1" and ?c = "clearCacheIfNeeded (fake_read_tt t1) r"
  define Q where "Q ops vc v \<longleftrightarrow> ops = rs_operands r \<and> v = fake_view (world (rs_sys r))"
    for ops v and vc :: version_cache
  have run: "\<exists>results ops' s'. reconcileOperands fake_client env i (rs_operands ?c) s = (Ok results, (ops', s')) \<and>
        list_all IsSuccess results \<and> fake_healthy (world s') \<and> fc_tts (world s') = fc_tts (world s) \<and>
        Q ops' (vcache s') (fake_view (world s'))"
    if s: "same_owner i ?i" "vcache s = vcache (rs_sys ?c)" "fake_view (world s) = fake_view (world (rs_sys ?c))"
      "fake_healthy (world s)" for i s
  proof -
    have "operands_settled env i t p t' p' (fake_view (world s))"
      using ops(2) s(3) by (simp add: same_owner_operands [OF same_owner_trans [OF s(1) t1(2)]])
    from reconcileOperands_settled [OF s(4) this] obtain results s' where
      "reconcileOperands fake_client env i (rs_operands r) s = (Ok results, (rs_operands r, s'))"
      "list_all IsSuccess results" "world s' = world s" unfolding ops(1) by blast
    with s(3,4) show ?thesis by (simp add: Q_def)
  qed
  have h: "fake_tt_healthy (world (rs_sys r))" "fmlookup (fc_tts (world (rs_sys r))) k = Some t1"
    "fake_healthy (world (rs_sys r))"
    using t1(1) by (simp_all add: ready_def)
  have "served ?i (world (rs_sys ?c))" using fake_request [OF h(1,2)] h(3) by (simp add: served_def)
  moreover have "DeployTektonTaskResources (Spec_FeatureGates (Spec ?i))" using gate t1(2) by (simp add: same_owner_def)
  ultimately have "\<exists>r' t2. reconcile_deploy fake_client env now ?i ?c = (Ok False, r') \<and> rs_gauge r' = 1 \<and>
     served t2 (world (rs_sys r')) \<and>
     fc_tts (world (rs_sys r')) = fmupd (tt_key ?i) t2 (fc_tts (world (rs_sys ?c))) \<and>
     (\<exists>v st. t2 = with_rv v (upd_status (\<lambda>_. st) ?i)) \<and> deployed_status env t2 \<and>
     Q (rs_operands r') (vcache (rs_sys r')) (fake_view (world (rs_sys r')))"
    by (rule reconcile_deploy_ok) (rule run)
  then obtain r' t2 v st where d: "reconcile_deploy fake_client env now ?i ?c = (Ok False, r')"
     "fc_tts (world (rs_sys r')) = fmupd k t2 (fc_tts (world (rs_sys ?c)))" "t2 = with_rv v (upd_status (\<lambda>_. st) ?i)"
     "rs_operands r' = rs_operands r" "fake_view (world (rs_sys r')) = fake_view (world (rs_sys r))"
    unfolding Q_def fake_request(3) [OF h(1,2)] by blast
  have "\<not> watch_predicate (UpdateEvent ?i (fake_read_tt t2))" by (simp add: d(3) meta_json_def)
  then have "unnoticed k (world (rs_sys r)) (world (rs_sys r'))"
    using d(2,5) h(2) by (auto simp: unnoticed_def)
  moreover have "controller_Reconcile fake_client env now k r = (Ok False, r')"
    by (simp add: controller_Reconcile_def ready_reconciles [OF t1(1)] d(1))
  ultimately show ?thesis using d(4) by blast
qed

definition sample_deployed :: "fake_cluster tektonTasksReconciler" where
  "sample_deployed = snd (controller_Reconcile fake_client sample_env 7 (''kubevirt'', ''tt'')
     (NewTektonReconciler sample_operands sample_cluster))"





text \<open>
  C7. An operator that is left alone writes no object and does not wake itself up: after the
  reconciliation that deploys a resource, and after any rounds of disturbance and repair, one more
  reconciliation leaves every object as it is, its resource version included, and the elements in the
  operands' hands too; of the resource it writes only the status, which its own watch filters out.
\<close>

theorem deployed_operator_idles:
  assumes "ready k t0 (world (rs_sys r))"
    and "DeployTektonTaskResources (Spec_FeatureGates (Spec t0))"
    and "rs_operands r = [TasksOperand t, PipelinesOperand p]" "operands_deployable env (fake_read_tt t0) t p"
    and "cache_wf (vcache (rs_sys (clearCacheIfNeeded (fake_read_tt t0) r)))"
      "list_all (\<lambda>(rt, i). fresh_at (fake_view (world (rs_sys r)))
           (vcache (rs_sys (clearCacheIfNeeded (fake_read_tt t0) r))) rt i)
         (operand_targets env (fake_read_tt t0) t p)"
    and "rounds env k t0 t p (snd (controller_Reconcile fake_client env now k r)) r1"
  shows "\<exists>r2. controller_Reconcile fake_client env now2 k r1 = (Ok False, r2) \<and>
     rs_operands r2 = rs_operands r1 \<and> unnoticed k (world (rs_sys r1)) (world (rs_sys r2))"
  by (rule idle_round [OF rounds_keep [OF assms(7) first_deployment [OF assms(1-6)] assms(2)] assms(2)])

theorem deployed_operator_idles_witness:
  "\<exists>r2. controller_Reconcile fake_client sample_env 9 (''kubevirt'', ''tt'') sample_deployed = (Ok False, r2) \<and>
     rs_operands r2 = rs_operands sample_deployed \<and>
     unnoticed (''kubevirt'', ''tt'') (world (rs_sys sample_deployed)) (world (rs_sys r2))"
  by (rule deployed_operator_idles [OF sample_first]) (unfold sample_deployed_def, rule rounds.Start)

end
