(* ===== verification/Setup_Contract.thy ===== *)
theory Setup_Contract
  imports Controller_Lifecycle
begin

text \<open>
  What start-up and waiting for CRDs guarantee: which controller starts and what it watches, when
  the waiting controller finishes, and what the status it reports while it waits leads to.
\<close>

section \<open>Which controller starts\<close>

text \<open>
  The check at start-up finds the required CRDs exactly when each of their names is the
  name of a CRD in the cluster, in any order and with any number of others.
\<close>

theorem requiredCrdsExist_iff:
  "requiredCrdsExist required found \<longleftrightarrow> set required \<subseteq> crd_name ` set found"
  by (induction required) (auto simp: list_ex_iff)

text \<open>
  C35. Start-up, given what its three reads return: an error of any of them ends it; otherwise
  the operands are built from the two bundles, tasks first, and the controller starts now, with its watches,
  exactly when the CRD of tasks exists, and else waits for it.
\<close>

theorem startup_decision:
  assumes "ReadTasksBundle lib fs reader w = (tb, w1)" and "ReadPipelineBundle lib fs reader w1 = (pb, w2)"
    and "c_list_crds reader w2 = (cs, w3)"
  shows "fst (CreateAndSetupReconciler lib fs reader w) =
    (case (tb, pb, cs) of
       (Inr b1, Inr b2, Inr crds) \<Rightarrow>
         (let ops = [TasksOperand (tt_New b1), PipelinesOperand (tp_New b2)]
          in if ''tasks.tekton.dev'' \<in> crd_name ` set crds then StartController ops (setupController ops)
             else WaitForCrds [''tasks.tekton.dev'', ''tasks.tekton.dev''] ops)
     | (Inl e, _, _) \<Rightarrow> StartupError e
     | (Inr _, Inl e, _) \<Rightarrow> StartupError e
     | (Inr _, Inr _, Inl e) \<Rightarrow> StartupError e)"
proof (cases tb)
  case (Inl e)
  then show ?thesis using assms by (simp add: CreateAndSetupReconciler_def)
next
  case tb: (Inr b1)
  show ?thesis
  proof (cases pb)
    case (Inl e)
    then show ?thesis using assms tb by (simp add: CreateAndSetupReconciler_def)
  next
    case pb: (Inr b2)
    have r: "concat (map operand_RequiredCrds [TasksOperand (tt_New b1), PipelinesOperand (tp_New b2)]) =
        [''tasks.tekton.dev'', ''tasks.tekton.dev'']"
      by (simp add: tt_requiredCRDs_def tp_requiredCRDs_def)
    have i: "requiredCrdsExist [''tasks.tekton.dev'', ''tasks.tekton.dev''] crds \<longleftrightarrow>
        ''tasks.tekton.dev'' \<in> crd_name ` set crds" for crds
      by (auto simp: list_ex_iff)
    show ?thesis
      unfolding CreateAndSetupReconciler_def assms(1,2) tb pb prod.case sum.case Let_def r i
      by (cases cs) (simp_all add: assms(3))
  qed
qed

text \<open>A cluster that holds a list of CRDs, for which the bundles are empty files.\<close>

definition crds_client :: "crd list client" where
  "crds_client = undefined\<lparr>c_get_clusterversion := \<lambda>n w. (Inr (), w), c_list_crds := \<lambda>w. (Inr w, w)\<rparr>"

definition blank_lib :: "(string \<times> string) yaml_lib" where
  "blank_lib = sample_lib\<lparr>yl_documents := \<lambda>_. ([], None)\<rparr>"

lemma blank_decode: "decode_files blank_lib files b = Inr b"
  by (induction files) (simp_all add: blank_lib_def)

theorem startup_decision_witness:
  "\<exists>ops. fst (CreateAndSetupReconciler blank_lib sample_files crds_client
         [\<lparr>crd_name = ''tasks.tekton.dev'', crd_deletionTimestamp = None\<rparr>]) = StartController ops (setupController ops) \<and>
     fst (CreateAndSetupReconciler blank_lib sample_files crds_client []) =
         WaitForCrds [''tasks.tekton.dev'', ''tasks.tekton.dev''] ops"
proof -
  have t: "ReadTasksBundle blank_lib sample_files crds_client cs = (Inr empty_bundle, cs)"
    "ReadPipelineBundle blank_lib sample_files crds_client cs = (Inr empty_bundle, cs)"
    "c_list_crds crds_client cs = (Inr cs, cs)" for cs
    by (simp_all add: ReadTasksBundle_def ReadPipelineBundle_def runningOnOpenshift_def crds_client_def readFile_def
        sample_files_def decodeObjectsFromFiles_def readFolder_def blank_decode del: decode_files.simps)
  show ?thesis
    by (intro exI conjI; subst startup_decision [OF t]) (simp_all add: Let_def)
qed

section \<open>The watches\<close>

lemma watch_types_set: "set (watch_types h seen ts) = (\<lambda>rt. (rt, h)) ` (set ts - set seen)"
  by (induction ts arbitrary: seen) auto

lemma watch_types_distinct: "distinct (map fst (watch_types h seen ts))"
proof (induction ts arbitrary: seen)
  case (Cons t ts)
  have "t \<notin> fst ` set (watch_types h (t # seen) ts)" by (auto simp: watch_types_set)
  then show ?case using Cons by simp
qed simp

text \<open>
  The controller watches every type of object that some operand asks to watch, each once, by
  the annotations that name the owner; there is no watch that goes by owner references.
\<close>

theorem setupController_watches:
  "distinct (map fst (setupController ops)) \<and>
   set (setupController ops) = {(rt, EnqueueRequestForAnnotation) |rt. \<exists>op \<in> set ops. rt \<in> set (operand_WatchClusterTypes op)}"
proof -
  have "operand_WatchTypes op = []" for op by (cases op) (simp_all add: tt_WatchTypes_def tp_WatchTypes_def)
  then have none: "concat (map operand_WatchTypes ops) = []" by simp
  have e: "setupController ops = watch_types EnqueueRequestForAnnotation [] (concat (map operand_WatchClusterTypes ops))"
    by (simp add: setupController_def watchClusterResources_def watchNamespacedResources_def watchResources_def none)
  show ?thesis
    unfolding e watch_types_set by (rule conjI [OF watch_types_distinct]) auto
qed

lemma startup_watches:
  "fst ` set (setupController [TasksOperand t, PipelinesOperand p]) =
     {ClusterRole, ClusterTask, RoleBinding, ServiceAccount, Pipeline, ConfigMap}"
proof -
  have "set (setupController [TasksOperand t, PipelinesOperand p]) = (\<lambda>rt. (rt, EnqueueRequestForAnnotation)) `
      (set tt_WatchClusterTypes \<union> set tp_WatchClusterTypes)"
    by (simp add: setupController_def watchClusterResources_def watchNamespacedResources_def watchResources_def
        tt_WatchTypes_def tp_WatchTypes_def watch_types_set)
  then show ?thesis by (auto simp: tt_WatchClusterTypes_def tp_WatchClusterTypes_def image_image)
qed

lemma slot_type_tasks: "tt_slot_type j = Task \<longleftrightarrow> (\<exists>i. j = TaskAt i)" "tp_slot_type k \<noteq> Task" "tp_slot_type k \<noteq> ClusterTask"
  by (cases j; simp) (cases k; simp)+

text \<open>
  C40. Of the types the operands deploy, Task is the only one that the controller does not watch: it
  watches ClusterTask, which nothing deploys. So a deployed task that is changed or
  deleted causes no reconciliation, however many tasks the operand deploys.
\<close>

theorem deployed_tasks_not_watched:
  "fst ` set (operand_targets env inst t p) - fst ` set (setupController [TasksOperand t, PipelinesOperand p]) \<subseteq> {Task} \<and>
   Task \<notin> fst ` set (setupController [TasksOperand t, PipelinesOperand p]) \<and>
   length (filter (\<lambda>(rt, key). rt = Task) (operand_targets env inst t p)) = length (tt_tasks t)"
proof (intro conjI)
  have "tt_slot_type j \<in> {Task, ClusterRole, ServiceAccount, RoleBinding}" for j by (cases j) simp_all
  then have types: "tt_slot_type ` S \<subseteq> {Task, ClusterRole, ServiceAccount, RoleBinding}" for S by blast
  have "tp_slot_type j \<in> {Pipeline, ConfigMap, ServiceAccount, ClusterRole, RoleBinding}" for j by (cases j) simp_all
  then have types': "tp_slot_type ` S \<subseteq> {Pipeline, ConfigMap, ServiceAccount, ClusterRole, RoleBinding}" for S by blast
  have "fst ` set (operand_targets env inst t p) = tt_slot_type ` set (tt_slots_of t) \<union> tp_slot_type ` set (tp_slots_of inst p)"
    by (simp add: operand_targets_def tt_target_def tp_target_def image_Un image_image)
  then have "fst ` set (operand_targets env inst t p) \<subseteq> {Task, ClusterRole, ServiceAccount, RoleBinding} \<union>
      {Pipeline, ConfigMap, ServiceAccount, ClusterRole, RoleBinding}"
    using types types' by (metis Un_mono)
  then show "fst ` set (operand_targets env inst t p) - fst ` set (setupController [TasksOperand t, PipelinesOperand p]) \<subseteq> {Task}"
    unfolding startup_watches by blast
  show "Task \<notin> fst ` set (setupController [TasksOperand t, PipelinesOperand p])"
    unfolding startup_watches by simp
  have "filter (\<lambda>j. tt_slot_type j = Task) (tt_slots_of t) = map TaskAt [0..<length (tt_tasks t)]"
    by (simp add: tt_slots_of_def slot_type_tasks comp_def filter_map)
  then show "length (filter (\<lambda>(rt, key). rt = Task) (operand_targets env inst t p)) = length (tt_tasks t)"
    by (simp add: operand_targets_def filter_map comp_def tt_target_def tp_target_def slot_type_tasks)
qed

section \<open>Waiting for the required CRDs\<close>

text \<open>
  The runs of the waiting controller, with what it saw: for every request that was processed, the name of
  the CRD and whether it existed and was not being deleted, latest first. Requests that fail and
  other events in the cluster leave the list as it is.
\<close>

inductive waiting ::
  "'w client \<Rightarrow> environ \<Rightarrow> string list \<Rightarrow> (string \<times> bool) list \<Rightarrow> 'w waitForCrds \<Rightarrow> bool" for cl env required where
  Begin: "waiting cl env required [] \<lparr>wf_crds = CreateCrdController_crds required, wf_world = w\<rparr>"
| Seen: "waiting cl env required hist wc \<Longrightarrow> waitForCrds_Reconcile cl env now req wc = (Inr finished, wc') \<Longrightarrow>
    waiting cl env required ((snd req, crd_seen) # hist) wc'"
  if "crd_seen \<longleftrightarrow> (case c_get_crd cl req (snd (setConditions cl env now (wf_world wc))) of
        (Inr crd, w) \<Rightarrow> time_is_zero (crd_deletionTimestamp crd) | (Inl e, w) \<Rightarrow> False)"
| Failed: "waiting cl env required hist wc \<Longrightarrow> waitForCrds_Reconcile cl env now req wc = (Inl e, wc') \<Longrightarrow>
    waiting cl env required hist wc'"
| Elsewhere: "waiting cl env required hist wc \<Longrightarrow> waiting cl env required hist (wc\<lparr>wf_world := w\<rparr>)"

definition last_seen :: "(string \<times> bool) list \<Rightarrow> string \<Rightarrow> bool" where
  "last_seen hist c = (map_of hist c = Some True)"

lemma CreateCrdController_crds_lookup:
  "fmlookup (CreateCrdController_crds required) c = (if c \<in> set required then Some False else None)"
proof -
  have "fmlookup (foldl (\<lambda>m c. fmupd c False m) m cs) c = (if c \<in> set cs then Some False else fmlookup m c)" for cs m
    by (induction cs arbitrary: m) auto
  then show ?thesis by (simp add: CreateCrdController_crds_def)
qed

lemma waitForCrds_Reconcile_crds:
  assumes "waitForCrds_Reconcile cl env now req wc = (q, wc')"
  shows "case q of Inl e \<Rightarrow> wf_crds wc' = wf_crds wc
    | Inr finished \<Rightarrow> (finished \<longleftrightarrow> allCrdsExist (wf_crds wc')) \<and>
        wf_crds wc' = (if fmlookup (wf_crds wc) (snd req) = None then wf_crds wc
          else fmupd (snd req) (case c_get_crd cl req (snd (setConditions cl env now (wf_world wc))) of
             (Inr crd, w) \<Rightarrow> time_is_zero (crd_deletionTimestamp crd) | (Inl e, w) \<Rightarrow> False) (wf_crds wc))"
  using assms
  by (auto simp: waitForCrds_Reconcile_def Let_def isCrdRequired_def setCrdExists_def split: prod.splits sum.splits if_splits)

lemma waiting_crds:
  assumes "waiting cl env required hist wc"
  shows "fmlookup (wf_crds wc) c = (if c \<in> set required then Some (last_seen hist c) else None)"
  using assms
proof (induction arbitrary: c rule: waiting.induct)
  case (Begin w)
  show ?case by (simp add: CreateCrdController_crds_lookup last_seen_def)
next
  case (Seen crd_seen now wc hist req finished wc')
  show ?case
    using waitForCrds_Reconcile_crds [OF Seen.hyps(3)] Seen.IH Seen.hyps(1) by (auto simp: last_seen_def)
next
  case (Failed hist wc now req e wc')
  show ?case using waitForCrds_Reconcile_crds [OF Failed.hyps(2)] Failed.IH by simp
next
  case (Elsewhere hist wc w)
  then show ?case by simp
qed

lemma allCrdsExist_iff: "allCrdsExist crds \<longleftrightarrow> (\<forall>c b. fmlookup crds c = Some b \<longrightarrow> b)"
  unfolding allCrdsExist_def by (metis fBallE fBallI fmranE fmranI)

text \<open>
  C38. However requests, failures and other events interleave, the waiting controller
  reports that it is finished exactly when each required CRD existed the last time it looked;
  a CRD that was deleted since makes it wait again, and CRDs that are not required do not matter.
\<close>

theorem wait_finishes_iff_all_seen:
  assumes "waiting cl env required hist wc"
    and "waitForCrds_Reconcile cl env now req wc = (Inr finished, wc')"
  shows "\<exists>crd_seen. waiting cl env required ((snd req, crd_seen) # hist) wc' \<and>
     (finished \<longleftrightarrow> (\<forall>c \<in> set required. last_seen ((snd req, crd_seen) # hist) c))"
proof -
  define crd_seen where "crd_seen \<longleftrightarrow> (case c_get_crd cl req (snd (setConditions cl env now (wf_world wc))) of
        (Inr crd, w) \<Rightarrow> time_is_zero (crd_deletionTimestamp crd) | (Inl e, w) \<Rightarrow> False)"
  have w: "waiting cl env required ((snd req, crd_seen) # hist) wc'"
    by (rule waiting.Seen [OF _ assms]) (simp add: crd_seen_def)
  have "finished \<longleftrightarrow> allCrdsExist (wf_crds wc')" using waitForCrds_Reconcile_crds [OF assms(2)] by simp
  also have "\<dots> \<longleftrightarrow> (\<forall>c \<in> set required. last_seen ((snd req, crd_seen) # hist) c)"
    using waiting_crds [OF w] by (auto simp: allCrdsExist_iff)
  finally show ?thesis using w by blast
qed

definition crd_cluster :: fake_cluster where
  "crd_cluster = empty_cluster\<lparr>fc_crds := fmupd ('''', ''x'') \<lparr>crd_name = ''x'', crd_deletionTimestamp = None\<rparr> fmempty\<rparr>"

lemma empty_setConditions:
  assumes "fc_tts w = fmempty" and "c_list_tt cl = fake_list_tt"
  shows "setConditions cl env now w = (Inr (), w)"
  using assms
  by (simp add: setConditions_def fake_list_tt_def sorted_list_of_fmap_def sorted_list_of_fset.rep_eq)

theorem wait_finishes_iff_all_seen_witness:
  "\<exists>crd_seen wc'. waitForCrds_Reconcile fake_client sample_env 7 ('''', ''x'')
       \<lparr>wf_crds = CreateCrdController_crds [''x''], wf_world = crd_cluster\<rparr> = (Inr True, wc') \<and>
     waiting fake_client sample_env [''x''] [(''x'', crd_seen)] wc' \<and> last_seen [(''x'', crd_seen)] ''x''"
proof -
  let ?wc = "\<lparr>wf_crds = CreateCrdController_crds [''x''], wf_world = crd_cluster\<rparr>"
  have s: "setConditions fake_client sample_env 7 crd_cluster = (Inr (), crd_cluster)"
    by (rule empty_setConditions) (simp_all add: crd_cluster_def empty_cluster_def)
  have g: "fake_get_crd ('''', ''x'') crd_cluster = (Inr \<lparr>crd_name = ''x'', crd_deletionTimestamp = None\<rparr>, crd_cluster)"
    by (simp add: fake_get_crd_def crd_cluster_def)
  have r: "isCrdRequired (CreateCrdController_crds [''x'']) ''x''"
      "allCrdsExist (setCrdExists ''x'' True (CreateCrdController_crds [''x'']))"
    by (simp_all add: isCrdRequired_def CreateCrdController_crds_lookup allCrdsExist_iff setCrdExists_def)
  have run: "waitForCrds_Reconcile fake_client sample_env 7 ('''', ''x'') ?wc =
      (Inr True, \<lparr>wf_crds = setCrdExists ''x'' True (CreateCrdController_crds [''x'']), wf_world = crd_cluster\<rparr>)"
    by (simp add: waitForCrds_Reconcile_def s g r Let_def)
  from wait_finishes_iff_all_seen [OF waiting.Begin [of fake_client sample_env "[''x'']" crd_cluster] run]
  show ?thesis unfolding run by auto
qed

section \<open>Stopping from inside\<close>

text \<open>
  The wrapper passes the reconciler's error on, stops the controller exactly when the reconciler
  reports that it is finished, and a stopped controller stays stopped.
\<close>

theorem wrapper_stops_when_finished:
  "case rec request (fc_reconciler c) of
     (Inl e, r) \<Rightarrow> wrapper_Reconcile rec request c = (Some e, c\<lparr>fc_reconciler := r\<rparr>)
   | (Inr finished, r) \<Rightarrow> \<exists>c'. wrapper_Reconcile rec request c = (None, c') \<and> fc_reconciler c' = r \<and>
       fc_stopped c' = (fc_stopped c \<or> finished)"
  by (simp add: wrapper_Reconcile_def split: prod.split sum.split)

section \<open>Reporting while waiting\<close>

lemma fake_list_one:
  assumes "fmlookup (fc_tts w) k = Some t0" "fmdom (fc_tts w) = {|k|}" "fake_tt_healthy w" "fst k = ns"
  shows "fake_list_tt (Some ns) w = (Inr [t0\<lparr>tt_meta := meta_json (tt_meta t0)\<rparr>], w)"
proof -
  have "sorted_list_of_fmap (fc_tts w) = [(k, t0)]"
    using assms(1,2) by (simp add: sorted_list_of_fmap_def sorted_list_of_fset.rep_eq)
  then show ?thesis using assms(4) by (simp add: fake_list_tt_def)
qed

lemma waiting_reports_run:
  assumes h: "fake_healthy w" "fake_tt_healthy w" "fmdom (fc_tts w) = {|k|}" "fmlookup (fc_tts w) k = Some t0"
    and ns: "fst k = GetOperatorNamespace env"
  shows "\<exists>t1 w'. setConditions fake_client env now w = (Inr (), w') \<and> fake_healthy w' \<and> fake_tt_healthy w' \<and>
     fake_view w' = fake_view w \<and> fc_tts w' = fmupd k t1 (fc_tts w) \<and> Spec t1 = Spec t0 \<and>
     m_finalizers (tt_meta t1) = m_finalizers (tt_meta t0) \<and> m_annotations (tt_meta t1) = smap_norm (m_annotations (tt_meta t0)) \<and>
     isBeingDeleted (tt_meta t1) = isBeingDeleted (tt_meta t0) \<and> deployed_status env t1 \<and>
     same_owner (fake_read_tt t1) (fake_read_tt t0)"
proof -
  define i where "i = t0\<lparr>tt_meta := meta_json (tt_meta t0)\<rparr>"
  let ?s = "\<lparr>world = w, vcache = fmempty, logs = []\<rparr> :: fake_cluster sys"
  have key: "tt_key t0 = k" using h(2,4) unfolding fake_tt_healthy_def by blast
  have "fake_tts.holds i w"
    using h(2,4) key by (auto simp: i_def fake_tts.holds_def fake_tts.up_to_date_def fake_stored_tt_def tt_key_def meta_json_def)
  then have sv: "served i (world ?s)" using h(1) by (simp add: served_def)
  define f where "f = reported env now [] (m_generation (tt_meta i))"
  from served_write [OF sv, of f] obtain v w' where
    1: "updateStatus fake_client env now [] (i, ?s) = (Ok (), (with_rv v (upd_status f i), ?s\<lparr>world := w'\<rparr>))"
      "served (with_rv v (upd_status f i)) w'" "fc_tts w' = fmupd (tt_key i) (with_rv v (upd_status f i)) (fc_tts w)"
      "fake_view w' = fake_view w"
    unfolding updateStatus_write f_def [symmetric] by auto
  let ?t1 = "with_rv v (upd_status f i)"
  have run: "setConditions fake_client env now w = (Inr (), w')"
    using 1(1) fake_list_one [OF h(4,3,2) ns] by (simp add: setConditions_def i_def [symmetric])
  have st: "deployed_status env ?t1" using reported_success [of "[]"] by (simp add: deployed_status_def f_def)
  have ki: "tt_key i = k" using key by (simp add: i_def tt_key_def)
  have own: "same_owner (fake_read_tt ?t1) (fake_read_tt t0)"
    by (simp add: same_owner_def fake_read_tt_def i_def meta_json_def meta_norm_def)
  have m: "m_finalizers (tt_meta i) = m_finalizers (tt_meta t0)" "m_annotations (tt_meta i) = smap_norm (m_annotations (tt_meta t0))"
      "isBeingDeleted (tt_meta i) = isBeingDeleted (tt_meta t0)"
    by (simp_all add: i_def)
  have del: "isBeingDeleted (tt_meta ?t1) = isBeingDeleted (tt_meta i)" by (simp add: isBeingDeleted_def)
  show ?thesis
    using run 1(2-4) st ki own m del h(1)
    by (intro exI [of _ ?t1] exI [of _ w']) (simp add: served_def fake_tts.holds_def i_def)
qed

text \<open>
  C39. While it waits for the CRDs, the operator reports a resource in its namespace as Deployed and
  available although nothing is deployed. When the controller starts afterwards it takes the
  resource for an initialised one: it deploys both operands, and the finalizer that would make
  the operator clean them up is never added.
\<close>

theorem waiting_skips_finalizer:
  assumes "fake_healthy w" "fake_tt_healthy w" "fmdom (fc_tts w) = {|k|}" "fmlookup (fc_tts w) k = Some t0"
    and "fst k = GetOperatorNamespace env"
    and "\<not> isBeingDeleted (tt_meta t0)" "\<not> isPaused (tt_meta t0)" "m_finalizers (tt_meta t0) = []"
    and "DeployTektonTaskResources (Spec_FeatureGates (Spec t0))"
    and "operands_deployable env (fake_read_tt t0) t p"
    and "list_all (\<lambda>(rt, i). fresh_at (fake_view w) fmempty rt i) (operand_targets env (fake_read_tt t0) t p)"
  shows "\<exists>w' t1 r' t2. setConditions fake_client env now w = (Inr (), w') \<and> fake_view w' = fake_view w \<and>
     fmlookup (fc_tts w') k = Some t1 \<and> deployed_status env t1 \<and>
     controller_Reconcile fake_client env now2 k (NewTektonReconciler [TasksOperand t, PipelinesOperand p] w') = (Ok False, r') \<and>
     all_deployed env (fake_read_tt t0) t p (fake_view (world (rs_sys r'))) \<and>
     fmlookup (fc_tts (world (rs_sys r'))) k = Some t2 \<and> m_finalizers (tt_meta t2) = []"
proof -
  obtain t1 w' where 1: "setConditions fake_client env now w = (Inr (), w')" "fake_healthy w'" "fake_tt_healthy w'"
     "fake_view w' = fake_view w" "fc_tts w' = fmupd k t1 (fc_tts w)" "Spec t1 = Spec t0"
     "m_finalizers (tt_meta t1) = m_finalizers (tt_meta t0)" "m_annotations (tt_meta t1) = smap_norm (m_annotations (tt_meta t0))"
     "isBeingDeleted (tt_meta t1) = isBeingDeleted (tt_meta t0)" "deployed_status env t1"
     "same_owner (fake_read_tt t1) (fake_read_tt t0)"
    using waiting_reports_run [OF assms(1-5), of now] by blast
  let ?r = "NewTektonReconciler [TasksOperand t, PipelinesOperand p] w'"
  note same = same_owner_deployable [OF 1(11)]
  have rd: "ready k t1 (world (rs_sys ?r))"
    using 1 assms isPaused_norm [OF 1(8)]
    by (simp add: ready_def deployed_status_def ContainsFinalizer_def)
  have vc: "vcache (rs_sys (clearCacheIfNeeded (fake_read_tt t1) ?r)) = fmempty" by (simp add: clearCacheIfNeeded_def)
  have tgt: "operand_targets env (fake_read_tt t1) t p = operand_targets env (fake_read_tt t0) t p"
    by (simp add: operand_targets_def same)
  have dep: "operands_deployable env (fake_read_tt t1) t p" using assms(10) by (simp add: operands_deployable_def same)
  have all: "all_deployed env (fake_read_tt t1) t p x \<longleftrightarrow> all_deployed env (fake_read_tt t0) t p x" for x
    by (simp add: all_deployed_def same)
  have gate: "DeployTektonTaskResources (Spec_FeatureGates (Spec t1))" using assms(9) 1(6) by simp
  have ops: "rs_operands ?r = [TasksOperand t, PipelinesOperand p]" by simp
  have cw: "cache_wf (vcache (rs_sys (clearCacheIfNeeded (fake_read_tt t1) ?r)))" by (simp add: vc)
  have fr: "list_all (\<lambda>(rt, i). fresh_at (fake_view (world (rs_sys ?r)))
      (vcache (rs_sys (clearCacheIfNeeded (fake_read_tt t1) ?r))) rt i) (operand_targets env (fake_read_tt t1) t p)"
    using assms(11) by (simp add: vc tgt 1(4))
  obtain r' t2 where 2: "controller_Reconcile fake_client env now2 k ?r = (Ok False, r')"
      "fc_tts (world (rs_sys r')) = fmupd k t2 (fc_tts (world (rs_sys ?r)))"
      "m_finalizers (tt_meta t2) = m_finalizers (tt_meta t1)" "all_deployed env (fake_read_tt t0) t p (fake_view (world (rs_sys r')))"
    using controller_run [OF rd gate ops dep cw fr, of now2] unfolding all by blast
  show ?thesis
    using 1(1,4,5,7,10) 2 assms(8)
    by (intro exI [of _ w'] exI [of _ t1] exI [of _ r'] exI [of _ t2]) simp
qed

theorem waiting_skips_finalizer_witness:
  "\<exists>w' r' t2. setConditions fake_client (sample_env(''OPERATOR_NAMESPACE'' \<mapsto> ''kubevirt'')) 7 (cluster_with sample_tt) = (Inr (), w') \<and>
     controller_Reconcile fake_client (sample_env(''OPERATOR_NAMESPACE'' \<mapsto> ''kubevirt'')) 8 (''kubevirt'', ''tt'')
       (NewTektonReconciler sample_operands w') = (Ok False, r') \<and>
     fmlookup (fc_tts (world (rs_sys r'))) (''kubevirt'', ''tt'') = Some t2 \<and> m_finalizers (tt_meta t2) = []"
proof -
  let ?env = "sample_env(''OPERATOR_NAMESPACE'' \<mapsto> ''kubevirt'')"
  have own: "same_owner (fake_read_tt sample_tt) sample_tt"
    by (simp add: same_owner_def meta_json_def meta_norm_def smap_norm_def fake_read_tt_def
        GroupVersion_Group_def GroupVersion_Version_def)
  have tp: "tp_deployable sample_tt sample_pipelines"
    using sample_operands_deployable by (simp add: operands_deployable_def)
  have "operands_deployable ?env sample_tt sample_tasks_operand sample_pipelines"
    unfolding operands_deployable_def tt_deployable_def sample_pipelines_slots' sample_tasks_slots using tp
    by (simp add: tp_target_def tt_target_def sample_pipelines_def sample_tasks_operand_def
      prepared_task_def deployed_steps_def AllowedTasks_def task_name_defs sample_defs o_rtype_def
      empty_meta_def task_namespace_def set_namespace_def object_key_of_def upd_meta_def tp_prepare_defs)
  then have dep: "operands_deployable ?env (fake_read_tt sample_tt) sample_tasks_operand sample_pipelines"
    by (simp add: operands_deployable_def same_owner_deployable [OF own])
  have ns: "fst (''kubevirt'', ''tt'') = GetOperatorNamespace ?env"
    by (simp add: GetOperatorNamespace_def getenv_def OperatorNamespaceKey_def EnvOrDefault_def)
  show ?thesis
    using waiting_skips_finalizer [where w = "cluster_with sample_tt" and now = 7 and ?now2.0 = 8 and
        k = "(''kubevirt'', ''tt'')" and ?t0.0 = sample_tt, OF _ _ _ _ ns _ _ _ _ dep]
      cluster_with_healthy [OF like_sample_cases(1)]
    by (auto simp: sample_operands_def isBeingDeleted_def isPaused_def fresh_at_def list_all_iff)
qed

end
