(* ===== verification/Work_Queue.thy ===== *)
theory Work_Queue
  imports Prelude
begin

text \<open>
  What calls a reconciler: the vendored work queue (\<open>k8s.io/client-go/util/workqueue\<close>) and the
  workers of the vendored controller (\<open>sigs.k8s.io/controller-runtime/pkg/internal/controller\<close>). Events
  put requests into the queue, workers take them out and reconcile them, and a
  request that fails comes back. The main result is a locale: if a reconciliation
  establishes something about its request, and nobody destroys it without an event, then it holds
  of every request that is not on its way through the queue.
\<close>

section \<open>The queue\<close>

record 'q workqueue =
  wq_queue :: "'q list"
  wq_dirty :: "'q fset"
  wq_processing :: "'q fset"
  wq_shuttingDown :: bool

definition wq_New :: "'q workqueue" where
  "wq_New = \<lparr>wq_queue = [], wq_dirty = {||}, wq_processing = {||}, wq_shuttingDown = False\<rparr>"

definition wq_Add :: "'q \<Rightarrow> 'q workqueue \<Rightarrow> 'q workqueue" where
  "wq_Add item q =
     (if wq_shuttingDown q then q
      else if item |\<in>| wq_dirty q then q
      else (let q = q\<lparr>wq_dirty := finsert item (wq_dirty q)\<rparr>
            in if item |\<in>| wq_processing q then q
               else q\<lparr>wq_queue := wq_queue q @ [item]\<rparr>))"

text \<open>\<open>Get\<close> blocks while the queue is empty and not shut down.\<close>

datatype 'q got = Blocked | Shutdown | Got 'q

definition wq_Get :: "'q workqueue \<Rightarrow> 'q got \<times> 'q workqueue" where
  "wq_Get q =
     (case wq_queue q of
        [] \<Rightarrow> (if wq_shuttingDown q then Shutdown else Blocked, q)
      | item # rest \<Rightarrow>
          (Got item, q\<lparr>wq_queue := rest, wq_processing := finsert item (wq_processing q),
                      wq_dirty := wq_dirty q |-| {|item|}\<rparr>))"

definition wq_Done :: "'q \<Rightarrow> 'q workqueue \<Rightarrow> 'q workqueue" where
  "wq_Done item q =
     (let q = q\<lparr>wq_processing := wq_processing q |-| {|item|}\<rparr>
      in if item |\<in>| wq_dirty q then q\<lparr>wq_queue := wq_queue q @ [item]\<rparr> else q)"

definition wq_ShutDown :: "'q workqueue \<Rightarrow> 'q workqueue" where
  "wq_ShutDown q = q\<lparr>wq_shuttingDown := True\<rparr>"

definition wq_ok :: "'q workqueue \<Rightarrow> bool" where
  \<comment> \<open>what is queued is dirty, once, and not in the hands of a worker; what is dirty is one of the two\<close>
  "wq_ok q \<longleftrightarrow> distinct (wq_queue q) \<and>
     (\<forall>item. item \<in> set (wq_queue q) \<longleftrightarrow> item |\<in>| wq_dirty q \<and> item |\<notin>| wq_processing q)"

lemma wq_ok_operations:
  "wq_ok wq_New" "wq_ok q \<Longrightarrow> wq_ok (wq_Add item q)" "wq_ok q \<Longrightarrow> wq_ok (snd (wq_Get q))"
  "wq_ok q \<Longrightarrow> item |\<in>| wq_processing q \<Longrightarrow> wq_ok (wq_Done item q)" "wq_ok q \<Longrightarrow> wq_ok (wq_ShutDown q)"
proof -
  show "wq_ok wq_New" by (simp add: wq_ok_def wq_New_def)
  show "wq_ok q \<Longrightarrow> wq_ok (wq_ShutDown q)" by (simp add: wq_ok_def wq_ShutDown_def)
  assume q: "wq_ok q"
  show "wq_ok (wq_Add item q)" using q by (auto simp: wq_ok_def wq_Add_def Let_def)
  show "wq_ok (snd (wq_Get q))"
    using q by (cases "wq_queue q") (auto simp: wq_ok_def wq_Get_def)
  show "wq_ok (wq_Done item q)" if "item |\<in>| wq_processing q"
    using q that by (auto simp: wq_ok_def wq_Done_def Let_def)
qed

lemma wq_Get_processing: "wq_ok q \<Longrightarrow> wq_Get q = (Got item, q') \<Longrightarrow> item |\<notin>| wq_processing q"
  by (cases "wq_queue q") (auto simp: wq_ok_def wq_Get_def split: if_splits)

section \<open>The workers\<close>

text \<open>
  A running controller: the queue, the state \<open>'r\<close> of the reconciler and of the world it works on, the
  events that are on their way to the queue, and the requests that wait to be added again
  (\<open>AddRateLimited\<close>, which forgets them when the queue is shutting down).
\<close>

record ('q, 'r) running =
  run_queue :: "'q workqueue"
  run_state :: 'r
  run_events :: "'q fset"
  run_delayed :: "'q fset"

definition AddRateLimited :: "'q \<Rightarrow> ('q, 'r) running \<Rightarrow> ('q, 'r) running" where
  "AddRateLimited item s =
     (if wq_shuttingDown (run_queue s) then s else s\<lparr>run_delayed := finsert item (run_delayed s)\<rparr>)"

definition reconcileHandler :: "'q \<Rightarrow> bool outcome \<Rightarrow> ('q, 'r) running \<Rightarrow> ('q, 'r) running" where
  \<comment> \<open>what becomes of the request after the call of \<open>Reconcile\<close> that returned this; no result of this operator has a \<open>RequeueAfter\<close>\<close>
  "reconcileHandler req result s =
     (case result of
        Err e \<Rightarrow> AddRateLimited req s
      | Ok requeue \<Rightarrow> (if requeue then AddRateLimited req s else s)
      | Panic p \<Rightarrow> s)"

definition finish_item :: "'q \<Rightarrow> bool outcome \<Rightarrow> 'r \<Rightarrow> ('q, 'r) running \<Rightarrow> ('q, 'r) running" where
  \<comment> \<open>the rest of \<open>processNextWorkItem\<close> after \<open>Get\<close>, with its deferred \<open>Done\<close>\<close>
  "finish_item req result r s =
     (let s = reconcileHandler req result (s\<lparr>run_state := r\<rparr>)
      in s\<lparr>run_queue := wq_Done req (run_queue s)\<rparr>)"

definition notify :: "'q fset \<Rightarrow> ('q, 'r) running \<Rightarrow> ('q, 'r) running" where
  "notify reqs s = s\<lparr>run_events := run_events s |\<union>| reqs\<rparr>"

text \<open>
  The steps of a controller. \<open>reconcile\<close> relates a request and a state to what a call returns
  and leaves, and \<open>reports\<close> says which requests the watches may ask for because of what the call changed.
  A panic ends the process. The workers may be several; a call of \<open>Reconcile\<close> is one
  step, between taking the request and giving it back.
\<close>

inductive own_step ::
  "('q \<Rightarrow> 'r \<Rightarrow> bool outcome \<Rightarrow> 'r \<Rightarrow> bool) \<Rightarrow> ('r \<Rightarrow> 'r \<Rightarrow> 'q fset \<Rightarrow> bool) \<Rightarrow>
   ('q, 'r) running \<Rightarrow> ('q, 'r) running \<Rightarrow> bool" for reconcile reports where
  Delivered: "req |\<in>| run_events s \<Longrightarrow>
    own_step reconcile reports s (s\<lparr>run_events := run_events s |-| {|req|}, run_queue := wq_Add req (run_queue s)\<rparr>)"
| Taken: "wq_Get (run_queue s) = (Got req, q) \<Longrightarrow> own_step reconcile reports s (s\<lparr>run_queue := q\<rparr>)"
| Handled: "req |\<in>| wq_processing (run_queue s) \<Longrightarrow> reconcile req (run_state s) result r \<Longrightarrow> \<forall>p. result \<noteq> Panic p \<Longrightarrow>
    reports (run_state s) r reqs \<Longrightarrow> own_step reconcile reports s (notify reqs (finish_item req result r s))"
| Retried: "req |\<in>| run_delayed s \<Longrightarrow>
    own_step reconcile reports s (s\<lparr>run_delayed := run_delayed s |-| {|req|}, run_queue := wq_Add req (run_queue s)\<rparr>)"

text \<open>
  Beside them: others change the state, where \<open>change\<close> says what they may do and which requests the
  watches will ask for because of it; a request comes for another reason; the controller is stopped.
\<close>

inductive run_step ::
  "('q \<Rightarrow> 'r \<Rightarrow> bool outcome \<Rightarrow> 'r \<Rightarrow> bool) \<Rightarrow> ('r \<Rightarrow> 'r \<Rightarrow> 'q fset \<Rightarrow> bool) \<Rightarrow> ('r \<Rightarrow> 'r \<Rightarrow> 'q fset \<Rightarrow> bool) \<Rightarrow>
   ('q, 'r) running \<Rightarrow> ('q, 'r) running \<Rightarrow> bool" for reconcile reports change where
  Own: "own_step reconcile reports s s' \<Longrightarrow> run_step reconcile reports change s s'"
| Changed: "change (run_state s) r reqs \<Longrightarrow> run_step reconcile reports change s (notify reqs (s\<lparr>run_state := r\<rparr>))"
| Requested: "run_step reconcile reports change s (s\<lparr>run_queue := wq_Add req (run_queue s)\<rparr>)"
| Stopped: "run_step reconcile reports change s (s\<lparr>run_queue := wq_ShutDown (run_queue s)\<rparr>)"

inductive_cases own_stepE: "own_step reconcile reports s s'"
inductive_cases run_stepE: "run_step reconcile reports change s s'"

definition run_begin :: "'r \<Rightarrow> 'q fset \<Rightarrow> ('q, 'r) running" where
  \<comment> \<open>a started controller: the watches will report what there is\<close>
  "run_begin r reqs = \<lparr>run_queue = wq_New, run_state = r, run_events = reqs, run_delayed = {||}\<rparr>"

inductive controller_runs for reconcile reports change r reqs where
  Begin: "controller_runs reconcile reports change r reqs (run_begin r reqs)"
| Continue: "controller_runs reconcile reports change r reqs s \<Longrightarrow> run_step reconcile reports change s s' \<Longrightarrow>
    controller_runs reconcile reports change r reqs s'"

text \<open>Nothing is on its way: no event, no queued request, no request at a worker or waiting.\<close>

definition at_rest :: "('q, 'r) running \<Rightarrow> bool" where
  "at_rest s \<longleftrightarrow> run_events s = {||} \<and> wq_queue (run_queue s) = [] \<and>
     wq_processing (run_queue s) = {||} \<and> run_delayed s = {||}"

definition on_its_way :: "('q, 'r) running \<Rightarrow> 'q \<Rightarrow> bool" where
  "on_its_way s req \<longleftrightarrow> req |\<in>| run_events s \<or> req |\<in>| wq_dirty (run_queue s) \<or>
     req |\<in>| wq_processing (run_queue s) \<or> req |\<in>| run_delayed s"

lemma finish_item_simps [simp]:
  "run_state (finish_item req result r s) = r" "run_events (finish_item req result r s) = run_events s"
  "run_queue (finish_item req result r s) = wq_Done req (run_queue s)"
  by (simp_all add: finish_item_def reconcileHandler_def AddRateLimited_def Let_def split: outcome.split)

lemma notify_simps [simp]:
  "run_state (notify reqs s) = run_state s" "run_queue (notify reqs s) = run_queue s"
  "run_delayed (notify reqs s) = run_delayed s" "run_events (notify reqs s) = run_events s |\<union>| reqs"
  by (simp_all add: notify_def)

lemma own_step_wq_ok: "own_step reconcile reports s s' \<Longrightarrow> wq_ok (run_queue s) \<Longrightarrow> wq_ok (run_queue s')"
  by (erule own_stepE) (auto intro: wq_ok_operations(2,4,5) dest: wq_ok_operations(3))

lemma run_step_wq_ok: "run_step reconcile reports change s s' \<Longrightarrow> wq_ok (run_queue s) \<Longrightarrow> wq_ok (run_queue s')"
  by (erule run_stepE) (auto intro: wq_ok_operations(2,4,5) own_step_wq_ok)

lemma runs_wq_ok: "controller_runs reconcile reports change r reqs s \<Longrightarrow> wq_ok (run_queue s)"
  by (induction rule: controller_runs.induct) (auto simp: run_begin_def wq_ok_operations(1) run_step_wq_ok)

text \<open>One request that goes through the queue and is handled without an error or a retry.\<close>

definition rested :: "'r \<Rightarrow> ('q, 'r) running" where
  "rested r = \<lparr>run_queue = wq_New, run_state = r, run_events = {||}, run_delayed = {||}\<rparr>"

lemma rested_at_rest [simp]:
  "at_rest (rested r)" "run_state (rested r) = r" "\<not> wq_shuttingDown (run_queue (rested r))"
  by (simp_all add: rested_def at_rest_def wq_New_def)

lemma one_request:
  assumes "reconcile req r (Ok False) r'" and "reports r r' {||}"
  shows "controller_runs reconcile reports change r {|req|} (rested r')"
proof -
  let ?runs = "controller_runs reconcile reports change r {|req|}" and ?b = "run_begin r {|req|}"
  let ?q = "\<lparr>wq_queue = [], wq_dirty = {||}, wq_processing = {|req|}, wq_shuttingDown = False\<rparr>"
  have step: "?runs s \<Longrightarrow> own_step reconcile reports s s' \<Longrightarrow> ?runs s'" for s s'
    by (rule controller_runs.Continue [OF _ run_step.Own])
  have "?runs (?b\<lparr>run_events := {||}, run_queue := wq_Add req wq_New\<rparr>)"
    using step [OF controller_runs.Begin own_step.Delivered [of req ?b]] by (simp add: run_begin_def)
  moreover have "wq_Get (wq_Add req wq_New) = (Got req, ?q)"
    by (simp add: wq_Get_def wq_Add_def wq_New_def Let_def)
  ultimately have "?runs (?b\<lparr>run_events := {||}, run_queue := ?q\<rparr>)"
    using step [OF _ own_step.Taken] by fastforce
  then have "?runs (notify {||} (finish_item req (Ok False) r' (?b\<lparr>run_events := {||}, run_queue := ?q\<rparr>)))"
    using assms by (intro step [OF _ own_step.Handled]) (simp_all add: run_begin_def)
  then show ?thesis
    by (simp add: finish_item_def reconcileHandler_def run_begin_def rested_def wq_Done_def wq_New_def notify_def Let_def)
qed

lemma at_rest_nothing:
  assumes "wq_ok (run_queue s)" and "at_rest s"
  shows "\<not> on_its_way s req"
  using assms by (auto simp: wq_ok_def at_rest_def on_its_way_def)

lemma wq_Add_simps [simp]:
  "wq_shuttingDown (wq_Add item q) = wq_shuttingDown q" "wq_processing (wq_Add item q) = wq_processing q"
  "\<not> wq_shuttingDown q \<Longrightarrow> req |\<in>| wq_dirty (wq_Add item q) \<longleftrightarrow> req = item \<or> req |\<in>| wq_dirty q"
  by (auto simp: wq_Add_def Let_def)

lemma wq_Done_simps [simp]:
  "wq_shuttingDown (wq_Done item q) = wq_shuttingDown q"
  "wq_processing (wq_Done item q) = wq_processing q |-| {|item|}" "wq_dirty (wq_Done item q) = wq_dirty q"
  by (simp_all add: wq_Done_def Let_def)

lemma wq_ShutDown_simps [simp]: "wq_shuttingDown (wq_ShutDown q)"
  by (simp add: wq_ShutDown_def)

lemma wq_GetE:
  assumes "wq_Get q = (Got req, q')"
  obtains "wq_queue q = req # wq_queue q'" "wq_processing q' = finsert req (wq_processing q)"
    "wq_dirty q' = wq_dirty q |-| {|req|}" "wq_shuttingDown q' = wq_shuttingDown q"
  using assms by (cases "wq_queue q") (auto simp: wq_Get_def split: if_splits)

section \<open>Nothing is lost\<close>

text \<open>
  The contract of a reconciler that is driven by the level of things and not by the events: a
  reconciliation that ends without an error and without a retry makes \<open>good\<close> what its request stands
  for and spoils nothing else, and what others do spoils only what the watches ask for.
\<close>

locale level_triggered =
  fixes reconcile :: "'q \<Rightarrow> 'r \<Rightarrow> bool outcome \<Rightarrow> 'r \<Rightarrow> bool" and change :: "'r \<Rightarrow> 'r \<Rightarrow> 'q fset \<Rightarrow> bool"
    and inv :: "'r \<Rightarrow> bool" and good :: "'q \<Rightarrow> 'r \<Rightarrow> bool"
  assumes reconcile_inv: "inv r \<Longrightarrow> reconcile req r result r' \<Longrightarrow> \<forall>p. result \<noteq> Panic p \<Longrightarrow> inv r'"
    and change_inv: "inv r \<Longrightarrow> change r r' reqs \<Longrightarrow> inv r'"
    and reconcile_good: "inv r \<Longrightarrow> reconcile req r (Ok False) r' \<Longrightarrow> good req r'"
    and reconcile_other: "inv r \<Longrightarrow> reconcile req r result r' \<Longrightarrow> \<forall>p. result \<noteq> Panic p \<Longrightarrow>
      good other r \<Longrightarrow> other \<noteq> req \<Longrightarrow> good other r'"
    and change_good: "inv r \<Longrightarrow> change r r' reqs \<Longrightarrow> good req r \<Longrightarrow> req |\<notin>| reqs \<Longrightarrow> good req r'"
begin

definition accounted :: "('q, 'r) running \<Rightarrow> bool" where
  "accounted s \<longleftrightarrow> inv (run_state s) \<and>
     (\<not> wq_shuttingDown (run_queue s) \<longrightarrow> (\<forall>req. good req (run_state s) \<or> on_its_way s req))"

lemma handled_accounted:
  assumes s: "accounted s" and run: "reconcile req (run_state s) result r" "\<forall>p. result \<noteq> Panic p"
  shows "accounted (finish_item req result r s)"
proof -
  have inv: "inv (run_state s)" using s by (simp add: accounted_def)
  show ?thesis
  proof (cases "wq_shuttingDown (run_queue s)")
    case True
    then show ?thesis using reconcile_inv [OF inv run] by (simp add: accounted_def)
  next
    case False
    have own: "good req r \<or> req |\<in>| run_delayed (finish_item req result r s)"
      using reconcile_good [OF inv, of req r] run False
      by (cases result) (auto simp: finish_item_def reconcileHandler_def AddRateLimited_def Let_def)
    have del: "other |\<in>| run_delayed s \<Longrightarrow> other |\<in>| run_delayed (finish_item req result r s)" for other
      by (auto simp: finish_item_def reconcileHandler_def AddRateLimited_def Let_def split: outcome.split)
    have "good other r \<or> on_its_way (finish_item req result r s) other" for other
    proof (cases "other = req")
      case True
      then show ?thesis using own by (auto simp: on_its_way_def)
    next
      case neq: False
      have "good other (run_state s) \<or> on_its_way s other" using s False by (simp add: accounted_def)
      then show ?thesis
        using reconcile_other [OF inv run _ neq] neq del by (auto simp: on_its_way_def)
    qed
    then show ?thesis using reconcile_inv [OF inv run] by (simp add: accounted_def)
  qed
qed

lemma notify_accounted: "accounted s \<Longrightarrow> accounted (notify reqs s)"
  by (auto simp: accounted_def on_its_way_def)

lemma own_step_accounted:
  assumes "own_step reconcile reports s s'" and s: "accounted s"
  shows "accounted s'"
  using assms(1)
proof (cases rule: own_step.cases)
  case (Taken req q)
  from Taken(2) show ?thesis
    by (rule wq_GetE) (use s Taken(1) in \<open>auto simp: accounted_def on_its_way_def\<close>)
next
  case (Handled req result r reqs)
  then show ?thesis using notify_accounted [OF handled_accounted [OF s]] by simp
qed (use s in \<open>auto simp: accounted_def on_its_way_def\<close>)

lemma step_accounted:
  assumes "run_step reconcile reports change s s'" and s: "accounted s"
  shows "accounted s'"
  using assms(1)
proof (cases rule: run_step.cases)
  case (Changed r reqs)
  then show ?thesis
    using s change_inv [of "run_state s" r reqs] change_good [of "run_state s" r reqs]
    by (auto simp: accounted_def on_its_way_def)
qed (use s own_step_accounted in \<open>auto simp: accounted_def on_its_way_def\<close>)

theorem runs_accounted:
  assumes "controller_runs reconcile reports change r reqs s" and "inv r" and "\<And>req. good req r \<or> req |\<in>| reqs"
  shows "accounted s"
  using assms(1)
proof induction
  case Begin
  show ?case using assms(2,3) by (auto simp: accounted_def run_begin_def on_its_way_def)
next
  case (Continue s s')
  then show ?case by (blast intro: step_accounted)
qed

theorem rest_is_good:
  assumes "controller_runs reconcile reports change r reqs s" and "inv r" and "\<And>req. good req r \<or> req |\<in>| reqs"
    and "at_rest s" and "\<not> wq_shuttingDown (run_queue s)"
  shows "good req (run_state s)"
  using runs_accounted [OF assms(1-3)] at_rest_nothing [OF runs_wq_ok [OF assms(1)] assms(4)] assms(5)
  by (auto simp: accounted_def)

end

section \<open>Coming to rest\<close>

text \<open>A controller whose reconciler returns for every request is at rest when it can do nothing more.\<close>

lemma stuck_at_rest:
  assumes "\<nexists>s'. own_step reconcile reports s s'"
    and "\<And>req. \<exists>result r reqs. reconcile req (run_state s) result r \<and> (\<forall>p. result \<noteq> Panic p) \<and> reports (run_state s) r reqs"
  shows "at_rest s"
proof -
  have "req |\<notin>| run_events s" for req using assms(1) own_step.Delivered [of req s] by blast
  then have "run_events s = {||}" by auto
  moreover have "req |\<notin>| run_delayed s" for req using assms(1) own_step.Retried [of req s] by blast
  then have "run_delayed s = {||}" by auto
  moreover have "wq_queue (run_queue s) = []"
  proof (cases "wq_queue (run_queue s)")
    case (Cons req reqs)
    then show ?thesis using assms(1) own_step.Taken [of s req] by (auto simp: wq_Get_def)
  qed
  moreover have "req |\<notin>| wq_processing (run_queue s)" for req
    using assms own_step.Handled [of req s reconcile] by blast
  ultimately show ?thesis by (auto simp: at_rest_def)
qed

text \<open>
  A reconciler that cannot fail and settles: once it has, another call reports no change. Then the
  controller's own steps come to an end when nobody else does anything, and they end at rest.
\<close>

locale settling = level_triggered reconcile change inv good
  for reconcile :: "'q \<Rightarrow> 'r \<Rightarrow> bool outcome \<Rightarrow> 'r \<Rightarrow> bool" and change :: "'r \<Rightarrow> 'r \<Rightarrow> 'q fset \<Rightarrow> bool"
    and inv :: "'r \<Rightarrow> bool" and good :: "'q \<Rightarrow> 'r \<Rightarrow> bool" +
  fixes reports :: "'r \<Rightarrow> 'r \<Rightarrow> 'q fset \<Rightarrow> bool" and settled :: "'r \<Rightarrow> bool"
  assumes returns: "inv r \<Longrightarrow> \<exists>r'. reconcile req r (Ok False) r'"
    and returns_ok: "inv r \<Longrightarrow> reconcile req r result r' \<Longrightarrow> result = Ok False"
    and may_be_silent: "reports r r' {||}"
    and settles: "inv r \<Longrightarrow> reconcile req r result r' \<Longrightarrow> reports r r' reqs \<Longrightarrow> \<not> settled r \<Longrightarrow> settled r' \<or> reqs = {||} \<and> r' = r"
    and stays_settled: "inv r \<Longrightarrow> reconcile req r result r' \<Longrightarrow> reports r r' reqs \<Longrightarrow> settled r \<Longrightarrow> settled r' \<and> reqs = {||}"
begin

definition load :: "('q, 'r) running \<Rightarrow> nat" where
  "load s = 3 * (fcard (run_events s) + fcard (run_delayed s)) + 2 * fcard (wq_dirty (run_queue s)) +
     fcard (wq_processing (run_queue s))"

definition closer :: "(('q, 'r) running \<times> ('q, 'r) running) set" where
  "closer = inv_image (less_than <*lex*> less_than) (\<lambda>s. (if settled (run_state s) then 0 else 1, load s))"

lemma wf_closer: "wf closer"
  unfolding closer_def by (intro wf_inv_image wf_lex_prod wf_less_than)

lemma fcard_remove: "x |\<in>| A \<Longrightarrow> fcard A = Suc (fcard (A |-| {|x|}))"
  by (rule fcard_Suc_fminus1 [symmetric])

lemma fcard_dirty_Add: "fcard (wq_dirty (wq_Add item q)) \<le> Suc (fcard (wq_dirty q))"
  by (simp add: wq_Add_def Let_def fcard_finsert_if)

lemma own_step_closer:
  assumes "own_step reconcile reports s s'" and ok: "wq_ok (run_queue s)" and inv: "inv (run_state s)"
  shows "(s', s) \<in> closer"
  using assms(1)
proof (cases rule: own_step.cases)
  case (Delivered req)
  then show ?thesis
    using fcard_remove [OF Delivered(2)] fcard_dirty_Add [of req "run_queue s"] by (simp add: closer_def load_def)
next
  case (Retried req)
  then show ?thesis
    using fcard_remove [OF Retried(2)] fcard_dirty_Add [of req "run_queue s"] by (simp add: closer_def load_def)
next
  case (Taken req q)
  from Taken(2) show ?thesis
  proof (rule wq_GetE)
    assume q: "wq_queue (run_queue s) = req # wq_queue q"
      "wq_processing q = finsert req (wq_processing (run_queue s))" "wq_dirty q = wq_dirty (run_queue s) |-| {|req|}"
    have "req |\<in>| wq_dirty (run_queue s)" using ok q(1) by (auto simp: wq_ok_def)
    then have "fcard (wq_dirty (run_queue s)) = Suc (fcard (wq_dirty q))" unfolding q(3) by (rule fcard_remove)
    moreover have "fcard (wq_processing q) \<le> Suc (fcard (wq_processing (run_queue s)))"
      unfolding q(2) by (simp add: fcard_finsert_if)
    ultimately show ?thesis by (simp add: Taken(1) closer_def load_def)
  qed
next
  case (Handled req result r reqs)
  have ok: "result = Ok False" by (rule returns_ok [OF inv Handled(3)])
  have d: "run_delayed (finish_item req result r s) = run_delayed s"
    by (simp add: ok finish_item_def reconcileHandler_def Let_def)
  show ?thesis
    using fcard_remove [OF Handled(2)] settles [OF inv Handled(3,5)] stays_settled [OF inv Handled(3,5)]
    by (auto simp: Handled(1) closer_def load_def d)
qed

lemma own_step_inv:
  assumes "own_step reconcile reports s s'" and "inv (run_state s)"
  shows "inv (run_state s')"
  using assms by (cases rule: own_step.cases) (auto dest: reconcile_inv)

lemma own_steps_end:
  assumes "wq_ok (run_queue s)" and "inv (run_state s)"
  shows "\<nexists>f. f 0 = s \<and> (\<forall>i. own_step reconcile reports (f i) (f (Suc i)))"
proof
  assume "\<exists>f. f 0 = s \<and> (\<forall>i. own_step reconcile reports (f i) (f (Suc i)))"
  then obtain f where f: "f 0 = s" "\<And>i. own_step reconcile reports (f i) (f (Suc i))" by blast
  have "wq_ok (run_queue (f i)) \<and> inv (run_state (f i))" for i
    by (induction i) (use assms f own_step_wq_ok own_step_inv in blast)+
  then have "(f (Suc i), f i) \<in> closer" for i using own_step_closer [OF f(2)] by blast
  then show False using wf_closer unfolding wf_iff_no_infinite_down_chain by blast
qed

lemma no_own_step_at_rest:
  assumes "\<nexists>s'. own_step reconcile reports s s'" and "inv (run_state s)"
  shows "at_rest s"
  by (rule stuck_at_rest [OF assms(1)]) (use returns [OF assms(2)] may_be_silent in blast)

end

section \<open>Stopping\<close>

text \<open>
  After the queue was shut down, \<open>Add\<close> ignores requests and \<open>AddRateLimited\<close> forgets them. What is left is
  the work that is there: every step that touches the queue makes it less, whatever others do.
\<close>

definition work_left :: "'q workqueue \<Rightarrow> nat" where
  "work_left q = 2 * fcard (wq_dirty q) + fcard (wq_processing q)"

lemma fcard_removed: "x |\<in>| A \<Longrightarrow> fcard (A |-| {|x|}) < fcard A"
  using fcard_Suc_fminus1 [of x A] by simp

lemma wq_Add_stopped: "wq_shuttingDown q \<Longrightarrow> wq_Add req q = q"
  by (simp add: wq_Add_def)

lemma wq_ShutDown_stopped: "wq_shuttingDown q \<Longrightarrow> wq_ShutDown q = q"
  by (simp add: wq_ShutDown_def)

lemma wq_Get_work:
  assumes "wq_Get q = (Got req, q')" and "wq_ok q"
  shows "work_left q' < work_left q"
  using assms(1)
proof (rule wq_GetE)
  assume q: "wq_queue q = req # wq_queue q'" "wq_processing q' = finsert req (wq_processing q)"
    "wq_dirty q' = wq_dirty q |-| {|req|}"
  have "req |\<in>| wq_dirty q" using assms(2) q(1) by (auto simp: wq_ok_def)
  from fcard_removed [OF this] show ?thesis unfolding work_left_def q(2,3) by (simp add: fcard_finsert_if)
qed

lemma wq_Done_work: "req |\<in>| wq_processing q \<Longrightarrow> work_left (wq_Done req q) < work_left q"
  using fcard_removed [of req "wq_processing q"] by (simp add: work_left_def)

lemma own_step_stopped:
  assumes "own_step reconcile reports s s'" and "wq_ok (run_queue s)" and stop: "wq_shuttingDown (run_queue s)"
  shows "wq_shuttingDown (run_queue s') \<and> (work_left (run_queue s') < work_left (run_queue s) \<or>
     run_queue s' = run_queue s \<and>
       fcard (run_events s') + fcard (run_delayed s') < fcard (run_events s) + fcard (run_delayed s))"
  using assms(1)
proof (cases rule: own_step.cases)
  case (Delivered req)
  then show ?thesis using fcard_removed [OF Delivered(2)] stop by (simp add: wq_Add_stopped)
next
  case (Taken req q)
  have "wq_shuttingDown q" using Taken(2) stop by (auto elim: wq_GetE)
  then show ?thesis using wq_Get_work [OF Taken(2) assms(2)] by (simp add: Taken(1))
next
  case (Handled req result r reqs)
  then show ?thesis using wq_Done_work [OF Handled(2)] stop by simp
next
  case (Retried req)
  then show ?thesis using fcard_removed [OF Retried(2)] stop by (simp add: wq_Add_stopped)
qed

lemma stopped_steps_end:
  assumes "wq_ok (run_queue s)" and "wq_shuttingDown (run_queue s)"
  shows "\<nexists>f. f 0 = s \<and> (\<forall>i. own_step reconcile reports (f i) (f (Suc i)))"
proof
  assume "\<exists>f. f 0 = s \<and> (\<forall>i. own_step reconcile reports (f i) (f (Suc i)))"
  then obtain f where f: "f 0 = s" "\<And>i. own_step reconcile reports (f i) (f (Suc i))" by blast
  let ?R = "inv_image (less_than <*lex*> less_than)
    (\<lambda>s. (work_left (run_queue s), fcard (run_events s) + fcard (run_delayed s)))"
  have "wq_ok (run_queue (f i)) \<and> wq_shuttingDown (run_queue (f i))" for i
    by (induction i) (use assms f own_step_wq_ok own_step_stopped in blast)+
  then have "(f (Suc i), f i) \<in> ?R" for i
    using own_step_stopped [OF f(2) [of i]] by auto
  moreover have "wf ?R" by (intro wf_inv_image wf_lex_prod wf_less_than)
  ultimately show False unfolding wf_iff_no_infinite_down_chain by blast
qed

lemma run_step_stopped:
  assumes "run_step reconcile reports change s s'" and "wq_ok (run_queue s)" and stop: "wq_shuttingDown (run_queue s)"
  shows "wq_shuttingDown (run_queue s') \<and>
     (run_queue s' = run_queue s \<or> work_left (run_queue s') < work_left (run_queue s))"
  using assms(1)
proof (cases rule: run_step.cases)
  case Own
  then show ?thesis using own_step_stopped [OF _ assms(2,3)] by blast
qed (use stop in \<open>simp_all add: wq_Add_stopped wq_ShutDown_stopped\<close>)

lemma stopped_queue_settles:
  assumes "wq_ok (run_queue (f 0))" and "wq_shuttingDown (run_queue (f 0))"
    and f: "\<And>i. run_step reconcile reports change (f i) (f (Suc i))"
  shows "\<exists>n. \<forall>i \<ge> n. run_queue (f i) = run_queue (f n)"
proof -
  have ok: "wq_ok (run_queue (f i)) \<and> wq_shuttingDown (run_queue (f i))" for i
    by (induction i) (use assms run_step_wq_ok run_step_stopped in blast)+
  obtain n where n: "\<And>i. work_left (run_queue (f n)) \<le> work_left (run_queue (f i))"
    using ex_has_least_nat [of "\<lambda>_. True" _ "\<lambda>i. work_left (run_queue (f i))"] by blast
  have "run_queue (f i) = run_queue (f n)" if "n \<le> i" for i
    using that
  proof (induction rule: dec_induct)
    case (step i)
    then show ?case using run_step_stopped [OF f [of i]] ok [of i] n [of "Suc i"] by auto
  qed simp
  then show ?thesis by blast
qed

end
