(* ===== verification/Semver.thy ===== *)
theory Semver
  imports Prelude
begin

text \<open>
  Semantic versions, as the manifest generator reads them from its flags
  (\<open>github.com/blang/semver/v4\<close>, vendored): parsing, printing, and the two are inverse.
\<close>

section \<open>Strings at separators\<close>

definition cut_at :: "char \<Rightarrow> string \<Rightarrow> (string \<times> string) option" where
  \<comment> \<open>around the first occurrence, found with \<open>strings.IndexRune\<close>\<close>
  "cut_at c s = (if c \<in> set s then Some (takeWhile (\<lambda>x. x \<noteq> c) s, tl (dropWhile (\<lambda>x. x \<noteq> c) s)) else None)"

fun split_on :: "char \<Rightarrow> string \<Rightarrow> string list" where
  \<comment> \<open>\<open>strings.Split\<close> at a single character\<close>
  "split_on c [] = [[]]"
| "split_on c (x # xs) = (if x = c then [] # split_on c xs
                          else (x # hd (split_on c xs)) # tl (split_on c xs))"

fun join_with :: "char \<Rightarrow> string list \<Rightarrow> string" where
  "join_with c [] = []"
| "join_with c [s] = s"
| "join_with c (s # t # ts) = s @ c # join_with c (t # ts)"

lemma cut_at_append [simp]: "c \<notin> set a \<Longrightarrow> cut_at c (a @ c # r) = Some (a, r)"
  by (induction a) (auto simp: cut_at_def)

lemma cut_at_None: "cut_at c s = None \<longleftrightarrow> c \<notin> set s"
  by (simp add: cut_at_def)

lemma cut_at_absent [simp]: "c \<notin> set s \<Longrightarrow> cut_at c s = None"
  by (simp add: cut_at_def)

lemma cut_at_Some: "cut_at c s = Some (a, r) \<longleftrightarrow> s = a @ c # r \<and> c \<notin> set a"
proof
  assume cut: "cut_at c s = Some (a, r)"
  then have "c \<in> set s" by (simp add: cut_at_def split: if_splits)
  then obtain a' r' where s: "s = a' @ c # r'" "c \<notin> set a'" using split_list_first by metis
  then show "s = a @ c # r \<and> c \<notin> set a" using cut by simp
qed simp

lemma split_on_nonempty [simp]: "split_on c s \<noteq> []"
  by (induction s) auto

lemma join_with_Cons: "ts \<noteq> [] \<Longrightarrow> join_with c (t # ts) = t @ c # join_with c ts"
  by (cases ts) simp_all

lemma join_with_hd: "ts \<noteq> [] \<Longrightarrow> join_with c ((x # hd ts) # tl ts) = x # join_with c ts"
  by (cases ts; cases "tl ts") simp_all

lemma join_split [simp]: "join_with c (split_on c s) = s"
  by (induction s) (simp_all add: join_with_Cons join_with_hd)

lemma split_on_parts: "t \<in> set (split_on c s) \<Longrightarrow> c \<notin> set t"
proof (induction s arbitrary: t)
  case (Cons x xs)
  have "hd (split_on c xs) \<in> set (split_on c xs)" by simp
  with Cons show ?case by (auto split: if_splits dest: list.set_sel(2) [rotated])
qed simp

lemma split_on_append: "c \<notin> set a \<Longrightarrow> split_on c (a @ s) = (a @ hd (split_on c s)) # tl (split_on c s)"
  by (induction a) auto

lemma split_join [simp]: "ts \<noteq> [] \<Longrightarrow> \<forall>t \<in> set ts. c \<notin> set t \<Longrightarrow> split_on c (join_with c ts) = ts"
proof (induction c ts rule: join_with.induct)
  case (2 c s)
  then show ?case using split_on_append [of c s "[]"] by simp
next
  case (3 c s t ts)
  then show ?case by (simp add: split_on_append)
qed simp

lemma set_join_with: "set (join_with c ts) \<subseteq> insert c (\<Union>t \<in> set ts. set t)"
  by (induction c ts rule: join_with.induct) auto

section \<open>Versions\<close>

record PRVersion =
  VersionStr :: string
  VersionNum :: "64 word"
  IsNum :: bool

record Version =
  Major :: "64 word"
  Minor :: "64 word"
  Patch :: "64 word"
  Pre :: "PRVersion list"
  Build :: "string list"

definition numbers :: string where "numbers = ''0123456789''"
definition alphas :: string where "alphas = ''abcdefghijklmnopqrstuvwxyzABCDEFGHIJKLMNOPQRSTUVWXYZ-''"
definition alphanum :: string where "alphanum = alphas @ numbers"

definition containsOnly :: "string \<Rightarrow> string \<Rightarrow> bool" where
  "containsOnly s chars = list_all (\<lambda>c. c \<in> set chars) s"

definition hasLeadingZeroes :: "string \<Rightarrow> bool" where
  "hasLeadingZeroes s = (length s > 1 \<and> hd s = CHR ''0'')"

definition parse_uint64 :: "string \<Rightarrow> error + 64 word" where
  \<comment> \<open>\<open>strconv.ParseUint(s, 10, 64)\<close> on a string of digits, with its error\<close>
  "parse_uint64 s =
     (case parse_uint s of
        Some n \<Rightarrow> Inr (of_nat n)
      | None \<Rightarrow> Inl (PlainError (''strconv.ParseUint: parsing '' @ go_quote s @ '': '' @
                  (if s = '''' then ''invalid syntax'' else ''value out of range''))))"

definition parse_component :: "string \<Rightarrow> string \<Rightarrow> string \<Rightarrow> error + 64 word" where
  \<comment> \<open>the three checks of the major, minor and patch numbers, which differ in their messages\<close>
  "parse_component lower upper s =
     (if \<not> containsOnly s numbers then
        Inl (PlainError (''Invalid character(s) found in '' @ lower @ '' number '' @ go_quote s))
      else if hasLeadingZeroes s then
        Inl (PlainError (upper @ '' number must not contain leading zeroes '' @ go_quote s))
      else parse_uint64 s)"

definition NewPRVersion :: "string \<Rightarrow> error + PRVersion" where
  "NewPRVersion s =
     (if s = '''' then Inl (PlainError ''Prerelease is empty'')
      else if containsOnly s numbers then
        (if hasLeadingZeroes s then
           Inl (PlainError (''Numeric PreRelease version must not contain leading zeroes '' @ go_quote s))
         else case parse_uint64 s of
                Inl e \<Rightarrow> Inl e
              | Inr num \<Rightarrow> Inr \<lparr>VersionStr = '''', VersionNum = num, IsNum = True\<rparr>)
      else if containsOnly s alphanum then Inr \<lparr>VersionStr = s, VersionNum = 0, IsNum = False\<rparr>
      else Inl (PlainError (''Invalid character(s) found in prerelease '' @ go_quote s)))"

definition NewBuildVersion :: "string \<Rightarrow> error + string" where
  \<comment> \<open>the checks that \<open>Parse\<close> makes on each build identifier\<close>
  "NewBuildVersion s =
     (if s = '''' then Inl (PlainError ''Build meta data is empty'')
      else if \<not> containsOnly s alphanum then
        Inl (PlainError (''Invalid character(s) found in build meta data '' @ go_quote s))
      else Inr s)"

fun collect_results :: "('a \<Rightarrow> error + 'b) \<Rightarrow> 'a list \<Rightarrow> error + 'b list" where
  \<comment> \<open>a loop that appends the results and returns the first error\<close>
  "collect_results f [] = Inr []"
| "collect_results f (x # xs) =
     (case f x of
        Inl e \<Rightarrow> Inl e
      | Inr y \<Rightarrow> (case collect_results f xs of Inl e \<Rightarrow> Inl e | Inr ys \<Rightarrow> Inr (y # ys)))"

definition cut_optional :: "char \<Rightarrow> string \<Rightarrow> string \<times> string list" where
  \<comment> \<open>what follows the separator, split at the dots; nothing when there is no separator\<close>
  "cut_optional c s =
     (case cut_at c s of None \<Rightarrow> (s, []) | Some (before, after) \<Rightarrow> (before, split_on CHR ''.'' after))"

definition Parse :: "string \<Rightarrow> error + Version" where
  "Parse s =
     (if s = '''' then Inl (PlainError ''Version string empty'')
      else case cut_at CHR ''.'' s of
        None \<Rightarrow> Inl (PlainError ''No Major.Minor.Patch elements found'')
      | Some (part0, rest) \<Rightarrow>
         (case cut_at CHR ''.'' rest of
            None \<Rightarrow> Inl (PlainError ''No Major.Minor.Patch elements found'')
          | Some (part1, part2) \<Rightarrow>
             (case parse_component ''major'' ''Major'' part0 of Inl e \<Rightarrow> Inl e | Inr major \<Rightarrow>
             (case parse_component ''minor'' ''Minor'' part1 of Inl e \<Rightarrow> Inl e | Inr minor \<Rightarrow>
             (let (patchStr, build) = cut_optional CHR ''+'' part2;
                  (patchStr, prerelease) = cut_optional CHR ''-'' patchStr
              in case parse_component ''patch'' ''Patch'' patchStr of Inl e \<Rightarrow> Inl e | Inr patch \<Rightarrow>
                (case collect_results NewPRVersion prerelease of Inl e \<Rightarrow> Inl e | Inr pre \<Rightarrow>
                (case collect_results NewBuildVersion build of Inl e \<Rightarrow> Inl e | Inr builds \<Rightarrow>
                   Inr \<lparr>Major = major, Minor = minor, Patch = patch, Pre = pre, Build = builds\<rparr>)))))))"

definition PRVersion_String :: "PRVersion \<Rightarrow> string" where
  "PRVersion_String v = (if IsNum v then format_uint (unat (VersionNum v)) else VersionStr v)"

definition join_optional :: "char \<Rightarrow> string list \<Rightarrow> string" where
  "join_optional c ts = (if ts = [] then '''' else c # join_with CHR ''.'' ts)"

definition Version_String :: "Version \<Rightarrow> string" where
  "Version_String v =
     format_uint (unat (Major v)) @ ''.'' @ format_uint (unat (Minor v)) @ ''.'' @
     format_uint (unat (Patch v)) @ join_optional CHR ''-'' (map PRVersion_String (Pre v)) @
     join_optional CHR ''+'' (Build v)"

section \<open>Printing and parsing\<close>

lemma is_digit_iff: "is_digit c \<longleftrightarrow> c \<in> set numbers"
proof
  assume "is_digit c"
  then have "(of_char c :: nat) \<in> of_char ` set numbers"
    by (simp add: is_digit_def numbers_def) presburger
  then show "c \<in> set numbers" by auto
qed (auto simp: numbers_def is_digit_def)

lemma containsOnly_digits: "containsOnly s numbers \<longleftrightarrow> list_all is_digit s"
  by (simp add: containsOnly_def list_all_iff is_digit_iff)

lemma digits_value_snoc: "digits_value (s @ [c]) = digits_value s * 10 + (of_char c - 48)"
  by (simp add: digits_value_def)

lemma digit_char_of: "is_digit c \<Longrightarrow> digit_char (of_char c - 48) = c \<and> (of_char c :: nat) - 48 < 10"
  by (auto simp: is_digit_def digit_char_def)

lemma digits_value_pos: "s \<noteq> [] \<Longrightarrow> list_all is_digit s \<Longrightarrow> hd s \<noteq> CHR ''0'' \<Longrightarrow> digits_value s > 0"
proof (induction s rule: rev_induct)
  case (snoc c s)
  show ?case
  proof (cases "s = []")
    case True
    have "(of_char c :: nat) \<noteq> 48"
    proof
      assume "(of_char c :: nat) = 48"
      then have "(of_char c :: nat) = of_char CHR ''0''" by simp
      then have "c = CHR ''0''" by (simp only: of_char_eq_iff)
      then show False using snoc.prems True by simp
    qed
    then show ?thesis using snoc.prems True by (simp add: digits_value_def is_digit_def)
  next
    case False
    then show ?thesis using snoc by (simp add: digits_value_snoc)
  qed
qed simp

lemma format_digits_value:
  "s \<noteq> [] \<Longrightarrow> list_all is_digit s \<Longrightarrow> \<not> hasLeadingZeroes s \<Longrightarrow> format_uint (digits_value s) = s"
proof (induction s rule: rev_induct)
  case (snoc c s)
  have c: "digit_char (of_char c - 48) = c" "(of_char c :: nat) - 48 < 10"
    using digit_char_of [of c] snoc.prems by simp_all
  show ?case
  proof (cases "s = []")
    case True
    then show ?thesis using c by (subst format_uint.simps) (simp add: digits_value_def)
  next
    case False
    then have z: "hd s \<noteq> CHR ''0''" "\<not> hasLeadingZeroes s" using snoc.prems by (auto simp: hasLeadingZeroes_def)
    have "digits_value s > 0" using False z snoc.prems by (intro digits_value_pos) simp_all
    then show ?thesis
      using snoc False z c by (subst format_uint.simps) (simp add: digits_value_snoc)
  qed
qed simp

lemma format_no_leading_zero: "\<not> hasLeadingZeroes (format_uint n)"
proof (induction n rule: format_uint.induct)
  case (1 n)
  show ?case
  proof (cases "n < 10")
    case True
    then show ?thesis by (subst format_uint.simps) (simp add: hasLeadingZeroes_def)
  next
    case False
    have "hd (format_uint m) \<noteq> CHR ''0''" if "m > 0" for m
      using that
    proof (induction m rule: format_uint.induct)
      case (1 m)
      show ?case
      proof (cases "m < 10")
        case True
        then have "m \<in> {1, 2, 3, 4, 5, 6, 7, 8, 9}" using 1 by auto
        then show ?thesis by (subst format_uint.simps) (auto simp: digit_char_def char_of_def bit_0 bit_Suc)
      next
        case False
        then show ?thesis using 1 by (subst format_uint.simps) simp
      qed
    qed
    from this [of n] False show ?thesis by (simp add: hasLeadingZeroes_def)
  qed
qed

lemma parse_component_iff: "parse_component l u s = Inr n \<longleftrightarrow> s = format_uint (unat n)"
proof
  assume "parse_component l u s = Inr n"
  then have s: "list_all is_digit s" "\<not> hasLeadingZeroes s" "s \<noteq> []" "digits_value s < 2 ^ 64"
      "n = of_nat (digits_value s)"
    by (auto simp: parse_component_def containsOnly_digits parse_uint64_def parse_uint_def split: if_splits)
  then show "s = format_uint (unat n)" by (simp add: format_digits_value unat_of_nat take_bit_nat_eq_self)
next
  assume s: "s = format_uint (unat n)"
  have "unat n < 2 ^ 64" using unsigned_less [of n] by simp
  then show "parse_component l u s = Inr n"
    by (simp add: s parse_component_def containsOnly_digits format_uint_digits format_no_leading_zero
        parse_uint64_def parse_format_uint)
qed

section \<open>Identifiers after the separators\<close>

text \<open>
  Prerelease and build identifiers share a contract: a reader that accepts exactly the printed forms of the
  good values, which consist of the characters of identifiers.
\<close>

locale id_codec =
  fixes reader :: "string \<Rightarrow> error + 'a" and printed :: "'a \<Rightarrow> string" and good :: "'a \<Rightarrow> bool"
  assumes reader_iff: "reader s = Inr v \<longleftrightarrow> good v \<and> printed v = s"
    and printed_alphanum: "good v \<Longrightarrow> containsOnly (printed v) alphanum"
begin

lemma collect_iff: "collect_results reader ss = Inr vs \<longleftrightarrow> list_all good vs \<and> map printed vs = ss"
proof (induction ss arbitrary: vs)
  case (Cons s ss)
  have "collect_results reader (s # ss) = Inr vs \<longleftrightarrow>
      (\<exists>u us. vs = u # us \<and> reader s = Inr u \<and> collect_results reader ss = Inr us)"
    by (auto split: sum.splits)
  then show ?case by (cases vs) (auto simp: Cons reader_iff)
qed auto

lemma no_separator: "good v \<Longrightarrow> CHR ''.'' \<notin> set (printed v) \<and> CHR ''+'' \<notin> set (printed v)"
proof -
  assume "good v"
  then have "set (printed v) \<subseteq> set alphanum"
    using printed_alphanum [of v] by (auto simp: containsOnly_def list_all_iff)
  moreover have "CHR ''.'' \<notin> set alphanum" "CHR ''+'' \<notin> set alphanum"
    by (simp_all add: alphanum_def alphas_def numbers_def)
  ultimately show ?thesis by blast
qed

lemma joined_no_plus: "list_all good vs \<Longrightarrow> CHR ''+'' \<notin> set (join_with CHR ''.'' (map printed vs))"
proof -
  assume "list_all good vs"
  then have "CHR ''+'' \<notin> insert CHR ''.'' (\<Union>t \<in> set (map printed vs). set t)"
    using no_separator by (auto simp: list_all_iff)
  then show ?thesis using set_join_with by blast
qed

lemma cut_iff:
  "cut_optional c s = (b, ss) \<and> collect_results reader ss = Inr vs \<longleftrightarrow>
     c \<notin> set b \<and> list_all good vs \<and> s = b @ join_optional c (map printed vs) \<and> ss = map printed vs"
proof (cases "cut_at c s")
  case None
  then have "c \<notin> set s" by (simp add: cut_at_None)
  then show ?thesis by (auto simp: cut_optional_def collect_iff join_optional_def)
next
  case (Some p)
  obtain a r where p: "p = (a, r)" by (cases p)
  have s: "s = a @ c # r" "c \<notin> set a" using Some unfolding p by (simp_all add: cut_at_Some)
  have parts: "split_on CHR ''.'' r = map printed vs \<longleftrightarrow> vs \<noteq> [] \<and> r = join_with CHR ''.'' (map printed vs)"
    if "list_all good vs"
  proof
    assume "split_on CHR ''.'' r = map printed vs"
    then show "vs \<noteq> [] \<and> r = join_with CHR ''.'' (map printed vs)"
      by (metis join_split list.map_disc_iff split_on_nonempty)
  next
    assume "vs \<noteq> [] \<and> r = join_with CHR ''.'' (map printed vs)"
    then show "split_on CHR ''.'' r = map printed vs"
      using that no_separator by (auto simp: list_all_iff)
  qed
  have uniq: "a @ c # r = b @ c # t \<longleftrightarrow> a = b \<and> r = t" if "c \<notin> set b" for t
    using that s(2) by (metis cut_at_append option.inject prod.inject)
  have "cut_optional c s = (b, ss) \<and> collect_results reader ss = Inr vs \<longleftrightarrow>
      a = b \<and> split_on CHR ''.'' r = map printed vs \<and> list_all good vs \<and> ss = map printed vs"
    by (auto simp: cut_optional_def Some p collect_iff)
  also have "\<dots> \<longleftrightarrow> a = b \<and> vs \<noteq> [] \<and> r = join_with CHR ''.'' (map printed vs) \<and> list_all good vs \<and> ss = map printed vs"
    using parts by blast
  also have "\<dots> \<longleftrightarrow> c \<notin> set b \<and> list_all good vs \<and> s = b @ join_optional c (map printed vs) \<and> ss = map printed vs"
    using s uniq by (cases "vs = []") (auto simp: join_optional_def)
  finally show ?thesis .
qed

end

definition PRVersion_ok :: "PRVersion \<Rightarrow> bool" where
  "PRVersion_ok v = (if IsNum v then VersionStr v = ''''
     else VersionNum v = 0 \<and> VersionStr v \<noteq> '''' \<and> containsOnly (VersionStr v) alphanum \<and>
          \<not> containsOnly (VersionStr v) numbers)"

definition build_ok :: "string \<Rightarrow> bool" where
  "build_ok s = (s \<noteq> '''' \<and> containsOnly s alphanum)"

lemma parse_uint64_digits:
  "list_all is_digit s \<Longrightarrow> \<not> hasLeadingZeroes s \<Longrightarrow> parse_uint64 s = Inr n \<longleftrightarrow> s = format_uint (unat n)"
  using parse_component_iff [of "''''" "''''" s n] by (simp add: parse_component_def containsOnly_digits)

interpretation pr: id_codec NewPRVersion PRVersion_String PRVersion_ok
proof
  show "containsOnly (PRVersion_String v) alphanum" if "PRVersion_ok v" for v
    using that format_uint_digits [of "unat (VersionNum v)"]
    by (auto simp: PRVersion_String_def PRVersion_ok_def containsOnly_def list_all_iff is_digit_iff alphanum_def split: if_splits)
  show "NewPRVersion s = Inr v \<longleftrightarrow> PRVersion_ok v \<and> PRVersion_String v = s" for s v
  proof (cases "containsOnly s numbers")
    case True
    then have d: "list_all is_digit s" by (simp add: containsOnly_digits)
    have v: "PRVersion_ok v \<and> PRVersion_String v = s \<longleftrightarrow>
        s = format_uint (unat (VersionNum v)) \<and> v = \<lparr>VersionStr = '''', VersionNum = VersionNum v, IsNum = True\<rparr>"
      using True by (cases v) (auto simp: PRVersion_ok_def PRVersion_String_def)
    show ?thesis
    proof (cases "s = '''' \<or> hasLeadingZeroes s")
      case True
      then show ?thesis unfolding v using format_no_leading_zero format_uint_nonempty [symmetric] d
        by (auto simp: NewPRVersion_def containsOnly_digits)
    next
      case False
      then have "NewPRVersion s = Inr v \<longleftrightarrow>
          (\<exists>n. parse_uint64 s = Inr n \<and> v = \<lparr>VersionStr = '''', VersionNum = n, IsNum = True\<rparr>)"
        using \<open>containsOnly s numbers\<close> by (auto simp: NewPRVersion_def split: sum.splits)
      also have "\<dots> \<longleftrightarrow> (\<exists>n. s = format_uint (unat n) \<and> v = \<lparr>VersionStr = '''', VersionNum = n, IsNum = True\<rparr>)"
        using parse_uint64_digits [OF d] False by simp
      also have "\<dots> \<longleftrightarrow> s = format_uint (unat (VersionNum v)) \<and>
          v = \<lparr>VersionStr = '''', VersionNum = VersionNum v, IsNum = True\<rparr>"
        by (metis PRVersion.select_convs(2))
      finally show ?thesis unfolding v .
    qed
  next
    case False
    then have "s \<noteq> format_uint n" for n using format_uint_digits by (auto simp: containsOnly_digits)
    then show ?thesis
      by (cases v) (use False in \<open>auto simp: NewPRVersion_def PRVersion_ok_def PRVersion_String_def\<close>)
  qed
qed

interpretation build: id_codec NewBuildVersion "\<lambda>s. s" build_ok
  by unfold_locales (auto simp: NewBuildVersion_def build_ok_def)

definition Version_ok :: "Version \<Rightarrow> bool" where
  "Version_ok v = (list_all PRVersion_ok (Pre v) \<and> list_all build_ok (Build v))"

lemma no_digit_separator: "c \<in> {CHR ''.'', CHR ''+'', CHR ''-''} \<Longrightarrow> c \<notin> set (format_uint n)"
  using format_uint_digits [of n] by (auto simp: list_all_iff is_digit_def)

lemma parsed_optional:
  "cut_optional CHR ''+'' part2 = (ps, bs) \<and> cut_optional CHR ''-'' ps = (patchStr, prs) \<and>
   patchStr = format_uint n \<and> collect_results NewPRVersion prs = Inr pre \<and> collect_results NewBuildVersion bs = Inr builds
   \<longleftrightarrow> list_all PRVersion_ok pre \<and> list_all build_ok builds \<and> patchStr = format_uint n \<and>
       prs = map PRVersion_String pre \<and> bs = builds \<and> ps = patchStr @ join_optional CHR ''-'' prs \<and>
       part2 = ps @ join_optional CHR ''+'' bs"
proof -
  have "CHR ''+'' \<notin> set (format_uint n @ join_optional CHR ''-'' (map PRVersion_String pre))"
    if "list_all PRVersion_ok pre"
    using pr.joined_no_plus [OF that] no_digit_separator by (simp add: join_optional_def)
  then show ?thesis
    using pr.cut_iff [of "CHR ''-''" ps patchStr prs pre] build.cut_iff [of "CHR ''+''" part2 ps bs builds]
      no_digit_separator [of "CHR ''-''" n] by auto
qed

lemma parse_canonical: "Parse s = Inr v \<longleftrightarrow> Version_ok v \<and> Version_String v = s"
proof
  assume "Parse s = Inr v"
  then obtain p0 rest p1 p2 ps bs patchStr prs where 1:
      "cut_at CHR ''.'' s = Some (p0, rest)" "cut_at CHR ''.'' rest = Some (p1, p2)"
      "parse_component ''major'' ''Major'' p0 = Inr (Major v)" "parse_component ''minor'' ''Minor'' p1 = Inr (Minor v)"
      "cut_optional CHR ''+'' p2 = (ps, bs)" "cut_optional CHR ''-'' ps = (patchStr, prs)"
      "parse_component ''patch'' ''Patch'' patchStr = Inr (Patch v)"
      "collect_results NewPRVersion prs = Inr (Pre v)" "collect_results NewBuildVersion bs = Inr (Build v)"
    by (auto simp: Parse_def split: if_splits option.splits prod.splits sum.splits)
  have "list_all PRVersion_ok (Pre v) \<and> list_all build_ok (Build v) \<and> patchStr = format_uint (unat (Patch v)) \<and>
      prs = map PRVersion_String (Pre v) \<and> bs = Build v \<and> ps = patchStr @ join_optional CHR ''-'' prs \<and>
      p2 = ps @ join_optional CHR ''+'' bs"
    using 1(5-9) by (intro parsed_optional [THEN iffD1]) (simp add: parse_component_iff)
  then show "Version_ok v \<and> Version_String v = s"
    using 1(1-4) by (simp add: Version_ok_def Version_String_def cut_at_Some parse_component_iff)
next
  assume v: "Version_ok v \<and> Version_String v = s"
  let ?patch = "format_uint (unat (Patch v))" and ?prs = "map PRVersion_String (Pre v)"
  let ?ps = "?patch @ join_optional CHR ''-'' ?prs"
  let ?p2 = "?ps @ join_optional CHR ''+'' (Build v)"
  have 2: "cut_optional CHR ''+'' ?p2 = (?ps, Build v)" "cut_optional CHR ''-'' ?ps = (?patch, ?prs)"
     "collect_results NewPRVersion ?prs = Inr (Pre v)" "collect_results NewBuildVersion (Build v) = Inr (Build v)"
    using parsed_optional [of ?p2 ?ps "Build v" ?patch ?prs "unat (Patch v)" "Pre v" "Build v"] v
    by (simp_all add: Version_ok_def)
  have s: "s = format_uint (unat (Major v)) @ CHR ''.'' # format_uint (unat (Minor v)) @ CHR ''.'' # ?p2"
    using v by (simp add: Version_String_def)
  show "Parse s = Inr v"
    unfolding Parse_def s using 2 no_digit_separator by (simp add: parse_component_iff [THEN iffD2])
qed

text \<open>
  C24. Parsing accepts exactly the printed forms of well-formed versions, and returns the version: a
  version survives printing and parsing, no other string is accepted, and numbers that do
  not fit 64 bits or start with a needless zero are refused.
\<close>

theorem Parse_iff: "Parse s = Inr v \<longleftrightarrow> Version_ok v \<and> Version_String v = s"
  by (rule parse_canonical)

lemma parse_component_format:
  "parse_component l u (format_uint n) = (if n < 2 ^ 64 then Inr (of_nat n) else parse_component l u (format_uint n))"
  by (simp add: parse_component_iff unat_of_nat take_bit_nat_eq_self)

lemma parse_component_bounded: "(\<exists>w. parse_component l u (format_uint n) = Inr w) \<longleftrightarrow> n < 2 ^ 64"
proof
  assume "\<exists>w. parse_component l u (format_uint n) = Inr w"
  then obtain w :: "64 word" where "n = unat w" by (auto simp: parse_component_iff dest: format_uint_inj)
  then show "n < 2 ^ 64" using unsigned_less [where ?'a = nat and w = w] by simp
next
  assume "n < 2 ^ 64"
  then show "\<exists>w. parse_component l u (format_uint n) = Inr w" using parse_component_format [of l u n] by auto
qed

text \<open>
  C25. Versions do not wrap around: a version written with the numbers \<open>a\<close>, \<open>b\<close> and \<open>c\<close>, of any size, is
  accepted exactly when each of them fits 64 bits, and then these are the numbers of the
  version that is returned.
\<close>

theorem Parse_numbers_bounded:
  fixes a b c :: nat
  defines "s \<equiv> format_uint a @ ''.'' @ format_uint b @ ''.'' @ format_uint c"
  shows "((\<exists>v. Parse s = Inr v) \<longleftrightarrow> a < 2 ^ 64 \<and> b < 2 ^ 64 \<and> c < 2 ^ 64) \<and>
    (\<nexists>v. Parse s = Inr v \<and> (unat (Major v), unat (Minor v), unat (Patch v)) \<noteq> (a, b, c))"
proof -
  have none: "cut_optional CHR ''+'' (format_uint c) = (format_uint c, [])" "cut_optional CHR ''-'' (format_uint c) = (format_uint c, [])"
    using no_digit_separator by (simp_all add: cut_optional_def)
  have cut: "s \<noteq> ''''" "cut_at CHR ''.'' s = Some (format_uint a, format_uint b @ CHR ''.'' # format_uint c)"
      "cut_at CHR ''.'' (format_uint b @ CHR ''.'' # format_uint c) = Some (format_uint b, format_uint c)"
    using no_digit_separator by (simp_all add: s_def)
  have p: "Parse s = Inr v \<longleftrightarrow> parse_component ''major'' ''Major'' (format_uint a) = Inr (Major v) \<and>
      parse_component ''minor'' ''Minor'' (format_uint b) = Inr (Minor v) \<and>
      parse_component ''patch'' ''Patch'' (format_uint c) = Inr (Patch v) \<and> Pre v = [] \<and> Build v = []" for v
    by (cases v; cases "parse_component ''major'' ''Major'' (format_uint a)";
        cases "parse_component ''minor'' ''Minor'' (format_uint b)";
        cases "parse_component ''patch'' ''Patch'' (format_uint c)")
      (simp_all add: Parse_def cut none eq_commute [of "[]"])
  have "(\<exists>v. Parse s = Inr v) \<longleftrightarrow> (\<exists>w. parse_component ''major'' ''Major'' (format_uint a) = Inr w) \<and>
      (\<exists>w. parse_component ''minor'' ''Minor'' (format_uint b) = Inr w) \<and>
      (\<exists>w. parse_component ''patch'' ''Patch'' (format_uint c) = Inr w)"
    unfolding p by (metis Version.select_convs)
  moreover have "a = unat (Major v) \<and> b = unat (Minor v) \<and> c = unat (Patch v)" if "Parse s = Inr v" for v
    using that unfolding p by (simp add: parse_component_iff format_uint_inj)
  ultimately show ?thesis unfolding parse_component_bounded by auto
qed

end
