(* ===== verification/Owner_Watch.thy ===== *)
theory Owner_Watch
  imports Reconcile_Contract Samples Semver
begin

text \<open>
  The vendored event handler of the watches on deployed objects
  (\<open>github.com/operator-framework/operator-lib/handler/enqueue_annotation.go\<close>): it reads from an object's
  annotations which \<open>TektonTasks\<close> resource to reconcile. What \<open>SetOwnerAnnotations\<close> writes, it reads back.
\<close>

section \<open>Reading the annotations\<close>

text \<open>\<open>strings.TrimSpace\<close> leaves nothing of a string of these UTF-8 encoded characters.\<close>

definition ascii_space :: "char \<Rightarrow> bool" where
  "ascii_space c \<longleftrightarrow> c \<in> {CHR 0x09, CHR 0x0A, CHR 0x0B, CHR 0x0C, CHR 0x0D, CHR 0x20}"

definition space2 :: "char \<Rightarrow> char \<Rightarrow> bool" where
  "space2 c d \<longleftrightarrow> c = CHR 0xC2 \<and> d \<in> {CHR 0x85, CHR 0xA0}"

definition space3 :: "char \<Rightarrow> char \<Rightarrow> char \<Rightarrow> bool" where
  "space3 c d e \<longleftrightarrow>
     c = CHR 0xE1 \<and> d = CHR 0x9A \<and> e = CHR 0x80 \<or>
     c = CHR 0xE2 \<and> d = CHR 0x80 \<and>
       e \<in> {CHR 0x80, CHR 0x81, CHR 0x82, CHR 0x83, CHR 0x84, CHR 0x85, CHR 0x86, CHR 0x87, CHR 0x88, CHR 0x89,
            CHR 0x8A, CHR 0xA8, CHR 0xA9, CHR 0xAF} \<or>
     c = CHR 0xE2 \<and> d = CHR 0x81 \<and> e = CHR 0x9F \<or>
     c = CHR 0xE3 \<and> d = CHR 0x80 \<and> e = CHR 0x80"

fun blank :: "string \<Rightarrow> bool" where
  "blank [] = True"
| "blank [c] = ascii_space c"
| "blank [c, d] = (ascii_space c \<and> blank [d] \<or> space2 c d)"
| "blank (c # d # e # s) =
     (ascii_space c \<and> blank (d # e # s) \<or> space2 c d \<and> blank (e # s) \<or> space3 c d e \<and> blank s)"

definition parseNamespacedName :: "string \<Rightarrow> object_key" where
  "parseNamespacedName s = (case cut_at CHR ''/'' s of None \<Rightarrow> ('''', s) | Some (ns, n) \<Rightarrow> (ns, n))"

definition watched_owner_type :: string where
  \<comment> \<open>the type the controller's watch is created with\<close>
  "watched_owner_type = GroupKind_String GroupVersion_Group ''TektonTasks''"

definition getAnnotationRequests :: "object_meta \<Rightarrow> object_key option" where
  "getAnnotationRequests m =
     (case m_annotations m of
        None \<Rightarrow> None
      | Some a \<Rightarrow>
          if a = fmempty then None
          else (case fmlookup a TypeAnnotation of
              None \<Rightarrow> None
            | Some typeString \<Rightarrow>
                if typeString = watched_owner_type then
                  (let namespacedNameString = smap_index (Some a) NamespacedNameAnnotation
                   in if blank namespacedNameString then None
                      else Some (parseNamespacedName namespacedNameString))
                else None))"

text \<open>The events of a watch, and the requests the handler adds for them.\<close>

datatype watch_event = Created object | Updated object object | Deleted object | Generic object

definition requests_of :: "object \<Rightarrow> object_key list" where
  "requests_of x = (case getAnnotationRequests (o_meta x) of None \<Rightarrow> [] | Some req \<Rightarrow> [req])"

fun EnqueueRequestForAnnotation_requests :: "watch_event \<Rightarrow> object_key list" where
  "EnqueueRequestForAnnotation_requests (Created x) = requests_of x"
| "EnqueueRequestForAnnotation_requests (Updated x y) = requests_of x @ requests_of y"
| "EnqueueRequestForAnnotation_requests (Deleted x) = requests_of x"
| "EnqueueRequestForAnnotation_requests (Generic x) = requests_of x"

definition observed :: "object option \<Rightarrow> object option \<Rightarrow> watch_event list" where
  \<comment> \<open>what a watch reports of an object that was the one and is the other\<close>
  "observed x y = (case (x, y) of
       (None, None) \<Rightarrow> []
     | (None, Some b) \<Rightarrow> [Created b]
     | (Some a, None) \<Rightarrow> [Deleted a]
     | (Some a, Some b) \<Rightarrow> if a = b then [] else [Updated a b])"

section \<open>What is written is read back\<close>

lemma blank_no_slash: "blank s \<Longrightarrow> CHR ''/'' \<notin> set s"
  by (induction s rule: blank.induct) (auto simp: ascii_space_def space2_def space3_def)

text \<open>Namespaces and names have no slash, and the API server gives the resource its kind and version.\<close>

definition owner_named :: "TektonTasks \<Rightarrow> bool" where
  "owner_named inst \<longleftrightarrow> CHR ''/'' \<notin> set (m_namespace (tt_meta inst)) \<and> tt_kind inst = ''TektonTasks'' \<and>
     tt_apiVersion inst = GroupVersion_Group @ ''/'' @ GroupVersion_Version"

lemma owner_named_type: "owner_named inst \<Longrightarrow> owner_type inst = watched_owner_type"
  by (simp add: owner_named_def owner_type_def watched_owner_type_def api_group_def ParseGroupVersion_def
      GroupVersion_Group_def GroupVersion_Version_def)

lemma marked_requests_owner:
  assumes "owner_named inst" and "owner_marked inst y"
  shows "getAnnotationRequests (o_meta y) = Some (tt_key inst)"
proof -
  obtain a where a: "m_annotations (o_meta y) = Some a" "fmlookup a TypeAnnotation = Some watched_owner_type"
    "fmlookup a NamespacedNameAnnotation = Some (owner_namespaced_name inst)"
    using assms(2) owner_named_type [OF assms(1)]
    by (cases "m_annotations (o_meta y)") (auto simp: owner_marked_def)
  have "\<not> blank (owner_namespaced_name inst)"
    using blank_no_slash [of "owner_namespaced_name inst"] by (auto simp: owner_namespaced_name_def)
  moreover have "parseNamespacedName (owner_namespaced_name inst) = tt_key inst"
    using assms(1) by (simp add: parseNamespacedName_def owner_namespaced_name_def owner_named_def tt_key_def)
  moreover have "a \<noteq> fmempty" using a(2) by auto
  ultimately show ?thesis using a by (simp add: getAnnotationRequests_def)
qed

lemma SetOwnerAnnotations_marks: "SetOwnerAnnotations inst x = Inr y \<Longrightarrow> owner_marked inst y"
  by (auto simp: SetOwnerAnnotations_def owner_marked_def upd_meta_def Let_def TypeAnnotation_def
      NamespacedNameAnnotation_def split: if_splits)

text \<open>A change of an object that belongs to the resource is a request for the resource.\<close>

lemma owned_change_requested:
  assumes "owner_named inst" and "owner_marked inst x" and "y \<noteq> Some x"
  shows "tt_key inst \<in> set (concat (map EnqueueRequestForAnnotation_requests (observed (Some x) y)))"
  using assms(3) marked_requests_owner [OF assms(1,2)]
  by (cases y) (auto simp: observed_def requests_of_def)

text \<open>
  C26. The watch finds the owner that was written: on the annotations that \<open>SetOwnerAnnotations\<close> leaves
  on an object, whatever they were before, the handler of the watches asks for exactly
  the resource's namespace and name.
\<close>

theorem owner_annotations_roundtrip:
  assumes "SetOwnerAnnotations inst x = Inr y" and "owner_named inst"
  shows "EnqueueRequestForAnnotation_requests (Created y) = [tt_key inst]"
  using marked_requests_owner [OF assms(2) SetOwnerAnnotations_marks [OF assms(1)]] by (simp add: requests_of_def)

theorem owner_annotations_roundtrip_witness:
  "\<exists>y. SetOwnerAnnotations sample_tt sample_role = Inr y \<and>
     EnqueueRequestForAnnotation_requests (Created y) = [(''kubevirt'', ''tt'')]"
proof -
  obtain y where y: "SetOwnerAnnotations sample_tt sample_role = Inr y"
    by (simp add: SetOwnerAnnotations_def Let_def)
  moreover have "owner_named sample_tt"
    by (simp add: owner_named_def GroupVersion_Group_def GroupVersion_Version_def)
  ultimately show ?thesis using owner_annotations_roundtrip by (fastforce simp: tt_key_def)
qed

end
