(* ===== verification/Operator_At_Rest.thy ===== *)
theory Operator_At_Rest
  imports Self_Healing Setup_Contract Work_Queue Owner_Watch
begin

text \<open>
  The whole operator: watches, work queue, workers and reconciler. When it is at rest, every
  deployed object of a watched type is in the cluster the way it was prepared, whatever
  others did to the objects before. Tasks are left out because they are not watched.
\<close>

section \<open>What others do\<close>

context operand_deployment
begin

lemma ready_change:
  assumes "ready_in o0 o' v vc" and "vc' = vc \<or> vc' = fmempty" and "\<And>j. j \<in> set (slots_of o0) \<Longrightarrow>
      v' (fst (target o0 j)) (snd (target o0 j)) = v (fst (target o0 j)) (snd (target o0 j)) \<or>
      fresh_at v' vc (fst (target o0 j)) (snd (target o0 j))"
  shows "ready_in o0 o' v' vc'"
  unfolding ready_in_def all_held_def
proof (intro conjI ballI)
  fix j assume j: "j \<in> set (slots_of o0)"
  let ?t = "fst (target o0 j)" and ?k = "snd (target o0 j)"
  have h: "held view healthy (func j) ?t ?k (wants o0 j) (elem j o') v vc"
    using assms(1) j by (simp add: ready_in_def all_held_def)
  have "held view healthy (func j) ?t ?k (wants o0 j) (elem j o') v' vc"
  proof (cases "v' ?t ?k = v ?t ?k")
    case True
    then show ?thesis using h by (simp add: held_def fresh_at_def)
  next
    case False
    then show ?thesis using assms(3) [OF j] by (simp add: held_def)
  qed
  then show "held view healthy (func j) ?t ?k (wants o0 j) (elem j o') v' vc'"
    using assms(2) by (auto simp: held_def fresh_at_def)
qed (use assms(1) in \<open>simp_all add: ready_in_def all_held_def\<close>)

end

lemma operands_ready_change:
  assumes "operands_ready env inst t0 p0 t p v vc" and "vc' = vc \<or> vc' = fmempty"
    and "list_all (\<lambda>(rt, k). v' rt k = v rt k \<or> fresh_at v' vc rt k) (operand_targets env inst t0 p0)"
  shows "operands_ready env inst t0 p0 t p v' vc'"
proof -
  have s: "disjoint_targets env inst t0 p0" "tt_run.ready_in env inst t0 t v vc" "tp_run.ready_in inst env p0 p v vc"
    using assms(1) by (simp_all add: operands_ready_def)
  have "tt_run.ready_in env inst t0 t v' vc'"
    by (rule tt_run.ready_change [OF s(2) assms(2)])
      (use assms(3) in \<open>simp add: operand_targets_def list_all_iff case_prod_beta\<close>)
  moreover have "tp_run.ready_in inst env p0 p v' vc'"
    by (rule tp_run.ready_change [OF s(3) assms(2)])
      (use assms(3) in \<open>simp add: operand_targets_def list_all_iff case_prod_beta\<close>)
  ultimately show ?thesis using s(1) by (simp add: operands_ready_def)
qed

lemma operands_ready_start_change:
  "operands_settled env inst t0 p0 t p v \<Longrightarrow> operands_ready env inst t0 p0 t p v vc"
  by (erule operands_settled_ready) (simp add: list_all_iff case_prod_beta)

text \<open>
  A step of the others: they delete or write objects so that the API server serves a version the
  operator has not recorded (\<open>disturbed\<close>), and the watches report every changed object of a watched type.
\<close>

definition objects_change ::
  "environ \<Rightarrow> object_key \<Rightarrow> TektonTasks \<Rightarrow> tektonTasks \<Rightarrow> tektonPipelines \<Rightarrow>
   fake_cluster tektonTasksReconciler \<Rightarrow> fake_cluster tektonTasksReconciler \<Rightarrow> object_key fset \<Rightarrow> bool" where
  "objects_change env k t0 t p r r' reqs \<longleftrightarrow>
     (\<exists>w. r' = in_world r w \<and> disturbed env k t0 t p r w \<and>
        (\<forall>rt i. (rt, EnqueueRequestForAnnotation) \<in> set (setupController (rs_operands r)) \<longrightarrow>
           list_all (\<lambda>e. list_all (\<lambda>req. req |\<in>| reqs) (EnqueueRequestForAnnotation_requests e))
             (observed (fake_view (world (rs_sys r)) rt i) (fake_view w rt i))))"

definition tekton_reconcile ::
  "environ \<Rightarrow> object_key \<Rightarrow> fake_cluster tektonTasksReconciler \<Rightarrow> bool outcome \<Rightarrow> fake_cluster tektonTasksReconciler \<Rightarrow> bool" where
  "tekton_reconcile env req r result r' \<longleftrightarrow> (\<exists>now. controller_Reconcile fake_client env now req r = (result, r'))"

text \<open>Everything but the tasks is as it was prepared.\<close>

definition watched_deployed ::
  "environ \<Rightarrow> TektonTasks \<Rightarrow> tektonTasks \<Rightarrow> tektonPipelines \<Rightarrow> (rtype \<Rightarrow> object_key \<Rightarrow> object option) \<Rightarrow> bool" where
  "watched_deployed env inst t p v \<longleftrightarrow>
     (\<forall>j \<in> set (tt_slots_of t). tt_slot_type j \<noteq> Task \<longrightarrow> (\<exists>x y. tt_prepared env inst j (tt_elem j t) = Some x \<and>
        v (tt_slot_type j) (object_key_of x) = Some y \<and> tt_deployed inst j x y)) \<and>
     (\<forall>j \<in> set (tp_slots_of inst p). \<exists>y. v (tp_slot_type j) (object_key_of (tp_prepared inst j (tp_elem j p))) = Some y \<and>
        tp_deployed env inst j (tp_prepared inst j (tp_elem j p)) y)"

definition operator_inv where
  "operator_inv env k t0 t p r \<longleftrightarrow>
     DeployTektonTaskResources (Spec_FeatureGates (Spec t0)) \<and> owner_named (fake_read_tt t0) \<and> tt_key t0 = k \<and>
     (\<exists>t1. ready k t1 (world (rs_sys r)) \<and> same_owner (fake_read_tt t1) (fake_read_tt t0)) \<and>
     (\<exists>t' p'. rs_operands r = [TasksOperand t', PipelinesOperand p'] \<and>
        operands_ready env (fake_read_tt t0) t p t' p' (fake_view (world (rs_sys r))) (vcache (rs_sys r))) \<and>
     cache_wf (vcache (rs_sys r))"

definition operator_good where
  "operator_good env k t0 t p req r \<longleftrightarrow>
     req = k \<longrightarrow> watched_deployed env (fake_read_tt t0) t p (fake_view (world (rs_sys r)))"

section \<open>The operator is driven by the state of the cluster\<close>

lemma other_request:
  assumes "ready k t1 (world (rs_sys r))" and "req \<noteq> k"
  shows "controller_Reconcile fake_client env now req r = (Ok False, r)"
proof -
  have "fmlookup (fc_tts (world (rs_sys r))) req = None"
    using assms by (metis fmdom_notI fsingleton_iff ready_def fmdom_notD)
  then have "call (c_get_tt fake_client req) (rs_sys r) = (Err (not_found ''tektontasks'' (snd req)), rs_sys r)"
    by (simp add: call_def fake_get_tt_def)
  then show ?thesis by (simp add: controller_Reconcile_def reconcile_request_def not_found_def)
qed

lemma all_deployed_watched: "all_deployed env inst t p v \<Longrightarrow> watched_deployed env inst t p v"
  by (auto simp: all_deployed_def watched_deployed_def)

lemma own_request:
  assumes inv: "operator_inv env k t0 t p r"
    and run: "controller_Reconcile fake_client env now k r = (result, r')"
  shows "result = Ok False \<and> operator_inv env k t0 t p r' \<and> operator_good env k t0 t p k r' \<and> keeps_deployed env k t0 t p r'"
proof -
  have gate: "DeployTektonTaskResources (Spec_FeatureGates (Spec t0))"
    and own: "owner_named (fake_read_tt t0)" "tt_key t0 = k"
    using inv unfolding operator_inv_def by blast+
  obtain t1 where t1: "ready k t1 (world (rs_sys r))" "same_owner (fake_read_tt t1) (fake_read_tt t0)"
    using inv unfolding operator_inv_def by blast
  obtain t' p' where ops: "rs_operands r = [TasksOperand t', PipelinesOperand p']"
    "operands_ready env (fake_read_tt t0) t p t' p' (fake_view (world (rs_sys r))) (vcache (rs_sys r))"
    and wf: "cache_wf (vcache (rs_sys r))"
    using inv unfolding operator_inv_def by blast
  let ?vc = "vcache (rs_sys (clearCacheIfNeeded (fake_read_tt t1) r))"
  have vc: "?vc = vcache (rs_sys r) \<or> ?vc = fmempty" by (rule cleared_cache)
  then have "cache_wf ?vc" using wf by auto
  moreover have "operands_ready env (fake_read_tt t1) t p t' p' (fake_view (world (rs_sys r))) ?vc"
    unfolding same_owner_operands [OF t1(2)]
    by (rule operands_ready_change [OF ops(2) vc]) (simp add: list_all_iff case_prod_beta)
  moreover have "DeployTektonTaskResources (Spec_FeatureGates (Spec t1))"
    using gate t1(2) by (simp add: same_owner_def)
  ultimately obtain t2 t2' p2' where 2: "result = Ok False"
     "ready k t2 (world (rs_sys r'))" "same_owner (fake_read_tt t2) (fake_read_tt t1)" "deployed_status env t2"
     "rs_operands r' = [TasksOperand t2', PipelinesOperand p2']" "cache_wf (vcache (rs_sys r'))"
     "operands_settled env (fake_read_tt t1) t p t2' p2' (fake_view (world (rs_sys r')))"
    using controller_settles [of k t1 r t' p' env t p now] t1(1) ops(1) run by auto
  have s: "operands_settled env (fake_read_tt t0) t p t2' p2' (fake_view (world (rs_sys r')))"
    using 2(7) same_owner_operands(2) [OF t1(2)] by simp
  show ?thesis
    using 2 s gate own same_owner_trans [OF 2(3) t1(2)] operands_ready_start_change [OF s]
      all_deployed_watched [OF operands_settled_deployed [OF s]]
    unfolding operator_inv_def operator_good_def keeps_deployed_def by blast
qed

lemma setupController_set:
  "set (setupController ops) = {(rt, EnqueueRequestForAnnotation) |rt. \<exists>op \<in> set ops. rt \<in> set (operand_WatchClusterTypes op)}"
  using setupController_watches by blast

lemma watched_types:
  assumes "rt \<in> {ClusterRole, RoleBinding, ServiceAccount, Pipeline, ConfigMap}"
  shows "(rt, EnqueueRequestForAnnotation) \<in> set (setupController [TasksOperand t, PipelinesOperand p])"
proof -
  have "rt \<in> fst ` set (setupController [TasksOperand t, PipelinesOperand p])"
    using assms unfolding startup_watches by auto
  then obtain h where "(rt, h) \<in> set (setupController [TasksOperand t, PipelinesOperand p])" by auto
  then show ?thesis by (auto simp: setupController_set)
qed

lemma changed_unless_same:
  assumes "owner_named inst" "owner_marked inst y" and "tt_key inst |\<notin>| reqs"
    and "list_all (\<lambda>e. list_all (\<lambda>req. req |\<in>| reqs) (EnqueueRequestForAnnotation_requests e)) (observed (Some y) x)"
  shows "x = Some y"
  using owned_change_requested [OF assms(1,2), of x] assms(3,4) unfolding list_all_iff by auto

lemma watched_deployed_change:
  assumes own: "owner_named inst" and k: "tt_key inst |\<notin>| reqs"
    and reqs: "\<forall>rt i. (rt, EnqueueRequestForAnnotation) \<in> set (setupController [TasksOperand t', PipelinesOperand p']) \<longrightarrow>
       list_all (\<lambda>e. list_all (\<lambda>req. req |\<in>| reqs) (EnqueueRequestForAnnotation_requests e)) (observed (v rt i) (v' rt i))"
    and d: "watched_deployed env inst t p v"
  shows "watched_deployed env inst t p v'"
proof -
  have stays: "v' rt i = Some y"
    if "rt \<in> {ClusterRole, RoleBinding, ServiceAccount, Pipeline, ConfigMap}" "v rt i = Some y" "owner_marked inst y" for rt i y
    using changed_unless_same [OF own that(3) k, of "v' rt i"]
      reqs [rule_format, OF watched_types [OF that(1)], of i] that(2) by simp
  have "tt_slot_type j \<in> {ClusterRole, RoleBinding, ServiceAccount, Pipeline, ConfigMap}" if "tt_slot_type j \<noteq> Task" for j
    using that by (cases j) simp_all
  moreover have "tp_slot_type j \<in> {ClusterRole, RoleBinding, ServiceAccount, Pipeline, ConfigMap}" for j
    by (cases j) simp_all
  ultimately show ?thesis
    using d stays unfolding watched_deployed_def tt_deployed_def tp_deployed_def by meson
qed

lemma operator_level_triggered:
  "level_triggered (tekton_reconcile env) (objects_change env k t0 t p) (operator_inv env k t0 t p)
    (operator_good env k t0 t p)"
proof
  fix r r' req result other
  assume inv: "operator_inv env k t0 t p r" and "tekton_reconcile env req r result r'"
  then obtain now where run: "controller_Reconcile fake_client env now req r = (result, r')"
    by (auto simp: tekton_reconcile_def)
  obtain t1 where t1: "ready k t1 (world (rs_sys r))" using inv unfolding operator_inv_def by blast
  have step: "if req = k then operator_inv env k t0 t p r' \<and> operator_good env k t0 t p k r' else r' = r"
  proof (cases "req = k")
    case True
    then show ?thesis using own_request [OF inv, of now result r'] run by simp
  next
    case False
    then show ?thesis using other_request [OF t1 False] run by auto
  qed
  then show "operator_inv env k t0 t p r'" using inv by (auto split: if_splits)
  show "operator_good env k t0 t p other r \<Longrightarrow> other \<noteq> req \<Longrightarrow> operator_good env k t0 t p other r'"
    using step by (auto simp: operator_good_def split: if_splits)
next
  fix r r' req
  assume inv: "operator_inv env k t0 t p r" and "tekton_reconcile env req r (Ok False) r'"
  then obtain now where run: "controller_Reconcile fake_client env now req r = (Ok False, r')"
    by (auto simp: tekton_reconcile_def)
  show "operator_good env k t0 t p req r'"
    using own_request [OF inv, of now "Ok False" r'] run by (cases "req = k") (auto simp: operator_good_def)
next
  fix r r' reqs
  assume inv: "operator_inv env k t0 t p r" and "objects_change env k t0 t p r r' reqs"
  then obtain w where w: "r' = in_world r w" "disturbed env k t0 t p r w"
    "\<forall>rt i. (rt, EnqueueRequestForAnnotation) \<in> set (setupController (rs_operands r)) \<longrightarrow>
       list_all (\<lambda>e. list_all (\<lambda>req. req |\<in>| reqs) (EnqueueRequestForAnnotation_requests e))
         (observed (fake_view (world (rs_sys r)) rt i) (fake_view w rt i))"
    unfolding objects_change_def by blast
  obtain t' p' where ops: "rs_operands r = [TasksOperand t', PipelinesOperand p']"
    "operands_ready env (fake_read_tt t0) t p t' p' (fake_view (world (rs_sys r))) (vcache (rs_sys r))"
    and wf: "cache_wf (vcache (rs_sys r))"
    using inv unfolding operator_inv_def by blast
  have own: "owner_named (fake_read_tt t0)" "tt_key t0 = k" using inv unfolding operator_inv_def by blast+
  have "list_all (\<lambda>(rt, i). fake_view w rt i = fake_view (world (rs_sys r)) rt i \<or>
      fresh_at (fake_view w) (vcache (rs_sys r)) rt i) (operand_targets env (fake_read_tt t0) t p)"
    using w(2) unfolding disturbed_def by blast
  from operands_ready_change [OF ops(2) disjI1 [OF refl] this]
  show "operator_inv env k t0 t p r'"
    using w(1,2) ops(1) wf inv unfolding operator_inv_def disturbed_def by auto
  fix req
  assume good: "operator_good env k t0 t p req r" and "req |\<notin>| reqs"
  then show "operator_good env k t0 t p req r'"
    unfolding operator_good_def
    using watched_deployed_change [OF own(1) _ w(3) [unfolded ops(1)]] w(1) own(2) by auto
qed

lemma operator_start:
  assumes "ready k t0 (world (rs_sys r))"
    and "DeployTektonTaskResources (Spec_FeatureGates (Spec t0))" and "CHR ''/'' \<notin> set (m_namespace (tt_meta t0))"
    and "rs_operands r = [TasksOperand t, PipelinesOperand p]" "operands_deployable env (fake_read_tt t0) t p"
    and "vcache (rs_sys r) = fmempty"
      "list_all (\<lambda>(rt, i). fresh_at (fake_view (world (rs_sys r))) fmempty rt i) (operand_targets env (fake_read_tt t0) t p)"
  shows "operator_inv env k t0 t p r"
    "\<And>req. operator_good env k t0 t p req r \<or> req |\<in>| {|k|}"
proof -
  have h: "fake_tt_healthy (world (rs_sys r))" "fmlookup (fc_tts (world (rs_sys r))) k = Some t0"
    using assms(1) by (simp_all add: ready_def)
  have own: "owner_named (fake_read_tt t0)" "tt_key t0 = k"
    using assms(3) fake_request(3) [OF h] by (simp_all add: owner_named_def fake_read_tt_def tt_key_def)
  have "m_name (tt_meta (fake_read_tt t0)) \<noteq> ''''" "tt_kind (fake_read_tt t0) \<noteq> ''''"
    using fake_request(4) [OF h] by simp_all
  from operands_ready_start [OF this assms(5,7)]
  show "operator_inv env k t0 t p r"
    using assms(1,2,4,6) own unfolding operator_inv_def same_owner_def by auto
  show "operator_good env k t0 t p req r \<or> req |\<in>| {|k|}" for req by (simp add: operator_good_def)
qed

text \<open>
  What the watches may ask for because of the operator's own calls: anything, but a call that wrote no object
  and of the resource only what its predicate filters out is not reported.
\<close>

definition operator_reports ::
  "object_key \<Rightarrow> fake_cluster tektonTasksReconciler \<Rightarrow> fake_cluster tektonTasksReconciler \<Rightarrow> object_key fset \<Rightarrow> bool" where
  "operator_reports k r r' reqs \<longleftrightarrow> (unnoticed k (world (rs_sys r)) (world (rs_sys r')) \<longrightarrow> reqs = {||})"

lemma unnoticed_refl: "ready k t1 w \<Longrightarrow> unnoticed k w w"
  by (simp add: unnoticed_def ready_def)

lemma operator_settling:
  "settling (tekton_reconcile env) (objects_change env k t0 t p) (operator_inv env k t0 t p)
    (operator_good env k t0 t p) (operator_reports k) (keeps_deployed env k t0 t p)"
proof (rule settling.intro [OF operator_level_triggered], unfold_locales)
  fix r :: "fake_cluster tektonTasksReconciler" and req
  assume inv: "operator_inv env k t0 t p r"
  then obtain t1 where t1: "ready k t1 (world (rs_sys r))" unfolding operator_inv_def by blast
  have gate: "DeployTektonTaskResources (Spec_FeatureGates (Spec t0))" using inv unfolding operator_inv_def by blast
  have other: "r' = r \<and> result = Ok False" if "tekton_reconcile env req r result r'" "req \<noteq> k" for result r'
    using that other_request [OF t1 that(2)] by (auto simp: tekton_reconcile_def)
  have own: "result = Ok False \<and> keeps_deployed env k t0 t p r'" if "tekton_reconcile env k r result r'" for result r'
    using that own_request [OF inv] unfolding tekton_reconcile_def by blast
  have quiet: "unnoticed k (world (rs_sys r)) (world (rs_sys r'))"
    if kept: "keeps_deployed env k t0 t p r" and call: "tekton_reconcile env k r result r'" for result r'
  proof -
    obtain now where now: "controller_Reconcile fake_client env now k r = (result, r')"
      using call by (auto simp: tekton_reconcile_def)
    from idle_round [OF kept gate, of now] show ?thesis unfolding now by auto
  qed
  obtain result r1 where some: "tekton_reconcile env req r result r1" unfolding tekton_reconcile_def by (metis surj_pair)
  then show "\<exists>r'. tekton_reconcile env req r (Ok False) r'" using own other by (cases "req = k") metis+
  fix result r' reqs
  assume run: "tekton_reconcile env req r result r'"
  have step: "result = Ok False \<and> (if req = k then keeps_deployed env k t0 t p r' else r' = r)"
    using own [of result r'] other [OF run] run by (cases "req = k") simp_all
  then show "result = Ok False" by blast
  assume rep: "operator_reports k r r' reqs"
  show "keeps_deployed env k t0 t p r' \<or> reqs = {||} \<and> r' = r"
    using step rep unnoticed_refl [OF t1] by (cases "req = k") (simp_all add: operator_reports_def)
  show "keeps_deployed env k t0 t p r' \<and> reqs = {||}" if "keeps_deployed env k t0 t p r"
    using that step rep unnoticed_refl [OF t1] quiet [OF that, of result r'] run
    by (cases "req = k") (simp_all add: operator_reports_def)
qed (simp add: operator_reports_def)

interpretation operator: settling "tekton_reconcile env" "objects_change env k t0 t p" "operator_inv env k t0 t p"
    "operator_good env k t0 t p" "operator_reports k" "keeps_deployed env k t0 t p" for env k t0 t p
  by (rule operator_settling)

lemma sample_run:
  "tekton_reconcile sample_env (''kubevirt'', ''tt'') (NewTektonReconciler sample_operands sample_cluster) (Ok False) sample_deployed"
proof -
  have "fst (controller_Reconcile fake_client sample_env 7 (''kubevirt'', ''tt'')
      (NewTektonReconciler sample_operands sample_cluster)) = Ok False"
    using controller_run [OF sample_first] by (metis fst_conv)
  then show ?thesis unfolding tekton_reconcile_def sample_deployed_def by (metis prod.collapse)
qed

lemma sample_runs:
  assumes "reports (NewTektonReconciler sample_operands sample_cluster) sample_deployed {||}"
  shows "controller_runs (tekton_reconcile sample_env) reports
     (objects_change sample_env (''kubevirt'', ''tt'') sample_cr sample_tasks_operand sample_pipelines)
     (NewTektonReconciler sample_operands sample_cluster) {|(''kubevirt'', ''tt'')|} (rested sample_deployed)"
  by (rule one_request) (rule sample_run, rule assms)

lemma sample_fresh:
  "vcache (rs_sys (NewTektonReconciler sample_operands sample_cluster)) = fmempty"
  "list_all (\<lambda>(rt, i). fresh_at (fake_view (world (rs_sys (NewTektonReconciler sample_operands sample_cluster)))) fmempty rt i)
     (operand_targets sample_env (fake_read_tt sample_cr) sample_tasks_operand sample_pipelines)"
proof -
  let ?r = "NewTektonReconciler sample_operands sample_cluster"
  have c: "vcache (rs_sys (clearCacheIfNeeded (fake_read_tt sample_cr) ?r)) = fmempty"
    by (simp add: clearCacheIfNeeded_def NewTektonReconciler_def)
  show "vcache (rs_sys ?r) = fmempty" by (simp add: NewTektonReconciler_def)
  show "list_all (\<lambda>(rt, i). fresh_at (fake_view (world (rs_sys ?r))) fmempty rt i)
     (operand_targets sample_env (fake_read_tt sample_cr) sample_tasks_operand sample_pipelines)"
    by (rule sample_first(6) [unfolded c])
qed



text \<open>
  C5. Left alone, the operator comes to rest, with everything deployed. From every state the running operator
  can be in, however others disturbed it before, its own steps (an event or a retry reaches the queue, a
  worker takes a request, reconciles it and gives it back, and what it wrote is reported to it again) cannot
  go on for ever, and where none is left, nothing is on its way and every watched object is
  in the cluster the way it was prepared, unless the operator was stopped: a reconciliation of what is
  deployed is not noticed by the watches.
\<close>

theorem operator_comes_to_rest:
  assumes "ready k t0 (world (rs_sys r))"
    and "DeployTektonTaskResources (Spec_FeatureGates (Spec t0))" and "CHR ''/'' \<notin> set (m_namespace (tt_meta t0))"
    and "rs_operands r = [TasksOperand t, PipelinesOperand p]" "operands_deployable env (fake_read_tt t0) t p"
    and "vcache (rs_sys r) = fmempty"
      "list_all (\<lambda>(rt, i). fresh_at (fake_view (world (rs_sys r))) fmempty rt i) (operand_targets env (fake_read_tt t0) t p)"
    and "controller_runs (tekton_reconcile env) (operator_reports k) (objects_change env k t0 t p) r {|k|} s"
  shows "(\<nexists>f. f 0 = s \<and> (\<forall>i. own_step (tekton_reconcile env) (operator_reports k) (f i) (f (Suc i)))) \<and>
     ((\<nexists>s'. own_step (tekton_reconcile env) (operator_reports k) s s') \<longrightarrow>
        at_rest s \<and> (wq_shuttingDown (run_queue s) \<or>
          watched_deployed env (fake_read_tt t0) t p (fake_view (world (rs_sys (run_state s))))))"
proof -
  note start = operator_start [OF assms(1-7)]
  have inv: "operator_inv env k t0 t p (run_state s)"
    using operator.runs_accounted [OF assms(8) start] by (simp add: operator.accounted_def)
  have "\<nexists>f. f 0 = s \<and> (\<forall>i. own_step (tekton_reconcile env) (operator_reports k) (f i) (f (Suc i)))"
    by (rule operator.own_steps_end [OF runs_wq_ok [OF assms(8)] inv])
  moreover have "at_rest s \<and> (wq_shuttingDown (run_queue s) \<or>
      watched_deployed env (fake_read_tt t0) t p (fake_view (world (rs_sys (run_state s)))))"
    if stuck: "\<nexists>s'. own_step (tekton_reconcile env) (operator_reports k) s s'"
  proof -
    have "at_rest s" by (rule operator.no_own_step_at_rest [OF stuck inv])
    with operator.rest_is_good [OF assms(8) start this, of k] show ?thesis
      by (auto simp: operator_good_def)
  qed
  ultimately show ?thesis by blast
qed

theorem operator_comes_to_rest_witness:
  "\<nexists>f. f 0 = rested sample_deployed \<and>
     (\<forall>i. own_step (tekton_reconcile sample_env) (operator_reports (''kubevirt'', ''tt'')) (f i) (f (Suc i)))"
proof -
  let ?k = "(''kubevirt'', ''tt'')"
  have "operator_reports ?k (NewTektonReconciler sample_operands sample_cluster) sample_deployed {||}"
    by (simp add: operator_reports_def)
  from operator_comes_to_rest [OF sample_first(1,2) _ sample_first(3,4) sample_fresh sample_runs [where reports = "operator_reports ?k", OF this]]
  show ?thesis by (simp add: sample_cr_def)
qed

end
