(* ===== verification/Waiting_Run.thy ===== *)
theory Waiting_Run
  imports Setup_Contract Work_Queue
begin

text \<open>
  The controller that waits for the required CRDs as it runs: watch events, the work queue, its
  workers, and the wrapper that cancels its context (\<open>controllers/finishable/finishable.go\<close>). It cannot
  get stuck, and once it is stopped it ends.
\<close>

section \<open>The running controller\<close>

definition NewController :: "'r \<Rightarrow> 'r finishable" where
  \<comment> \<open>the error of \<open>ctrl.NewUnmanaged\<close> comes from the manager alone\<close>
  "NewController r = \<lparr>fc_reconciler = r, fc_stopped = False\<rparr>"

definition CreateCrdController :: "string list \<Rightarrow> 'w \<Rightarrow> 'w waitForCrds finishable" where
  "CreateCrdController requiredCrds w =
     NewController \<lparr>wf_crds = CreateCrdController_crds requiredCrds, wf_world = w\<rparr>"

text \<open>CRDs have no namespace: the watch asks for them by name. An error brings the request back.\<close>

definition crd_handler ::
  "'w client \<Rightarrow> environ \<Rightarrow> time \<Rightarrow> string \<Rightarrow> 'w waitForCrds finishable \<Rightarrow> bool outcome \<times> 'w waitForCrds finishable" where
  "crd_handler cl env now c f =
     (case wrapper_Reconcile (waitForCrds_Reconcile cl env now) ('''', c) f of
        (None, f) \<Rightarrow> (Ok False, f)
      | (Some e, f) \<Rightarrow> (Err e, f))"

definition crd_reconcile ::
  "'w client \<Rightarrow> environ \<Rightarrow> string \<Rightarrow> 'w waitForCrds finishable \<Rightarrow> bool outcome \<Rightarrow> 'w waitForCrds finishable \<Rightarrow> bool" where
  "crd_reconcile cl env c f result f' \<longleftrightarrow> (\<exists>now. crd_handler cl env now c f = (result, f'))"

text \<open>
  What others do: anything, but a CRD that appears, is deleted or begins to be deleted is an
  event of its watch. Which CRDs are there is a function \<open>there\<close> of the server's state.
\<close>

definition crd_change ::
  "('w \<Rightarrow> string \<Rightarrow> bool) \<Rightarrow> 'w waitForCrds finishable \<Rightarrow> 'w waitForCrds finishable \<Rightarrow> string fset \<Rightarrow> bool" where
  "crd_change there f f' reqs \<longleftrightarrow>
     (\<exists>w. f' = f\<lparr>fc_reconciler := (fc_reconciler f)\<lparr>wf_world := w\<rparr>\<rparr> \<and>
        (\<forall>c. there w c \<noteq> there (wf_world (fc_reconciler f)) c \<longrightarrow> c |\<in>| reqs))"

text \<open>What the server promises about CRDs, and that the other calls leave them alone.\<close>

locale crd_server =
  fixes cl :: "'w client" and there :: "'w \<Rightarrow> string \<Rightarrow> bool"
  assumes got_crd: "c_get_crd cl ('''', c) w = (Inr crd, w') \<Longrightarrow>
      there w' = there w \<and> there w c = time_is_zero (crd_deletionTimestamp crd)"
    and no_crd: "c_get_crd cl ('''', c) w = (Inl e, w') \<Longrightarrow> there w' = there w \<and> (is_not_found e \<longrightarrow> \<not> there w c)"
    and listed: "there (snd (c_list_tt cl ns w)) = there w"
    and status_written: "there (snd (c_status_update_tt cl t w)) = there w"
begin

lemma setConditions_there: "setConditions cl env now w = (q, w') \<Longrightarrow> there w' = there w"
proof -
  have wr: "write_tt (c_status_update_tt cl) st = (q, st') \<Longrightarrow> there (world (snd st')) = there (world (snd st))" for st q st'
    using status_written [of "fst st" "world (snd st)"]
    by (auto simp: write_tt_def split: prod.splits sum.splits)
  have status: "updateStatus cl env now rs (t, s) = (q, st') \<Longrightarrow> there (world (snd st')) = there (world s)" for rs t s q st'
    using wr by (fastforce simp: updateStatus_write)
  assume run: "setConditions cl env now w = (q, w')"
  obtain l w1 where l: "c_list_tt cl (Some (GetOperatorNamespace env)) w = (l, w1)" by (metis surj_pair)
  have w1: "there w1 = there w" using listed [of "Some (GetOperatorNamespace env)" w] l by simp
  show ?thesis
    using run w1 unfolding setConditions_def l
    by (auto split: sum.splits list.splits prod.splits outcome.splits dest!: status)
qed

end

context crd_server
begin

definition waiting_inv :: "string list \<Rightarrow> 'w waitForCrds finishable \<Rightarrow> bool" where
  "waiting_inv required f \<longleftrightarrow>
     (\<forall>c. fmlookup (wf_crds (fc_reconciler f)) c = None \<longleftrightarrow> c \<notin> set required) \<and>
     (fc_stopped f \<or> (\<exists>c \<in> set required. fmlookup (wf_crds (fc_reconciler f)) c = Some False))"

definition crd_known :: "string list \<Rightarrow> string \<Rightarrow> 'w waitForCrds finishable \<Rightarrow> bool" where
  "crd_known required c f \<longleftrightarrow> c \<in> set required \<longrightarrow>
     fmlookup (wf_crds (fc_reconciler f)) c = Some (there (wf_world (fc_reconciler f)) c)"

lemma waitForCrds_there:
  assumes "waitForCrds_Reconcile cl env now ('''', c) wc = (q, wc')"
  shows "there (wf_world wc') = there (wf_world wc)"
    and "\<And>finished. q = Inr finished \<Longrightarrow> (finished \<longleftrightarrow> allCrdsExist (wf_crds wc')) \<and>
       wf_crds wc' = (if fmlookup (wf_crds wc) c = None then wf_crds wc
         else fmupd c (there (wf_world wc) c) (wf_crds wc))"
    and "\<And>e. q = Inl e \<Longrightarrow> wf_crds wc' = wf_crds wc"
proof -
  obtain q1 w1 where 1: "setConditions cl env now (wf_world wc) = (q1, w1)" by (metis surj_pair)
  obtain q2 w2 where 2: "c_get_crd cl ('''', c) w1 = (q2, w2)" by (metis surj_pair)
  have w1: "there w1 = there (wf_world wc)" by (rule setConditions_there [OF 1])
  have w2: "there w2 = there w1" "\<And>crd. q2 = Inr crd \<Longrightarrow> there w1 c = time_is_zero (crd_deletionTimestamp crd)"
    "\<And>e. q2 = Inl e \<Longrightarrow> is_not_found e \<Longrightarrow> \<not> there w1 c"
    using 2 got_crd no_crd by (cases q2; fastforce)+
  show "there (wf_world wc') = there (wf_world wc)"
    "\<And>finished. q = Inr finished \<Longrightarrow> (finished \<longleftrightarrow> allCrdsExist (wf_crds wc')) \<and>
       wf_crds wc' = (if fmlookup (wf_crds wc) c = None then wf_crds wc
         else fmupd c (there (wf_world wc) c) (wf_crds wc))"
    "\<And>e. q = Inl e \<Longrightarrow> wf_crds wc' = wf_crds wc"
    using assms w1 w2
    by (auto simp: waitForCrds_Reconcile_def 1 2 Let_def isCrdRequired_def setCrdExists_def split: sum.splits if_splits)
qed

lemma crd_handler_effect:
  assumes "crd_handler cl env now c f = (result, f')"
  shows "there (wf_world (fc_reconciler f')) = there (wf_world (fc_reconciler f))"
    and "result = Ok requeue \<Longrightarrow>
      wf_crds (fc_reconciler f') = (if fmlookup (wf_crds (fc_reconciler f)) c = None then wf_crds (fc_reconciler f)
         else fmupd c (there (wf_world (fc_reconciler f)) c) (wf_crds (fc_reconciler f))) \<and>
      fc_stopped f' = (fc_stopped f \<or> allCrdsExist (wf_crds (fc_reconciler f')))"
    and "result = Err e \<Longrightarrow> wf_crds (fc_reconciler f') = wf_crds (fc_reconciler f) \<and> fc_stopped f' = fc_stopped f"
    and "result \<noteq> Panic p"
proof -
  obtain q wc where run: "waitForCrds_Reconcile cl env now ('''', c) (fc_reconciler f) = (q, wc)" by (metis surj_pair)
  note w = waitForCrds_there [OF run]
  have f': "(result, f') = (case q of
       Inl e \<Rightarrow> (Err e, f\<lparr>fc_reconciler := wc\<rparr>)
     | Inr finished \<Rightarrow> (Ok False, \<lparr>fc_reconciler = wc, fc_stopped = (fc_stopped f \<or> finished)\<rparr>))"
    using assms by (simp add: crd_handler_def wrapper_Reconcile_def run split: sum.splits)
  show "there (wf_world (fc_reconciler f')) = there (wf_world (fc_reconciler f))"
    using f' w(1) by (cases q) simp_all
  show "result \<noteq> Panic p" using f' by (cases q) simp_all
  show "wf_crds (fc_reconciler f') = wf_crds (fc_reconciler f) \<and> fc_stopped f' = fc_stopped f" if "result = Err e"
    using f' w(3) that by (cases q) simp_all
  show "wf_crds (fc_reconciler f') = (if fmlookup (wf_crds (fc_reconciler f)) c = None then wf_crds (fc_reconciler f)
         else fmupd c (there (wf_world (fc_reconciler f)) c) (wf_crds (fc_reconciler f))) \<and>
      fc_stopped f' = (fc_stopped f \<or> allCrdsExist (wf_crds (fc_reconciler f')))" if "result = Ok requeue"
  proof (cases q)
    case (Inr finished)
    then show ?thesis using f' w(2) [OF Inr] by simp
  qed (use f' that in simp)
qed

lemma waiting_level_triggered:
  "level_triggered (crd_reconcile cl env) (crd_change there) (waiting_inv required) (crd_known required)"
proof
  fix f f' c result
  assume inv: "waiting_inv required f" and "crd_reconcile cl env c f result f'" and "\<forall>p. result \<noteq> Panic p"
  then obtain now where run: "crd_handler cl env now c f = (result, f')" by (auto simp: crd_reconcile_def)
  note eff = crd_handler_effect [OF run]
  show "waiting_inv required f'"
  proof (cases result)
    case (Ok requeue)
    have dom: "fmlookup (wf_crds (fc_reconciler f')) d = None \<longleftrightarrow> d \<notin> set required" for d
      using inv eff(2) [OF Ok] by (auto simp: waiting_inv_def)
    moreover have "fc_stopped f' \<or> (\<exists>d \<in> set required. fmlookup (wf_crds (fc_reconciler f')) d = Some False)"
    proof (cases "allCrdsExist (wf_crds (fc_reconciler f'))")
      case False
      then obtain d where "fmlookup (wf_crds (fc_reconciler f')) d = Some False" by (auto simp: allCrdsExist_iff)
      moreover from this dom [of d] have "d \<in> set required" by auto
      ultimately show ?thesis by blast
    qed (use eff(2) [OF Ok] in simp)
    ultimately show ?thesis by (simp add: waiting_inv_def)
  next
    case (Err e)
    then show ?thesis using inv eff(3) by (simp add: waiting_inv_def)
  qed (use eff(4) in auto)
next
  fix f f' c result other
  assume "crd_reconcile cl env c f result f'" "crd_known required other f" "other \<noteq> c"
  moreover from this obtain now where run: "crd_handler cl env now c f = (result, f')" by (auto simp: crd_reconcile_def)
  note eff = crd_handler_effect [OF run]
  ultimately show "crd_known required other f'"
    using eff(1,4) by (cases result) (auto simp: crd_known_def dest!: eff(2,3))
next
  fix f f' c
  assume inv: "waiting_inv required f" and "crd_reconcile cl env c f (Ok False) f'"
  then obtain now where run: "crd_handler cl env now c f = (Ok False, f')" by (auto simp: crd_reconcile_def)
  show "crd_known required c f'"
    using inv crd_handler_effect(1) [OF run] crd_handler_effect(2) [OF run refl]
    by (auto simp: crd_known_def waiting_inv_def)
qed (auto simp: crd_change_def waiting_inv_def crd_known_def)

end

sublocale crd_server \<subseteq> wait: level_triggered "crd_reconcile cl env" "crd_change there"
    "waiting_inv required" "crd_known required" for env required
  by (rule waiting_level_triggered)

context crd_server
begin

lemma crd_begin:
  assumes "required \<noteq> []" and "\<forall>c. there w c \<longrightarrow> c |\<in>| reqs"
  shows "waiting_inv required (CreateCrdController required w)"
    "crd_known required c (CreateCrdController required w) \<or> c |\<in>| reqs"
  using assms by (cases required; auto simp: waiting_inv_def crd_known_def CreateCrdController_def NewController_def
      CreateCrdController_crds_lookup)+

lemma never_stuck:
  assumes "controller_runs (crd_reconcile cl env) reports (crd_change there) (CreateCrdController required w) reqs s"
    and "required \<noteq> []" and "\<forall>c. there w c \<longrightarrow> c |\<in>| reqs"
    and "at_rest s" and "\<not> wq_shuttingDown (run_queue s)" and "\<not> fc_stopped (run_state s)"
  shows "\<exists>c \<in> set required. \<not> there (wf_world (fc_reconciler (run_state s))) c"
proof -
  note b = crd_begin [OF assms(2,3)]
  have "waiting_inv required (run_state s)"
    using wait.runs_accounted [OF assms(1) b] by (simp add: wait.accounted_def)
  then obtain c where "c \<in> set required" "fmlookup (wf_crds (fc_reconciler (run_state s))) c = Some False"
    using assms(6) by (auto simp: waiting_inv_def)
  with wait.rest_is_good [OF assms(1) b assms(4,5), of c] show ?thesis by (auto simp: crd_known_def)
qed

end

definition fake_there :: "fake_cluster \<Rightarrow> string \<Rightarrow> bool" where
  "fake_there w c = (case fmlookup (fc_crds w) ('''', c) of
     Some crd \<Rightarrow> time_is_zero (crd_deletionTimestamp crd) | None \<Rightarrow> False)"

interpretation fake_crds: crd_server fake_client fake_there
proof
  fix w :: fake_cluster and c :: string and crd e w'
  show "c_get_crd fake_client ('''', c) w = (Inr crd, w') \<Longrightarrow>
      fake_there w' = fake_there w \<and> fake_there w c = time_is_zero (crd_deletionTimestamp crd)"
    "c_get_crd fake_client ('''', c) w = (Inl e, w') \<Longrightarrow>
      fake_there w' = fake_there w \<and> (is_not_found e \<longrightarrow> \<not> fake_there w c)"
    by (auto simp: fake_get_crd_def fake_there_def split: option.splits)
  show "fake_there (snd (c_list_tt fake_client ns w)) = fake_there w" for ns
    by (simp add: fake_list_tt_def)
  show "fake_there (snd (c_status_update_tt fake_client t w)) = fake_there w" for t
    by (auto simp: fake_update_tt_def fake_there_def fun_eq_iff Let_def split: sum.splits)
qed

section \<open>It ends\<close>

text \<open>
  C36. The operator cannot wait forever for CRDs that are there. However watch events, requests,
  failures, retries and changes by others interleave, on any server whose watch reports
  CRDs that appear and vanish, and whatever the controller's own calls wake up: when the waiting controller is at rest (no event under way, no request
  queued, at a worker or waiting to be retried) and was not stopped, then one of the
  required CRDs does not exist.
\<close>

theorem waiting_never_stuck:
  assumes "crd_server cl there"
    and "controller_runs (crd_reconcile cl env) reports (crd_change there) (CreateCrdController required w) reqs s"
    and "required \<noteq> []" and "\<forall>c. there w c \<longrightarrow> c |\<in>| reqs"
    and "at_rest s" and "\<not> wq_shuttingDown (run_queue s)" and "\<not> fc_stopped (run_state s)"
  shows "\<exists>c \<in> set required. \<not> there (wf_world (fc_reconciler (run_state s))) c"
  using assms(2-) by (rule crd_server.never_stuck [OF assms(1)])

text \<open>A request for a CRD that is not there goes through the queue and is handled.\<close>

definition asked :: "fake_cluster waitForCrds finishable" where
  "asked = NewController \<lparr>wf_crds = fmupd ''x'' False (CreateCrdController_crds [''x'']), wf_world = empty_cluster\<rparr>"

lemma asked_runs:
  "controller_runs (crd_reconcile fake_client sample_env) (\<lambda>_ _ _. True) (crd_change fake_there)
     (CreateCrdController [''x''] empty_cluster) {|''x''|} (rested asked)"
proof (rule one_request)
  show "crd_reconcile fake_client sample_env ''x'' (CreateCrdController [''x''] empty_cluster) (Ok False) asked"
  proof -
    have s: "setConditions fake_client sample_env 7 empty_cluster = (Inr (), empty_cluster)"
      by (rule empty_setConditions) (simp_all add: empty_cluster_def)
    have g: "fake_get_crd ('''', ''x'') empty_cluster = (Inl (not_found ''customresourcedefinitions'' ''x''), empty_cluster)"
      by (simp add: fake_get_crd_def empty_cluster_def)
    have r: "isCrdRequired (CreateCrdController_crds [''x'']) ''x''"
        "\<not> allCrdsExist (fmupd ''x'' False (CreateCrdController_crds [''x'']))"
      by (auto simp: isCrdRequired_def CreateCrdController_crds_lookup allCrdsExist_iff intro!: exI [of _ "''x''"])
    show ?thesis
      unfolding crd_reconcile_def
      by (rule exI [of _ 7])
        (simp add: crd_handler_def wrapper_Reconcile_def waitForCrds_Reconcile_def CreateCrdController_def NewController_def s
          g not_found_def asked_def Let_def r setCrdExists_def)
  qed
qed (rule TrueI)

theorem waiting_never_stuck_witness:
  "\<exists>c \<in> set [''x'']. \<not> fake_there (wf_world (fc_reconciler asked)) c"
  using waiting_never_stuck [OF fake_crds.crd_server_axioms asked_runs]
  by (simp add: fake_there_def empty_cluster_def asked_def NewController_def)

text \<open>
  \<open>Start\<close> gives the inner controller a context of its own, which the wrapper's stop function cancels, and with it the
  one it was started with (\<open>cancelled\<close>). The inner controller works until its context is cancelled, and then shuts down
  its queue. What its calls wake up is left open.
\<close>

inductive finishable_step ::
  "('q \<Rightarrow> 'r finishable \<Rightarrow> bool outcome \<Rightarrow> 'r finishable \<Rightarrow> bool) \<Rightarrow> bool \<Rightarrow>
   ('q, 'r finishable) running \<Rightarrow> ('q, 'r finishable) running \<Rightarrow> bool" for reconcile cancelled where
  Inner: "own_step reconcile (\<lambda>_ _ _. True) s s' \<Longrightarrow> finishable_step reconcile cancelled s s'"
| Cancelled: "cancelled \<or> fc_stopped (run_state s) \<Longrightarrow> \<not> wq_shuttingDown (run_queue s) \<Longrightarrow>
    finishable_step reconcile cancelled s (s\<lparr>run_queue := wq_ShutDown (run_queue s)\<rparr>)"

inductive_cases finishable_stepE: "finishable_step reconcile cancelled s s'"

lemma crd_handler_no_panic: "fst (crd_handler cl env now c f) \<noteq> Panic p"
  by (simp add: crd_handler_def split: prod.split option.split)

lemma stopped_finishable_step:
  "finishable_step reconcile cancelled s s' \<Longrightarrow> wq_shuttingDown (run_queue s) \<Longrightarrow> own_step reconcile (\<lambda>_ _ _. True) s s'"
  by (erule finishable_stepE) simp_all

text \<open>
  C37. The controller that waits for CRDs ends when it should. In every state it can be in, on any server
  that keeps its promises about CRDs: if nothing is left to do, neither a step of the inner controller nor shutting
  down after the stop function or the caller cancelled the context, and all required CRDs exist or the caller cancelled, then
  the queue is shut down and no request is queued or at a worker, so the workers leave. And once the queue is shut down
  the controller's own steps come to an end, and even if others go on for ever with changes, events and
  requests, from some point on no worker gets anything to do.
\<close>

theorem stopped_controller_ends:
  assumes "crd_server cl there"
    and "controller_runs (crd_reconcile cl env) (\<lambda>_ _ _. True) (crd_change there) (CreateCrdController required w) reqs s"
    and "required \<noteq> []" and "\<forall>c. there w c \<longrightarrow> c |\<in>| reqs"
  shows "((\<nexists>s'. finishable_step (crd_reconcile cl env) cancelled s s') \<longrightarrow>
       cancelled \<or> (\<forall>c \<in> set required. there (wf_world (fc_reconciler (run_state s))) c) \<longrightarrow>
       at_rest s \<and> fst (wq_Get (run_queue s)) = Shutdown) \<and>
     (wq_shuttingDown (run_queue s) \<longrightarrow>
       (\<nexists>f. f 0 = s \<and> (\<forall>i. finishable_step (crd_reconcile cl env) cancelled (f i) (f (Suc i)))) \<and>
       (\<forall>f. f 0 = s \<and> (\<forall>i. run_step (crd_reconcile cl env) (\<lambda>_ _ _. True) (crd_change there) (f i) (f (Suc i))) \<longrightarrow>
          (\<exists>n. \<forall>i \<ge> n. run_queue (f i) = run_queue (f n))))"
proof (intro conjI impI allI)
  assume stuck: "\<nexists>s'. finishable_step (crd_reconcile cl env) cancelled s s'"
    and all: "cancelled \<or> (\<forall>c \<in> set required. there (wf_world (fc_reconciler (run_state s))) c)"
  have returns: "\<exists>result f reqs. crd_reconcile cl env c (run_state s) result f \<and> (\<forall>p. result \<noteq> Panic p) \<and> True" for c
    using crd_handler_no_panic unfolding crd_reconcile_def by (metis surjective_pairing)
  show rest: "at_rest s"
  proof (rule stuck_at_rest)
    show "\<nexists>s'. own_step (crd_reconcile cl env) (\<lambda>_ _ _. True) s s'" using stuck finishable_step.Inner by blast
  qed (rule returns)
  have "wq_shuttingDown (run_queue s)"
  proof (rule ccontr)
    assume down: "\<not> wq_shuttingDown (run_queue s)"
    then have "\<not> cancelled" "\<not> fc_stopped (run_state s)" using stuck finishable_step.Cancelled by blast+
    with crd_server.never_stuck [OF assms rest down] all show False by blast
  qed
  then show "fst (wq_Get (run_queue s)) = Shutdown" using rest by (simp add: at_rest_def wq_Get_def)
next
  assume down: "wq_shuttingDown (run_queue s)"
  note ok = runs_wq_ok [OF assms(2)]
  have "\<nexists>f. f 0 = s \<and> (\<forall>i. own_step (crd_reconcile cl env) (\<lambda>_ _ _. True) (f i) (f (Suc i)))"
    by (rule stopped_steps_end [OF ok down])
  moreover have "own_step (crd_reconcile cl env) (\<lambda>_ _ _. True) (f i) (f (Suc i))"
    if f: "f 0 = s" "\<And>i. finishable_step (crd_reconcile cl env) cancelled (f i) (f (Suc i))" for f i
  proof -
    have "wq_ok (run_queue (f i)) \<and> wq_shuttingDown (run_queue (f i))" for i
    proof (induction i)
      case (Suc i)
      from stopped_finishable_step [OF f(2)] Suc show ?case using own_step_wq_ok own_step_stopped by blast
    qed (use f(1) ok down in simp)
    then show ?thesis using stopped_finishable_step [OF f(2)] by blast
  qed
  ultimately show "\<nexists>f. f 0 = s \<and> (\<forall>i. finishable_step (crd_reconcile cl env) cancelled (f i) (f (Suc i)))" by blast
  fix f
  assume "f 0 = s \<and> (\<forall>i. run_step (crd_reconcile cl env) (\<lambda>_ _ _. True) (crd_change there) (f i) (f (Suc i)))"
  then show "\<exists>n. \<forall>i \<ge> n. run_queue (f i) = run_queue (f n)" using stopped_queue_settles [of f] ok down by blast
qed

text \<open>The controller above after its caller cancelled the context.\<close>

theorem stopped_controller_ends_witness:
  "fst (wq_Get (run_queue ((rested asked :: (string, _) running)\<lparr>run_queue := wq_ShutDown wq_New\<rparr>))) = Shutdown \<and>
   (\<nexists>f. f 0 = (rested asked)\<lparr>run_queue := wq_ShutDown wq_New\<rparr> \<and>
      (\<forall>i. finishable_step (crd_reconcile fake_client sample_env) True (f i) (f (Suc i))))"
proof -
  let ?s = "(rested asked :: (string, _) running)\<lparr>run_queue := wq_ShutDown wq_New\<rparr>"
  have "controller_runs (crd_reconcile fake_client sample_env) (\<lambda>_ _ _. True) (crd_change fake_there)
      (CreateCrdController [''x''] empty_cluster) {|''x''|} ((rested asked)\<lparr>run_queue := wq_ShutDown (run_queue (rested asked))\<rparr>)"
    by (rule controller_runs.Continue [OF asked_runs run_step.Stopped])
  then have run: "controller_runs (crd_reconcile fake_client sample_env) (\<lambda>_ _ _. True) (crd_change fake_there)
      (CreateCrdController [''x''] empty_cluster) {|''x''|} ?s" by (simp add: rested_def)
  have crds: "\<forall>c. fake_there empty_cluster c \<longrightarrow> c |\<in>| {|''x''|}" by (simp add: fake_there_def empty_cluster_def)
  note ends = stopped_controller_ends [OF fake_crds.crd_server_axioms run not_Cons_self2 crds, of True]
  have "\<nexists>s'. finishable_step (crd_reconcile fake_client sample_env) True ?s s'"
    by (auto simp: rested_def wq_ShutDown_def wq_New_def wq_Get_def elim!: finishable_stepE own_stepE)
  from conjunct2 [OF mp [OF mp [OF conjunct1 [OF ends] this] disjI1 [OF TrueI]]]
  have shut: "fst (wq_Get (run_queue ?s)) = Shutdown" .
  have "wq_shuttingDown (run_queue ?s)" by (simp add: wq_ShutDown_def)
  from conjunct1 [OF mp [OF conjunct2 [OF ends] this]] show ?thesis by (rule conjI [OF shut])
qed

end
