(* ===== verification/Process_Entry.thy ===== *)
theory Process_Entry
  imports Waiting_Run
begin

text \<open>
  The process: \<open>main.go\<close>, and what start-up adds to the manager (\<open>controllers/setup.go\<close>). The manager is a
  library; what its functions return is a record of parameters.
\<close>

record manager_options =
  mo_MetricsBindAddress :: string
  mo_Port :: nat
  mo_HealthProbeBindAddress :: string
  mo_LeaderElection :: bool
  mo_LeaderElectionID :: string

record command_flags =
  metrics_bind_address :: string
  health_probe_bind_address :: string
  leader_elect :: bool

definition default_flags :: command_flags where
  \<comment> \<open>what \<open>flag.Parse\<close> leaves when no flag is given\<close>
  "default_flags = \<lparr>metrics_bind_address = '':8080'', health_probe_bind_address = '':8081'', leader_elect = False\<rparr>"

definition options_of :: "command_flags \<Rightarrow> manager_options" where
  "options_of f = \<lparr>mo_MetricsBindAddress = metrics_bind_address f, mo_Port = 9443,
     mo_HealthProbeBindAddress = health_probe_bind_address f, mo_LeaderElection = leader_elect f,
     mo_LeaderElectionID = ''d98bc7b7.kubevirt.io''\<rparr>"

text \<open>The errors of the manager's functions, \<open>None\<close> for nil.\<close>

record manager_calls =
  mc_NewManager :: "manager_options \<Rightarrow> error option"
  mc_AddHealthzCheck :: "error option"
  mc_AddReadyzCheck :: "error option"
  mc_Complete :: "(rtype \<times> watch_handler) list \<Rightarrow> error option" \<comment> \<open>the builder of \<open>setupController\<close>\<close>
  mc_NewUnmanaged :: "error option"
  mc_Watch :: "error option"
  mc_Add :: "error option"
  mc_Start :: "error option"

fun first_failure :: "error option list \<Rightarrow> error option" where
  "first_failure [] = None"
| "first_failure (None # es) = first_failure es"
| "first_failure (Some e # es) = Some e"

definition setup_result :: "manager_calls \<Rightarrow> startup \<Rightarrow> error option" where
  \<comment> \<open>what \<open>CreateAndSetupReconciler\<close> returns once it has decided\<close>
  "setup_result mc st =
     (case st of
        StartupError e \<Rightarrow> Some e
      | StartController ops watches \<Rightarrow> mc_Complete mc watches
      | WaitForCrds requiredCrds ops \<Rightarrow> first_failure [mc_NewUnmanaged mc, mc_Watch mc, mc_Add mc])"

definition waiting_runnable :: "manager_calls \<Rightarrow> Operand list \<Rightarrow> error option \<Rightarrow> error option \<times> string list" where
  \<comment> \<open>the function added to the manager, given what \<open>Start\<close> of the waiting controller returned\<close>
  "waiting_runnable mc ops started =
     (case started of
        Some e \<Rightarrow> (Some e, [])
      | None \<Rightarrow> (mc_Complete mc (setupController ops),
                 [''Required CRDs were installed, starting tekton-tasks operator.'']))"

text \<open>The exit code and the messages of \<open>setupLog\<close>.\<close>

definition main_go ::
  "command_flags \<Rightarrow> manager_calls \<Rightarrow> 'd yaml_lib \<Rightarrow> file_system \<Rightarrow> 'w client \<Rightarrow> 'w \<Rightarrow> nat \<times> string list" where
  "main_go fl mc lib fs reader w =
     (case mc_NewManager mc (options_of fl) of
        Some e \<Rightarrow> (1, [''unable to start manager''])
      | None \<Rightarrow>
          (case mc_AddHealthzCheck mc of
             Some e \<Rightarrow> (1, [''unable to set up health check''])
           | None \<Rightarrow>
               (case mc_AddReadyzCheck mc of
                  Some e \<Rightarrow> (1, [''unable to set up ready check''])
                | None \<Rightarrow>
                    (case setup_result mc (fst (CreateAndSetupReconciler lib fs reader w)) of
                       Some e \<Rightarrow> (1, [''unable to create controller''])
                     | None \<Rightarrow>
                         (case mc_Start mc of
                            Some e \<Rightarrow> (1, [''starting manager'', ''problem running manager''])
                          | None \<Rightarrow> (0, [''starting manager'']))))))"

lemma first_error_None: "first_failure es = None \<longleftrightarrow> (\<forall>e \<in> set es. e = None)"
  by (induction es rule: first_failure.induct) auto

text \<open>The manager is started only when everything before it succeeded, and the process reports every failure.\<close>

lemma manager_started_iff:
  "''starting manager'' \<in> set (snd (main_go fl mc lib fs reader w)) \<longleftrightarrow>
     mc_NewManager mc (options_of fl) = None \<and> mc_AddHealthzCheck mc = None \<and> mc_AddReadyzCheck mc = None \<and>
     setup_result mc (fst (CreateAndSetupReconciler lib fs reader w)) = None"
  by (simp add: main_go_def split: option.split)

lemma main_exit_code:
  "fst (main_go fl mc lib fs reader w) = (if ''starting manager'' \<in> set (snd (main_go fl mc lib fs reader w)) \<and>
     mc_Start mc = None then 0 else 1)"
  by (simp add: main_go_def split: option.split)

text \<open>The controller that is set up after waiting has the watches of the one that is set up at once.\<close>

lemma same_controller_later:
  assumes "fst (CreateAndSetupReconciler lib fs reader w) = StartController ops watches"
  shows "setup_result mc (StartController ops watches) = fst (waiting_runnable mc ops None)"
  using assms
  by (auto simp: CreateAndSetupReconciler_def setup_result_def waiting_runnable_def Let_def
      split: prod.splits sum.splits if_splits)

end
