(* ===== verification/Scheme_Registration.thy ===== *)
theory Scheme_Registration
  imports Process_Entry
begin

text \<open>
  What happens before \<open>main\<close>: the packages register the types their clients use
  (\<open>pkg/common/scheme.go\<close>, \<open>api/v1alpha1\<close> and the two operands' \<open>init\<close>). A type that is not registered is one
  no client can read or write. The library packages are parameters.
\<close>

section \<open>The scheme\<close>

text \<open>The types the operator calls its clients with.\<close>

datatype go_kind = ObjectKind rtype | TektonTasksKind | TektonTasksListKind | CrdKind | ClusterVersionKind

datatype api_package = ClientGo | ApiExtensions | OpenshiftConfig | TektonPipeline

type_synonym scheme = "go_kind fset"

definition SchemeBuilder_objects :: "go_kind list" where
  "SchemeBuilder_objects = [TektonTasksKind, TektonTasksListKind]"

definition tekton_AddToScheme :: "scheme \<Rightarrow> error option \<times> scheme" where
  "tekton_AddToScheme s = (None, s |\<union>| fset_of_list SchemeBuilder_objects)"

definition Must :: "error option \<times> scheme \<Rightarrow> unit outcome \<times> scheme" where
  "Must r = (case r of (None, s) \<Rightarrow> (Ok (), s) | (Some e, s) \<Rightarrow> (Panic (error_message e), s))"

text \<open>The libraries' \<open>AddToScheme\<close> is \<open>add\<close>.\<close>

definition common_init ::
  "(api_package \<Rightarrow> scheme \<Rightarrow> error option \<times> scheme) \<Rightarrow> scheme \<Rightarrow> unit outcome \<times> scheme" where
  "common_init add s =
     bind_outcome (Must (add ClientGo s)) (\<lambda>_ s.
     bind_outcome (Must (add ApiExtensions s)) (\<lambda>_ s.
     bind_outcome (Must (tekton_AddToScheme s)) (\<lambda>_ s.
     Must (add OpenshiftConfig s))))"

definition tp_init :: "(api_package \<Rightarrow> scheme \<Rightarrow> error option \<times> scheme) \<Rightarrow> scheme \<Rightarrow> unit outcome \<times> scheme" where
  "tp_init add s = Must (add TektonPipeline s)"

definition tt_init :: "(api_package \<Rightarrow> scheme \<Rightarrow> error option \<times> scheme) \<Rightarrow> scheme \<Rightarrow> unit outcome \<times> scheme" where
  "tt_init add s = Must (add TektonPipeline s)"

text \<open>Both operands import \<open>common\<close>, so Go initialises it first.\<close>

definition process_init :: "(api_package \<Rightarrow> scheme \<Rightarrow> error option \<times> scheme) \<Rightarrow> unit outcome \<times> scheme" where
  "process_init add =
     bind_outcome (common_init add {||}) (\<lambda>_ s.
     bind_outcome (tp_init add s) (\<lambda>_ s. tt_init add s))"

section \<open>Every type is registered\<close>

text \<open>What the packages document: the types of their API groups.\<close>

fun package_of :: "go_kind \<Rightarrow> api_package option" where
  "package_of (ObjectKind Task) = Some TektonPipeline"
| "package_of (ObjectKind ClusterTask) = Some TektonPipeline"
| "package_of (ObjectKind Pipeline) = Some TektonPipeline"
| "package_of (ObjectKind _) = Some ClientGo"
| "package_of TektonTasksKind = None"
| "package_of TektonTasksListKind = None"
| "package_of CrdKind = Some ApiExtensions"
| "package_of ClusterVersionKind = Some OpenshiftConfig"

lemma Must_Ok: "Must r = (Ok (), s) \<longleftrightarrow> r = (None, s)"
  by (auto simp: Must_def split: prod.split option.split)

text \<open>
  If the process gets as far as \<open>main\<close>, every type it uses is registered; otherwise it
  panicked before.
\<close>

theorem process_init_registers:
  assumes "process_init add = (Ok (), s)"
    and registers: "\<And>p s1 s2 kind. add p s1 = (None, s2) \<Longrightarrow> package_of kind = Some p \<Longrightarrow> kind |\<in>| s2"
    and grows: "\<And>p s1 s2. add p s1 = (None, s2) \<Longrightarrow> s1 |\<subseteq>| s2"
  shows "kind |\<in>| s"
proof -
  obtain s1 s2 s3 s4 s5 where run: "add ClientGo {||} = (None, s1)" "add ApiExtensions s1 = (None, s2)"
    "s3 = s2 |\<union>| fset_of_list SchemeBuilder_objects" "add OpenshiftConfig s3 = (None, s4)"
    "add TektonPipeline s4 = (None, s5)" "add TektonPipeline s5 = (None, s)"
    using assms(1)
    by (auto simp: process_init_def common_init_def tp_init_def tt_init_def tekton_AddToScheme_def
        bind_outcome_Ok_iff Must_Ok)
  have "s1 |\<subseteq>| s2" "s2 |\<subseteq>| s3" "s3 |\<subseteq>| s4" "s4 |\<subseteq>| s5" "s5 |\<subseteq>| s"
    using run(3) grows [OF run(2)] grows [OF run(4)] grows [OF run(5)] grows [OF run(6)] by auto
  then have grow: "s1 |\<subseteq>| s" "s2 |\<subseteq>| s" "s3 |\<subseteq>| s" "s4 |\<subseteq>| s" by blast+
  show ?thesis
  proof (cases "package_of kind")
    case None
    then have "kind |\<in>| s3" by (cases kind rule: package_of.cases) (simp_all add: run(3) SchemeBuilder_objects_def)
    then show ?thesis using grow(3) by blast
  next
    case (Some p)
    then show ?thesis
      using registers [OF run(1), of kind] registers [OF run(2), of kind] registers [OF run(4), of kind]
        registers [OF run(6), of kind] grow
      by (cases p) auto
  qed
qed

lemma Must_no_error: "fst (Must r) \<noteq> Err e"
  by (simp add: Must_def split: prod.split option.split)

lemma bind_no_error: "fst r \<noteq> Err e \<Longrightarrow> (\<And>a s. fst (f a s) \<noteq> Err e) \<Longrightarrow> fst (bind_outcome r f) \<noteq> Err e"
  by (cases r; cases "fst r") auto

lemma process_init_panics: "fst (process_init add) \<noteq> Err e"
  unfolding process_init_def common_init_def tp_init_def tt_init_def
  by (intro bind_no_error Must_no_error)

text \<open>The hypotheses hold of packages that register their types and nothing else.\<close>

definition registering :: "api_package \<Rightarrow> scheme \<Rightarrow> error option \<times> scheme" where
  "registering p s = (None, s |\<union>| (case p of
      ClientGo \<Rightarrow> ObjectKind |`| {|ServiceAccount, RoleBinding, ClusterRole, ConfigMap|}
    | ApiExtensions \<Rightarrow> {|CrdKind|}
    | OpenshiftConfig \<Rightarrow> {|ClusterVersionKind|}
    | TektonPipeline \<Rightarrow> ObjectKind |`| {|Task, ClusterTask, Pipeline|}))"

theorem process_init_registers_sample:
  "\<exists>s. process_init registering = (Ok (), s) \<and> kind |\<in>| s"
proof -
  obtain s where s: "process_init registering = (Ok (), s)"
    by (simp add: process_init_def common_init_def tp_init_def tt_init_def tekton_AddToScheme_def registering_def Must_def)
  moreover have "kind |\<in>| s"
  proof (rule process_init_registers [OF s])
    fix p s1 s2 kind
    assume "registering p s1 = (None, s2)"
    then show "package_of kind = Some p \<Longrightarrow> kind |\<in>| s2" and "s1 |\<subseteq>| s2"
      by (cases kind rule: package_of.cases; auto simp: registering_def)+
  qed
  ultimately show ?thesis by blast
qed

end
