(* ===== verification/Json_Paths.thy ===== *)
theory Json_Paths
  imports Semver "HOL-Library.Sublist"
begin

text \<open>
  Decoded JSON values and the helpers of \<open>k8s.io/apimachinery/pkg/apis/meta/v1/unstructured\<close>
  that read, write and remove a field at a path, with the laws that relate them.
\<close>

section \<open>JSON values\<close>

datatype json = JNull | JBool bool | JNum string | JStr string | JArr "json list"
  | JObj "(string, json) fmap"

fun go_type :: "json \<Rightarrow> string" where
  \<comment> \<open>\<open>%T\<close> of a decoded value\<close>
  "go_type JNull = ''<nil>''"
| "go_type (JBool b) = ''bool''"
| "go_type (JNum n) = ''float64''"
| "go_type (JStr s) = ''string''"
| "go_type (JArr xs) = ''[]interface {}''"
| "go_type (JObj m) = ''map[string]interface {}''"

definition jsonPath :: "string list \<Rightarrow> string" where
  "jsonPath path = CHR ''.'' # join_with CHR ''.'' path"

text \<open>
  \<open>NestedFieldNoCopy\<close>, with the fields already passed and those to come; \<open>Inr None\<close> is
  not found.
\<close>

fun nested_field :: "(json \<Rightarrow> string) \<Rightarrow> string list \<Rightarrow> json \<Rightarrow> string list \<Rightarrow> error + json option" where
  "nested_field fmt_v passed val [] = Inr (Some val)"
| "nested_field fmt_v passed val (field # path) =
     (case val of
        JNull \<Rightarrow> Inr None
      | JObj m \<Rightarrow> (case fmlookup m field of
                      None \<Rightarrow> Inr None
                    | Some x \<Rightarrow> nested_field fmt_v (passed @ [field]) x path)
      | _ \<Rightarrow> Inl (PlainError (jsonPath (passed @ [field]) @ '' accessor error: '' @ fmt_v val @
               '' is of the type '' @ go_type val @ '', expected map[string]interface{}'')))"

definition NestedSlice :: "(json \<Rightarrow> string) \<Rightarrow> (string, json) fmap \<Rightarrow> string list \<Rightarrow> error + json list option" where
  "NestedSlice fmt_v obj path =
     (case nested_field fmt_v [] (JObj obj) path of
        Inl e \<Rightarrow> Inl e
      | Inr None \<Rightarrow> Inr None
      | Inr (Some val) \<Rightarrow>
          (case val of
             JArr xs \<Rightarrow> Inr (Some xs)
           | _ \<Rightarrow> Inl (PlainError (jsonPath path @ '' accessor error: '' @ fmt_v val @
                    '' is of the type '' @ go_type val @ '', expected []interface{}''))))"

fun set_nested :: "string list \<Rightarrow> (string, json) fmap \<Rightarrow> json \<Rightarrow> string list \<Rightarrow> error + (string, json) fmap" where
  \<comment> \<open>\<open>setNestedFieldNoCopy\<close>; its callers give at least one field\<close>
  "set_nested passed m v [] = Inr m"
| "set_nested passed m v [f] = Inr (fmupd f v m)"
| "set_nested passed m v (f # g # path) =
     (case fmlookup m f of
        Some val \<Rightarrow>
          (case val of
             JObj valMap \<Rightarrow>
               (case set_nested (passed @ [f]) valMap v (g # path) of
                  Inl e \<Rightarrow> Inl e | Inr valMap \<Rightarrow> Inr (fmupd f (JObj valMap) m))
           | _ \<Rightarrow> Inl (PlainError (''value cannot be set because '' @ jsonPath (passed @ [f]) @
                    '' is not a map[string]interface{}'')))
      | None \<Rightarrow>
          (case set_nested (passed @ [f]) fmempty v (g # path) of
             Inl e \<Rightarrow> Inl e | Inr newVal \<Rightarrow> Inr (fmupd f (JObj newVal) m)))"

definition SetNestedSlice :: "(string, json) fmap \<Rightarrow> json list \<Rightarrow> string list \<Rightarrow> (string, json) fmap" where
  \<comment> \<open>for callers that ignore the error, which comes before any change\<close>
  "SetNestedSlice m xs path = (case set_nested [] m (JArr xs) path of Inl e \<Rightarrow> m | Inr m \<Rightarrow> m)"

fun RemoveNestedField :: "(string, json) fmap \<Rightarrow> string list \<Rightarrow> (string, json) fmap" where
  "RemoveNestedField m [] = m"
| "RemoveNestedField m [f] = fmdrop f m"
| "RemoveNestedField m (f # g # path) =
     (case fmlookup m f of
        Some (JObj x) \<Rightarrow> fmupd f (JObj (RemoveNestedField x (g # path))) m
      | _ \<Rightarrow> m)"

section \<open>Laws\<close>

text \<open>What is at a path, without the difference between a missing field and one that cannot be reached.\<close>

fun get_path :: "(string, json) fmap \<Rightarrow> string list \<Rightarrow> json option" where
  "get_path m [] = Some (JObj m)"
| "get_path m [f] = fmlookup m f"
| "get_path m (f # g # path) =
     (case fmlookup m f of Some (JObj x) \<Rightarrow> get_path x (g # path) | _ \<Rightarrow> None)"

lemma nested_field_get: "nested_field fmt_v passed (JObj m) path = Inr (Some v) \<longleftrightarrow> get_path m path = Some v"
proof (induction m path arbitrary: passed rule: get_path.induct)
  case (3 m f g path)
  then show ?case by (auto split: option.split json.split)
qed (auto split: option.split)

definition apart :: "string list \<Rightarrow> string list \<Rightarrow> bool" where
  "apart p q = (\<not> prefix p q \<and> \<not> prefix q p)"

text \<open>
  A store of values at paths: reading what was written, and not disturbing what is elsewhere.
\<close>

locale path_store =
  fixes get :: "'m \<Rightarrow> 'p \<Rightarrow> 'v option" and put :: "'m \<Rightarrow> 'v \<Rightarrow> 'p \<Rightarrow> 'm option" and del :: "'m \<Rightarrow> 'p \<Rightarrow> 'm"
    and elsewhere :: "'p \<Rightarrow> 'p \<Rightarrow> bool" and proper :: "'p \<Rightarrow> bool"
  assumes get_put: "proper p \<Longrightarrow> put m v p = Some m' \<Longrightarrow> get m' p = Some v"
    and get_put_elsewhere: "proper p \<Longrightarrow> proper q \<Longrightarrow> elsewhere p q \<Longrightarrow> put m v p = Some m' \<Longrightarrow> get m' q = get m q"
    and get_del: "proper p \<Longrightarrow> get (del m p) p = None"
    and get_del_elsewhere: "proper p \<Longrightarrow> proper q \<Longrightarrow> elsewhere p q \<Longrightarrow> get (del m p) q = get m q"
    and del_adds_nothing: "proper p \<Longrightarrow> proper q \<Longrightarrow> get m q = None \<Longrightarrow> get (del m p) q = None"
begin

lemma del_all_absent: "list_all proper ps \<Longrightarrow> p \<in> set ps \<Longrightarrow> get (foldl del m ps) p = None"
proof (induction ps rule: rev_induct)
  case (snoc q ps)
  then show ?case by (cases "p = q") (auto simp: get_del intro!: del_adds_nothing simp: list_all_iff)
qed simp

lemma del_all_elsewhere:
  "list_all proper ps \<Longrightarrow> proper q \<Longrightarrow> list_all (\<lambda>p. elsewhere p q) ps \<Longrightarrow> get (foldl del m ps) q = get m q"
  by (induction ps arbitrary: m) (simp_all add: get_del_elsewhere)

lemma put_keeps_absent:
  "proper p \<Longrightarrow> proper q \<Longrightarrow> elsewhere p q \<Longrightarrow> put m v p = Some m' \<Longrightarrow> get m q = None \<Longrightarrow> get m' q = None"
  by (simp add: get_put_elsewhere)

end

definition json_put :: "(string, json) fmap \<Rightarrow> json \<Rightarrow> string list \<Rightarrow> (string, json) fmap option" where
  "json_put m v p = (case set_nested [] m v p of Inl e \<Rightarrow> None | Inr m' \<Rightarrow> Some m')"

lemma set_nested_get: "p \<noteq> [] \<Longrightarrow> set_nested passed m v p = Inr m' \<Longrightarrow> get_path m' p = Some v"
proof (induction passed m v p arbitrary: m' rule: set_nested.induct)
  case (3 passed m v f g path)
  then show ?case by (auto split: option.splits json.splits sum.splits)
qed auto

lemma set_nested_elsewhere:
  "p \<noteq> [] \<Longrightarrow> q \<noteq> [] \<Longrightarrow> apart p q \<Longrightarrow> set_nested passed m v p = Inr m' \<Longrightarrow> get_path m' q = get_path m q"
proof (induction passed m v p arbitrary: m' q rule: set_nested.induct)
  case (2 passed m v f)
  then show ?case by (cases q; cases "tl q") (auto simp: apart_def)
next
  case (3 passed m v f g path)
  have empty: "get_path fmempty r = None" if "r \<noteq> []" for r using that by (cases r; cases "tl r") auto
  obtain h r where q: "q = h # r" using "3.prems"(2) by (cases q) auto
  show ?case
  proof (cases "h = f")
    case True
    then have "r \<noteq> []" "apart (g # path) r" using "3.prems"(3) q by (auto simp: apart_def)
    then obtain i s where r: "r = i # s" by (cases r) auto
    show ?thesis
      using "3.prems" "3.IH" True \<open>apart (g # path) r\<close> empty [of r]
      by (auto simp: q r split: option.splits json.splits sum.splits)
  next
    case False
    then show ?thesis
      using "3.prems" by (cases r) (auto simp: q split: option.splits json.splits sum.splits)
  qed
qed auto

lemma remove_get: "p \<noteq> [] \<Longrightarrow> get_path (RemoveNestedField m p) p = None"
  by (induction m p rule: RemoveNestedField.induct) (auto split: option.split json.split)

lemma remove_elsewhere:
  "p \<noteq> [] \<Longrightarrow> q \<noteq> [] \<Longrightarrow> apart p q \<Longrightarrow> get_path (RemoveNestedField m p) q = get_path m q"
proof (induction m p arbitrary: q rule: RemoveNestedField.induct)
  case (2 m f)
  then show ?case by (cases q; cases "tl q") (auto simp: apart_def)
next
  case (3 m f g path)
  obtain h r where q: "q = h # r" using "3.prems"(2) by (cases q) auto
  show ?case
    using 3 by (cases r) (auto simp: q apart_def split: option.split json.split)
qed simp

lemma remove_adds_nothing: "p \<noteq> [] \<Longrightarrow> q \<noteq> [] \<Longrightarrow> get_path m q = None \<Longrightarrow> get_path (RemoveNestedField m p) q = None"
proof (induction m p arbitrary: q rule: RemoveNestedField.induct)
  case (2 m f)
  then show ?case by (cases q; cases "tl q") (auto split: option.splits json.splits)
next
  case (3 m f g path)
  obtain h r where q: "q = h # r" using "3.prems"(2) by (cases q) auto
  show ?case
    using 3 by (cases r) (auto simp: q split: option.splits json.splits)
qed simp

interpretation json: path_store get_path json_put RemoveNestedField apart "\<lambda>p. p \<noteq> []"
proof
  show "p \<noteq> [] \<Longrightarrow> json_put m v p = Some m' \<Longrightarrow> get_path m' p = Some v" for p m v m'
    by (auto simp: json_put_def set_nested_get split: sum.splits)
  show "p \<noteq> [] \<Longrightarrow> q \<noteq> [] \<Longrightarrow> apart p q \<Longrightarrow> json_put m v p = Some m' \<Longrightarrow> get_path m' q = get_path m q" for p q m v m'
    by (auto simp: json_put_def set_nested_elsewhere split: sum.splits)
qed (simp_all add: remove_get remove_elsewhere remove_adds_nothing)

end
