(* ===== verification/Csv_Generator.thy ===== *)
theory Csv_Generator
  imports Bundle Resource Json_Paths
begin

text \<open>
  The generator of the operator's manifest (\<open>scripts/csv-generator.go\<close>): from a
  \<open>ClusterServiceVersion\<close> template and the flags it makes the manifest that deploys the operator, with
  the images that the operator later reads from its environment.

  The manifest is a record of the fields the generator reads or writes, the others kept as
  text. The YAML and JSON libraries, \<open>%v\<close> and the file system are parameters. A JSON object has
  no shared parts after it was decoded, so updates in place are functional updates of
  the tree. Slices are lists; where the code overwrites a slice while it ranges over it, the model
  works on the backing array.
\<close>

record generatorFlags =
  gf_file :: string
  gf_dumpCRDs :: bool
  gf_removeCerts :: bool
  gf_namespace :: string
  gf_csvVersion :: string
  gf_pipelinesNamespace :: string
  gf_operatorImage :: string
  gf_operatorVersion :: string
  gf_waitForVMIStatusImage :: string
  gf_modifyVMTemplateImage :: string
  gf_diskVirtSysprepImage :: string
  gf_diskVirtCustomizeImage :: string
  gf_createVMImage :: string
  gf_modifyDataObjectImage :: string
  gf_copyTemplateImage :: string
  gf_cleanupVMImage :: string
  gf_generateSSHKeys :: string
  gf_virtioImage :: string

section \<open>The manifest\<close>

record env_var =
  ev_Name :: string
  ev_Value :: string
  ev_rest :: string

record volume_mount =
  vm_Name :: string
  vm_rest :: string

record volume =
  vol_Name :: string
  vol_rest :: string

record container =
  ct_Name :: string
  ct_Image :: string
  ct_Env :: "env_var list"
  ct_VolumeMounts :: "volume_mount list"
  ct_rest :: string

record pod_template =
  pt_Namespace :: string
  pt_Containers :: "container list"
  pt_Volumes :: "volume list"
  pt_rest :: string

record csv =
  csv_Name :: string
  csv_Namespace :: string
  csv_Version :: Version
  csv_DeploymentSpecs :: "pod_template list" \<comment> \<open>with what the generator does not touch\<close>
  csv_rest :: string

section \<open>Related images\<close>

definition buildRelatedImage :: "string \<Rightarrow> string \<Rightarrow> error + json" where
  "buildRelatedImage imageDesc imageName =
     Inr (JObj (fmupd ''image'' (JStr imageDesc) (fmupd ''name'' (JStr imageName) fmempty)))"

definition append_related :: "string \<Rightarrow> string list \<Rightarrow> json list \<Rightarrow> error + json list" where
  \<comment> \<open>one \<open>if\<close> statement of \<open>buildRelatedImages\<close>: nothing for an empty flag, else one entry per name\<close>
  "append_related img names relatedImages =
     (if img \<noteq> '''' then
        foldl (\<lambda>acc name. case acc of Inl e \<Rightarrow> Inl e | Inr ris \<Rightarrow>
                 (case buildRelatedImage img name of Inl e \<Rightarrow> Inl e | Inr ri \<Rightarrow> Inr (ris @ [ri])))
          (Inr relatedImages) names
      else Inr relatedImages)"

definition buildRelatedImages :: "generatorFlags \<Rightarrow> error + json list" where
  "buildRelatedImages flags =
     (case append_related (gf_cleanupVMImage flags) [''cleanup-vm''] [] of Inl e \<Rightarrow> Inl e | Inr ris \<Rightarrow>
     (case append_related (gf_copyTemplateImage flags) [''copy-template''] ris of Inl e \<Rightarrow> Inl e | Inr ris \<Rightarrow>
     (case append_related (gf_generateSSHKeys flags) [''generate-ssh-keys''] ris of Inl e \<Rightarrow> Inl e | Inr ris \<Rightarrow>
     (case append_related (gf_modifyDataObjectImage flags) [''modify-data-object''] ris of Inl e \<Rightarrow> Inl e | Inr ris \<Rightarrow>
     (case append_related (gf_createVMImage flags) [''create-vm-from-manifest'', ''create-vm-from-template''] ris of
        Inl e \<Rightarrow> Inl e | Inr ris \<Rightarrow>
     (case append_related (gf_diskVirtCustomizeImage flags) [''disk-virt-customize''] ris of Inl e \<Rightarrow> Inl e | Inr ris \<Rightarrow>
     (case append_related (gf_waitForVMIStatusImage flags) [''wait-for-vmi-status''] ris of Inl e \<Rightarrow> Inl e | Inr ris \<Rightarrow>
     (case append_related (gf_modifyVMTemplateImage flags) [''modify-vm-template''] ris of Inl e \<Rightarrow> Inl e | Inr ris \<Rightarrow>
     (case append_related (gf_diskVirtSysprepImage flags) [''disk-virt-sysprep''] ris of Inl e \<Rightarrow> Inl e | Inr ris \<Rightarrow>
      append_related (gf_virtioImage flags) [''virtio-container''] ris)))))))))"

section \<open>The operator's deployment\<close>

definition replace_nonempty :: "string \<Rightarrow> env_var \<Rightarrow> env_var" where
  "replace_nonempty flag v = (if flag \<noteq> '''' then v\<lparr>ev_Value := flag\<rparr> else v)"

definition update_env_var :: "generatorFlags \<Rightarrow> env_var \<Rightarrow> env_var" where
  \<comment> \<open>the switch of \<open>updateContainerEnvVars\<close>\<close>
  "update_env_var flags v =
     (if ev_Name v = OperatorVersionKey then replace_nonempty (gf_operatorVersion flags) v
      else if ev_Name v = CleanupVMImageKey then replace_nonempty (gf_cleanupVMImage flags) v
      else if ev_Name v = CopyTemplateImageKey then replace_nonempty (gf_copyTemplateImage flags) v
      else if ev_Name v = ModifyDataObjectImageKey then replace_nonempty (gf_modifyDataObjectImage flags) v
      else if ev_Name v = CreateVMImageKey then replace_nonempty (gf_createVMImage flags) v
      else if ev_Name v = DiskVirtCustomizeImageKey then replace_nonempty (gf_diskVirtCustomizeImage flags) v
      else if ev_Name v = DiskVirtSysprepImageKey then replace_nonempty (gf_diskVirtSysprepImage flags) v
      else if ev_Name v = ModifyVMTemplateImageKey then replace_nonempty (gf_modifyVMTemplateImage flags) v
      else if ev_Name v = WaitForVMISTatusImageKey then replace_nonempty (gf_waitForVMIStatusImage flags) v
      else if ev_Name v = GenerateSSHKeysImageKey then replace_nonempty (gf_generateSSHKeys flags) v
      else if ev_Name v = VirtioImageKey then replace_nonempty (gf_virtioImage flags) v
      else v)"

definition updateContainerEnvVars :: "generatorFlags \<Rightarrow> container \<Rightarrow> env_var list" where
  "updateContainerEnvVars flags container = map (update_env_var flags) (ct_Env container)"

fun update_manager :: "(container \<Rightarrow> container) \<Rightarrow> container list \<Rightarrow> container list" where
  \<comment> \<open>the loops over the containers, which stop at the first one named manager\<close>
  "update_manager f [] = []"
| "update_manager f (c # cs) = (if ct_Name c = ''manager'' then f c # cs else c # update_manager f cs)"

definition on_template :: "(pod_template \<Rightarrow> pod_template) \<Rightarrow> csv \<Rightarrow> unit outcome \<times> csv" where
  \<comment> \<open>an access to \<open>DeploymentSpecs[0].Spec.Template\<close>\<close>
  "on_template f csv =
     (case csv_DeploymentSpecs csv of
        [] \<Rightarrow> (Panic index_panic, csv)
      | t # ts \<Rightarrow> (Ok (), csv\<lparr>csv_DeploymentSpecs := f t # ts\<rparr>))"

definition replaceVariables :: "generatorFlags \<Rightarrow> csv \<Rightarrow> unit outcome \<times> csv" where
  "replaceVariables flags csv =
     (let csv = csv\<lparr>csv_Name := ''tekton-tasks-operator.v'' @ gf_csvVersion flags\<rparr>
      in case Parse (gf_csvVersion flags) of
           Inl e \<Rightarrow> (Err e, csv)
         | Inr v \<Rightarrow>
             on_template
               (\<lambda>t. t\<lparr>pt_Namespace := gf_namespace flags,
                      pt_Containers := update_manager
                        (\<lambda>c. c\<lparr>ct_Image := gf_operatorImage flags, ct_Env := updateContainerEnvVars flags c\<rparr>)
                        (pt_Containers t)\<rparr>)
               (csv\<lparr>csv_Version := v, csv_Namespace := gf_namespace flags\<rparr>))"

fun drop_first_cert :: "volume_mount list \<Rightarrow> volume_mount list" where
  \<comment> \<open>the loop over the mounts, which stops at the first one named cert\<close>
  "drop_first_cert [] = []"
| "drop_first_cert (m # ms) = (if vm_Name m = ''cert'' then ms else m # drop_first_cert ms)"

text \<open>
  The loop over the volumes does not stop. Every iteration reads the backing array, and
  \<open>append(volumes[:i], volumes[i+1:]...)\<close> moves the rest of the array one place down and leaves
  its last element where it is. The slice that is assigned at the end has the length of the last
  such append, and reads the array as it is then.
\<close>

definition shift_down :: "nat \<Rightarrow> 'a list \<Rightarrow> 'a list" where
  "shift_down i arr = take i arr @ drop (Suc i) arr @ drop (length arr - 1) arr"

fun cert_volumes :: "nat list \<Rightarrow> volume list \<Rightarrow> nat \<Rightarrow> volume list" where
  "cert_volumes [] arr len = take len arr"
| "cert_volumes (i # is) arr len =
     (if vol_Name (arr ! i) = ''cert'' then cert_volumes is (shift_down i arr) (length arr - 1)
      else cert_volumes is arr len)"

definition removeCerts :: "csv \<Rightarrow> unit outcome \<times> csv" where
  "removeCerts =
     on_template (\<lambda>t. t\<lparr>
       pt_Containers := update_manager (\<lambda>c. c\<lparr>ct_VolumeMounts := drop_first_cert (ct_VolumeMounts c)\<rparr>) (pt_Containers t),
       pt_Volumes := cert_volumes [0..<length (pt_Volumes t)] (pt_Volumes t) (length (pt_Volumes t))\<rparr>)"

section \<open>Writing\<close>

record 'crd gen_lib =
  gl_decodeCSV :: "string \<Rightarrow> error + csv"
  gl_decodeCRD :: "string \<Rightarrow> error + 'crd"
  gl_marshalCSV :: "csv \<Rightarrow> error + string"
  gl_marshalCRD :: "'crd \<Rightarrow> error + string"
  gl_unmarshal :: "string \<Rightarrow> error + (string, json) fmap"
  gl_marshal :: "(string, json) fmap \<Rightarrow> error + string"
  gl_JSONToYAML :: "string \<Rightarrow> error + string"
  gl_fmt :: "json \<Rightarrow> string" \<comment> \<open>\<open>%v\<close>\<close>

type_synonym 'o writer = "string \<Rightarrow> 'o \<Rightarrow> error option \<times> 'o"

definition strip_object :: "(string, json) fmap \<Rightarrow> (string, json) fmap" where
  "strip_object m =
     RemoveNestedField (RemoveNestedField (RemoveNestedField (RemoveNestedField m
       [''metadata'', ''creationTimestamp'']) [''template'', ''metadata'', ''creationTimestamp''])
       [''spec'', ''template'', ''metadata'', ''creationTimestamp'']) [''status'']"

fun strip_deployment :: "json \<Rightarrow> json outcome" where
  "strip_deployment (JObj d) =
     Ok (JObj (RemoveNestedField (RemoveNestedField (RemoveNestedField d
       [''metadata'', ''creationTimestamp'']) [''spec'', ''template'', ''metadata'', ''creationTimestamp''])
       [''status'']))"
| "strip_deployment v =
     Panic (''interface conversion: interface {} is '' @ (if v = JNull then ''nil'' else go_type v) @
            '', not map[string]interface {}'')"

fun strip_deployments :: "json list \<Rightarrow> json list outcome" where
  "strip_deployments [] = Ok []"
| "strip_deployments (obj # objs) =
     (case strip_deployment obj of
        Ok d \<Rightarrow> (case strip_deployments objs of Ok ds \<Rightarrow> Ok (d # ds) | Err e \<Rightarrow> Err e | Panic p \<Rightarrow> Panic p)
      | Err e \<Rightarrow> Err e
      | Panic p \<Rightarrow> Panic p)"

definition deployments_path :: "string list" where
  "deployments_path = [''spec'', ''install'', ''spec'', ''deployments'']"

definition cleaned_object :: "(json \<Rightarrow> string) \<Rightarrow> (string, json) fmap \<Rightarrow> json list \<Rightarrow> (string, json) fmap outcome" where
  \<comment> \<open>what \<open>marshallObject\<close> does to the decoded object\<close>
  "cleaned_object fmt_v obj relatedImages =
     (let r = strip_object obj in
      case NestedSlice fmt_v r deployments_path of
        Inl e \<Rightarrow> Err e
      | Inr deployments \<Rightarrow>
          (case (case deployments of
                   None \<Rightarrow> Ok r
                 | Some ds \<Rightarrow> (case strip_deployments ds of
                                 Ok ds \<Rightarrow> Ok (SetNestedSlice r ds deployments_path)
                               | Err e \<Rightarrow> Err e | Panic p \<Rightarrow> Panic p)) of
             Ok r \<Rightarrow> Ok (if relatedImages \<noteq> [] then SetNestedSlice r relatedImages [''spec'', ''relatedImages''] else r)
           | Err e \<Rightarrow> Err e
           | Panic p \<Rightarrow> Panic p))"

definition yaml_separator :: string where "yaml_separator = ''---'' @ [CHR 0x0A]"

definition write_yaml :: "'o writer \<Rightarrow> string \<Rightarrow> 'o \<Rightarrow> unit outcome \<times> 'o" where
  "write_yaml wr yamlBytes w =
     (case wr yaml_separator w of
        (Some e, w) \<Rightarrow> (Err e, w)
      | (None, w) \<Rightarrow> (case wr yamlBytes w of (Some e, w) \<Rightarrow> (Err e, w) | (None, w) \<Rightarrow> (Ok (), w)))"

definition marshallObject ::
  "'crd gen_lib \<Rightarrow> ('obj \<Rightarrow> error + string) \<Rightarrow> 'obj \<Rightarrow> json list \<Rightarrow> 'o writer \<Rightarrow> 'o \<Rightarrow> unit outcome \<times> 'o" where
  "marshallObject lib marshal obj relatedImages wr w =
     (case marshal obj of Inl e \<Rightarrow> (Err e, w) | Inr jsonBytes \<Rightarrow>
     (case gl_unmarshal lib jsonBytes of Inl e \<Rightarrow> (Err e, w) | Inr r \<Rightarrow>
     (case cleaned_object (gl_fmt lib) r relatedImages of Err e \<Rightarrow> (Err e, w) | Panic p \<Rightarrow> (Panic p, w) | Ok r \<Rightarrow>
     (case gl_marshal lib r of Inl e \<Rightarrow> (Err e, w) | Inr jsonBytes \<Rightarrow>
     (case gl_JSONToYAML lib jsonBytes of Inl e \<Rightarrow> (Err e, w) | Inr yamlBytes \<Rightarrow>
        write_yaml wr yamlBytes w)))))"

section \<open>The generator\<close>

definition readAndDecodeToCRD :: "'crd gen_lib \<Rightarrow> file_system \<Rightarrow> string \<Rightarrow> error + 'crd" where
  "readAndDecodeToCRD lib fs name =
     (case fs_readFile fs (''data/crd/'' @ name) of Inl e \<Rightarrow> Inl e | Inr crdFile \<Rightarrow> gl_decodeCRD lib crdFile)"

fun dump_crds :: "'crd gen_lib \<Rightarrow> file_system \<Rightarrow> 'o writer \<Rightarrow> (string \<times> bool) list \<Rightarrow> 'o \<Rightarrow> unit outcome \<times> 'o" where
  "dump_crds lib fs wr [] w = (Ok (), w)"
| "dump_crds lib fs wr ((name, isDir) # files) w =
     (case readAndDecodeToCRD lib fs name of
        Inl e \<Rightarrow> (Err e, w)
      | Inr crd \<Rightarrow> bind_outcome (marshallObject lib (gl_marshalCRD lib) crd [] wr w)
          (\<lambda>_ w. dump_crds lib fs wr files w))"

definition runGenerator :: "'crd gen_lib \<Rightarrow> file_system \<Rightarrow> 'o writer \<Rightarrow> generatorFlags \<Rightarrow> 'o \<Rightarrow> unit outcome \<times> 'o" where
  "runGenerator lib fs wr f w =
     (case fs_readFile fs (gf_file f) of Inl e \<Rightarrow> (Err e, w) | Inr csvFile \<Rightarrow>
     (case gl_decodeCSV lib csvFile of Inl e \<Rightarrow> (Err e, w) | Inr csv \<Rightarrow>
     (case replaceVariables f csv of (Err e, _) \<Rightarrow> (Err e, w) | (Panic p, _) \<Rightarrow> (Panic p, w) | (Ok _, csv) \<Rightarrow>
     (case (if gf_removeCerts f then removeCerts csv else (Ok (), csv)) of
        (Err e, _) \<Rightarrow> (Err e, w) | (Panic p, _) \<Rightarrow> (Panic p, w) | (Ok _, csv) \<Rightarrow>
     (case buildRelatedImages f of Inl e \<Rightarrow> (Err e, w) | Inr relatedImages \<Rightarrow>
        bind_outcome (marshallObject lib (gl_marshalCSV lib) csv relatedImages wr w) (\<lambda>_ w.
          if \<not> gf_dumpCRDs f then (Ok (), w)
          else (case fs_readDir fs ''data/crd'' of
                  Inl e \<Rightarrow> (Err e, w)
                | Inr files \<Rightarrow> dump_crds lib fs wr files w)))))))"

end
