(* ===== verification/Csv_Contract.thy ===== *)
theory Csv_Contract
  imports Csv_Generator
begin

text \<open>
  What the manifest generator guarantees: the images it is given reach the operator's
  environment and the list of related images, the rest of the manifest is kept, the certificates are
  dropped when their volume is there once, and nothing is written before everything
  that can fail for the manifest has succeeded.
\<close>

section \<open>From flags to the operator's environment\<close>

definition container_environ :: "env_var list \<Rightarrow> environ" where
  \<comment> \<open>the environment of the process in a container: of variables with one name the last counts\<close>
  "container_environ vs = map_of (rev (map (\<lambda>v. (ev_Name v, ev_Value v)) vs))"

definition image_flags :: "generatorFlags \<Rightarrow> (string \<times> string) list" where
  "image_flags flags =
     [(CleanupVMImageKey, gf_cleanupVMImage flags), (CopyTemplateImageKey, gf_copyTemplateImage flags),
      (ModifyDataObjectImageKey, gf_modifyDataObjectImage flags), (CreateVMImageKey, gf_createVMImage flags),
      (DiskVirtCustomizeImageKey, gf_diskVirtCustomizeImage flags), (DiskVirtSysprepImageKey, gf_diskVirtSysprepImage flags),
      (ModifyVMTemplateImageKey, gf_modifyVMTemplateImage flags), (WaitForVMISTatusImageKey, gf_waitForVMIStatusImage flags),
      (GenerateSSHKeysImageKey, gf_generateSSHKeys flags), (VirtioImageKey, gf_virtioImage flags)]"

definition flag_for :: "generatorFlags \<Rightarrow> string \<Rightarrow> string" where
  "flag_for flags k = (case map_of ((OperatorVersionKey, gf_operatorVersion flags) # image_flags flags) k of
     None \<Rightarrow> '''' | Some v \<Rightarrow> v)"

lemmas key_defs = OperatorVersionKey_def CleanupVMImageKey_def CopyTemplateImageKey_def ModifyDataObjectImageKey_def
  CreateVMImageKey_def DiskVirtCustomizeImageKey_def DiskVirtSysprepImageKey_def ModifyVMTemplateImageKey_def
  WaitForVMISTatusImageKey_def GenerateSSHKeysImageKey_def VirtioImageKey_def OperatorNamespaceKey_def

lemma update_env_var_eq: "update_env_var flags v = replace_nonempty (flag_for flags (ev_Name v)) v"
  by (simp add: update_env_var_def flag_for_def image_flags_def replace_nonempty_def)

lemma replace_nonempty_simps [simp]:
  "ev_Name (replace_nonempty f v) = ev_Name v"
  "ev_Value (replace_nonempty f v) = (if f = '''' then ev_Value v else f)"
  by (simp_all add: replace_nonempty_def)

lemma container_environ_simps [simp]:
  "container_environ [] = Map.empty"
  "container_environ (vs @ [v]) = (container_environ vs)(ev_Name v \<mapsto> ev_Value v)"
  by (simp_all add: container_environ_def)

lemma generated_environ:
  "container_environ (updateContainerEnvVars flags c) k =
     map_option (\<lambda>v. if flag_for flags k = '''' then v else flag_for flags k) (container_environ (ct_Env c) k)"
proof -
  have "container_environ (map (update_env_var flags) vs) k =
      map_option (\<lambda>v. if flag_for flags k = '''' then v else flag_for flags k) (container_environ vs k)" for vs
    by (induction vs rule: rev_induct) (auto simp: update_env_var_eq)
  then show ?thesis by (simp add: updateContainerEnvVars_def)
qed

lemma generated_env_or_default:
  "EnvOrDefault (container_environ (updateContainerEnvVars flags c)) k d =
     (if flag_for flags k = '''' \<or> container_environ (ct_Env c) k = None
      then EnvOrDefault (container_environ (ct_Env c)) k d else flag_for flags k)"
  by (simp add: EnvOrDefault_def getenv_def generated_environ Let_def split: option.split)

lemma flag_for_simps [simp]:
  "flag_for flags OperatorVersionKey = gf_operatorVersion flags"
  "flag_for flags CleanupVMImageKey = gf_cleanupVMImage flags"
  "flag_for flags CopyTemplateImageKey = gf_copyTemplateImage flags"
  "flag_for flags ModifyDataObjectImageKey = gf_modifyDataObjectImage flags"
  "flag_for flags CreateVMImageKey = gf_createVMImage flags"
  "flag_for flags DiskVirtCustomizeImageKey = gf_diskVirtCustomizeImage flags"
  "flag_for flags DiskVirtSysprepImageKey = gf_diskVirtSysprepImage flags"
  "flag_for flags ModifyVMTemplateImageKey = gf_modifyVMTemplateImage flags"
  "flag_for flags WaitForVMISTatusImageKey = gf_waitForVMIStatusImage flags"
  "flag_for flags GenerateSSHKeysImageKey = gf_generateSSHKeys flags"
  "flag_for flags VirtioImageKey = gf_virtioImage flags"
  "flag_for flags OperatorNamespaceKey = ''''"
  by (simp_all add: flag_for_def image_flags_def key_defs)

definition chosen :: "string \<Rightarrow> string \<Rightarrow> string" where
  "chosen flag fallback = (if flag = '''' then fallback else flag)"

text \<open>
  C23. The operator that runs with the generated manifest uses, for every image and for its version, the
  generator's flag when it is given, and otherwise what it would have used with the
  template; its namespace is the template's. The template must declare the variables.
\<close>

theorem generated_images_used:
  assumes "set (OperatorVersionKey # map fst (image_flags flags)) \<subseteq> ev_Name ` set (ct_Env c)"
    and "env = container_environ (ct_Env c)" and "env' = container_environ (updateContainerEnvVars flags c)"
  shows "GetOperatorVersion env' = chosen (gf_operatorVersion flags) (GetOperatorVersion env) \<and>
    GetCleanupVMImage env' = chosen (gf_cleanupVMImage flags) (GetCleanupVMImage env) \<and>
    GetCopyTemplateImage env' = chosen (gf_copyTemplateImage flags) (GetCopyTemplateImage env) \<and>
    GetModifyDataObjectImage env' = chosen (gf_modifyDataObjectImage flags) (GetModifyDataObjectImage env) \<and>
    GetCreateVMImage env' = chosen (gf_createVMImage flags) (GetCreateVMImage env) \<and>
    GetDiskVirtCustomizeImage env' = chosen (gf_diskVirtCustomizeImage flags) (GetDiskVirtCustomizeImage env) \<and>
    GetDiskVirtSysprepImage env' = chosen (gf_diskVirtSysprepImage flags) (GetDiskVirtSysprepImage env) \<and>
    GetModifyVMTemplateImage env' = chosen (gf_modifyVMTemplateImage flags) (GetModifyVMTemplateImage env) \<and>
    GetWaitForVMIStatusImage env' = chosen (gf_waitForVMIStatusImage flags) (GetWaitForVMIStatusImage env) \<and>
    GetSSHKeysStatusImage env' = chosen (gf_generateSSHKeys flags) (GetSSHKeysStatusImage env) \<and>
    GetVirtioImage env' = chosen (gf_virtioImage flags) (GetVirtioImage env) \<and>
    GetOperatorNamespace env' = GetOperatorNamespace env"
proof -
  have "container_environ vs k \<noteq> None" if "k \<in> ev_Name ` set vs" for vs k
    using that by (induction vs rule: rev_induct) auto
  then have declared: "container_environ (ct_Env c) k \<noteq> None"
    if "k \<in> set (OperatorVersionKey # map fst (image_flags flags))" for k
    using assms(1) that by blast
  then have e: "EnvOrDefault env' k d = chosen (flag_for flags k) (EnvOrDefault env k d)"
    if "k \<in> set (OperatorVersionKey # map fst (image_flags flags))" for k d
    using declared [OF that] unfolding assms(2,3) generated_env_or_default chosen_def by auto
  have n: "EnvOrDefault env' OperatorNamespaceKey d = EnvOrDefault env OperatorNamespaceKey d" for d
    unfolding assms(2,3) generated_env_or_default by simp
  show ?thesis
    unfolding GetOperatorVersion_def GetCleanupVMImage_def GetCopyTemplateImage_def GetModifyDataObjectImage_def
      GetCreateVMImage_def GetDiskVirtCustomizeImage_def GetDiskVirtSysprepImage_def GetModifyVMTemplateImage_def
      GetWaitForVMIStatusImage_def GetSSHKeysStatusImage_def GetVirtioImage_def GetOperatorNamespace_def
    by (simp add: e n image_flags_def)
qed

definition sample_flags :: generatorFlags where
  "sample_flags = \<lparr>gf_file = ''f'', gf_dumpCRDs = False, gf_removeCerts = True, gf_namespace = ''ns'',
     gf_csvVersion = ''0.14.0'', gf_pipelinesNamespace = '''', gf_operatorImage = ''op:1'', gf_operatorVersion = ''v1'',
     gf_waitForVMIStatusImage = '''', gf_modifyVMTemplateImage = '''', gf_diskVirtSysprepImage = '''',
     gf_diskVirtCustomizeImage = '''', gf_createVMImage = ''create:2'', gf_modifyDataObjectImage = '''',
     gf_copyTemplateImage = '''', gf_cleanupVMImage = '''', gf_generateSSHKeys = '''', gf_virtioImage = ''''\<rparr>"

definition sample_container :: container where
  "sample_container = \<lparr>ct_Name = ''manager'', ct_Image = ''old'',
     ct_Env = map (\<lambda>k. \<lparr>ev_Name = k, ev_Value = '''', ev_rest = ''''\<rparr>)
       (OperatorVersionKey # map fst (image_flags sample_flags)),
     ct_VolumeMounts = [\<lparr>vm_Name = ''cert'', vm_rest = ''''\<rparr>], ct_rest = ''''\<rparr>"

theorem generated_images_used_witness:
  "GetCreateVMImage (container_environ (updateContainerEnvVars sample_flags sample_container)) = ''create:2'' \<and>
   GetOperatorVersion (container_environ (updateContainerEnvVars sample_flags sample_container)) = ''v1''"
proof -
  have "set (OperatorVersionKey # map fst (image_flags sample_flags)) \<subseteq> ev_Name ` set (ct_Env sample_container)"
    by (simp add: sample_container_def image_image)
  from generated_images_used [OF this refl refl] show ?thesis
    by (simp add: chosen_def sample_flags_def)
qed

section \<open>Related images\<close>

definition related :: "string \<Rightarrow> string \<Rightarrow> json" where
  "related img name = JObj (fmupd ''image'' (JStr img) (fmupd ''name'' (JStr name) fmempty))"

lemma append_related_eq:
  "append_related img names ris = Inr (ris @ (if img = '''' then [] else map (related img) names))"
proof -
  have "foldl (\<lambda>acc name. case acc of Inl e \<Rightarrow> Inl e | Inr ris \<Rightarrow>
            (case buildRelatedImage img name of Inl e \<Rightarrow> Inl e | Inr ri \<Rightarrow> Inr (ris @ [ri]))) (Inr ris) names =
        Inr (ris @ map (related img) names)" for names
    by (induction names arbitrary: ris) (simp_all add: buildRelatedImage_def related_def)
  then show ?thesis by (simp add: append_related_def)
qed

text \<open>
  The list of related images never fails to build, and has one entry for each image flag
  that is given and each task that uses it, in a fixed order; the image that creates machines
  is listed for both of its tasks.
\<close>

theorem buildRelatedImages_table:
  "buildRelatedImages flags = Inr (concat (map (\<lambda>(img, names). if img = '''' then [] else map (related img) names)
     [(gf_cleanupVMImage flags, [''cleanup-vm'']), (gf_copyTemplateImage flags, [''copy-template'']),
      (gf_generateSSHKeys flags, [''generate-ssh-keys'']), (gf_modifyDataObjectImage flags, [''modify-data-object'']),
      (gf_createVMImage flags, [''create-vm-from-manifest'', ''create-vm-from-template'']),
      (gf_diskVirtCustomizeImage flags, [''disk-virt-customize'']), (gf_waitForVMIStatusImage flags, [''wait-for-vmi-status'']),
      (gf_modifyVMTemplateImage flags, [''modify-vm-template'']), (gf_diskVirtSysprepImage flags, [''disk-virt-sysprep'']),
      (gf_virtioImage flags, [''virtio-container''])]))"
  by (simp only: buildRelatedImages_def append_related_eq sum.case list.map prod.case concat.simps append_Nil append_Nil2 append_assoc)

section \<open>The deployment\<close>

lemma update_manager_split:
  "update_manager f cs = (case dropWhile (\<lambda>c. ct_Name c \<noteq> ''manager'') cs of
     [] \<Rightarrow> cs | c # rest \<Rightarrow> takeWhile (\<lambda>c. ct_Name c \<noteq> ''manager'') cs @ f c # rest)"
  by (induction cs) (auto simp del: dropWhile_eq_Nil_conv split: list.splits)

text \<open>
  The variables are replaced exactly when the version is a semantic version, and the version written to the
  manifest prints as the flag. The names, namespaces and the first container named manager are
  set, and everything else, other deployments included, is kept; a manifest without a deployment
  panics.
\<close>

theorem replaceVariables_result:
  "replaceVariables flags m =
     (case Parse (gf_csvVersion flags) of
        Inl e \<Rightarrow> (Err e, m\<lparr>csv_Name := ''tekton-tasks-operator.v'' @ gf_csvVersion flags\<rparr>)
      | Inr v \<Rightarrow>
         (let m' = m\<lparr>csv_Name := ''tekton-tasks-operator.v'' @ Version_String v, csv_Version := v, csv_Namespace := gf_namespace flags\<rparr>
          in case csv_DeploymentSpecs m of
               [] \<Rightarrow> (Panic index_panic, m')
             | t # ts \<Rightarrow> (Ok (), m'\<lparr>csv_DeploymentSpecs :=
                 t\<lparr>pt_Namespace := gf_namespace flags,
                   pt_Containers := (case dropWhile (\<lambda>c. ct_Name c \<noteq> ''manager'') (pt_Containers t) of
                      [] \<Rightarrow> pt_Containers t
                    | c # rest \<Rightarrow> takeWhile (\<lambda>c. ct_Name c \<noteq> ''manager'') (pt_Containers t) @
                        c\<lparr>ct_Image := gf_operatorImage flags, ct_Env := updateContainerEnvVars flags c\<rparr> # rest)\<rparr> # ts\<rparr>)))"
proof (cases "Parse (gf_csvVersion flags)")
  case (Inl e)
  then show ?thesis by (simp add: replaceVariables_def)
next
  case (Inr v)
  then have "Version_String v = gf_csvVersion flags" using parse_canonical by blast
  then show ?thesis
    by (simp add: replaceVariables_def on_template_def Inr update_manager_split Let_def split: list.split)
qed

section \<open>Certificates\<close>

lemma cert_volumes_skip:
  "list_all (\<lambda>i. vol_Name (arr ! i) \<noteq> ''cert'') is \<Longrightarrow> cert_volumes (is @ js) arr len = cert_volumes js arr len"
  by (induction "is") simp_all

lemma cert_volumes_done:
  "list_all (\<lambda>i. vol_Name (arr ! i) \<noteq> ''cert'') is \<Longrightarrow> cert_volumes is arr len = take len arr"
  using cert_volumes_skip [of arr "is" "[]" len] by simp

lemma cert_volumes_one:
  assumes a: "list_all (\<lambda>v. vol_Name v \<noteq> ''cert'') a" and b: "list_all (\<lambda>v. vol_Name v \<noteq> ''cert'') b"
    and c: "vol_Name c = ''cert''"
  shows "cert_volumes [0..<length (a @ c # b)] (a @ c # b) (length (a @ c # b)) = a @ b"
proof -
  let ?vs = "a @ c # b"
  have idx: "[0..<length ?vs] = [0..<length a] @ length a # [Suc (length a)..<length ?vs]"
    using upt_add_eq_append [of 0 "length a" "Suc (length b)"] by (simp add: upt_conv_Cons del: upt_Suc)
  have s: "shift_down (length a) ?vs = a @ b @ drop (length a + length b) ?vs" by (simp add: shift_down_def)
  have "vol_Name ((a @ b @ drop (length a + length b) ?vs) ! i) \<noteq> ''cert''"
    if "i \<in> set [Suc (length a)..<length ?vs]" for i
  proof (cases "i < length a + length b")
    case True
    then have i: "\<not> i < length a" "i - length a < length b" using that by auto
    then have "(a @ b @ drop (length a + length b) ?vs) ! i = b ! (i - length a)" by (simp add: nth_append)
    then show ?thesis using b i(2) by (simp add: list_all_length)
  next
    case False
    then have i: "i = length a + length b" "length b > 0" using that by auto
    then obtain b' l where bl: "b = b' @ [l]" by (cases b rule: rev_cases) auto
    have "(a @ b @ drop (length a + length b) ?vs) ! i = l" using i bl by (simp add: nth_append nth_Cons')
    then show ?thesis using b bl by simp
  qed
  then have rest: "list_all (\<lambda>i. vol_Name ((a @ b @ drop (length a + length b) ?vs) ! i) \<noteq> ''cert'') [Suc (length a)..<length ?vs]"
    by (simp add: list_all_iff)
  have pre: "list_all (\<lambda>i. vol_Name (?vs ! i) \<noteq> ''cert'') [0..<length a]"
    using a by (auto simp: list_all_length nth_append list_all_iff)
  show ?thesis
    unfolding idx cert_volumes_skip [OF pre] cert_volumes.simps
    using c s cert_volumes_done [OF rest] by (simp add: nth_append)
qed

lemma cert_volumes_filter:
  assumes "length (filter (\<lambda>v. vol_Name v = ''cert'') vs) \<le> 1"
  shows "cert_volumes [0..<length vs] vs (length vs) = filter (\<lambda>v. vol_Name v \<noteq> ''cert'') vs"
proof (cases "\<exists>v \<in> set vs. vol_Name v = ''cert''")
  case True
  then obtain a c b where vs: "vs = a @ c # b" "vol_Name c = ''cert''" "\<forall>v \<in> set a. vol_Name v \<noteq> ''cert''"
    using split_list_first_prop [of vs "\<lambda>v. vol_Name v = ''cert''"] by metis
  moreover have "\<forall>v \<in> set b. vol_Name v \<noteq> ''cert''"
    using assms vs by (auto simp: filter_empty_conv)
  ultimately show ?thesis using cert_volumes_one [of a b c] by (simp add: list_all_iff)
next
  case False
  then show ?thesis using cert_volumes_done [of vs "[0..<length vs]" "length vs"] by (simp add: list_all_length)
qed

text \<open>
  C27. When at most one volume is named cert, removing the certificates leaves exactly the other volumes, in
  order, although the loop overwrites the slice that it ranges over; of the mounts of the
  first container named manager the first one named cert goes, and nothing else changes.
\<close>

theorem removeCerts_result:
  assumes "csv_DeploymentSpecs m = t # ts" and "length (filter (\<lambda>v. vol_Name v = ''cert'') (pt_Volumes t)) \<le> 1"
  shows "removeCerts m = (Ok (), m\<lparr>csv_DeploymentSpecs :=
     t\<lparr>pt_Containers := (case dropWhile (\<lambda>c. ct_Name c \<noteq> ''manager'') (pt_Containers t) of
          [] \<Rightarrow> pt_Containers t
        | c # rest \<Rightarrow> takeWhile (\<lambda>c. ct_Name c \<noteq> ''manager'') (pt_Containers t) @
            c\<lparr>ct_VolumeMounts := drop_first_cert (ct_VolumeMounts c)\<rparr> # rest),
       pt_Volumes := filter (\<lambda>v. vol_Name v \<noteq> ''cert'') (pt_Volumes t)\<rparr> # ts\<rparr>)"
  using assms by (simp add: removeCerts_def on_template_def cert_volumes_filter update_manager_split)

definition sample_volume :: "string \<Rightarrow> volume" where
  "sample_volume n = \<lparr>vol_Name = n, vol_rest = ''''\<rparr>"

definition sample_csv :: "string list \<Rightarrow> csv" where
  "sample_csv vols = \<lparr>csv_Name = ''old'', csv_Namespace = '''',
     csv_Version = \<lparr>Major = 0, Minor = 0, Patch = 0, Pre = [], Build = []\<rparr>,
     csv_DeploymentSpecs = [\<lparr>pt_Namespace = '''', pt_Containers = [sample_container],
        pt_Volumes = map sample_volume vols, pt_rest = ''''\<rparr>], csv_rest = ''''\<rparr>"

theorem removeCerts_result_witness:
  "map (map vol_Name \<circ> pt_Volumes) (csv_DeploymentSpecs (snd (removeCerts (sample_csv [''a'', ''cert'', ''b''])))) = [[''a'', ''b'']]"
proof -
  have "csv_DeploymentSpecs (sample_csv [''a'', ''cert'', ''b'']) =
      [\<lparr>pt_Namespace = '''', pt_Containers = [sample_container], pt_Volumes = map sample_volume [''a'', ''cert'', ''b''], pt_rest = ''''\<rparr>]"
    by (simp add: sample_csv_def)
  from removeCerts_result [OF this] show ?thesis by (simp add: sample_volume_def)
qed

text \<open>With two such volumes the loop loses its place: the last volume is listed twice.\<close>

lemma removeCerts_twice:
  "map (map vol_Name \<circ> pt_Volumes) (csv_DeploymentSpecs (snd (removeCerts (sample_csv [''cert'', ''a'', ''cert'', ''b''])))) =
     [[''a'', ''b'', ''b'']]"
  by (simp add: removeCerts_def on_template_def sample_csv_def sample_volume_def shift_down_def upt_rec)

section \<open>Cleaning\<close>

definition server_paths :: "string list list" where
  \<comment> \<open>the fields of an object that only a server sets\<close>
  "server_paths = [[''metadata'', ''creationTimestamp''], [''template'', ''metadata'', ''creationTimestamp''],
     [''spec'', ''template'', ''metadata'', ''creationTimestamp''], [''status'']]"

definition deployment_paths :: "string list list" where
  "deployment_paths = [[''metadata'', ''creationTimestamp''], [''spec'', ''template'', ''metadata'', ''creationTimestamp''], [''status'']]"

definition related_path :: "string list" where "related_path = [''spec'', ''relatedImages'']"

lemma strip_object_foldl: "strip_object m = foldl RemoveNestedField m server_paths"
  by (simp add: strip_object_def server_paths_def)

lemma strip_deployment_foldl: "strip_deployment (JObj d) = Ok (JObj (foldl RemoveNestedField d deployment_paths))"
  by (simp add: deployment_paths_def)

lemma paths_proper [simp]:
  "list_all (\<lambda>p. p \<noteq> []) server_paths" "list_all (\<lambda>p. p \<noteq> []) deployment_paths"
  "deployments_path \<noteq> []" "related_path \<noteq> []"
  by (simp_all add: server_paths_def deployment_paths_def deployments_path_def related_path_def)

lemma paths_apart [simp]:
  "p \<in> set server_paths \<Longrightarrow> apart deployments_path p" "p \<in> set server_paths \<Longrightarrow> apart p deployments_path"
  "p \<in> set server_paths \<Longrightarrow> apart related_path p" "apart related_path deployments_path"
  by (auto simp: apart_def server_paths_def deployments_path_def related_path_def)

lemma NestedSlice_get: "NestedSlice fmt_v m p = Inr (Some xs) \<longleftrightarrow> get_path m p = Some (JArr xs)"
proof -
  have "NestedSlice fmt_v m p = Inr (Some xs) \<longleftrightarrow> nested_field fmt_v [] (JObj m) p = Inr (Some (JArr xs))"
    by (auto simp: NestedSlice_def split: sum.split option.split json.split)
  then show ?thesis by (simp add: nested_field_get)
qed

declare strip_deployment.simps [simp del]

lemma strip_deployment_Ok:
  "strip_deployment d = Ok d' \<longleftrightarrow> (\<exists>m. d = JObj m \<and> d' = JObj (foldl RemoveNestedField m deployment_paths))"
  by (cases d) (auto simp: strip_deployment_foldl strip_deployment.simps(2-))

lemma strip_deployments_Ok:
  "strip_deployments ds = Ok ds' \<longleftrightarrow> (\<exists>ms. ds = map JObj ms \<and> ds' = map (\<lambda>d. JObj (foldl RemoveNestedField d deployment_paths)) ms)"
proof (induction ds arbitrary: ds')
  case (Cons d ds)
  have "strip_deployments (d # ds) = Ok ds' \<longleftrightarrow>
      (\<exists>e es. strip_deployment d = Ok e \<and> strip_deployments ds = Ok es \<and> ds' = e # es)"
    by (auto split: outcome.split)
  also have "\<dots> \<longleftrightarrow> (\<exists>m ms. d # ds = map JObj (m # ms) \<and>
      ds' = map (\<lambda>d. JObj (foldl RemoveNestedField d deployment_paths)) (m # ms))"
    unfolding strip_deployment_Ok Cons by auto
  also have "\<dots> \<longleftrightarrow> (\<exists>ms. d # ds = map JObj ms \<and>
      ds' = map (\<lambda>d. JObj (foldl RemoveNestedField d deployment_paths)) ms)"
    (is "(\<exists>m ms. ?P (m # ms)) = (\<exists>ms. ?P ms)")
  proof
    assume "\<exists>ms. ?P ms"
    then obtain ms where ms: "?P ms" by (elim exE)
    then obtain m ms' where "ms = m # ms'" by (cases ms) auto
    then have "?P (m # ms')" using ms by simp
    then show "\<exists>m ms. ?P (m # ms)" by (intro exI)
  qed (elim exE, intro exI)
  finally show ?case .
qed auto

lemma SetNestedSlice_get:
  assumes "p \<noteq> []"
  shows "SetNestedSlice m xs p = m \<or> (json_put m (JArr xs) p = Some (SetNestedSlice m xs p))"
  by (auto simp: SetNestedSlice_def json_put_def split: sum.split)

lemma SetNestedSlice_elsewhere:
  "p \<noteq> [] \<Longrightarrow> q \<noteq> [] \<Longrightarrow> apart p q \<Longrightarrow> get_path (SetNestedSlice m xs p) q = get_path m q"
  using SetNestedSlice_get [of p m xs] json.get_put_elsewhere by metis

lemma set_nested_exists: "get_path m p = Some w \<Longrightarrow> p \<noteq> [] \<Longrightarrow> \<exists>m'. set_nested passed m v p = Inr m'"
proof (induction passed m v p rule: set_nested.induct)
  case (3 passed m v f g path)
  from "3.prems" obtain x where x: "fmlookup m f = Some (JObj x)" "get_path x (g # path) = Some w"
    by (auto split: option.splits json.splits)
  from "3.IH"(2) [OF x(1) refl x(2)] show ?case using x(1) by auto
qed auto

lemma SetNestedSlice_present: "p \<noteq> [] \<Longrightarrow> get_path m p = Some w \<Longrightarrow> get_path (SetNestedSlice m xs p) p = Some (JArr xs)"
  using set_nested_exists [of m p w "[]" "JArr xs"] set_nested_get by (fastforce simp: SetNestedSlice_def)

definition map_at :: "(string, json) fmap \<Rightarrow> string \<Rightarrow> bool" where
  "map_at m f = (case fmlookup m f of None \<Rightarrow> True | Some (JObj x) \<Rightarrow> True | Some _ \<Rightarrow> False)"

lemma map_at_remove: "map_at m f \<Longrightarrow> map_at (RemoveNestedField m p) f"
  by (cases "(m, p)" rule: RemoveNestedField.cases) (auto simp: map_at_def split: option.split json.split)

lemma map_at_strip: "map_at m f \<Longrightarrow> map_at (strip_object m) f"
  unfolding strip_object_def by (intro map_at_remove)

lemma SetNestedSlice_two: "map_at m f \<Longrightarrow> get_path (SetNestedSlice m xs [f, g]) [f, g] = Some (JArr xs)"
  by (auto simp: SetNestedSlice_def map_at_def split: option.splits json.splits)

lemma map_at_on_path: "get_path m (f # g # p) = Some v \<Longrightarrow> map_at m f"
  by (auto simp: map_at_def split: option.splits json.splits)

lemma map_at_set: "map_at m f \<Longrightarrow> map_at (SetNestedSlice m xs (f # g # p)) f"
  by (auto simp: SetNestedSlice_def map_at_def split: option.splits json.splits sum.splits)

definition stripped :: "(string, json) fmap \<Rightarrow> json" where
  "stripped d = JObj (foldl RemoveNestedField d deployment_paths)"

lemma cleaned_deployments:
  assumes "cleaned_object fmt_v obj relatedImages = Ok r"
  obtains r1 where "r = (if relatedImages \<noteq> [] then SetNestedSlice r1 relatedImages related_path else r1)"
    and "r1 = strip_object obj \<and> get_path obj deployments_path = None \<or>
      (\<exists>ms. get_path obj deployments_path = Some (JArr (map JObj ms)) \<and>
         r1 = SetNestedSlice (strip_object obj) (map stripped ms) deployments_path)"
proof -
  have g: "get_path (strip_object obj) deployments_path = get_path obj deployments_path"
    unfolding strip_object_foldl by (rule json.del_all_elsewhere [OF paths_proper(1)]) (simp_all add: list_all_iff)
  have none: "get_path (strip_object obj) deployments_path = None"
    if n: "NestedSlice fmt_v (strip_object obj) deployments_path = Inr None"
  proof (rule ccontr)
    assume "get_path (strip_object obj) deployments_path \<noteq> None"
    then obtain v where "nested_field fmt_v [] (JObj (strip_object obj)) deployments_path = Inr (Some v)"
      by (auto simp: nested_field_get)
    then show False using n by (cases v) (simp_all add: NestedSlice_def)
  qed
  from assms show ?thesis
    unfolding cleaned_object_def Let_def related_path_def [symmetric]
    by (auto simp: strip_deployments_Ok stripped_def [symmetric] NestedSlice_get g
        split: sum.splits option.splits outcome.splits intro: that dest!: none)
qed

text \<open>
  C28. Cleaning an object removes the fields that only a server sets, from the object and from each of its
  deployments, writes the related images where a manifest has them, and keeps what is at
  every other path; the deployments are those of the object, in order, without these fields.
\<close>

theorem cleaned_object_result:
  assumes "cleaned_object fmt_v obj relatedImages = Ok r"
  shows "list_all (\<lambda>p. get_path r p = None) server_paths \<and>
    (case get_path obj deployments_path of
       None \<Rightarrow> get_path r deployments_path = None
     | Some v \<Rightarrow> \<exists>ms. v = JArr (map JObj ms) \<and> get_path r deployments_path = Some (JArr (map stripped ms))) \<and>
    (relatedImages \<noteq> [] \<and> map_at obj ''spec'' \<longrightarrow> get_path r related_path = Some (JArr relatedImages)) \<and>
    (\<forall>q. q \<noteq> [] \<and> list_all (\<lambda>p. apart p q) (deployments_path # related_path # server_paths) \<longrightarrow> get_path r q = get_path obj q)"
proof -
  obtain r1 where r: "r = (if relatedImages \<noteq> [] then SetNestedSlice r1 relatedImages related_path else r1)"
    and r1: "r1 = strip_object obj \<and> get_path obj deployments_path = None \<or>
      (\<exists>ms. get_path obj deployments_path = Some (JArr (map JObj ms)) \<and>
         r1 = SetNestedSlice (strip_object obj) (map stripped ms) deployments_path)"
    using cleaned_deployments [OF assms] by blast
  have rq: "get_path r q = get_path r1 q" if "q \<noteq> []" "apart related_path q" for q
    using that by (simp add: r SetNestedSlice_elsewhere)
  have r1q: "get_path r1 q = get_path (strip_object obj) q" if "q \<noteq> []" "apart deployments_path q" for q
    using r1 that by (auto simp: SetNestedSlice_elsewhere)
  have sq: "get_path (strip_object obj) q = get_path obj q" if "q \<noteq> []" "list_all (\<lambda>p. apart p q) server_paths" for q
    unfolding strip_object_foldl using that by (intro json.del_all_elsewhere) simp_all
  have dep: "get_path (strip_object obj) deployments_path = get_path obj deployments_path"
    by (rule sq) (simp_all add: list_all_iff)
  have 1: "get_path r p = None" if p: "p \<in> set server_paths" for p
  proof -
    have "p \<noteq> []" using p paths_proper(1) by (auto simp: list_all_iff)
    moreover have "get_path (strip_object obj) p = None"
      unfolding strip_object_foldl using p by (intro json.del_all_absent) simp_all
    ultimately show ?thesis using p by (simp add: rq r1q)
  qed
  have 2: "case get_path obj deployments_path of None \<Rightarrow> get_path r deployments_path = None
     | Some v \<Rightarrow> \<exists>ms. v = JArr (map JObj ms) \<and> get_path r deployments_path = Some (JArr (map stripped ms))"
    using r1 dep SetNestedSlice_present [of deployments_path "strip_object obj"] by (auto simp: rq)
  have 3: "get_path r related_path = Some (JArr relatedImages)" if "relatedImages \<noteq> []" "map_at obj ''spec''"
  proof -
    have "map_at r1 ''spec''" using r1 that(2) map_at_strip map_at_set unfolding deployments_path_def by metis
    then show ?thesis using that(1) SetNestedSlice_two by (simp add: r related_path_def)
  qed
  show ?thesis using 1 2 3 rq r1q sq by (simp add: list_all_iff)
qed

definition sample_object_json :: "(string, json) fmap" where
  "sample_object_json = fmupd ''status'' (JStr ''s'') (fmupd ''kind'' (JStr ''CSV'') fmempty)"

theorem cleaned_object_result_witness:
  "\<exists>r. cleaned_object (\<lambda>_. '''') sample_object_json [JNull] = Ok r \<and> get_path r [''status''] = None \<and>
     get_path r related_path = Some (JArr [JNull]) \<and> get_path r [''kind''] = Some (JStr ''CSV'')"
proof -
  have "strip_object sample_object_json = fmupd ''kind'' (JStr ''CSV'') fmempty"
    by (rule fmap_ext) (simp add: strip_object_def sample_object_json_def)
  then have ok: "cleaned_object (\<lambda>_. '''') sample_object_json [JNull] =
      Ok (SetNestedSlice (fmupd ''kind'' (JStr ''CSV'') fmempty) [JNull] [''spec'', ''relatedImages''])"
    by (simp add: cleaned_object_def NestedSlice_def deployments_path_def)
  have q: "list_all (\<lambda>p. apart p [''kind'']) (deployments_path # related_path # server_paths)"
    by (simp add: apart_def deployments_path_def related_path_def server_paths_def)
  show ?thesis
    using cleaned_object_result [OF ok] q ok
    by (auto simp: server_paths_def map_at_def sample_object_json_def)
qed

section \<open>Output\<close>

text \<open>
  What \<open>io.Writer\<close> promises: a \<open>Write\<close> without an error wrote everything, and one with an error a prefix. \<open>out\<close> is
  what was written so far.
\<close>

locale io_writer =
  fixes wr :: "'o writer" and out :: "'o \<Rightarrow> string"
  assumes wrote_all: "wr s w = (None, w') \<Longrightarrow> out w' = out w @ s"
    and wrote_some: "wr s w = (Some e, w') \<Longrightarrow> \<exists>n. out w' = out w @ take n s"

definition documents :: "string list \<Rightarrow> string" where
  "documents ds = concat (map (\<lambda>d. yaml_separator @ d) ds)"

lemma documents_simps [simp]: "documents [] = ''''" "documents (d # ds) = yaml_separator @ d @ documents ds"
  by (simp_all add: documents_def)

text \<open>The YAML of an object: encoded, cleaned, and encoded again.\<close>

definition object_yaml :: "'crd gen_lib \<Rightarrow> ('obj \<Rightarrow> error + string) \<Rightarrow> 'obj \<Rightarrow> json list \<Rightarrow> string \<Rightarrow> bool" where
  "object_yaml lib marshal obj relatedImages d \<longleftrightarrow>
     (\<exists>b1 m1 m2 b2. marshal obj = Inr b1 \<and> gl_unmarshal lib b1 = Inr m1 \<and>
        cleaned_object (gl_fmt lib) m1 relatedImages = Ok m2 \<and> gl_marshal lib m2 = Inr b2 \<and>
        gl_JSONToYAML lib b2 = Inr d)"

definition crd_yaml :: "'crd gen_lib \<Rightarrow> file_system \<Rightarrow> string \<times> bool \<Rightarrow> string \<Rightarrow> bool" where
  "crd_yaml lib fs file d \<longleftrightarrow>
     (\<exists>text crd. fs_readFile fs (''data/crd/'' @ fst file) = Inr text \<and> gl_decodeCRD lib text = Inr crd \<and>
        object_yaml lib (gl_marshalCRD lib) crd [] d)"

definition manifest_yaml :: "'crd gen_lib \<Rightarrow> file_system \<Rightarrow> generatorFlags \<Rightarrow> string \<Rightarrow> bool" where
  "manifest_yaml lib fs f d \<longleftrightarrow>
     (\<exists>text m m1 m2 ris. fs_readFile fs (gf_file f) = Inr text \<and> gl_decodeCSV lib text = Inr m \<and>
        replaceVariables f m = (Ok (), m1) \<and> (if gf_removeCerts f then removeCerts m1 = (Ok (), m2) else m2 = m1) \<and>
        buildRelatedImages f = Inr ris \<and> object_yaml lib (gl_marshalCSV lib) m2 ris d)"

text \<open>
  A run wrote documents, the first ones of those it is to write. If it ended without error these are all;
  otherwise some are missing, and after the last there may be a part of the next one.
\<close>

definition wrote ::
  "'o writer \<Rightarrow> ('o \<Rightarrow> string) \<Rightarrow> (string \<Rightarrow> bool) list \<Rightarrow> 'o \<Rightarrow> unit outcome \<times> 'o \<Rightarrow> bool" where
  "wrote wr out Ds w r \<longleftrightarrow> (\<exists>ds rest.
     out (snd r) = out w @ documents ds @ rest \<and> length ds \<le> length Ds \<and> (\<forall>i < length ds. (Ds ! i) (ds ! i)) \<and>
     (if fst r = Ok () then length ds = length Ds \<and> rest = ''''
      else length ds < length Ds \<and>
        (rest = '''' \<or> (\<exists>e s w1. fst r = Err e \<and> fst (wr s w1) = Some e) \<and>
           (\<exists>d n. (Ds ! length ds) d \<and> rest = take n (yaml_separator @ d)))))"

lemma wrote_nothing: "q \<noteq> Ok () \<Longrightarrow> Ds \<noteq> [] \<Longrightarrow> wrote wr out Ds w (q, w)"
  unfolding wrote_def by (intro exI [of _ "[]"] exI [of _ "''''"]) simp

lemma wrote_Nil [simp]: "wrote wr out [] w (Ok (), w)"
  unfolding wrote_def by (intro exI [of _ "[]"] exI [of _ "''''"]) simp

lemma wrote_Cons:
  assumes "D d" and "out w1 = out w @ yaml_separator @ d" and "wrote wr out Ds w1 r"
  shows "wrote wr out (D # Ds) w r"
proof -
  obtain ds rest where "out (snd r) = out w1 @ documents ds @ rest" "length ds \<le> length Ds"
    "\<forall>i < length ds. (Ds ! i) (ds ! i)"
    "if fst r = Ok () then length ds = length Ds \<and> rest = ''''
      else length ds < length Ds \<and> (rest = '''' \<or> (\<exists>e s w1. fst r = Err e \<and> fst (wr s w1) = Some e) \<and>
           (\<exists>d n. (Ds ! length ds) d \<and> rest = take n (yaml_separator @ d)))"
    using assms(3) unfolding wrote_def by blast
  with assms(1,2) show ?thesis
    unfolding wrote_def
    by (intro exI [of _ "d # ds"] exI [of _ rest]) (auto simp: nth_Cons split: nat.split if_splits)
qed

context io_writer
begin

lemma write_yaml_result:
  obtains w' where "write_yaml wr d w = (Ok (), w')" "out w' = out w @ yaml_separator @ d"
  | e w' n s w1 where "write_yaml wr d w = (Err e, w')" "out w' = out w @ take n (yaml_separator @ d)" "fst (wr s w1) = Some e"
proof -
  obtain q1 w1 where 1: "wr yaml_separator w = (q1, w1)" by (metis surj_pair)
  obtain q2 w2 where 2: "wr d w1 = (q2, w2)" by (metis surj_pair)
  show thesis
  proof (cases q1)
    case (Some e)
    then obtain n where "out w1 = out w @ take n yaml_separator" using wrote_some 1 by blast
    then have "out w1 = out w @ take (min n (length yaml_separator)) (yaml_separator @ d)" by (simp add: min_def)
    then show thesis using that(2) [of e w1 "min n (length yaml_separator)" yaml_separator w] 1 Some by (simp add: write_yaml_def)
  next
    case None
    then have o1: "out w1 = out w @ yaml_separator" using wrote_all 1 by simp
    show thesis
    proof (cases q2)
      case None
      then have "out w2 = out w1 @ d" using wrote_all 2 by simp
      then show thesis using that(1) [of w2] 1 2 \<open>q1 = None\<close> None o1 by (simp add: write_yaml_def)
    next
      case (Some e)
      then obtain n where "out w2 = out w1 @ take n d" using wrote_some 2 by blast
      then have "out w2 = out w @ take (length yaml_separator + n) (yaml_separator @ d)" by (simp add: o1)
      then show thesis using that(2) [of e w2 "length yaml_separator + n" d w1] 1 2 \<open>q1 = None\<close> Some by (simp add: write_yaml_def)
    qed
  qed
qed

lemma marshallObject_wrote:
  assumes D: "\<And>d. object_yaml lib marshal obj ris d \<Longrightarrow> D d" and "\<And>w. wrote wr out Ds w (next w)"
  shows "wrote wr out (D # Ds) w (bind_outcome (marshallObject lib marshal obj ris wr w) (\<lambda>_. next))"
proof (cases "\<exists>d. object_yaml lib marshal obj ris d")
  case True
  then obtain d where d: "object_yaml lib marshal obj ris d" by blast
  then have m: "marshallObject lib marshal obj ris wr w = write_yaml wr d w"
    by (auto simp: object_yaml_def marshallObject_def)
  show ?thesis
  proof (rule write_yaml_result [of d w])
    fix w' assume w': "write_yaml wr d w = (Ok (), w')" "out w' = out w @ yaml_separator @ d"
    show ?thesis
      unfolding m w'(1) bind_outcome_simps
      by (rule wrote_Cons [where D = D and d = d and ?w1.0 = w']) (rule D [OF d], rule w'(2), rule assms(2))
  next
    fix e w' n s w1
    assume "write_yaml wr d w = (Err e, w')" "out w' = out w @ take n (yaml_separator @ d)" "fst (wr s w1) = Some e"
    then show ?thesis
      unfolding wrote_def m
      by (intro exI [of _ "[]"] exI [of _ "take n (yaml_separator @ d)"]) (use D [OF d] in auto)
  qed
next
  case False
  then have "\<exists>q. marshallObject lib marshal obj ris wr w = (q, w) \<and> q \<noteq> Ok ()"
    by (auto simp: object_yaml_def marshallObject_def split: sum.split outcome.split)
  then obtain q where q: "marshallObject lib marshal obj ris wr w = (q, w)" "q \<noteq> Ok ()" by blast
  then have b: "bind_outcome (marshallObject lib marshal obj ris wr w) (\<lambda>_. next) = (q, w)" by (cases q) simp_all
  show ?thesis unfolding b by (rule wrote_nothing [OF q(2)]) simp
qed

lemma dump_crds_wrote: "wrote wr out (map (crd_yaml lib fs) files) w (dump_crds lib fs wr files w)"
proof (induction files arbitrary: w)
  case (Cons p files)
  obtain name isDir where p: "p = (name, isDir)" by (cases p)
  show ?case
  proof (cases "readAndDecodeToCRD lib fs name")
    case (Inl e)
    then show ?thesis by (simp add: p wrote_nothing)
  next
    case (Inr crd)
    then have "object_yaml lib (gl_marshalCRD lib) crd [] d \<Longrightarrow> crd_yaml lib fs p d" for d
      by (auto simp: crd_yaml_def p readAndDecodeToCRD_def split: sum.splits)
    from marshallObject_wrote [OF this Cons] Inr show ?thesis by (simp add: p)
  qed
qed simp

end

definition asked_documents :: "'crd gen_lib \<Rightarrow> file_system \<Rightarrow> generatorFlags \<Rightarrow> (string \<Rightarrow> bool) list" where
  \<comment> \<open>what the flags ask for; if the directory of CRDs cannot be read, a document that is never written\<close>
  "asked_documents lib fs f = manifest_yaml lib fs f #
     (if gf_dumpCRDs f then (case fs_readDir fs ''data/crd'' of
        Inl e \<Rightarrow> [\<lambda>_. False] | Inr files \<Rightarrow> map (crd_yaml lib fs) files) else [])"

text \<open>
  C30. What the generator leaves on its output, for every writer that keeps the promise of \<open>io.Writer\<close>, failing ones included.
  A run without error wrote the documents that are asked for, each behind a separator and
  complete: first the YAML of the manifest with its variables replaced, then, when asked to, that of every
  file of the CRD directory in its order. A run that failed or panicked wrote the first of
  them and not all, and a part of the next one only if it was the writer that failed.
\<close>

theorem generator_writes_documents:
  assumes "io_writer wr out"
  shows "wrote wr out (asked_documents lib fs f) w (runGenerator lib fs wr f w)"
proof -
  let ?dump = "\<lambda>w. if \<not> gf_dumpCRDs f then (Ok (), w)
      else (case fs_readDir fs ''data/crd'' of Inl e \<Rightarrow> (Err e, w) | Inr files \<Rightarrow> dump_crds lib fs wr files w)"
  obtain Ds where Ds: "asked_documents lib fs f = manifest_yaml lib fs f # Ds" "\<And>w. wrote wr out Ds w (?dump w)"
    by (cases "fs_readDir fs ''data/crd''")
      (auto simp: asked_documents_def wrote_nothing io_writer.dump_crds_wrote [OF assms])
  have manifest: "wrote wr out (manifest_yaml lib fs f # Ds) w
      (bind_outcome (marshallObject lib (gl_marshalCSV lib) m2 ris wr w) (\<lambda>_. ?dump))"
    if "\<And>d. object_yaml lib (gl_marshalCSV lib) m2 ris d \<Longrightarrow> manifest_yaml lib fs f d" for m2 ris
    by (rule io_writer.marshallObject_wrote [OF assms that Ds(2)])
  show ?thesis
    unfolding Ds(1) runGenerator_def
    by (auto split: sum.split prod.split outcome.split if_splits intro!: manifest wrote_nothing simp: manifest_yaml_def)
qed

text \<open>A disk with room for a number of bytes keeps the promise.\<close>

definition disk_write :: "nat \<Rightarrow> string writer" where
  "disk_write room s w =
     (if length w + length s \<le> room then (None, w @ s)
      else (Some (PlainError ''no space left on device''), w @ take (room - length w) s))"

lemma disk_writer: "io_writer (disk_write room) (\<lambda>w. w)"
  by unfold_locales (auto simp: disk_write_def split: if_splits)

interpretation disk: io_writer "disk_write room" "\<lambda>w. w" for room
  by (rule disk_writer)

definition sample_gen_lib :: "unit gen_lib" where
  "sample_gen_lib = \<lparr>gl_decodeCSV = (\<lambda>_. Inr (sample_csv [''cert''])), gl_decodeCRD = (\<lambda>_. Inr ()),
     gl_marshalCSV = (\<lambda>m. Inr (csv_Name m)), gl_marshalCRD = (\<lambda>_. Inr ''c''), gl_unmarshal = (\<lambda>_. Inr fmempty),
     gl_marshal = (\<lambda>_. Inr ''j''), gl_JSONToYAML = (\<lambda>b. Inr (b @ [CHR 0x0A])), gl_fmt = (\<lambda>_. '''')\<rparr>"

theorem generator_writes_documents_witness:
  "wrote (disk_write 5) (\<lambda>w. w) (asked_documents sample_gen_lib sample_files (sample_flags\<lparr>gf_dumpCRDs := True\<rparr>)) ''''
     (runGenerator sample_gen_lib sample_files (disk_write 5) (sample_flags\<lparr>gf_dumpCRDs := True\<rparr>) '''')"
  by (rule generator_writes_documents [OF disk_writer])

end
