(* ===== verification/Csv_Command.thy ===== *)
theory Csv_Command
  imports Csv_Generator
begin

text \<open>
  The command line of the manifest generator (\<open>scripts/csv-generator.go\<close>, from \<open>rootCmd\<close> to \<open>init\<close>) with the parts of
  the vendored \<open>pflag\<close> and \<open>cobra\<close> that it runs through: how arguments become flags, which flags are
  required, and what the process returns. The hidden command that shells call for
  completion is left out.
\<close>

section \<open>The flags\<close>

definition default_generatorFlags :: generatorFlags where
  "default_generatorFlags =
     \<lparr>gf_file = ''data/olm-catalog/tekton-tasks-operator.clusterserviceversion.yaml'', gf_dumpCRDs = False,
      gf_removeCerts = False, gf_namespace = '''', gf_csvVersion = '''', gf_pipelinesNamespace = '''',
      gf_operatorImage = '''', gf_operatorVersion = '''', gf_waitForVMIStatusImage = '''',
      gf_modifyVMTemplateImage = '''', gf_diskVirtSysprepImage = '''', gf_diskVirtCustomizeImage = '''',
      gf_createVMImage = '''', gf_modifyDataObjectImage = '''', gf_copyTemplateImage = '''',
      gf_cleanupVMImage = '''', gf_generateSSHKeys = '''', gf_virtioImage = ''''\<rparr>"

definition string_flags :: "(string \<times> (string \<Rightarrow> generatorFlags \<Rightarrow> generatorFlags)) list" where
  "string_flags =
     [(''file'', \<lambda>v f. f\<lparr>gf_file := v\<rparr>),
      (''csv-version'', \<lambda>v f. f\<lparr>gf_csvVersion := v\<rparr>),
      (''namespace'', \<lambda>v f. f\<lparr>gf_namespace := v\<rparr>),
      (''pipelines-namespace'', \<lambda>v f. f\<lparr>gf_pipelinesNamespace := v\<rparr>),
      (''operator-image'', \<lambda>v f. f\<lparr>gf_operatorImage := v\<rparr>),
      (''operator-version'', \<lambda>v f. f\<lparr>gf_operatorVersion := v\<rparr>),
      (''wait-for-vmi-status-image'', \<lambda>v f. f\<lparr>gf_waitForVMIStatusImage := v\<rparr>),
      (''modify-vm-template-image'', \<lambda>v f. f\<lparr>gf_modifyVMTemplateImage := v\<rparr>),
      (''disk-virt-sysprep-image'', \<lambda>v f. f\<lparr>gf_diskVirtSysprepImage := v\<rparr>),
      (''disk-virt-customize-image'', \<lambda>v f. f\<lparr>gf_diskVirtCustomizeImage := v\<rparr>),
      (''create-vm-image'', \<lambda>v f. f\<lparr>gf_createVMImage := v\<rparr>),
      (''modify-data-object-image'', \<lambda>v f. f\<lparr>gf_modifyDataObjectImage := v\<rparr>),
      (''copy-template-image'', \<lambda>v f. f\<lparr>gf_copyTemplateImage := v\<rparr>),
      (''generate-ssh-keys'', \<lambda>v f. f\<lparr>gf_generateSSHKeys := v\<rparr>),
      (''cleanup-vm-image'', \<lambda>v f. f\<lparr>gf_cleanupVMImage := v\<rparr>),
      (''virtio-image'', \<lambda>v f. f\<lparr>gf_virtioImage := v\<rparr>)]"

definition bool_flags :: "(string \<times> (bool \<Rightarrow> generatorFlags \<Rightarrow> generatorFlags)) list" where
  "bool_flags =
     [(''webhook-remove-certs'', \<lambda>b f. f\<lparr>gf_removeCerts := b\<rparr>),
      (''dump-crds'', \<lambda>b f. f\<lparr>gf_dumpCRDs := b\<rparr>)]"

definition required_flags :: "string list" where
  "required_flags = [''csv-version'', ''namespace'', ''operator-image'', ''operator-version'']"

section \<open>Parsing arguments\<close>

datatype usage_error =
    BadFlagSyntax string
  | UnknownFlag string
  | UnknownShorthand char string
  | NeedsArgument string
  | InvalidArgument string string \<comment> \<open>the value and the flag\<close>
  | RequiredNotSet "string list"

text \<open>What parsing leaves: the flags, the help flag that cobra adds, which flags were given, the arguments that are no flags.\<close>

record command_line =
  cl_flags :: generatorFlags
  cl_help :: bool
  cl_changed :: "string list"
  cl_args :: "string list"

definition FlagSet_Set :: "string \<Rightarrow> string \<Rightarrow> command_line \<Rightarrow> usage_error + command_line" where
  \<comment> \<open>\<open>Set\<close> for a flag that exists\<close>
  "FlagSet_Set name value c =
     (case map_of string_flags name of
        Some put \<Rightarrow> Inr (c\<lparr>cl_flags := put value (cl_flags c), cl_changed := name # cl_changed c\<rparr>)
      | None \<Rightarrow>
          (case parse_bool value of
             None \<Rightarrow> Inl (InvalidArgument value name)
           | Some b \<Rightarrow>
               (case map_of bool_flags name of
                  Some put \<Rightarrow> Inr (c\<lparr>cl_flags := put b (cl_flags c), cl_changed := name # cl_changed c\<rparr>)
                | None \<Rightarrow> Inr (c\<lparr>cl_help := b, cl_changed := name # cl_changed c\<rparr>))))"

definition takes_value :: "string \<Rightarrow> bool" where
  \<comment> \<open>no \<open>NoOptDefVal\<close>\<close>
  "takes_value name \<longleftrightarrow> map_of string_flags name \<noteq> None"

definition flag_exists :: "string \<Rightarrow> bool" where
  "flag_exists name \<longleftrightarrow> takes_value name \<or> map_of bool_flags name \<noteq> None \<or> name = ''help''"

definition with_rest :: "string list \<Rightarrow> usage_error + command_line \<Rightarrow> usage_error + string list \<times> command_line" where
  "with_rest args res = (case res of Inl e \<Rightarrow> Inl e | Inr c \<Rightarrow> Inr (args, c))"

definition parseLongArg :: "string \<Rightarrow> string list \<Rightarrow> command_line \<Rightarrow> usage_error + string list \<times> command_line" where
  "parseLongArg s args c =
     (let name = drop 2 s in
      if name = [] \<or> hd name = CHR ''-'' \<or> hd name = CHR ''='' then Inl (BadFlagSyntax s)
      else case cut_at CHR ''='' name of
          Some (name, value) \<Rightarrow>
            if \<not> flag_exists name then Inl (UnknownFlag name) else with_rest args (FlagSet_Set name value c)
        | None \<Rightarrow>
            if \<not> flag_exists name then Inl (UnknownFlag name)
            else if \<not> takes_value name then with_rest args (FlagSet_Set name ''true'' c)
            else (case args of
                    [] \<Rightarrow> Inl (NeedsArgument s)
                  | value # args \<Rightarrow> with_rest args (FlagSet_Set name value c)))"

text \<open>The only flag with a shorthand is help. The first argument is what is left of a group of shorthands.\<close>

fun parseShortArg :: "string \<Rightarrow> command_line \<Rightarrow> usage_error + command_line" where
  "parseShortArg [] c = Inr c"
| "parseShortArg (h # shorthands) c =
     (if has_prefix (h # shorthands) ''test.'' then Inr c
      else if h \<noteq> CHR ''h'' then Inl (UnknownShorthand h (h # shorthands))
      else if length shorthands > 1 \<and> hd shorthands = CHR ''='' then FlagSet_Set ''help'' (tl shorthands) c
      else (case FlagSet_Set ''help'' ''true'' c of Inl e \<Rightarrow> Inl e | Inr c \<Rightarrow> parseShortArg shorthands c))"

lemma parseLongArg_shorter: "parseLongArg s args c = Inr (args', c') \<Longrightarrow> length args' \<le> length args"
  by (auto simp: parseLongArg_def with_rest_def Let_def split: if_splits option.splits sum.splits prod.splits list.splits)

function parseArgs :: "string list \<Rightarrow> command_line \<Rightarrow> usage_error + command_line" where
  "parseArgs [] c = Inr c"
| "parseArgs (s # args) c =
     (if length s < 2 \<or> hd s \<noteq> CHR ''-'' then parseArgs args (c\<lparr>cl_args := cl_args c @ [s]\<rparr>)
      else if s ! 1 = CHR ''-'' then
        if length s = 2 then Inr (c\<lparr>cl_args := cl_args c @ args\<rparr>)
        else (case parseLongArg s args c of Inl e \<Rightarrow> Inl e | Inr (args, c) \<Rightarrow> parseArgs args c)
      else (case parseShortArg (tl s) c of Inl e \<Rightarrow> Inl e | Inr c \<Rightarrow> parseArgs args c))"
  by pat_completeness auto

termination
  by (relation "measure (\<lambda>(args, c). length args)") (auto dest!: sym [where t = "parseLongArg _ _ _"] parseLongArg_shorter)

declare parseArgs.simps(2) [simp del]

section \<open>The command\<close>

definition validateRequiredFlags :: "command_line \<Rightarrow> usage_error option" where
  "validateRequiredFlags c =
     (case filter (\<lambda>name. name \<notin> set (cl_changed c)) required_flags of
        [] \<Rightarrow> None
      | missing \<Rightarrow> Some (RequiredNotSet missing))"

datatype command_result = Help | UsageError usage_error | Ran "unit outcome"

definition rootCmd_execute ::
  "'crd gen_lib \<Rightarrow> file_system \<Rightarrow> 'o writer \<Rightarrow> string list \<Rightarrow> 'o \<Rightarrow> command_result \<times> 'o" where
  "rootCmd_execute lib fs wr args w =
     (case parseArgs args \<lparr>cl_flags = default_generatorFlags, cl_help = False, cl_changed = [], cl_args = []\<rparr> of
        Inl e \<Rightarrow> (UsageError e, w)
      | Inr c \<Rightarrow>
          if cl_help c then (Help, w)
          else (case validateRequiredFlags c of
                  Some e \<Rightarrow> (UsageError e, w)
                | None \<Rightarrow> (case runGenerator lib fs wr (cl_flags c) w of (result, w) \<Rightarrow> (Ran result, w))))"

text \<open>
  The exit code: \<open>Run\<close> exits with 1 after an error, a panic is 2, and \<open>main\<close> ignores what \<open>Execute\<close> returns. The
  help and usage texts that cobra prints are left out.
\<close>

definition csv_main :: "'crd gen_lib \<Rightarrow> file_system \<Rightarrow> 'o writer \<Rightarrow> string list \<Rightarrow> 'o \<Rightarrow> nat \<times> 'o" where
  "csv_main lib fs wr args w =
     (case rootCmd_execute lib fs wr args w of
        (Ran (Err e), w) \<Rightarrow> (1, w)
      | (Ran (Panic p), w) \<Rightarrow> (2, w)
      | (_, w) \<Rightarrow> (0, w))"

section \<open>What can be given\<close>

lemma flag_names:
  assumes "takes_value n \<or> map_of bool_flags n \<noteq> None"
  shows "n \<noteq> [] \<and> hd n \<noteq> CHR ''-'' \<and> hd n \<noteq> CHR ''='' \<and> CHR ''='' \<notin> set n"
proof -
  have "n \<in> set (map fst string_flags @ map fst bool_flags)"
    using assms by (auto simp: takes_value_def dest!: map_of_SomeD intro: rev_image_eqI)
  moreover have "list_all (\<lambda>n. n \<noteq> [] \<and> hd n \<noteq> CHR ''-'' \<and> hd n \<noteq> CHR ''='' \<and> CHR ''='' \<notin> set n)
     (map fst string_flags @ map fst bool_flags)"
    by (simp add: string_flags_def bool_flags_def)
  ultimately show ?thesis unfolding list_all_iff by blast
qed

definition flag_arg :: "string \<times> string \<Rightarrow> string" where
  "flag_arg nv = ''--'' @ fst nv @ ''='' @ snd nv"

lemma parseArgs_flag:
  assumes "takes_value n \<or> map_of bool_flags n \<noteq> None"
  shows "parseArgs (flag_arg (n, v) # args) c =
     (case FlagSet_Set n v c of Inl e \<Rightarrow> Inl e | Inr c \<Rightarrow> parseArgs args c)"
proof -
  note n = flag_names [OF assms]
  have "flag_exists n" using assms unfolding flag_exists_def by blast
  then have "parseLongArg (flag_arg (n, v)) args c = with_rest args (FlagSet_Set n v c)"
    using n by (simp add: parseLongArg_def flag_arg_def hd_append)
  then show ?thesis
    using n by (cases "FlagSet_Set n v c") (simp_all add: parseArgs.simps(2) flag_arg_def with_rest_def)
qed

definition bool_text :: "bool \<Rightarrow> string" where
  "bool_text b = (if b then ''true'' else ''false'')"

definition print_flags :: "generatorFlags \<Rightarrow> string list" where
  "print_flags f = map flag_arg
     [(''file'', gf_file f), (''csv-version'', gf_csvVersion f), (''namespace'', gf_namespace f),
      (''pipelines-namespace'', gf_pipelinesNamespace f), (''operator-image'', gf_operatorImage f),
      (''operator-version'', gf_operatorVersion f), (''wait-for-vmi-status-image'', gf_waitForVMIStatusImage f),
      (''modify-vm-template-image'', gf_modifyVMTemplateImage f),
      (''disk-virt-sysprep-image'', gf_diskVirtSysprepImage f),
      (''disk-virt-customize-image'', gf_diskVirtCustomizeImage f), (''create-vm-image'', gf_createVMImage f),
      (''modify-data-object-image'', gf_modifyDataObjectImage f), (''copy-template-image'', gf_copyTemplateImage f),
      (''generate-ssh-keys'', gf_generateSSHKeys f), (''cleanup-vm-image'', gf_cleanupVMImage f),
      (''virtio-image'', gf_virtioImage f), (''webhook-remove-certs'', bool_text (gf_removeCerts f)),
      (''dump-crds'', bool_text (gf_dumpCRDs f))]"

lemma set_string_flag:
  "map_of string_flags n = Some put \<Longrightarrow> parseArgs (flag_arg (n, v) # args) c =
     parseArgs args (c\<lparr>cl_flags := put v (cl_flags c), cl_changed := n # cl_changed c\<rparr>)"
  by (simp add: parseArgs_flag takes_value_def FlagSet_Set_def)

lemma set_bool_flag:
  "map_of string_flags n = None \<Longrightarrow> map_of bool_flags n = Some put \<Longrightarrow> parseArgs (flag_arg (n, bool_text b) # args) c =
     parseArgs args (c\<lparr>cl_flags := put b (cl_flags c), cl_changed := n # cl_changed c\<rparr>)"
  by (simp add: parseArgs_flag FlagSet_Set_def bool_text_def parse_bool_def)

lemma parse_print_flags:
  "parseArgs (print_flags f) c = Inr (c\<lparr>cl_flags := f, cl_changed := rev (map fst (string_flags) @ map fst bool_flags) @ cl_changed c\<rparr>)"
  by (cases f, cases "cl_flags c")
    (simp add: print_flags_def set_string_flag set_bool_flag string_flags_def bool_flags_def)

text \<open>
  C29. Every value of the generator's flags can be given on the command line: parsing the printed flags gives
  them back and satisfies the check for required ones, and then the process writes what \<open>runGenerator\<close>
  writes with them and exits with 0, 1 or 2 as that ends well, with an error or in a panic.
\<close>

theorem generator_command:
  "csv_main lib fs wr (print_flags f) w =
     (case runGenerator lib fs wr f w of (result, w) \<Rightarrow>
        (case result of Ok _ \<Rightarrow> 0 | Err _ \<Rightarrow> 1 | Panic _ \<Rightarrow> 2, w))"
proof -
  have "filter (\<lambda>n. n \<notin> set (rev (map fst string_flags @ map fst bool_flags) @ [])) required_flags = []"
    by (simp add: string_flags_def bool_flags_def required_flags_def)
  then show ?thesis
    by (simp add: csv_main_def rootCmd_execute_def validateRequiredFlags_def parse_print_flags split: prod.split outcome.split)
qed

text \<open>
  Without one of the required flags nothing is generated, and the exit code is 0 all the same; so it is for every
  other mistake on the command line.
\<close>

theorem usage_error_exits_zero:
  assumes "fst (rootCmd_execute lib fs wr args w) = UsageError e"
  shows "csv_main lib fs wr args w = (0, w)"
  using assms by (auto simp: csv_main_def rootCmd_execute_def split: prod.splits sum.splits if_splits option.splits)

theorem missing_flags_reported:
  "fst (rootCmd_execute lib fs wr [flag_arg (''csv-version'', v), flag_arg (''namespace'', n)] w) =
     UsageError (RequiredNotSet [''operator-image'', ''operator-version''])"
  by (simp add: rootCmd_execute_def set_string_flag string_flags_def validateRequiredFlags_def required_flags_def)

end
