(* ===== verification/Spec2Isabelle.thy ===== *)
theory Spec2Isabelle
  imports Operator_Steps Operator_Scope Operator_At_Rest Panic_Freedom Scheme_Registration Csv_Contract Csv_Command
begin

text \<open>
  Verification of the Tekton tasks operator (\<open>tekton-tasks-operator\<close>): a Kubernetes operator that
  deploys KubeVirt's Tekton tasks and example pipelines for every \<open>TektonTasks\<close> resource.

  \<^bold>\<open>The program and its parts.\<close> The process reads two bundles of YAML manifests, builds one operand
  for each and starts a controller. The controller is called with the key of a \<open>TektonTasks\<close>
  resource. It reads the resource, adds its finalizer, lets both operands create or update their
  objects, and writes a status; for a resource being deleted it lets the operands delete
  their objects and then drops the finalizer. An operand runs one generic reconciler per object,
  which skips the object's update function while a version cache says that the object has not changed since the
  operator saw it last. While a required CRD is missing another controller waits for it. A separate
  command generates the operator's own manifest.

  \<^bold>\<open>Which theory models what.\<close> Paths are relative to \<open>src/\<close>.

    \<^item> \<open>Prelude\<close>: Go errors; the outcome of a Go call (\<open>Ok\<close>, \<open>Err\<close>, \<open>Panic\<close>); \<open>bind_outcome\<close>, which
      threads a state through fallible calls; string maps with their nil value; \<open>strings\<close> and \<open>strconv\<close>.
    \<^item> \<open>Environment\<close>: \<open>pkg/environment/environment.go\<close>, \<open>pkg/operands/version.go\<close>.
    \<^item> \<open>Kube_Objects\<close>, \<open>Tekton_Api\<close>: the Kubernetes objects the operator handles and
      \<open>api/v1alpha1/tektontasks_types.go\<close> as records and datatypes; the Go type of an object is \<open>o_rtype\<close>.
    \<^item> \<open>Kube_Helpers\<close>: the vendored functions that decide what the operator does: error predicates,
      status conditions, finalizers, owner annotations, controller references.
    \<^item> \<open>Version_Cache\<close>, \<open>App_Labels\<close>: \<open>pkg/common/cache.go\<close>, \<open>pkg/common/labels.go\<close>.
    \<^item> \<open>Api_Client\<close>: the client, a record of functions from the server's state to a result and a
      new state, and \<open>sys\<close>, the state of \<open>pkg/common/request.go\<close>: world, cache and log.
    \<^item> \<open>Resource\<close>: \<open>pkg/common/resource.go\<close>: \<open>Reconcile\<close>, \<open>createOrUpdateWithImmutableSpec\<close>, \<open>Cleanup\<close>,
      \<open>DeleteAll\<close>, \<open>isResourceOwned\<close> and what they call.
    \<^item> \<open>Bundle\<close>: \<open>pkg/tekton-bundle/tekton-bundle.go\<close>.
    \<^item> \<open>Operand_Closures\<close>, \<open>Tekton_Tasks_Operand\<close>, \<open>Tekton_Pipelines_Operand\<close>, \<open>Operand\<close>: \<open>pkg/tekton-tasks\<close>,
      \<open>pkg/tekton-pipelines\<close> and the interface of \<open>pkg/operands/operands.go\<close>. A reconcile function is a
      closure over a pointer into one of the operand's slices; it is modelled on the operand's
      state and an index, so that what one reconciliation writes into an element the next one reads.
    \<^item> \<open>Controller\<close>: \<open>controllers/tektontasks_controller.go\<close>; the reconciler's state is the record
      \<open>tektonTasksReconciler\<close> (operands, last seen spec, \<open>sys\<close>, metric).
    \<^item> \<open>Setup\<close>, \<open>Waiting_Run\<close>, \<open>Process_Entry\<close>: \<open>controllers/setup.go\<close>, \<open>controllers/crd_controller.go\<close>,
      \<open>controllers/finishable/finishable.go\<close>, \<open>main.go\<close>.
    \<^item> \<open>Scheme_Registration\<close>: \<open>pkg/common/scheme.go\<close> and the other \<open>init\<close> functions that run before \<open>main\<close>.
    \<^item> \<open>Work_Queue\<close>, \<open>Owner_Watch\<close>: the vendored work queue with the loop of its workers, and the vendored handler
      that turns watch events into requests. They are what calls the reconcilers.
    \<^item> \<open>Semver\<close>, \<open>Json_Paths\<close>, \<open>Csv_Generator\<close>, \<open>Csv_Command\<close>: \<open>scripts/csv-generator.go\<close> and the vendored version
      parser, helpers for decoded JSON and command-line parser it calls.
    \<^item> \<open>Fake_Client\<close>: the vendored client the repository's tests run against. It is the API server on
      which the theorems that speak of a cluster are proved and run. \<open>Samples\<close> holds a small one.

  \<^bold>\<open>What the lemmas show.\<close>

    \<^item> \<open>Reconcile_Contract\<close>, \<open>Cleanup_Contract\<close>: the reconciler of one object, for every update function that
      meets \<open>update_contract\<close> and every server that meets \<open>api_server\<close>: what it stores, that the next run finds
      nothing to do, what it deletes, when it panics.
    \<^item> \<open>Operand_Contract\<close>: the same for the closures of a whole operand. \<open>deploys\<close> is coinductive: after
      a run the closure promises to deploy again, whatever happened to the object. \<open>operand_deployment\<close>
      has the two runs of an operand, from ready to settled and from settled to settled.
      \<open>Tekton_Tasks_Deploy\<close> and \<open>Tekton_Pipelines_Deploy\<close> interpret it for the two operands.
    \<^item> \<open>Client_Frame\<close>, \<open>Controller_Contract\<close>: what operands cannot touch; the server that stores \<open>TektonTasks\<close>.
    \<^item> \<open>Controller_Deploy\<close>, \<open>Controller_Lifecycle\<close>, \<open>Controller_Cleanup\<close>: whole reconciliations on every branch.
    \<^item> \<open>Controller_Invariant\<close>, \<open>Operator_Steps\<close>, \<open>Operator_Scope\<close>, \<open>Self_Healing\<close>, \<open>Panic_Freedom\<close>: the operator over
      time: what holds of its operands, cache and metric in every reachable state, for every client; the objects it
      never touches, the repair of what others do, and where it can panic.
    \<^item> \<open>Work_Queue\<close>: nothing gets lost between an event and its reconciliation (locale \<open>level_triggered\<close>), the
      steps of a controller left alone come to an end (locale \<open>settling\<close>), and after shut-down no one can
      keep its workers busy for ever.
      \<open>Operator_At_Rest\<close> uses it for the operator: left alone, it comes to rest, and at rest every watched object is deployed.
      \<open>Waiting_Run\<close> uses it for the controller that waits for CRDs: it does not get stuck, and it ends when it is stopped.
    \<^item> \<open>Setup_Contract\<close>, \<open>Csv_Contract\<close>: start-up and waiting, and the manifest generator. \<open>Csv_Command\<close> shows that
      its flags can all be given, and \<open>Scheme_Registration\<close> that every type the operator uses is registered.

  \<^bold>\<open>Interfaces\<close> are locales, each interpreted on the definitions above: \<open>api_server\<close> and \<open>tt_server\<close> (what a
  healthy server promises, by the fake client), \<open>object_cache\<close> (a cache refines a memory of the
  last object added), \<open>status_conditions\<close>, \<open>update_contract\<close>, \<open>reconciled_resource\<close> and \<open>operand_closure\<close> (by
  all nine closures), \<open>operand_slots\<close> and \<open>operand_deployment\<close> (by both operands), \<open>controller_invariant\<close> (a property
  kept by every call is kept by a reconciliation), \<open>crd_server\<close> (what a server promises about CRDs) with
  \<open>level_triggered\<close> as its sublocale, \<open>settling\<close> (by the running operator), \<open>confined_client\<close>, \<open>id_codec\<close>, \<open>path_store\<close>,
  and \<open>io_writer\<close> (what Go promises of an \<open>io.Writer\<close>, by a file on a disk of bounded size).

  \<^bold>\<open>Choices.\<close> One call of a handler sees one time \<open>now\<close>. A log keeps the messages of \<open>Info\<close> and \<open>Error\<close>.
  Nil and empty slices are one list; nil and empty maps are told apart. 64-bit generations are words.
  A panic is a value, \<open>Panic\<close>, that ends the handler; what it had written before stays written. Error texts that Go prints from foreign
  values are parameters or left abstract. Every loop of the modelled code runs over a slice or a decoded
  stream and is total by structural recursion. No fuel is needed. The running controllers are step relations whose
  steps are the operations of the queue and whole reconciliations; that they end, left alone or after shut-down, is
  shown by a measure on the queue and what is under way to it. The
  YAML and JSON codecs, the file system and the API server are parameters.

  \<^bold>\<open>What modelling showed.\<close> Deployed tasks are not watched (\<open>deployed_tasks_not_watched\<close>); the status
  reported while waiting for CRDs keeps the finalizer from being added (\<open>waiting_skips_finalizer\<close>); after a
  restart a deletion leaves objects in other namespaces behind (\<open>deletion_misses_moved_objects\<close>); an object with owner
  references makes cleanup panic (\<open>cleanup_panics_on_owner_references\<close>); the loop that drops certificate
  volumes is wrong for two of them (\<open>removeCerts_twice\<close>); the generator exits with 0 when a required flag is
  missing (\<open>usage_error_exits_zero\<close>).

  \<^bold>\<open>Not modelled.\<close> \<open>zz_generated.deepcopy.go\<close> is
  generated; values are immutable here, so a copy is the value. Of the manager, its cache, flag parsing and
  the starting of event sources only the errors appear, as parameters; that a watch reports every change of an object is
  part of the steps \<open>objects_change\<close> and \<open>crd_change\<close>. Delays of the rate limiter are arbitrary. \<open>SetupWithManager\<close>
  is called by nothing. Of cobra, the help and usage texts, subcommands and shell completion are left out.
  \<open>time.ParseDuration\<close>, used by one function that nothing calls, is a parameter. The calls
  \<open>c_list_kind\<close> and \<open>c_merge_patch\<close> are used by \<open>pauseCRs\<close> only, which nothing calls; the fake client gives them no meaning.
\<close>

end
